(* ===== verification/Yurei_Prelude.thy ===== *)
theory Yurei_Prelude
  imports Main "HOL-Library.Word"
begin

unbundle bit_operations_syntax

text \<open>
  Shared vocabulary of the development: the machine types, C buffers as lists, the index
  loops that several components run, positional numbers in any base, and little-endian
  reads of packed structures. Nothing here belongs to one component.
\<close>

section \<open>Machine types\<close>

type_synonym byte = "8 word"
type_synonym u32 = "32 word"
type_synonym u64 = "64 word"

text \<open>
  A result of type \<open>'a checked\<close> is \<open>None\<close> when the C code runs into undefined behaviour
  on the way (here: a store or a load outside the object it is aimed at). An error the
  code itself detects and returns is an ordinary value inside \<open>Some\<close>.
\<close>

type_synonym 'a checked = "'a option"

text \<open>\<open>(int)n\<close> of a \<open>size_t\<close>: the low 32 bits read as two's complement.\<close>

definition size_to_int :: "nat \<Rightarrow> int" where
  "size_to_int n = sint (word_of_nat n :: u32)"

lemma size_to_int_id:
  assumes "n < 2 ^ 31"
  shows "size_to_int n = int n"
proof -
  have "signed_take_bit 31 (int n) = int n"
    by (rule signed_take_bit_int_eq_self) (use assms in \<open>simp_all add: nat_less_iff\<close>)
  then show ?thesis by (simp add: size_to_int_def signed_of_nat)
qed

section \<open>Buffers\<close>

text \<open>\<open>memcpy(buf + off, bs, n)\<close> on a buffer that is a list.\<close>

definition mem_write :: "nat \<Rightarrow> 'a list \<Rightarrow> 'a list \<Rightarrow> 'a list" where
  "mem_write off bs buf = take off buf @ bs @ drop (off + length bs) buf"

lemma length_mem_write [simp]:
  "off + length bs \<le> length buf \<Longrightarrow> length (mem_write off bs buf) = length buf"
  by (simp add: mem_write_def)

lemma mem_write_0: "mem_write 0 bs buf = bs @ drop (length bs) buf"
  by (simp add: mem_write_def)

lemma take_mem_write_0 [simp]: "take (length bs) (mem_write 0 bs buf) = bs"
  by (simp add: mem_write_0)

lemma mem_write_append:
  "mem_write (length a) b (mem_write 0 a buf) = mem_write 0 (a @ b) buf"
  by (simp add: mem_write_def add.commute)

text \<open>\<open>data[off .. off + n)\<close> of a buffer.\<close>

definition chunk :: "nat \<Rightarrow> nat \<Rightarrow> 'a list \<Rightarrow> 'a list" where
  "chunk off n xs = take n (drop off xs)"

lemma length_chunk [simp]: "off + n \<le> length xs \<Longrightarrow> length (chunk off n xs) = n"
  by (simp add: chunk_def)

lemma chunk_append_skip [simp]:
  "length xs \<le> off \<Longrightarrow> chunk off n (xs @ ys) = chunk (off - length xs) n ys"
  by (simp add: chunk_def)

lemma chunk_Cons_skip [simp]:
  "0 < off \<Longrightarrow> chunk off n (x # xs) = chunk (off - 1) n xs"
  by (cases off) (simp_all add: chunk_def)

lemma chunk_append_first [simp]:
  "length xs = n \<Longrightarrow> chunk 0 n (xs @ ys) = xs"
  by (simp add: chunk_def)

lemma chunk_append_in: "off + n \<le> length xs \<Longrightarrow> chunk off n (xs @ ys) = chunk off n xs"
  by (simp add: chunk_def)

lemma chunk_all [simp]: "length xs = n \<Longrightarrow> chunk 0 n xs = xs"
  by (simp add: chunk_def)

section \<open>Index loops\<close>

text \<open>
  \<open>while (i < len && p(xs[i])) i++;\<close> -- the loop that counts leading zeros, leading ones
  and leading empty digits in the base58 codec.
\<close>

function skip_while :: "('a \<Rightarrow> bool) \<Rightarrow> nat \<Rightarrow> 'a list \<Rightarrow> nat" where
  "skip_while p i xs = (if i < length xs \<and> p (xs ! i) then skip_while p (Suc i) xs else i)"
  by pat_completeness auto
termination
  by (relation "measure (\<lambda>(p, i, xs). length xs - i)") auto

declare skip_while.simps [simp del]

lemma skip_while_drop:
  "i \<le> length xs \<Longrightarrow> skip_while p i xs = i + length (takeWhile p (drop i xs))"
proof (induction p i xs rule: skip_while.induct)
  case (1 p i xs)
  show ?case
  proof (cases "i < length xs \<and> p (xs ! i)")
    case True
    then have "skip_while p i xs = skip_while p (Suc i) xs"
      by (subst skip_while.simps) simp
    with 1 True show ?thesis
      by (simp add: Cons_nth_drop_Suc [symmetric])
  next
    case False
    then have "skip_while p i xs = i"
      by (subst skip_while.simps) auto
    moreover have "takeWhile p (drop i xs) = []"
      using False "1.prems"
      by (cases "i < length xs") (auto simp: Cons_nth_drop_Suc [symmetric])
    ultimately show ?thesis by simp
  qed
qed

lemma skip_while_0: "skip_while p 0 xs = length (takeWhile p xs)"
  by (simp add: skip_while_drop)

lemma skip_while_le: "skip_while p 0 xs \<le> length xs"
  by (simp add: skip_while_0 length_takeWhile_le)

lemma drop_skip_while: "drop (skip_while p 0 xs) xs = dropWhile p xs"
  by (simp add: skip_while_0 dropWhile_eq_drop)

lemma length_dropWhile_skip: "length xs - skip_while p 0 xs = length (dropWhile p xs)"
  by (simp add: skip_while_0 dropWhile_eq_drop)

lemma takeWhile_eq_replicate: "takeWhile (\<lambda>x. x = c) xs = replicate (length (takeWhile (\<lambda>x. x = c) xs)) c"
  by (induction xs) auto

text \<open>
  Filling a lookup table by index: \<open>for (i = 0; i < n; ++i) table[g(i)] = h(i);\<close>. An entry
  that some index hits holds that index's value (the positions are distinct), every other
  entry is what it was.
\<close>

definition fill_table :: "(nat \<Rightarrow> nat) \<Rightarrow> (nat \<Rightarrow> 'a) \<Rightarrow> nat \<Rightarrow> 'a list \<Rightarrow> 'a list" where
  "fill_table g h n m = fold (\<lambda>i m. m[g i := h i]) [0..<n] m"

lemma fill_table_Suc [simp]: "fill_table g h (Suc n) m = (fill_table g h n m)[g n := h n]"
  by (simp add: fill_table_def)

lemma fill_table_0 [simp]: "fill_table g h 0 m = m"
  by (simp add: fill_table_def)

lemma length_fill_table [simp]: "length (fill_table g h n m) = length m"
  by (induction n) simp_all

lemma fill_table_miss: "\<forall>i < n. g i \<noteq> j \<Longrightarrow> fill_table g h n m ! j = m ! j"
  by (induction n) simp_all

lemma fill_table_hit:
  "inj_on g {..<n} \<Longrightarrow> i < n \<Longrightarrow> g i < length m \<Longrightarrow> fill_table g h n m ! g i = h i"
proof (induction n)
  case (Suc n)
  show ?case
  proof (cases "i = n")
    case False
    with Suc.prems have "i < n" and "g n \<noteq> g i" by (auto simp: inj_on_def)
    moreover have "inj_on g {..<n}" using Suc.prems(1) by (auto simp: inj_on_def)
    ultimately show ?thesis using Suc by simp
  qed (use Suc.prems in simp)
qed simp

section \<open>Positional numbers\<close>

text \<open>The value of a digit list in base \<open>B\<close>, most significant digit first.\<close>

definition digits_val :: "nat \<Rightarrow> nat list \<Rightarrow> nat" where
  "digits_val B ds = foldl (\<lambda>a d. a * B + d) 0 ds"

lemma digits_val_Nil [simp]: "digits_val B [] = 0"
  by (simp add: digits_val_def)

lemma digits_val_snoc [simp]: "digits_val B (ds @ [d]) = digits_val B ds * B + d"
  by (simp add: digits_val_def)

lemma digits_val_append:
  "digits_val B (xs @ ys) = digits_val B xs * B ^ length ys + digits_val B ys"
proof (induction ys rule: rev_induct)
  case (snoc y ys)
  have "digits_val B (xs @ ys @ [y]) = digits_val B (xs @ ys) * B + y"
    by (simp flip: append_assoc)
  with snoc show ?case by (simp add: algebra_simps)
qed simp

lemma digits_val_Cons: "digits_val B (d # ds) = d * B ^ length ds + digits_val B ds"
  using digits_val_append [of B "[d]" ds] by (simp add: digits_val_def)

lemma digits_val_zeros [simp]: "digits_val B (replicate n 0) = 0"
  by (induction n) (auto simp: digits_val_Cons)

lemma digits_val_less:
  "\<forall>d \<in> set ds. d < B \<Longrightarrow> digits_val B ds < B ^ length ds"
proof (induction ds rule: rev_induct)
  case (snoc d ds)
  then have "digits_val B ds + 1 \<le> B ^ length ds" and "d < B" by auto
  then have "(digits_val B ds + 1) * B \<le> B ^ length ds * B"
    using mult_le_mono1 by blast
  with \<open>d < B\<close> show ?case by (simp add: algebra_simps)
qed simp

lemma digits_val_dropWhile: "digits_val B (dropWhile (\<lambda>d. d = 0) ds) = digits_val B ds"
  by (induction ds) (auto simp: digits_val_Cons)

text \<open>A digit list of known length is determined by its value.\<close>

lemma digits_val_inj:
  "length xs = length ys \<Longrightarrow> \<forall>d \<in> set xs. d < B \<Longrightarrow> \<forall>d \<in> set ys. d < B \<Longrightarrow>
    digits_val B xs = digits_val B ys \<Longrightarrow> xs = ys"
proof (induction xs arbitrary: ys rule: rev_induct)
  case (snoc x xs)
  then obtain y ys' where ys: "ys = ys' @ [y]" by (cases ys rule: rev_cases) auto
  from snoc.prems have "x < B" and "y < B" and eq: "digits_val B xs * B + x = digits_val B ys' * B + y"
    by (auto simp: ys)
  from eq have "(digits_val B xs * B + x) mod B = (digits_val B ys' * B + y) mod B" by simp
  with \<open>x < B\<close> \<open>y < B\<close> have "x = y" by simp
  with eq \<open>x < B\<close> have "digits_val B xs = digits_val B ys'" by simp
  with snoc \<open>x = y\<close> show ?case by (auto simp: ys)
qed simp

text \<open>The digits of a number without leading zeros: the canonical representation.\<close>

function to_digits :: "nat \<Rightarrow> nat \<Rightarrow> nat list" where
  "to_digits B n = (if n = 0 \<or> B < 2 then [] else to_digits B (n div B) @ [n mod B])"
  by pat_completeness auto
termination
  by (relation "measure snd") auto

declare to_digits.simps [simp del]

lemma to_digits_0 [simp]: "to_digits B 0 = []"
  by (simp add: to_digits.simps)

lemma digits_val_to_digits: "2 \<le> B \<Longrightarrow> digits_val B (to_digits B n) = n"
proof (induction B n rule: to_digits.induct)
  case (1 B n)
  then show ?case by (subst to_digits.simps) (simp add: div_mult_mod_eq)
qed

lemma to_digits_less: "d \<in> set (to_digits B n) \<Longrightarrow> d < B"
proof (induction B n rule: to_digits.induct)
  case (1 B n)
  then show ?case by (subst (asm) to_digits.simps) (auto split: if_splits)
qed

lemma to_digits_snoc:
  assumes "2 \<le> B" and "d < B" and "0 < n * B + d"
  shows "to_digits B (n * B + d) = to_digits B n @ [d]"
proof -
  have "to_digits B (n * B + d) = to_digits B ((n * B + d) div B) @ [(n * B + d) mod B]"
    by (subst to_digits.simps) (use assms in simp)
  with assms show ?thesis by simp
qed

text \<open>Dropping the leading zeros of any digit list gives the canonical digits of its value.\<close>

lemma dropWhile_digits:
  "2 \<le> B \<Longrightarrow> \<forall>d \<in> set ds. d < B \<Longrightarrow>
    dropWhile (\<lambda>d. d = 0) ds = to_digits B (digits_val B ds)"
proof (induction ds rule: rev_induct)
  case (snoc d ds)
  then have IH: "dropWhile (\<lambda>d. d = 0) ds = to_digits B (digits_val B ds)" by simp
  show ?case
  proof (cases "\<forall>x \<in> set ds. x = 0")
    case True
    then have "dropWhile (\<lambda>d. d = 0) ds = []" by (simp add: dropWhile_eq_Nil_conv)
    then have "digits_val B ds = 0" by (metis digits_val_Nil digits_val_dropWhile)
    moreover have "dropWhile (\<lambda>d. d = 0) (ds @ [d]) = (if d = 0 then [] else [d])"
      using True by (simp add: dropWhile_append2)
    moreover have "to_digits B d = (if d = 0 then [] else [d])"
      using to_digits_snoc [of B d 0] snoc.prems by (cases "d = 0") simp_all
    ultimately show ?thesis by simp
  next
    case False
    then have "dropWhile (\<lambda>d. d = 0) ds \<noteq> []" by (simp add: dropWhile_eq_Nil_conv)
    then have "0 < digits_val B ds" using IH by (metis gr0I to_digits_0)
    then have "to_digits B (digits_val B ds * B + d) = to_digits B (digits_val B ds) @ [d]"
      using snoc.prems by (intro to_digits_snoc) auto
    moreover have "dropWhile (\<lambda>d. d = 0) (ds @ [d]) = dropWhile (\<lambda>d. d = 0) ds @ [d]"
      using False by (auto simp: dropWhile_append)
    ultimately show ?thesis by (simp add: IH)
  qed
qed simp

lemma to_digits_hd: "2 \<le> B \<Longrightarrow> 0 < n \<Longrightarrow> to_digits B n \<noteq> [] \<and> hd (to_digits B n) \<noteq> 0"
proof (induction B n rule: to_digits.induct)
  case (1 B n)
  show ?case
  proof (cases "n div B = 0")
    case True
    with "1.prems" have "to_digits B n = [n]"
      by (subst to_digits.simps) (auto simp: div_eq_0_iff)
    with "1.prems" show ?thesis by simp
  next
    case False
    with 1 have "to_digits B (n div B) \<noteq> [] \<and> hd (to_digits B (n div B)) \<noteq> 0" by simp
    with "1.prems" show ?thesis by (subst to_digits.simps, subst (2) to_digits.simps) simp
  qed
qed

lemma to_digits_val:
  assumes "2 \<le> B" and "\<forall>d \<in> set ds. d < B" and "ds \<noteq> [] \<Longrightarrow> hd ds \<noteq> 0"
  shows "to_digits B (digits_val B ds) = ds"
proof -
  have "dropWhile (\<lambda>d. d = 0) ds = ds" using assms(3) by (cases ds) auto
  with dropWhile_digits [OF assms(1,2)] show ?thesis by simp
qed

lemma length_to_digits_le: "2 \<le> B \<Longrightarrow> n < B ^ k \<Longrightarrow> length (to_digits B n) \<le> k"
proof (induction k arbitrary: n)
  case (Suc k)
  then have "n div B < B ^ k" by (simp add: less_mult_imp_div_less mult.commute)
  with Suc show ?case by (subst to_digits.simps) auto
qed simp

lemma length_to_digits_ge: "2 \<le> B \<Longrightarrow> B ^ k \<le> n \<Longrightarrow> k < length (to_digits B n)"
proof (rule ccontr)
  assume B: "2 \<le> B" and n: "B ^ k \<le> n" and "\<not> k < length (to_digits B n)"
  then have "length (to_digits B n) \<le> k" by simp
  have "n < B ^ length (to_digits B n)"
    using digits_val_less [of "to_digits B n" B] to_digits_less B by (auto simp: digits_val_to_digits)
  also have "\<dots> \<le> B ^ k" using B \<open>length (to_digits B n) \<le> k\<close> by (simp add: power_increasing)
  finally show False using n by simp
qed

text \<open>The digits of a number in exactly \<open>k\<close> places.\<close>

definition fixed_digits :: "nat \<Rightarrow> nat \<Rightarrow> nat \<Rightarrow> nat list" where
  "fixed_digits B k n = replicate (k - length (to_digits B n)) 0 @ to_digits B n"

lemma fixed_digits_val:
  assumes "2 \<le> B" and "\<forall>d \<in> set ds. d < B"
  shows "fixed_digits B (length ds) (digits_val B ds) = ds"
proof -
  have canonical: "to_digits B (digits_val B ds) = dropWhile (\<lambda>d. d = 0) ds"
    using dropWhile_digits [OF assms] by simp
  have "length ds - length (dropWhile (\<lambda>d. d = 0) ds) = length (takeWhile (\<lambda>d. d = 0) ds)"
    by (metis add_diff_cancel_right' length_append takeWhile_dropWhile_id)
  then have "fixed_digits B (length ds) (digits_val B ds) = takeWhile (\<lambda>d. d = 0) ds @ dropWhile (\<lambda>d. d = 0) ds"
    by (simp add: fixed_digits_def canonical flip: takeWhile_eq_replicate)
  then show ?thesis by simp
qed

text \<open>
  When \<open>q\<close> digits of base \<open>b\<close> hold \<open>p\<close> digits of base \<open>a\<close>, any ratio at least
  \<open>q / p\<close> gives enough room.
\<close>

lemma power_ratio_le:
  fixes a b :: nat
  assumes "a ^ p \<le> b ^ q" and "0 < p" and "1 \<le> b" and "q * n \<le> p * m"
  shows "a ^ n \<le> b ^ m"
proof -
  have "(a ^ n) ^ p = (a ^ p) ^ n" by (simp add: mult.commute flip: power_mult)
  also have "\<dots> \<le> (b ^ q) ^ n" using assms(1) by (simp add: power_mono)
  also have "\<dots> = b ^ (q * n)" by (simp add: power_mult)
  also have "\<dots> \<le> b ^ (p * m)" using assms(3,4) by (simp add: power_increasing)
  also have "\<dots> = (b ^ m) ^ p" by (simp add: mult.commute flip: power_mult)
  finally show ?thesis using \<open>0 < p\<close> power_le_imp_le_base [of "a ^ n" "p - 1" "b ^ m"] by simp
qed

section \<open>Bytes\<close>

text \<open>The value of a byte string, most significant byte first.\<close>

definition bytes_val :: "byte list \<Rightarrow> nat" where
  "bytes_val bs = digits_val 256 (map unat bs)"

lemma unat_byte_less [simp]: "unat (b :: byte) < 256"
proof -
  have "unat b < 2 ^ LENGTH(8)" by (rule unsigned_less)
  then show ?thesis by simp
qed

lemma bytes_val_less: "bytes_val bs < 256 ^ length bs"
  using digits_val_less [of "map unat bs" 256] by (auto simp: bytes_val_def)

lemma unat_byte_of_nat: "n < 256 \<Longrightarrow> unat (word_of_nat n :: byte) = n"
  by (simp add: unsigned_of_nat take_bit_nat_eq_self)

lemma map_unat_of_nat: "\<forall>d \<in> set ds. d < 256 \<Longrightarrow> map (unat \<circ> (word_of_nat :: nat \<Rightarrow> byte)) ds = ds"
  by (induction ds) (auto simp: unat_byte_of_nat)

lemma map_of_nat_unat [simp]: "map (word_of_nat :: nat \<Rightarrow> byte) (map unat bs) = bs"
  by (induction bs) auto

lemma bytes_val_inj: "length xs = length ys \<Longrightarrow> bytes_val xs = bytes_val ys \<Longrightarrow> xs = ys"
  using digits_val_inj [of "map unat xs" "map unat ys" 256]
  by (simp add: bytes_val_def)

lemma fixed_digits_bytes:
  "map word_of_nat (fixed_digits 256 (length bs) (bytes_val bs)) = bs"
  using fixed_digits_val [of 256 "map unat bs"] by (simp add: bytes_val_def del: map_map)

lemma bytes_val_snoc [simp]: "bytes_val (bs @ [b]) = bytes_val bs * 256 + unat b"
  by (simp add: bytes_val_def)

lemma bytes_val_Nil [simp]: "bytes_val [] = 0"
  by (simp add: bytes_val_def)

text \<open>
  A little-endian load of a packed field: least significant byte first. The program is
  built for x86 (it includes \<open>immintrin.h\<close>) and reads the fields in host order.
\<close>

fun le_nat :: "byte list \<Rightarrow> nat" where
  "le_nat [] = 0"
| "le_nat (b # bs) = unat b + 256 * le_nat bs"

definition load_u64 :: "byte list \<Rightarrow> u64" where
  "load_u64 bs = word_of_nat (le_nat bs)"

fun le_bytes :: "nat \<Rightarrow> nat \<Rightarrow> byte list" where
  "le_bytes 0 n = []"
| "le_bytes (Suc k) n = word_of_nat (n mod 256) # le_bytes k (n div 256)"

definition store_u64 :: "u64 \<Rightarrow> byte list" where
  "store_u64 w = le_bytes 8 (unat w)"

lemma length_le_bytes [simp]: "length (le_bytes k n) = k"
  by (induction k arbitrary: n) auto

lemma length_store_u64 [simp]: "length (store_u64 w) = 8"
  by (simp add: store_u64_def)

lemma le_nat_le_bytes: "le_nat (le_bytes k n) = n mod 256 ^ k"
proof (induction k arbitrary: n)
  case (Suc k)
  then show ?case
    by (simp add: unat_byte_of_nat mod_mult2_eq)
qed simp

lemma load_store_u64 [simp]: "load_u64 (store_u64 w) = w"
proof -
  have "unat w < 2 ^ LENGTH(64)" by (rule unsigned_less)
  then have "unat w < 256 ^ 8" by simp
  then show ?thesis by (simp add: load_u64_def store_u64_def le_nat_le_bytes)
qed

lemma unat_u64_of_nat: "n < 2 ^ 64 \<Longrightarrow> unat (word_of_nat n :: u64) = n"
  by (simp add: unsigned_of_nat take_bit_nat_eq_self)

section \<open>C strings\<close>

text \<open>
  \<open>strstr\<close>: the suffix of \<open>hay\<close> that starts at the first occurrence of \<open>needle\<close>, or
  \<open>None\<close> for \<open>NULL\<close>.
\<close>

fun strstr :: "string \<Rightarrow> string \<Rightarrow> string option" where
  "strstr [] needle = (if needle = [] then Some [] else None)"
| "strstr (c # cs) needle =
     (if take (length needle) (c # cs) = needle then Some (c # cs) else strstr cs needle)"

lemma strstr_at_start: "strstr (needle @ s) needle = Some (needle @ s)"
  by (cases "needle @ s") (auto, metis append_eq_conv_conj)

lemma strstr_Some: "strstr hay needle = Some s \<Longrightarrow> \<exists>pre post. hay = pre @ s \<and> s = needle @ post"
proof (induction hay)
  case (Cons c cs)
  show ?case
  proof (cases "take (length needle) (c # cs) = needle")
    case True
    with Cons.prems have "s = c # cs" by simp
    with True have "s = needle @ drop (length needle) (c # cs)" by (metis append_take_drop_id)
    with \<open>s = c # cs\<close> show ?thesis by (metis append_Nil)
  next
    case False
    with Cons show ?thesis by (metis append_Cons strstr.simps(2))
  qed
qed (auto split: if_splits)

end
