(* ===== verification/Base58.thy ===== *)
theory Base58
  imports Yurei_Prelude
begin

text \<open>
  \<^verbatim>\<open>src/src/base58.c\<close>: the base58 codec. The two conversion routines share the shape of
  their inner loop (multiply a big-endian digit array by a constant and add a carry), which
  the locale \<open>radix_pass\<close> captures once; the decoder's and the encoder's inner loop are its
  two interpretations. The codec is then proved equal to a reference definition on numbers
  and the two directions are proved inverse to each other.

  The outcome of \<open>calloc\<close> is the argument \<open>ok\<close>. Strings are the characters before the
  terminator; an output buffer is a list that the routine returns updated. The size of the
  temporary array is a natural number: \<open>len * 138\<close> and \<open>len * 733\<close> wrap around only for lengths that no
  object in memory has.
\<close>

section \<open>The alphabet and the reverse map\<close>

definition ALPHABET :: string where
  "ALPHABET = ''123456789ABCDEFGHJKLMNPQRSTUVWXYZabcdefghijkmnopqrstuvwxyz''"

record b58_static =
  MAP :: "int list"
  map_ready :: bool

text \<open>Static storage starts out zeroed.\<close>

definition b58_static0 :: b58_static where
  "b58_static0 = \<lparr>MAP = replicate 128 0, map_ready = False\<rparr>"

definition base58_init_map :: "b58_static \<Rightarrow> b58_static" where
  "base58_init_map s =
     (if map_ready s then s
      else let m = fill_table (\<lambda>i. i) (\<lambda>i. -1) 128 (MAP s);
               m = fill_table (\<lambda>i. of_char (ALPHABET ! i)) (\<lambda>i. int i) 58 m
           in s\<lparr>MAP := m, map_ready := True\<rparr>)"

text \<open>The map every decode reads, whichever call initialised it (\<open>base58_init_map_once\<close>).\<close>

definition base58_map :: "int list" where
  "base58_map = MAP (base58_init_map b58_static0)"

text \<open>\<open>(input[i] & 0x80) ? -1 : MAP[(int)input[i]]\<close>\<close>

definition base58_val :: "char \<Rightarrow> int" where
  "base58_val c = (if digit7 c then -1 else base58_map ! of_char c)"

section \<open>Decoding\<close>

text \<open>
  The inner loop \<open>for (k = tmp_len - 1; k >= 0; --k)\<close>; the first argument is \<open>k + 1\<close>.
\<close>

fun base58_decode_pass :: "nat \<Rightarrow> nat \<Rightarrow> byte list \<Rightarrow> byte list" where
  "base58_decode_pass 0 carry tmp = tmp"
| "base58_decode_pass (Suc k) carry tmp =
     (let carry = carry + 58 * unat (tmp ! k);
          tmp = tmp[k := word_of_nat (carry mod 256)]
      in base58_decode_pass k (carry div 256) tmp)"

text \<open>The outer loop over \<open>input[zeros ..]\<close>; \<open>None\<close> is the jump to \<open>fail\<close>.\<close>

fun base58_decode_loop :: "string \<Rightarrow> byte list \<Rightarrow> byte list option" where
  "base58_decode_loop [] tmp = Some tmp"
| "base58_decode_loop (c # cs) tmp =
     (let val = base58_val c
      in if val < 0 then None
         else base58_decode_loop cs (base58_decode_pass (length tmp) (nat val) tmp))"

definition base58_decode :: "bool \<Rightarrow> string \<Rightarrow> byte list \<Rightarrow> nat \<Rightarrow> int \<times> byte list" where
  "base58_decode ok input out out_len =
     (let len = length input;
          zeros = skip_while (\<lambda>c. c = CHR ''1'') 0 input;
          tmp_len = len * 733 div 1000 + 1
      in if \<not> ok then (-1, out)
         else case base58_decode_loop (drop zeros input) (replicate tmp_len 0) of
           None \<Rightarrow> (-1, out)
         | Some tmp \<Rightarrow>
             (let start = skip_while (\<lambda>b. b = 0) 0 tmp;
                  total = zeros + (tmp_len - start)
              in if total > out_len then (-1, out)
                 else (size_to_int total,
                       mem_write zeros (drop start tmp) (mem_write 0 (replicate zeros 0) out))))"

section \<open>Encoding\<close>

fun base58_encode_pass :: "nat \<Rightarrow> nat \<Rightarrow> byte list \<Rightarrow> byte list" where
  "base58_encode_pass 0 carry tmp = tmp"
| "base58_encode_pass (Suc j) carry tmp =
     (let carry = carry + 256 * unat (tmp ! j);
          tmp = tmp[j := word_of_nat (carry mod 58)]
      in base58_encode_pass j (carry div 58) tmp)"

fun base58_encode_loop :: "byte list \<Rightarrow> byte list \<Rightarrow> byte list" where
  "base58_encode_loop [] tmp = tmp"
| "base58_encode_loop (b # bs) tmp =
     base58_encode_loop bs (base58_encode_pass (length tmp) (unat b) tmp)"

definition base58_encode :: "bool \<Rightarrow> byte list \<Rightarrow> string \<Rightarrow> nat \<Rightarrow> int \<times> string" where
  "base58_encode ok input out out_len =
     (let len = length input;
          zeros = skip_while (\<lambda>b. b = 0) 0 input;
          tmp_len = len * 138 div 100 + 1
      in if \<not> ok then (-1, out)
         else let tmp = base58_encode_loop (drop zeros input) (replicate tmp_len 0);
                  start = skip_while (\<lambda>b. b = 0) 0 tmp;
                  total = zeros + (tmp_len - start)
              in if total + 1 > out_len then (-1, out)
                 else let out = mem_write 0 (replicate zeros CHR ''1'') out;
                          out = mem_write zeros (map (\<lambda>d. ALPHABET ! unat d) (drop start tmp)) out;
                          pos = zeros + (tmp_len - start);
                          out = mem_write pos [CHR 0x00] out
                      in (size_to_int pos, out))"

section \<open>The reference definition\<close>

text \<open>
  Leading zero bytes become leading \<open>1\<close>s; the rest is the number the bytes spell, written
  in base 58 without leading zeros. Decoding is the same sentence read backwards.
\<close>

definition base58_text :: "byte list \<Rightarrow> string" where
  "base58_text bs =
     map (\<lambda>_. CHR ''1'') (takeWhile (\<lambda>b. b = 0) bs) @
     map (\<lambda>d. ALPHABET ! d) (to_digits 58 (bytes_val bs))"

definition base58_number :: "string \<Rightarrow> nat" where
  "base58_number s = digits_val 58 (map (nat \<circ> base58_val) s)"

definition base58_bytes :: "string \<Rightarrow> byte list" where
  "base58_bytes s =
     map (\<lambda>_. 0) (takeWhile (\<lambda>c. c = CHR ''1'') s) @
     map word_of_nat (to_digits 256 (base58_number s))"

section \<open>One pass over the digit array\<close>

text \<open>
  \<open>pass k c t\<close> multiplies the number in the first \<open>k\<close> digits of \<open>t\<close> (base \<open>B\<close>, most
  significant first) by \<open>M\<close> and adds \<open>c\<close>, modulo \<open>B ^ k\<close>.
\<close>

locale radix_pass =
  fixes B M :: nat
    and pass :: "nat \<Rightarrow> nat \<Rightarrow> byte list \<Rightarrow> byte list"
  assumes base_ge: "2 \<le> B"
    and base_le: "B \<le> 256"
    and pass_0: "pass 0 c t = t"
    and pass_Suc: "pass (Suc k) c t =
      pass k ((c + M * unat (t ! k)) div B) (t[k := word_of_nat ((c + M * unat (t ! k)) mod B)])"
begin

lemma pass_length: "length (pass k c t) = length t"
  by (induction k arbitrary: c t) (simp_all add: pass_0 pass_Suc)

lemma pass_frame: "drop k (pass k c t) = drop k t"
proof (induction k arbitrary: c t)
  case (Suc k)
  let ?c = "c + M * unat (t ! k)" and ?t = "t[k := word_of_nat ((c + M * unat (t ! k)) mod B)]"
  have "drop (Suc k) (pass k (?c div B) ?t) = drop 1 (drop k (pass k (?c div B) ?t))" by simp
  also have "\<dots> = drop (Suc k) ?t" by (simp add: Suc)
  finally show ?case by (simp add: pass_Suc)
qed (simp add: pass_0)

lemma unat_digit: "unat (word_of_nat (n mod B) :: byte) = n mod B"
  using base_ge base_le by (intro unat_byte_of_nat order.strict_trans2 [OF mod_less_divisor]) auto

lemma pass_nth:
  assumes "k < length t"
  shows "take (Suc k) (pass (Suc k) c t) =
    take k (pass k ((c + M * unat (t ! k)) div B) (t[k := word_of_nat ((c + M * unat (t ! k)) mod B)]))
      @ [word_of_nat ((c + M * unat (t ! k)) mod B)]"
proof -
  let ?c = "c + M * unat (t ! k)" and ?t = "t[k := word_of_nat ((c + M * unat (t ! k)) mod B)]"
  have "pass k (?c div B) ?t ! k = drop k (pass k (?c div B) ?t) ! 0"
    using assms by (simp add: pass_length)
  also have "\<dots> = ?t ! k" unfolding pass_frame using assms by simp
  finally show ?thesis using assms by (simp add: pass_Suc take_Suc_conv_app_nth pass_length)
qed

lemma pass_digits: "k \<le> length t \<Longrightarrow> d \<in> set (take k (pass k c t)) \<Longrightarrow> unat d < B"
proof (induction k arbitrary: c t)
  case (Suc k)
  from Suc.prems have "k < length t" by simp
  from Suc.prems(2) consider
      "d \<in> set (take k (pass k ((c + M * unat (t ! k)) div B)
         (t[k := word_of_nat ((c + M * unat (t ! k)) mod B)])))"
    | "d = word_of_nat ((c + M * unat (t ! k)) mod B)"
    unfolding pass_nth [OF \<open>k < length t\<close>] by auto
  then show ?case
  proof cases
    case 1
    from Suc.IH [OF _ 1] \<open>k < length t\<close> show ?thesis by simp
  next
    case 2
    with base_ge show ?thesis by (simp add: unat_digit)
  qed
qed simp

lemma pass_val:
  "k \<le> length t \<Longrightarrow> digits_val B (map unat (take k (pass k c t))) =
    (M * digits_val B (map unat (take k t)) + c) mod B ^ k"
proof (induction k arbitrary: c t)
  case (Suc k)
  let ?c = "c + M * unat (t ! k)" and ?t = "t[k := word_of_nat ((c + M * unat (t ! k)) mod B)]"
  let ?V = "digits_val B (map unat (take k t))"
  from Suc.prems have k: "k < length t" by simp
  have "digits_val B (map unat (take (Suc k) (pass (Suc k) c t))) =
      (M * ?V + ?c div B) mod B ^ k * B + ?c mod B"
    unfolding pass_nth [OF k] using Suc.IH [of ?t "?c div B"] k by (simp add: unat_digit)
  also have "\<dots> = (M * ?V * B + ?c) mod (B * B ^ k)"
  proof -
    have "(M * ?V * B + ?c) div B = M * ?V + ?c div B" using base_ge by simp
    moreover have "(M * ?V * B + ?c) mod B = ?c mod B" by simp
    ultimately show ?thesis by (simp add: mod_mult2_eq mult.commute)
  qed
  also have "M * ?V * B + ?c = M * digits_val B (map unat (take (Suc k) t)) + c"
    using k by (simp add: take_Suc_conv_app_nth algebra_simps)
  finally show ?case by simp
qed simp

text \<open>The carry never leaves the range of \<open>int\<close>: it stays below the multiplier.\<close>

lemma pass_carry_bounded:
  "c < M \<Longrightarrow> unat (t ! k) < B \<Longrightarrow> c + M * unat (t ! k) < M * B \<and> (c + M * unat (t ! k)) div B < M"
proof -
  assume c: "c < M" and d: "unat (t ! k) < B"
  from d have "M * (unat (t ! k) + 1) \<le> M * B" by (intro mult_le_mono) auto
  with c have "c + M * unat (t ! k) < M * B" by simp
  then show ?thesis by (simp add: less_mult_imp_div_less)
qed

text \<open>All the passes of the outer loop: the array holds the number the inputs spell in base \<open>M\<close>.\<close>

lemma passes_length: "length (foldl (\<lambda>t c. pass (length t) c t) t cs) = length t"
  by (induction cs arbitrary: t) (simp_all add: pass_length)

lemma passes_digits:
  "\<forall>d \<in> set t. unat d < B \<Longrightarrow>
    \<forall>d \<in> set (foldl (\<lambda>t c. pass (length t) c t) t cs). unat d < B"
proof (induction cs arbitrary: t)
  case (Cons c cs)
  have "\<forall>d \<in> set (pass (length t) c t). unat d < B"
    using pass_digits [of "length t" t _ c] pass_length [of "length t" c t] by simp
  from Cons.IH [OF this] show ?case by simp
qed simp

lemma passes_val:
  "digits_val B (map unat (foldl (\<lambda>t c. pass (length t) c t) t cs)) mod B ^ length t =
    (M ^ length cs * digits_val B (map unat t) + digits_val M cs) mod B ^ length t"
proof (induction cs arbitrary: t)
  case (Cons c cs)
  let ?t = "pass (length t) c t"
  have V: "digits_val B (map unat ?t) = (M * digits_val B (map unat t) + c) mod B ^ length t"
    using pass_val [of "length t" t c] pass_length [of "length t" c t] by simp
  have "digits_val B (map unat (foldl (\<lambda>t c. pass (length t) c t) ?t cs)) mod B ^ length t =
      (M ^ length cs * digits_val B (map unat ?t) + digits_val M cs) mod B ^ length t"
    using Cons [of ?t] by (simp add: pass_length)
  also have "\<dots> = (M ^ length cs * (M * digits_val B (map unat t) + c) + digits_val M cs) mod B ^ length t"
    unfolding V by (metis mod_add_left_eq mod_mult_right_eq)
  finally show ?case by (simp add: digits_val_Cons algebra_simps)
qed simp

lemma passes_canonical:
  assumes "digits_val M cs < B ^ n"
  shows "map unat (dropWhile (\<lambda>b. b = 0) (foldl (\<lambda>t c. pass (length t) c t) (replicate n 0) cs)) =
    to_digits B (digits_val M cs)"
proof -
  let ?t = "foldl (\<lambda>t c. pass (length t) c t) (replicate n 0) cs"
  have bound: "\<forall>d \<in> set (map unat ?t). d < B"
    using passes_digits [of "replicate n 0" cs] base_ge by auto
  have "digits_val B (map unat ?t) < B ^ n"
    using digits_val_less [OF bound] passes_length [of "replicate n 0" cs] by simp
  with passes_val [of "replicate n 0" cs] assms have "digits_val B (map unat ?t) = digits_val M cs"
    by (simp add: map_replicate_const)
  moreover have "map unat (dropWhile (\<lambda>b. b = 0) ?t) = dropWhile (\<lambda>d. d = 0) (map unat ?t)"
    by (simp add: dropWhile_map comp_def unat_eq_0)
  ultimately show ?thesis using dropWhile_digits [OF base_ge bound] by simp
qed

end

interpretation decode_radix: radix_pass 256 58 base58_decode_pass
  by unfold_locales (simp_all add: Let_def)

interpretation encode_radix: radix_pass 58 256 base58_encode_pass
  by unfold_locales (simp_all add: Let_def)

section \<open>The map and the alphabet\<close>

lemma length_ALPHABET [simp]: "length ALPHABET = 58"
  by (simp add: ALPHABET_def)

lemma distinct_ALPHABET: "distinct ALPHABET"
  by (simp add: ALPHABET_def)

lemma ALPHABET_code: "of_char (ALPHABET ! i) = (map of_char ALPHABET ! i :: nat)" if "i < 58"
  using that by simp

lemma ALPHABET_ascii: "c \<in> set ALPHABET \<Longrightarrow> (of_char c :: nat) < 128 \<and> \<not> digit7 c \<and> c \<noteq> CHR 0x00"
  unfolding ALPHABET_def by (simp, elim disjE) simp_all

lemma ALPHABET_nth_inj: "inj_on (\<lambda>i. (of_char (ALPHABET ! i) :: nat)) {..<58}"
  using distinct_ALPHABET by (auto simp: inj_on_def nth_eq_iff_index_eq)

lemma ALPHABET_one: "ALPHABET ! 0 = CHR ''1''"
  by (simp add: ALPHABET_def)

text \<open>The flag only saves the work: the map is the same after the first call and every later one.\<close>

lemma base58_init_map_once: "base58_init_map (base58_init_map s) = base58_init_map s"
  by (simp add: base58_init_map_def Let_def)

lemma base58_map_eq:
  "base58_map = fill_table (\<lambda>i. of_char (ALPHABET ! i)) int 58 (fill_table (\<lambda>i. i) (\<lambda>i. -1) 128 (replicate 128 0))"
  by (simp add: base58_map_def base58_init_map_def b58_static0_def)

lemma base58_map_table [code]:
  "base58_map =
    [-1, -1, -1, -1, -1, -1, -1, -1, -1, -1, -1, -1, -1, -1, -1, -1,
     -1, -1, -1, -1, -1, -1, -1, -1, -1, -1, -1, -1, -1, -1, -1, -1,
     -1, -1, -1, -1, -1, -1, -1, -1, -1, -1, -1, -1, -1, -1, -1, -1,
     -1, 0, 1, 2, 3, 4, 5, 6, 7, 8, -1, -1, -1, -1, -1, -1,
     -1, 9, 10, 11, 12, 13, 14, 15, 16, -1, 17, 18, 19, 20, 21, -1,
     22, 23, 24, 25, 26, 27, 28, 29, 30, 31, 32, -1, -1, -1, -1, -1,
     -1, 33, 34, 35, 36, 37, 38, 39, 40, 41, 42, 43, -1, 44, 45, 46,
     47, 48, 49, 50, 51, 52, 53, 54, 55, 56, 57, -1, -1, -1, -1, -1]"
  by code_simp

lemma base58_val_alphabet: "i < 58 \<Longrightarrow> base58_val (ALPHABET ! i) = int i"
  using ALPHABET_ascii [of "ALPHABET ! i"]
    fill_table_hit [OF ALPHABET_nth_inj, where i = i and h = int
      and m = "fill_table (\<lambda>i. i) (\<lambda>i. -1) 128 (replicate 128 0)"]
  by (simp add: base58_val_def base58_map_eq)

lemma base58_val_other:
  assumes "c \<notin> set ALPHABET"
  shows "base58_val c = -1"
proof (cases "digit7 c")
  case False
  then have c: "(of_char c :: nat) < 128"
    by (cases c) (auto simp: of_char_def)
  have "\<forall>i < 58. (of_char (ALPHABET ! i) :: nat) \<noteq> of_char c"
    using assms by (auto simp: in_set_conv_nth)
  then have "base58_map ! of_char c = fill_table (\<lambda>i. i) (\<lambda>i. -1) 128 (replicate 128 (0 :: int)) ! of_char c"
    unfolding base58_map_eq by (rule fill_table_miss)
  also have "\<dots> = -1"
    using fill_table_hit [of "\<lambda>i. i" 128 "of_char c" "replicate 128 (0 :: int)" "\<lambda>i. -1"] c by simp
  finally show ?thesis using False by (simp add: base58_val_def)
qed (simp add: base58_val_def)

lemma base58_val_nonneg: "0 \<le> base58_val c \<longleftrightarrow> c \<in> set ALPHABET"
  by (metis base58_val_alphabet base58_val_other in_set_conv_nth length_ALPHABET
      neg_0_le_iff_le not_one_le_zero of_nat_0_le_iff)

lemma base58_val_nth: "c \<in> set ALPHABET \<Longrightarrow> ALPHABET ! nat (base58_val c) = c \<and> nat (base58_val c) < 58"
  by (metis base58_val_alphabet in_set_conv_nth length_ALPHABET nat_int)

lemma base58_val_one: "c \<in> set ALPHABET \<Longrightarrow> nat (base58_val c) = 0 \<longleftrightarrow> c = CHR ''1''"
  by (metis ALPHABET_one base58_val_alphabet base58_val_nth nat_int zero_less_numeral)

section \<open>The loops as folds\<close>

lemma base58_encode_loop_fold:
  "base58_encode_loop bs t = foldl (\<lambda>t c. base58_encode_pass (length t) c t) t (map unat bs)"
  by (induction bs arbitrary: t) simp_all

lemma base58_decode_loop_fold:
  "base58_decode_loop cs t =
    (if set cs \<subseteq> set ALPHABET
     then Some (foldl (\<lambda>t c. base58_decode_pass (length t) c t) t (map (nat \<circ> base58_val) cs))
     else None)"
proof (induction cs arbitrary: t)
  case (Cons c cs)
  then show ?case using base58_val_nonneg [of c] by (auto simp: Let_def comp_def)
qed simp

lemma encode_room: "(256 :: nat) ^ n \<le> 58 ^ (n * 138 div 100 + 1)"
  by (rule power_ratio_le [of 256 41 58 56]) simp_all

lemma decode_room: "(58 :: nat) ^ n \<le> 256 ^ (n * 733 div 1000 + 1)"
  by (rule power_ratio_le [of 58 71 256 52]) simp_all

lemma bytes_val_dropWhile: "bytes_val (dropWhile (\<lambda>b. b = 0) bs) = bytes_val bs"
proof -
  have "map unat (dropWhile (\<lambda>b. b = 0) bs) = dropWhile (\<lambda>d. d = 0) (map unat bs)"
    by (simp add: dropWhile_map comp_def unat_eq_0)
  then show ?thesis by (simp add: bytes_val_def digits_val_dropWhile)
qed

section \<open>The codec computes the reference definition\<close>

lemma base58_encode_digits:
  assumes "bytes_val bs < 58 ^ n"
  shows "map unat (dropWhile (\<lambda>b. b = 0) (base58_encode_loop (dropWhile (\<lambda>b. b = 0) bs) (replicate n 0))) =
    to_digits 58 (bytes_val bs)"
  using encode_radix.passes_canonical [of "map unat (dropWhile (\<lambda>b. b = 0) bs)" n] assms
  by (simp add: base58_encode_loop_fold bytes_val_dropWhile flip: bytes_val_def)

lemma length_base58_encode_loop: "length (base58_encode_loop bs (replicate n 0)) = n"
  using encode_radix.passes_length [of "replicate n 0"] by (simp add: base58_encode_loop_fold)

lemma base58_encode_correct:
  "base58_encode True bs out out_len =
    (if length (base58_text bs) < out_len
     then (size_to_int (length (base58_text bs)), mem_write 0 (base58_text bs @ [CHR 0x00]) out)
     else (-1, out))"
proof -
  define n where "n = length bs * 138 div 100 + 1"
  define t where "t = base58_encode_loop (dropWhile (\<lambda>b. b = 0) bs) (replicate n 0)"
  let ?zeros = "skip_while (\<lambda>b. b = 0) 0 bs" and ?start = "skip_while (\<lambda>b. b = 0) 0 t"
  have "bytes_val bs < 58 ^ n"
    unfolding n_def using bytes_val_less [of bs] encode_room [of "length bs"] by (rule order.strict_trans2)
  from base58_encode_digits [OF this]
  have digits: "map unat (drop ?start t) = to_digits 58 (bytes_val bs)"
    by (simp add: drop_skip_while t_def)
  have len: "n - ?start = length (drop ?start t)"
    by (simp add: t_def length_base58_encode_loop)
  have "map (\<lambda>_. CHR ''1'') (takeWhile (\<lambda>b. b = 0) bs) = replicate ?zeros CHR ''1''"
    by (simp add: skip_while_0 map_replicate_const)
  then have txt_eq: "base58_text bs = replicate ?zeros CHR ''1'' @ map (\<lambda>d. ALPHABET ! unat d) (drop ?start t)"
    unfolding base58_text_def digits [symmetric] by simp
  have wr_eq: "mem_write (?zeros + length (drop ?start t)) [CHR 0x00]
      (mem_write ?zeros (map (\<lambda>d. ALPHABET ! unat d) (drop ?start t))
        (mem_write 0 (replicate ?zeros CHR ''1'') out)) = mem_write 0 (base58_text bs @ [CHR 0x00]) out"
    using mem_write_append [of "replicate ?zeros CHR ''1''"] mem_write_append [of "base58_text bs"]
    by (simp add: txt_eq)
  have "length (base58_text bs) = ?zeros + length (drop ?start t)" by (simp add: txt_eq)
  then show ?thesis
    unfolding base58_encode_def Let_def n_def [symmetric] drop_skip_while [of _ bs]
      t_def [symmetric] len wr_eq by simp
qed

lemma base58_number_dropWhile: "base58_number (dropWhile (\<lambda>c. c = CHR ''1'') s) = base58_number s"
proof -
  have one: "nat (base58_val CHR ''1'') = 0"
    using base58_val_one [of "CHR ''1''"] by (simp add: ALPHABET_def)
  have "map (nat \<circ> base58_val) (takeWhile (\<lambda>c. c = CHR ''1'') s) =
      replicate (length (takeWhile (\<lambda>c. c = CHR ''1'') s)) 0"
    by (subst takeWhile_eq_replicate) (simp add: one)
  then have "base58_number (takeWhile (\<lambda>c. c = CHR ''1'') s @ dropWhile (\<lambda>c. c = CHR ''1'') s) =
      base58_number (dropWhile (\<lambda>c. c = CHR ''1'') s)"
    by (simp add: base58_number_def digits_val_append del: takeWhile_dropWhile_id)
  then show ?thesis by simp
qed

lemma base58_digits_less: "set s \<subseteq> set ALPHABET \<Longrightarrow> \<forall>d \<in> set (map (nat \<circ> base58_val) s). d < 58"
  using base58_val_nth by auto

lemma set_dropWhile_ones:
  "set (dropWhile (\<lambda>c. c = CHR ''1'') s) \<subseteq> set ALPHABET \<longleftrightarrow> set s \<subseteq> set ALPHABET"
  by (induction s) (auto simp: ALPHABET_def)

lemma base58_decode_digits:
  assumes "set s \<subseteq> set ALPHABET" and "base58_number s < 256 ^ n"
  shows "\<exists>t. base58_decode_loop (dropWhile (\<lambda>c. c = CHR ''1'') s) (replicate n 0) = Some t \<and>
    length t = n \<and> map unat (dropWhile (\<lambda>b. b = 0) t) = to_digits 256 (base58_number s)"
proof -
  let ?ds = "map (nat \<circ> base58_val) (dropWhile (\<lambda>c. c = CHR ''1'') s)"
  have "digits_val 58 ?ds = base58_number s"
    using base58_number_dropWhile [of s] by (simp add: base58_number_def)
  then have "map unat (dropWhile (\<lambda>b. b = 0)
      (foldl (\<lambda>t c. base58_decode_pass (length t) c t) (replicate n 0) ?ds)) = to_digits 256 (base58_number s)"
    using decode_radix.passes_canonical [of ?ds n] assms(2) by simp
  moreover have "length (foldl (\<lambda>t c. base58_decode_pass (length t) c t) (replicate n 0) ?ds) = n"
    unfolding decode_radix.passes_length by simp
  ultimately show ?thesis
    using assms(1) by (simp add: base58_decode_loop_fold set_dropWhile_ones)
qed

lemma base58_decode_correct:
  "base58_decode True s out out_len =
    (if set s \<subseteq> set ALPHABET \<and> length (base58_bytes s) \<le> out_len
     then (size_to_int (length (base58_bytes s)), mem_write 0 (base58_bytes s) out)
     else (-1, out))"
proof (cases "set s \<subseteq> set ALPHABET")
  case True
  define n where "n = length s * 733 div 1000 + 1"
  have "base58_number s < 58 ^ length s"
    using digits_val_less [OF base58_digits_less [OF True]] by (simp add: base58_number_def)
  then have "base58_number s < 256 ^ n"
    unfolding n_def using decode_room [of "length s"] by (rule order.strict_trans2)
  from base58_decode_digits [OF True this] obtain t
    where loop: "base58_decode_loop (dropWhile (\<lambda>c. c = CHR ''1'') s) (replicate n 0) = Some t"
      and t: "length t = n" "map unat (dropWhile (\<lambda>b. b = 0) t) = to_digits 256 (base58_number s)"
    by blast
  let ?zeros = "skip_while (\<lambda>c. c = CHR ''1'') 0 s" and ?start = "skip_while (\<lambda>b. b = 0) 0 t"
  have len: "n - ?start = length (drop ?start t)" using t(1) by simp
  have "map word_of_nat (map unat (drop ?start t)) = (map word_of_nat (to_digits 256 (base58_number s)) :: byte list)"
    using t(2) by (simp only: drop_skip_while)
  then have "drop ?start t = map word_of_nat (to_digits 256 (base58_number s))"
    by (simp only: map_of_nat_unat)
  then have bytes: "base58_bytes s = replicate ?zeros 0 @ drop ?start t"
    by (simp add: base58_bytes_def skip_while_0 map_replicate_const)
  have wr_eq: "mem_write ?zeros (drop ?start t) (mem_write 0 (replicate ?zeros 0) out) = mem_write 0 (base58_bytes s) out"
    using mem_write_append [of "replicate ?zeros 0" "drop ?start t" out] by (simp add: bytes)
  have "length (base58_bytes s) = ?zeros + length (drop ?start t)" by (simp add: bytes)
  then show ?thesis
    unfolding base58_decode_def Let_def n_def [symmetric] drop_skip_while [of _ s] loop
    by (simp add: True len wr_eq)
next
  case False
  then show ?thesis
    by (simp add: base58_decode_def drop_skip_while base58_decode_loop_fold set_dropWhile_ones Let_def)
qed

section \<open>The reference definitions are inverse\<close>

lemma takeWhile_replicate_append:
  "(ys = [] \<or> \<not> P (hd ys)) \<Longrightarrow> P x \<Longrightarrow> takeWhile P (replicate n x @ ys) = replicate n x"
  by (induction n) (cases ys, auto)

lemma base58_text_leading:
  "takeWhile (\<lambda>c. c = CHR ''1'') (base58_text bs) = map (\<lambda>_. CHR ''1'') (takeWhile (\<lambda>b. b = 0) bs)"
proof -
  let ?ds = "to_digits 58 (bytes_val bs)"
  have "?ds = [] \<or> ALPHABET ! hd ?ds \<noteq> CHR ''1''"
  proof (cases "bytes_val bs = 0")
    case False
    then have "?ds \<noteq> []" and "hd ?ds \<noteq> 0" using to_digits_hd [of 58 "bytes_val bs"] by simp_all
    moreover from \<open>?ds \<noteq> []\<close> have "hd ?ds < 58" by (intro to_digits_less [OF hd_in_set])
    ultimately have "ALPHABET ! hd ?ds \<noteq> ALPHABET ! 0"
      using distinct_ALPHABET by (simp add: nth_eq_iff_index_eq)
    then show ?thesis by (simp add: ALPHABET_one)
  qed simp
  then have "map ((!) ALPHABET) ?ds = [] \<or> \<not> hd (map ((!) ALPHABET) ?ds) = CHR ''1''"
    by (cases ?ds) auto
  then show ?thesis
    unfolding base58_text_def map_replicate_const by (rule takeWhile_replicate_append) simp
qed

lemma base58_text_alphabet: "set (base58_text bs) \<subseteq> set ALPHABET"
proof -
  have "CHR ''1'' \<in> set ALPHABET" by (simp add: ALPHABET_def)
  moreover have "d \<in> set (to_digits 58 (bytes_val bs)) \<Longrightarrow> ALPHABET ! d \<in> set ALPHABET" for d
    using to_digits_less [of d 58] by (metis length_ALPHABET nth_mem)
  ultimately show ?thesis by (auto simp: base58_text_def)
qed

lemma base58_number_text: "base58_number (base58_text bs) = bytes_val bs"
proof -
  have "map (nat \<circ> base58_val) (base58_text bs) =
      replicate (length (takeWhile (\<lambda>b. b = 0) bs)) 0 @ to_digits 58 (bytes_val bs)"
    using to_digits_less [of _ 58 "bytes_val bs"] base58_val_alphabet [of 0]
    by (auto simp: base58_text_def map_replicate_const base58_val_alphabet ALPHABET_one intro: map_idI)
  then show ?thesis by (simp add: base58_number_def digits_val_append digits_val_to_digits)
qed

lemma digits_of_bytes: "to_digits 256 (bytes_val bs) = map unat (dropWhile (\<lambda>b. b = 0) bs)"
proof -
  have "dropWhile (\<lambda>d. d = 0) (map unat bs) = to_digits 256 (bytes_val bs)"
    unfolding bytes_val_def by (rule dropWhile_digits) auto
  then show ?thesis by (simp add: dropWhile_map comp_def unat_eq_0)
qed

lemma base58_bytes_text: "base58_bytes (base58_text bs) = bs"
proof -
  have "base58_bytes (base58_text bs) =
      replicate (length (takeWhile (\<lambda>b. b = 0) bs)) 0 @ dropWhile (\<lambda>b. b = 0) bs"
    by (simp add: base58_bytes_def base58_text_leading base58_number_text digits_of_bytes
        map_replicate_const del: map_map)
  also have "\<dots> = takeWhile (\<lambda>b. b = 0) bs @ dropWhile (\<lambda>b. b = 0) bs"
    by (simp flip: takeWhile_eq_replicate)
  finally show ?thesis by simp
qed

lemma base58_bytes_leading:
  "takeWhile (\<lambda>b. b = 0) (base58_bytes s) = map (\<lambda>_. 0) (takeWhile (\<lambda>c. c = CHR ''1'') s)"
proof -
  let ?ds = "to_digits 256 (base58_number s)"
  have "?ds = [] \<or> (word_of_nat (hd ?ds) :: byte) \<noteq> 0"
  proof (cases "base58_number s = 0")
    case False
    then have "?ds \<noteq> []" and "hd ?ds \<noteq> 0" using to_digits_hd [of 256 "base58_number s"] by simp_all
    moreover from \<open>?ds \<noteq> []\<close> have "hd ?ds < 256" by (intro to_digits_less [OF hd_in_set])
    ultimately show ?thesis using unat_byte_of_nat [of "hd ?ds"] by (metis unat_0)
  qed simp
  then have "map word_of_nat ?ds = [] \<or> \<not> hd (map word_of_nat ?ds :: byte list) = 0"
    by (cases ?ds) auto
  then show ?thesis
    unfolding base58_bytes_def map_replicate_const by (rule takeWhile_replicate_append) simp
qed

lemma bytes_val_base58: "bytes_val (base58_bytes s) = base58_number s"
proof -
  have "map unat (map word_of_nat (to_digits 256 (base58_number s)) :: byte list) = to_digits 256 (base58_number s)"
    using to_digits_less [of _ 256 "base58_number s"] by (simp add: map_unat_of_nat)
  then show ?thesis
    by (simp add: base58_bytes_def bytes_val_def map_replicate_const digits_val_append
        digits_val_to_digits del: map_map)
qed

lemma base58_digits_of_number:
  assumes "set s \<subseteq> set ALPHABET"
  shows "to_digits 58 (base58_number s) = map (nat \<circ> base58_val) (dropWhile (\<lambda>c. c = CHR ''1'') s)"
proof -
  have "dropWhile (\<lambda>d. d = 0) (map (nat \<circ> base58_val) s) = to_digits 58 (base58_number s)"
    unfolding base58_number_def by (rule dropWhile_digits) (use base58_digits_less [OF assms] in simp_all)
  moreover have "dropWhile (\<lambda>c. nat (base58_val c) = 0) s = dropWhile (\<lambda>c. c = CHR ''1'') s"
    using assms base58_val_one by (intro dropWhile_cong) auto
  ultimately show ?thesis by (simp add: dropWhile_map comp_def)
qed

lemma base58_text_bytes:
  assumes "set s \<subseteq> set ALPHABET"
  shows "base58_text (base58_bytes s) = s"
proof -
  have "map (\<lambda>d. ALPHABET ! d) (map (nat \<circ> base58_val) (dropWhile (\<lambda>c. c = CHR ''1'') s)) =
      dropWhile (\<lambda>c. c = CHR ''1'') s"
    using assms base58_val_nth by (auto intro!: map_idI dest: set_dropWhileD)
  then have "base58_text (base58_bytes s) =
      replicate (length (takeWhile (\<lambda>c. c = CHR ''1'') s)) CHR ''1'' @ dropWhile (\<lambda>c. c = CHR ''1'') s"
    by (simp add: base58_text_def base58_bytes_leading bytes_val_base58
        base58_digits_of_number [OF assms] map_replicate_const del: map_map)
  also have "\<dots> = takeWhile (\<lambda>c. c = CHR ''1'') s @ dropWhile (\<lambda>c. c = CHR ''1'') s"
    by (simp flip: takeWhile_eq_replicate)
  finally show ?thesis by simp
qed

section \<open>Length of the text\<close>

lemma length_base58_text_le:
  assumes "(256 :: nat) ^ n \<le> 58 ^ k" and "length bs = n" and "n \<le> k"
  shows "length (base58_text bs) \<le> k"
proof -
  define z where "z = length (takeWhile (\<lambda>b. b = 0) bs)"
  have z: "z \<le> n" by (metis z_def assms(2) length_takeWhile_le)
  have "length (dropWhile (\<lambda>b. b = 0) bs) = n - z"
    using assms(2) by (simp add: z_def dropWhile_eq_drop)
  then have "bytes_val bs < 256 ^ (n - z)"
    using bytes_val_less [of "dropWhile (\<lambda>b. b = 0) bs"] by (simp add: bytes_val_dropWhile)
  also have "(256 :: nat) ^ (n - z) \<le> 58 ^ (k - z)"
  proof -
    have "(256 :: nat) ^ (n - z) * 256 ^ z \<le> 58 ^ (k - z) * 58 ^ z"
      using assms(1,3) z by (simp flip: power_add)
    also have "\<dots> \<le> 58 ^ (k - z) * 256 ^ z" by (simp add: power_mono)
    finally show ?thesis by simp
  qed
  finally have "length (to_digits 58 (bytes_val bs)) \<le> k - z"
    by (rule length_to_digits_le [rotated]) simp
  then show ?thesis using z assms(3) by (simp add: base58_text_def flip: z_def)
qed

lemma length_base58_text_32: "length bs = 32 \<Longrightarrow> length (base58_text bs) \<le> 44"
  by (rule length_base58_text_le [of 32]) simp_all

lemma length_base58_text_64: "length bs = 64 \<Longrightarrow> length (base58_text bs) \<le> 88"
  by (rule length_base58_text_le [of 64]) simp_all

lemma length_base58_text_ge: "58 ^ k \<le> bytes_val bs \<Longrightarrow> k < length (base58_text bs)"
  using length_to_digits_ge [of 58 k "bytes_val bs"] by (simp add: base58_text_def)

lemma length_base58_bytes_le: "length (base58_bytes s) \<le> length s + (length s * 733 div 1000 + 1)" if "set s \<subseteq> set ALPHABET"
proof -
  have "base58_number s < 256 ^ (length s * 733 div 1000 + 1)"
    using digits_val_less [OF base58_digits_less [OF that]] decode_room [of "length s"]
    by (simp add: base58_number_def order.strict_trans2 del: power_Suc)
  then have "length (to_digits 256 (base58_number s)) \<le> length s * 733 div 1000 + 1"
    by (rule length_to_digits_le [rotated]) simp
  moreover have "length (takeWhile (\<lambda>c. c = CHR ''1'') s) \<le> length s" by (rule length_takeWhile_le)
  ultimately show ?thesis by (simp add: base58_bytes_def)
qed

section \<open>Properties\<close>

text \<open>
  C22. Round trip from bytes. Whatever \<open>base58_encode\<close> writes when it succeeds,
  \<open>base58_decode\<close> reads back: it returns the number of bytes and puts exactly those bytes
  in front of its buffer.
\<close>

theorem base58_roundtrip_bytes:
  assumes "base58_encode ok bs out out_len = (n, out')" and "0 \<le> n" and "out_len \<le> 2 ^ 31"
    and "length bs \<le> dst_len" and "length bs < 2 ^ 31"
  shows "base58_decode True (take (nat n) out') dst dst_len = (int (length bs), bs @ drop (length bs) dst)"
proof -
  from assms(1,2) have "ok" by (cases ok) (auto simp: base58_encode_def)
  with assms have n: "n = int (length (base58_text bs))" and out': "out' = mem_write 0 (base58_text bs @ [CHR 0x00]) out"
    by (auto simp: base58_encode_correct size_to_int_id split: if_splits)
  have "take (nat n) out' = base58_text bs" by (simp add: n out' mem_write_0)
  with assms(4,5) show ?thesis
    by (simp add: base58_decode_correct base58_text_alphabet base58_bytes_text size_to_int_id mem_write_0)
qed

theorem base58_roundtrip_bytes_witness:
  "base58_encode True [0, 0, 1, 2, 255] (replicate 16 CHR ''x'') 16 =
      (5, ''11LiA'' @ [CHR 0x00] @ replicate 10 CHR ''x'') \<and>
   base58_decode True ''11LiA'' (replicate 8 7) 8 = (5, [0, 0, 1, 2, 255] @ replicate 3 7)"
proof
  show enc: "base58_encode True [0, 0, 1, 2, 255] (replicate 16 CHR ''x'') 16 =
      (5, ''11LiA'' @ [CHR 0x00] @ replicate 10 CHR ''x'')"
    by code_simp
  show "base58_decode True ''11LiA'' (replicate 8 7) 8 = (5, [0, 0, 1, 2, 255] @ replicate 3 7)"
    using base58_roundtrip_bytes [OF enc, of 8 "replicate 8 7"] by simp
qed

text \<open>
  C23. Round trip from text. When \<open>base58_decode\<close> accepts a string, encoding the bytes it
  wrote gives the same string back, terminated, so no two accepted strings decode to the same
  bytes.
\<close>

theorem base58_roundtrip_text:
  assumes "base58_decode ok s out out_len = (n, out')" and "0 \<le> n" and "out_len < 2 ^ 31"
    and "length s < tbuf_len" and "tbuf_len \<le> 2 ^ 31"
  shows "base58_encode True (take (nat n) out') tbuf tbuf_len =
    (int (length s), s @ [CHR 0x00] @ drop (length s + 1) tbuf)"
proof -
  from assms(1,2) have "ok" by (cases ok) (auto simp: base58_decode_def Let_def)
  with assms have s: "set s \<subseteq> set ALPHABET"
    and n: "n = int (length (base58_bytes s))" and out': "out' = mem_write 0 (base58_bytes s) out"
    by (auto simp: base58_decode_correct size_to_int_id split: if_splits)
  have "take (nat n) out' = base58_bytes s" by (simp add: n out')
  with s assms(4,5) show ?thesis
    by (simp add: base58_encode_correct base58_text_bytes size_to_int_id mem_write_0)
qed

theorem base58_roundtrip_text_witness:
  "base58_decode True ''11LiA'' (replicate 8 7) 8 = (5, [0, 0, 1, 2, 255, 7, 7, 7]) \<and>
   base58_encode True [0, 0, 1, 2, 255] (replicate 8 CHR ''x'') 8 =
     (5, ''11LiA'' @ [CHR 0x00, CHR ''x'', CHR ''x''])"
proof
  show dec: "base58_decode True ''11LiA'' (replicate 8 7) 8 = (5, [0, 0, 1, 2, 255, 7, 7, 7])"
    by code_simp
  have "base58_encode True (take (nat 5) [0, 0, 1, 2, 255, 7, 7, 7]) (replicate 8 CHR ''x'') 8 =
      (int (length ''11LiA''), ''11LiA'' @ [CHR 0x00] @ drop (length ''11LiA'' + 1) (replicate 8 CHR ''x''))"
    by (rule base58_roundtrip_text [OF dec]) simp_all
  then show "base58_encode True [0, 0, 1, 2, 255] (replicate 8 CHR ''x'') 8 =
     (5, ''11LiA'' @ [CHR 0x00, CHR ''x'', CHR ''x''])"
    by (simp add: numeral_2_eq_2)
qed

text \<open>
  The error paths of \<open>base58_decode\<close>. It returns \<open>-1\<close> exactly when the allocation
  fails, a character is outside the alphabet (a byte with the top bit set included) or the
  decoded bytes do not fit, and then the caller's buffer is untouched.
\<close>

theorem base58_decode_rejects:
  assumes "out_len < 2 ^ 31"
  shows "(fst (base58_decode ok s out out_len) = -1 \<longleftrightarrow>
      \<not> ok \<or> \<not> set s \<subseteq> set ALPHABET \<or> out_len < length (base58_bytes s)) \<and>
    (fst (base58_decode ok s out out_len) = -1 \<longrightarrow> snd (base58_decode ok s out out_len) = out)"
proof (cases ok)
  case True
  show ?thesis using assms by (auto simp: True base58_decode_correct size_to_int_id)
next
  case False
  then show ?thesis by (simp add: base58_decode_def Let_def)
qed

theorem base58_decode_rejects_witness:
  "fst (base58_decode True ''10'' (replicate 8 7) 8) = -1 \<and>
   fst (base58_decode True ''11'' (replicate 8 7) 8) \<noteq> -1 \<and>
   fst (base58_decode True ''111'' (replicate 8 7) 2) = -1"
proof -
  have len: "(8 :: nat) < 2 ^ 31" "(2 :: nat) < 2 ^ 31" by simp_all
  have one: "base58_val CHR ''1'' = 0" using base58_val_alphabet [of 0] by (simp add: ALPHABET_one)
  have "base58_bytes ''11'' = [0, 0]" and "base58_bytes ''111'' = [0, 0, 0]"
    by (simp_all add: base58_bytes_def base58_number_def digits_val_def one)
  then show ?thesis
    using base58_decode_rejects [OF len(1), of True] base58_decode_rejects [OF len(2), of True]
    by (simp add: ALPHABET_def)
qed

text \<open>
  Every 32-byte key fits a \<open>char[64]\<close>. Given its scratch allocation, \<open>base58_encode\<close>
  of a 32-byte public key into any buffer of 45 characters or more succeeds: it writes at
  most 44 alphabet characters and the terminator, and reports the length of the text.
\<close>

theorem base58_encode_key_fits:
  assumes "length key = 32" and "45 \<le> out_len" and "out_len < 2 ^ 31"
  shows "\<exists>s. base58_encode True key out out_len = (int (length s), s @ [CHR 0x00] @ drop (length s + 1) out) \<and>
    length s \<le> 44 \<and> set s \<subseteq> set ALPHABET"
  using length_base58_text_32 [OF assms(1)] assms(2,3) base58_text_alphabet
  by (intro exI [of _ "base58_text key"]) (simp add: base58_encode_correct size_to_int_id mem_write_0)

theorem base58_encode_key_fits_witness:
  "\<exists>s. base58_encode True (replicate 32 255) (replicate 64 CHR 0x00) 64 =
      (int (length s), s @ [CHR 0x00] @ drop (length s + 1) (replicate 64 CHR 0x00)) \<and>
    length s \<le> 44 \<and> set s \<subseteq> set ALPHABET"
  by (rule base58_encode_key_fits) simp_all

text \<open>
  The codec stays inside its output buffer. If the caller's buffer really has the length
  it passes, both directions give it back with its length unchanged, whatever the input: no
  byte is written past the end (the encoder's terminator included).
\<close>

theorem base58_writes_in_bounds:
  assumes "length dst = dst_len" and "length tbuf = tbuf_len"
  shows "length (snd (base58_decode ok s dst dst_len)) = dst_len \<and>
    length (snd (base58_encode ok bs tbuf tbuf_len)) = tbuf_len"
proof (cases ok)
  case True
  show ?thesis by (auto simp: True base58_decode_correct base58_encode_correct assms)
next
  case False
  then show ?thesis by (simp add: base58_decode_def base58_encode_def Let_def assms)
qed

theorem base58_writes_in_bounds_witness:
  "length (snd (base58_decode True ''zz'' (replicate 1 0) 1)) = 1 \<and>
   length (snd (base58_encode True [255] (replicate 3 CHR ''x'') 3)) = 3"
  using base58_writes_in_bounds [where dst = "replicate 1 0" and dst_len = 1
      and tbuf = "replicate 3 CHR ''x''" and tbuf_len = 3 and ok = True and s = "''zz''" and bs = "[255]"]
  by simp

end
