(* ===== verification/Base64.thy ===== *)
theory Base64
  imports Yurei_Prelude
begin

text \<open>
  \<^verbatim>\<open>src/src/base64.c\<close>: the base64 decoder of program log lines. The decoder checks its
  output capacity against a size computed from the padding characters, while its loop
  decodes a padding character like a zero digit; the theory determines exactly what is
  written and when that leaves the buffer. \<open>None\<close> is a store past the end of the buffer.
  \<open>input\<close> is the \<open>len\<close> characters the caller names (every caller passes \<open>strlen\<close>).
\<close>

section \<open>The decode table\<close>

definition base64_alphabet :: string where
  "base64_alphabet = ''ABCDEFGHIJKLMNOPQRSTUVWXYZabcdefghijklmnopqrstuvwxyz0123456789+/''"

record b64_static =
  decode_table :: "byte list"
  table_ready :: bool

definition b64_static0 :: b64_static where
  "b64_static0 = \<lparr>decode_table = replicate 256 0, table_ready = False\<rparr>"

definition base64_init_table :: "b64_static \<Rightarrow> b64_static" where
  "base64_init_table s =
     (if table_ready s then s
      else let t = fill_table (\<lambda>i. i) (\<lambda>i. 0x80) 256 (decode_table s);
               t = fill_table (\<lambda>i. of_char (base64_alphabet ! i)) (\<lambda>i. word_of_nat i) 64 t;
               t = t[of_char CHR ''='' := 0]
           in s\<lparr>decode_table := t, table_ready := True\<rparr>)"

definition base64_table :: "byte list" where
  "base64_table = decode_table (base64_init_table b64_static0)"

section \<open>Decoding\<close>

definition base64_decoded_size :: "string \<Rightarrow> nat" where
  "base64_decoded_size input =
     (let len = length input;
          padding = (if len \<ge> 1 \<and> input ! (len - 1) = CHR ''='' then 1 else 0);
          padding = (if len \<ge> 2 \<and> input ! (len - 2) = CHR ''='' then padding + 1 else padding)
      in (len + 3) div 4 * 3 - padding)"

fun base64_loop :: "string \<Rightarrow> u32 \<Rightarrow> nat \<Rightarrow> nat \<Rightarrow> byte list \<Rightarrow> (byte list \<times> nat) checked" where
  "base64_loop [] buffer bits_collected out_index out = Some (out, out_index)"
| "base64_loop (c # cs) buffer bits_collected out_index out =
     (let val = base64_table ! of_char c
      in if val = 0x80 then base64_loop cs buffer bits_collected out_index out
         else let buffer = push_bit 6 buffer OR ucast val;
                  bits_collected = bits_collected + 6
              in if bits_collected \<ge> 8
                 then let bits_collected = bits_collected - 8
                      in if out_index < length out
                         then base64_loop cs buffer bits_collected (out_index + 1)
                                (out[out_index := ucast (drop_bit bits_collected buffer)])
                         else None
                 else base64_loop cs buffer bits_collected out_index out)"

text \<open>
  The result is the return code, the buffer and \<open>*produced\<close>, which an early return leaves
  at the caller's value \<open>produced\<close>. The buffer object is \<open>out\<close>; \<open>out_cap\<close> is what the
  caller says its size is.
\<close>

definition base64_decode :: "string \<Rightarrow> byte list \<Rightarrow> nat \<Rightarrow> nat \<Rightarrow> (int \<times> byte list \<times> nat) checked" where
  "base64_decode input out out_cap produced =
     (let out_len = base64_decoded_size input
      in if out_cap < out_len then Some (-1, out, produced)
         else case base64_loop input 0 0 0 out of
           None \<Rightarrow> None
         | Some (out, out_index) \<Rightarrow> Some (0, out, out_index))"

section \<open>Reference definitions\<close>

text \<open>The digits the loop does not skip. The padding character counts, with digit 0.\<close>

definition base64_sextets :: "string \<Rightarrow> nat list" where
  "base64_sextets input =
     map (\<lambda>c. unat (base64_table ! of_char c)) (filter (\<lambda>c. base64_table ! of_char c \<noteq> 0x80) input)"

text \<open>Standard base64 encoding (RFC 4648), the form in which validators print program data.\<close>

fun base64_encode :: "byte list \<Rightarrow> string" where
  "base64_encode [] = []"
| "base64_encode [a] =
     [base64_alphabet ! (unat a div 4), base64_alphabet ! (unat a mod 4 * 16), CHR ''='', CHR ''='']"
| "base64_encode [a, b] =
     [base64_alphabet ! (unat a div 4), base64_alphabet ! (unat a mod 4 * 16 + unat b div 16),
      base64_alphabet ! (unat b mod 16 * 4), CHR ''='']"
| "base64_encode (a # b # c # bs) =
     base64_alphabet ! (unat a div 4) # base64_alphabet ! (unat a mod 4 * 16 + unat b div 16) #
     base64_alphabet ! (unat b mod 16 * 4 + unat c div 64) # base64_alphabet ! (unat c mod 64) #
     base64_encode bs"

text \<open>
  The bytes the digits spell: the digit stream as one number, without the bits that do not
  fill a byte.
\<close>

definition base64_bytes :: "string \<Rightarrow> byte list" where
  "base64_bytes input =
     (let ss = base64_sextets input; bits = 6 * length ss
      in map word_of_nat (fixed_digits 256 (bits div 8) (digits_val 64 ss div 2 ^ (bits mod 8))))"

text \<open>The zero bytes that bring a byte string to a multiple of three.\<close>

definition base64_padding :: "byte list \<Rightarrow> byte list" where
  "base64_padding bs = replicate ((3 - length bs mod 3) mod 3) 0"

section \<open>The table\<close>

lemma length_base64_alphabet [simp]: "length base64_alphabet = 64"
  by (simp add: base64_alphabet_def)

lemma distinct_base64_alphabet: "distinct base64_alphabet"
  by (simp add: base64_alphabet_def)

lemma base64_init_table_once: "base64_init_table (base64_init_table s) = base64_init_table s"
  by (simp add: base64_init_table_def Let_def)

lemma base64_table_eq:
  "base64_table = (fill_table (\<lambda>i. of_char (base64_alphabet ! i)) (\<lambda>i. word_of_nat i) 64
     (fill_table (\<lambda>i. i) (\<lambda>i. 0x80) 256 (replicate 256 0)))[61 := 0]"
  by (simp add: base64_table_def base64_init_table_def b64_static0_def)

lemma of_char_byte: "(of_char c :: nat) < 256"
  using of_char_mod_256 [of c, where ?'a = nat] by (metis mod_less_divisor zero_less_numeral)

lemma base64_alphabet_no_pad: "CHR ''='' \<notin> set base64_alphabet"
  by (simp add: base64_alphabet_def)

lemma base64_table_alphabet:
  assumes "i < 64"
  shows "base64_table ! of_char (base64_alphabet ! i) = word_of_nat i"
proof -
  have "inj_on (\<lambda>i. (of_char (base64_alphabet ! i) :: nat)) {..<64}"
    using distinct_base64_alphabet by (auto simp: inj_on_def nth_eq_iff_index_eq)
  from fill_table_hit [OF this, where i = i and h = "\<lambda>i. word_of_nat i :: byte"
      and m = "fill_table (\<lambda>i. i) (\<lambda>i. 0x80) 256 (replicate 256 0)"] assms
  have "fill_table (\<lambda>i. of_char (base64_alphabet ! i)) (\<lambda>i. word_of_nat i :: byte) 64
      (fill_table (\<lambda>i. i) (\<lambda>i. 0x80) 256 (replicate 256 0)) ! of_char (base64_alphabet ! i) = word_of_nat i"
    by (simp add: of_char_byte)
  moreover have "base64_alphabet ! i \<in> set base64_alphabet" using assms by simp
  then have "base64_alphabet ! i \<noteq> CHR ''=''" using base64_alphabet_no_pad by metis
  then have "(of_char (base64_alphabet ! i) :: nat) \<noteq> of_char CHR ''=''"
    by (metis char_of_char)
  ultimately show ?thesis by (simp add: base64_table_eq)
qed

lemma base64_table_pad [simp]: "base64_table ! 61 = 0"
  by (simp add: base64_table_eq)

lemma base64_table_other:
  assumes "c \<notin> set base64_alphabet" and "c \<noteq> CHR ''=''"
  shows "base64_table ! of_char c = 0x80"
proof -
  have "\<forall>i < 64. (of_char (base64_alphabet ! i) :: nat) \<noteq> of_char c"
    using assms(1) by (auto simp: in_set_conv_nth)
  then have "fill_table (\<lambda>i. of_char (base64_alphabet ! i)) (\<lambda>i. word_of_nat i :: byte) 64
      (fill_table (\<lambda>i. i) (\<lambda>i. 0x80) 256 (replicate 256 0)) ! of_char c =
      fill_table (\<lambda>i. i) (\<lambda>i. 0x80) 256 (replicate 256 (0 :: byte)) ! of_char c"
    by (rule fill_table_miss)
  also have "\<dots> = 0x80"
    using fill_table_hit [of "\<lambda>i. i" 256 "of_char c" "replicate 256 (0 :: byte)" "\<lambda>i. 0x80"] of_char_byte [of c]
    by simp
  moreover have "(of_char c :: nat) \<noteq> of_char CHR ''=''"
    using assms(2) by (metis char_of_char)
  ultimately show ?thesis by (simp add: base64_table_eq)
qed

lemma base64_table_skip:
  "base64_table ! of_char c \<noteq> 0x80 \<longleftrightarrow> c \<in> set base64_alphabet \<or> c = CHR ''=''"
proof
  assume "c \<in> set base64_alphabet \<or> c = CHR ''=''"
  then show "base64_table ! of_char c \<noteq> 0x80"
  proof
    assume "c \<in> set base64_alphabet"
    then obtain i where i: "i < 64" "c = base64_alphabet ! i" by (auto simp: in_set_conv_nth)
    then have "unat (base64_table ! of_char c) = i"
      by (simp add: base64_table_alphabet unat_byte_of_nat)
    with i show ?thesis by auto
  qed simp
qed (use base64_table_other in blast)

lemma base64_table_less: "base64_table ! of_char c \<noteq> 0x80 \<Longrightarrow> unat (base64_table ! of_char c) < 64"
  unfolding base64_table_skip
  by (auto simp: in_set_conv_nth base64_table_alphabet unat_byte_of_nat)

section \<open>What the loop writes\<close>

lemma buffer_step:
  fixes v :: byte and w :: u32
  assumes "unat v < 64"
  shows "unat (push_bit 6 w OR ucast v) = (64 * unat w + unat v) mod 2 ^ 32"
proof -
  have "take_bit 6 (unat v) = unat v" using assms by (simp add: take_bit_nat_eq_self)
  then have v6: "n < 6" if "bit v n" for n
    using that bit_take_bit_iff [of 6 "unat v" n] by (simp add: bit_unsigned_iff)
  have "push_bit 6 w AND ucast v = 0"
    by (rule bit_eqI) (auto simp: bit_and_iff bit_push_bit_iff bit_unsigned_iff dest: v6)
  then have plus: "push_bit 6 w OR ucast v = push_bit 6 w + ucast v"
    by (rule disjunctive_add_eq_or [symmetric])
  have shift: "push_bit 6 w = word_of_nat (64 * unat w)"
    by (simp add: push_bit_eq_mult)
  have val: "(ucast v :: u32) = word_of_nat (unat v)"
    by transfer simp
  have "push_bit 6 w OR ucast v = word_of_nat (64 * unat w + unat v)"
    unfolding plus unfolding shift val by (simp only: of_nat_add)
  then have "unat (push_bit 6 w OR ucast v) = unat (word_of_nat (64 * unat w + unat v) :: u32)"
    by (rule arg_cong)
  also have "\<dots> = (64 * unat w + unat v) mod 2 ^ 32"
    unfolding unat_of_nat by simp
  finally show ?thesis .
qed

lemma store_step:
  fixes w :: u32
  assumes "unat w = S mod 2 ^ 32" and "b \<le> 8"
  shows "unat (ucast (drop_bit b w) :: byte) = S div 2 ^ b mod 256"
proof -
  have "unat (drop_bit b w) = unat w div 2 ^ b"
    unfolding unat_drop_bit_eq by (simp only: drop_bit_eq_div)
  then have "unat (ucast (drop_bit b w) :: byte) = S mod 2 ^ 32 div 2 ^ b mod 256"
    by (simp add: unsigned_ucast_eq take_bit_eq_mod assms(1) del: unsigned_drop_bit_eq)
  also have "drop_bit b (take_bit 32 S) = take_bit (32 - b) (drop_bit b S)"
    by (simp only: drop_bit_take_bit)
  then have "S mod 2 ^ 32 div 2 ^ b = S div 2 ^ b mod 2 ^ (32 - b)"
    by (simp only: drop_bit_eq_div take_bit_eq_mod)
  also have "S div 2 ^ b mod 2 ^ (32 - b) mod 256 = S div 2 ^ b mod 256"
    using assms(2) le_imp_power_dvd [of 8 "32 - b" "2 :: nat"] by (simp add: mod_mod_cancel)
  finally show ?thesis .
qed

lemma sextet_div:
  fixes v :: nat
  assumes "v < 64"
  shows "(64 * S + v) div 2 ^ (bits + 6) = S div 2 ^ bits"
proof -
  have "2 ^ (bits + 6) = 64 * (2 ^ bits :: nat)" by (simp add: power_add)
  then have "(64 * S + v) div 2 ^ (bits + 6) = (64 * S + v) div 64 div 2 ^ bits"
    by (simp only: div_mult2_eq)
  also have "(64 * S + v) div 64 = S" using assms by simp
  finally show ?thesis .
qed

lemma sextet_mod:
  fixes v :: nat
  shows "(64 * (S mod 2 ^ 32) + v) mod 2 ^ 32 = (64 * S + v) mod 2 ^ 32"
  by (metis mod_add_left_eq mod_mult_right_eq)

lemma bits_step:
  assumes "8 \<le> bits + 6"
  shows "(bits + 6 * Suc n) div 8 = Suc ((bits + 6 - 8 + 6 * n) div 8)"
    and "(bits + 6 * Suc n) mod 8 = (bits + 6 - 8 + 6 * n) mod 8"
proof -
  have eq: "bits + 6 * Suc n = bits + 6 - 8 + 6 * n + 8" using assms by simp
  show "(bits + 6 * Suc n) div 8 = Suc ((bits + 6 - 8 + 6 * n) div 8)"
    unfolding eq by simp
  show "(bits + 6 * Suc n) mod 8 = (bits + 6 - 8 + 6 * n) mod 8"
    by (subst eq) (rule mod_add_self2)
qed

text \<open>
  The invariant of the loop: \<open>S\<close> is the number spelt by the digits read so far, the buffer
  holds its low 32 bits, and the bytes written spell \<open>S\<close> without its last
  \<open>bits_collected\<close> bits.
\<close>

definition base64_inv :: "nat \<Rightarrow> nat \<Rightarrow> u32 \<Rightarrow> byte list \<Rightarrow> bool" where
  "base64_inv S bits buffer bs \<longleftrightarrow>
     bits < 8 \<and> unat buffer = S mod 2 ^ 32 \<and> bytes_val bs = S div 2 ^ bits"

lemma base64_inv_shift:
  fixes v :: byte
  assumes "base64_inv S bits buffer bs" and "unat v < 64" and "bits + 6 < 8"
  shows "base64_inv (64 * S + unat v) (bits + 6) (push_bit 6 buffer OR ucast v) bs"
  using assms sextet_div [OF assms(2)] sextet_mod [of S "unat v"]
  by (simp only: base64_inv_def buffer_step simp_thms)

lemma base64_inv_store:
  fixes v :: byte
  assumes "base64_inv S bits buffer bs" and "unat v < 64" and "8 \<le> bits + 6"
  shows "base64_inv (64 * S + unat v) (bits + 6 - 8) (push_bit 6 buffer OR ucast v)
    (bs @ [ucast (drop_bit (bits + 6 - 8) (push_bit 6 buffer OR ucast v))])"
proof -
  let ?S = "64 * S + unat v" and ?b = "bits + 6 - 8"
  have w: "unat (push_bit 6 buffer OR ucast v) = ?S mod 2 ^ 32"
    using assms(1,2) sextet_mod [of S "unat v"] by (simp only: base64_inv_def buffer_step)
  have "bits + 6 = ?b + 8" using assms(3) by simp
  then have "S div 2 ^ bits = ?S div 2 ^ (?b + 8)"
    using sextet_div [OF assms(2), of S bits] by (simp only:)
  also have "\<dots> = ?S div 2 ^ ?b div 256" by (simp add: power_add div_mult2_eq)
  finally have "S div 2 ^ bits * 256 + ?S div 2 ^ ?b mod 256 = ?S div 2 ^ ?b"
    by (simp add: div_mult_mod_eq)
  moreover have b: "?b < 8" using assms(1) by (auto simp: base64_inv_def)
  moreover have "unat (ucast (drop_bit ?b (push_bit 6 buffer OR ucast v)) :: byte) = ?S div 2 ^ ?b mod 256"
    using b by (intro store_step [OF w]) simp
  ultimately show ?thesis using assms(1) w by (simp only: base64_inv_def bytes_val_snoc simp_thms)
qed

lemma mem_write_snoc:
  "length bs < length out \<Longrightarrow> (mem_write 0 bs out)[length bs := b] = mem_write 0 (bs @ [b]) out"
  by (simp add: mem_write_0 list_update_append flip: Cons_nth_drop_Suc)

lemma base64_loop_fits:
  assumes "base64_inv S bits buffer bs"
    and "length bs + (bits + 6 * length (base64_sextets cs)) div 8 \<le> length out"
  shows "\<exists>bs'. base64_loop cs buffer bits (length bs) (mem_write 0 bs out) =
      Some (mem_write 0 (bs @ bs') out, length (bs @ bs')) \<and>
    length bs' = (bits + 6 * length (base64_sextets cs)) div 8 \<and>
    bytes_val (bs @ bs') = (S * 64 ^ length (base64_sextets cs) + digits_val 64 (base64_sextets cs))
      div 2 ^ ((bits + 6 * length (base64_sextets cs)) mod 8)"
  using assms
proof (induction cs arbitrary: S bits buffer bs)
  case Nil
  then show ?case by (simp add: base64_sextets_def base64_inv_def)
next
  case (Cons c cs)
  let ?v = "base64_table ! of_char c" and ?n = "length (base64_sextets cs)"
  let ?buffer = "push_bit 6 buffer OR ucast ?v"
  show ?case
  proof (cases "?v = 0x80")
    case True
    with Cons show ?thesis by (simp add: base64_sextets_def)
  next
    case False
    then have v: "unat ?v < 64" by (rule base64_table_less)
    have sext: "base64_sextets (c # cs) = unat ?v # base64_sextets cs"
      using False by (simp add: base64_sextets_def)
    have val: "S * 64 ^ length (base64_sextets (c # cs)) + digits_val 64 (base64_sextets (c # cs)) =
        (64 * S + unat ?v) * 64 ^ ?n + digits_val 64 (base64_sextets cs)"
      by (simp add: sext digits_val_Cons algebra_simps)
    show ?thesis
    proof (cases "8 \<le> bits + 6")
      case True
      let ?b = "ucast (drop_bit (bits + 6 - 8) ?buffer) :: byte"
      have inv: "base64_inv (64 * S + unat ?v) (bits + 6 - 8) ?buffer (bs @ [?b])"
        by (rule base64_inv_store [OF Cons.prems(1) v True])
      have count: "(bits + 6 * length (base64_sextets (c # cs))) div 8 = Suc ((bits + 6 - 8 + 6 * ?n) div 8)"
        and rest: "(bits + 6 * length (base64_sextets (c # cs))) mod 8 = (bits + 6 - 8 + 6 * ?n) mod 8"
        unfolding sext list.size using bits_step [OF True, of ?n] by simp_all
      have room: "length (bs @ [?b]) + (bits + 6 - 8 + 6 * ?n) div 8 \<le> length out"
        using Cons.prems(2) count by simp
      from Cons.IH [OF inv room] obtain bs' where
        "base64_loop cs ?buffer (bits + 6 - 8) (length (bs @ [?b])) (mem_write 0 (bs @ [?b]) out) =
           Some (mem_write 0 ((bs @ [?b]) @ bs') out, length ((bs @ [?b]) @ bs'))"
        "length bs' = (bits + 6 - 8 + 6 * ?n) div 8"
        "bytes_val ((bs @ [?b]) @ bs') = ((64 * S + unat ?v) * 64 ^ ?n + digits_val 64 (base64_sextets cs))
           div 2 ^ ((bits + 6 - 8 + 6 * ?n) mod 8)"
        by blast
      then show ?thesis
        using False True room unfolding val count rest
        by (intro exI [of _ "?b # bs'"]) (simp add: Let_def mem_write_snoc)
    next
      case nostore: False
      have inv: "base64_inv (64 * S + unat ?v) (bits + 6) ?buffer bs"
        by (rule base64_inv_shift [OF Cons.prems(1) v]) (use nostore in simp)
      have bits: "bits + 6 * length (base64_sextets (c # cs)) = bits + 6 + 6 * ?n" by (simp add: sext)
      from Cons.IH [OF inv] Cons.prems(2) False nostore show ?thesis
        unfolding val bits by (simp add: Let_def)
    qed
  qed
qed

lemma base64_loop_overruns:
  "bits < 8 \<Longrightarrow> out_index \<le> length out \<Longrightarrow>
    length out < out_index + (bits + 6 * length (base64_sextets cs)) div 8 \<Longrightarrow>
    base64_loop cs buffer bits out_index out = None"
proof (induction cs arbitrary: bits out_index buffer out)
  case Nil
  then show ?case by (simp add: base64_sextets_def)
next
  case (Cons c cs)
  let ?v = "base64_table ! of_char c" and ?n = "length (base64_sextets cs)"
  show ?case
  proof (cases "?v = 0x80")
    case True
    with Cons show ?thesis by (simp add: base64_sextets_def)
  next
    case False
    then have sext: "length (base64_sextets (c # cs)) = Suc ?n" by (simp add: base64_sextets_def)
    show ?thesis
    proof (cases "8 \<le> bits + 6")
      case True
      from Cons.prems(3) have "length out < out_index + Suc ((bits + 6 - 8 + 6 * ?n) div 8)"
        unfolding sext bits_step(1) [OF True] .
      with Cons.prems(1) False True show ?thesis by (auto simp: Let_def intro!: Cons.IH)
    next
      case nostore: False
      have "bits + 6 * length (base64_sextets (c # cs)) = bits + 6 + 6 * ?n" by (simp add: sext)
      with Cons.prems False nostore show ?thesis by (auto simp: Let_def intro!: Cons.IH)
    qed
  qed
qed

lemma length_base64_bytes [simp]: "length (base64_bytes input) = 6 * length (base64_sextets input) div 8"
proof -
  have "base64_inv 0 0 0 []" by (simp add: base64_inv_def)
  from base64_loop_fits [OF this, of input "replicate (6 * length (base64_sextets input) div 8) 0"]
  obtain bs where "length bs = 6 * length (base64_sextets input) div 8"
    and "bytes_val bs = digits_val 64 (base64_sextets input) div 2 ^ (6 * length (base64_sextets input) mod 8)"
    by auto
  then show ?thesis
    unfolding base64_bytes_def Let_def by (metis fixed_digits_bytes)
qed

lemma base64_decode_eq:
  "base64_decode input out out_cap produced =
    (if out_cap < base64_decoded_size input then Some (-1, out, produced)
     else if length out < length (base64_bytes input) then None
     else Some (0, mem_write 0 (base64_bytes input) out, length (base64_bytes input)))"
proof (cases "length out < length (base64_bytes input)")
  case True
  then have "base64_loop input 0 0 0 out = None"
    by (intro base64_loop_overruns) simp_all
  with True show ?thesis by (simp add: base64_decode_def)
next
  case False
  have "base64_inv 0 0 0 []" by (simp add: base64_inv_def)
  from base64_loop_fits [OF this, of input out] False
  obtain bs where bs: "base64_loop input 0 0 0 out = Some (mem_write 0 bs out, length bs)"
    "length bs = 6 * length (base64_sextets input) div 8"
    "bytes_val bs = digits_val 64 (base64_sextets input) div 2 ^ (6 * length (base64_sextets input) mod 8)"
    by (auto simp: mem_write_def)
  then have "base64_bytes input = bs"
    unfolding base64_bytes_def Let_def by (metis fixed_digits_bytes)
  with bs False show ?thesis by (simp add: base64_decode_def)
qed

section \<open>Sizes\<close>

lemma length_base64_sextets: "length (base64_sextets input) \<le> length input"
  by (simp add: base64_sextets_def)

lemma base64_bytes_le_groups: "length (base64_bytes input) \<le> (length input + 3) div 4 * 3"
  using length_base64_sextets [of input] by simp

lemma base64_decoded_size_bounds:
  "(length input + 3) div 4 * 3 - 2 \<le> base64_decoded_size input \<and>
   base64_decoded_size input \<le> (length input + 3) div 4 * 3"
  unfolding base64_decoded_size_def Let_def by (auto intro!: diff_le_mono2)

lemma base64_decoded_size_no_pad:
  assumes "CHR ''='' \<notin> set input"
  shows "base64_decoded_size input = (length input + 3) div 4 * 3"
proof -
  have "input ! (length input - k) \<noteq> CHR ''=''" if "k \<le> length input" "0 < k" for k
    using assms that nth_mem [of "length input - k" input] by (metis diff_less less_le_trans)
  from this [of 1] this [of 2] show ?thesis by (auto simp: base64_decoded_size_def Let_def)
qed

lemma base64_no_overrun:
  assumes "3 dvd out_cap" and "base64_decoded_size input \<le> out_cap"
  shows "length (base64_bytes input) \<le> out_cap"
proof -
  from assms(1) obtain m where m: "out_cap = 3 * m" by blast
  have "(length input + 3) div 4 * 3 \<le> 3 * m + 2"
    using base64_decoded_size_bounds [of input] assms(2) m by linarith
  then have "(length input + 3) div 4 \<le> m" by linarith
  then show ?thesis using base64_bytes_le_groups [of input] m by linarith
qed

section \<open>Decoding what the standard encoder prints\<close>

lemma base64_sextets_Nil [simp]: "base64_sextets [] = []"
  by (simp add: base64_sextets_def)

lemma base64_sextets_alphabet [simp]:
  "i < 64 \<Longrightarrow> base64_sextets (base64_alphabet ! i # cs) = i # base64_sextets cs"
  using base64_table_skip [of "base64_alphabet ! i"]
  by (simp add: base64_sextets_def base64_table_alphabet unat_byte_of_nat)

lemma base64_sextets_pad [simp]: "base64_sextets (CHR ''='' # cs) = 0 # base64_sextets cs"
  by (simp add: base64_sextets_def)

lemma sextet_bounds:
  "unat (a :: byte) div 4 < 64"
  "unat a mod 4 * 16 + unat (b :: byte) div 16 < 64"
  "unat a mod 4 * 16 < 64"
  "unat b mod 16 * 4 + unat (c :: byte) div 64 < 64"
  "unat b mod 16 * 4 < 64"
  "unat c mod 64 < 64"
  using unat_byte_less [of a] unat_byte_less [of b] unat_byte_less [of c]
    mod_less_divisor [of 4 "unat a"] mod_less_divisor [of 16 "unat b"]
  by linarith+

lemma three_bytes:
  "(a :: nat) div 4 * 262144 + ((a mod 4 * 16 + b div 16) * 4096 + ((b mod 16 * 4 + c div 64) * 64 + c mod 64)) =
    a * 65536 + b * 256 + c"
proof -
  have "q * 262144 + ((r * 16 + p) * 4096 + ((s * 4 + t) * 64 + u)) = x * 65536 + y * 256 + z"
    if "q * 4 + r = x" "p * 16 + s = y" "t * 64 + u = z" for q r p s t u x y z :: nat
    using that by auto
  then show ?thesis by (metis div_mult_mod_eq)
qed

lemma groups_step: "(Suc (Suc (Suc n)) + 2) div 3 = Suc ((n + 2) div 3)"
proof -
  have "Suc (Suc (Suc n)) + 2 = n + 2 + 3" by simp
  then show ?thesis by simp
qed

lemma base64_padding_step: "base64_padding (a # b # c # bs) = base64_padding bs"
  by (simp add: base64_padding_def mod_Suc)

lemma length_sextets_encode:
  "length (base64_sextets (base64_encode bs)) = 4 * ((length bs + 2) div 3)"
proof (induction bs rule: base64_encode.induct)
  case (4 a b c bs)
  then show ?case unfolding list.size add_0_right add_Suc_right groups_step
    by (simp add: sextet_bounds)
qed (simp_all add: sextet_bounds)

lemma length_padded: "length (bs @ base64_padding bs) = 3 * ((length bs + 2) div 3)"
proof -
  have "n + (3 - n mod 3) mod 3 = 3 * ((n + 2) div 3)" for n :: nat
  proof -
    have "n mod 3 = 0 \<or> n mod 3 = 1 \<or> n mod 3 = 2" by auto
    moreover have "n = 3 * (n div 3) + n mod 3" by simp
    ultimately obtain q where "n = 3 * q \<or> n = 3 * q + 1 \<or> n = 3 * q + 2" by (metis add.right_neutral)
    moreover have "(3 * q + 1) mod 3 = 1" "(3 * q + 2) mod 3 = 2" "(3 * q + 4) div 3 = q + 1" for q :: nat
      by presburger+
    ultimately show ?thesis by (elim disjE) (simp_all add: add.commute)
  qed
  then show ?thesis by (simp add: base64_padding_def)
qed

lemma digits_val_group:
  "digits_val 64 (w # x # y # z # ds) = (w * 262144 + (x * 4096 + (y * 64 + z))) * 64 ^ length ds + digits_val 64 ds"
  by (simp add: digits_val_Cons add_mult_distrib)

lemma digits_val_encode:
  "digits_val 64 (base64_sextets (base64_encode bs)) = bytes_val (bs @ base64_padding bs)"
proof (induction bs rule: base64_encode.induct)
  case (4 a b c bs)
  define n where "n = (length bs + 2) div 3"
  have pow: "(64 :: nat) ^ (4 * n) = 256 ^ (3 * n)"
    by (simp add: power_mult)
  have len: "length (base64_sextets (base64_encode bs)) = 4 * n" "length (bs @ base64_padding bs) = 3 * n"
    unfolding n_def by (rule length_sextets_encode, rule length_padded)
  have "digits_val 64 (base64_sextets (base64_encode (a # b # c # bs))) =
      (unat a div 4 * 262144 + ((unat a mod 4 * 16 + unat b div 16) * 4096 +
        ((unat b mod 16 * 4 + unat c div 64) * 64 + unat c mod 64))) * 64 ^ (4 * n) +
      bytes_val (bs @ base64_padding bs)"
    using 4 unfolding base64_encode.simps
    by (simp only: base64_sextets_alphabet sextet_bounds digits_val_group len(1))
  also have "\<dots> = (unat a * 65536 + unat b * 256 + unat c) * 256 ^ (3 * n) + bytes_val (bs @ base64_padding bs)"
    by (simp only: three_bytes pow)
  also have "\<dots> = bytes_val (a # b # c # bs @ base64_padding bs)"
    using len(2) by (simp add: bytes_val_def digits_val_Cons add_mult_distrib)
  finally show ?case by (simp add: base64_padding_step)
next
  case (2 a)
  show ?case using three_bytes [of "unat a" 0 0]
    by (simp add: sextet_bounds digits_val_Cons bytes_val_def base64_padding_def numeral_2_eq_2)
next
  case (3 a b)
  show ?case using three_bytes [of "unat a" "unat b" 0]
    by (simp add: sextet_bounds digits_val_Cons bytes_val_def base64_padding_def)
qed (simp add: base64_padding_def)

lemma base64_bytes_encode: "base64_bytes (base64_encode bs) = bs @ base64_padding bs"
proof -
  have "6 * (4 * n) div 8 = 3 * n" and "6 * (4 * n) mod 8 = 0" for n :: nat by simp_all
  then have "base64_bytes (base64_encode bs) =
      map word_of_nat (fixed_digits 256 (length (bs @ base64_padding bs)) (bytes_val (bs @ base64_padding bs)))"
    unfolding base64_bytes_def Let_def length_sextets_encode digits_val_encode length_padded by simp
  then show ?thesis by (simp only: fixed_digits_bytes)
qed

lemma base64_padding_free:
  "c \<in> set (base64_encode bs) \<Longrightarrow> c \<in> set base64_alphabet \<or> c = CHR ''=''"
  by (induction bs rule: base64_encode.induct) (auto simp: sextet_bounds)

lemma base64_encode_snoc_group:
  "length bs mod 3 = 0 \<Longrightarrow> base64_encode (bs @ ys) = base64_encode bs @ base64_encode ys"
proof (induction bs rule: base64_encode.induct)
  case (4 a b c bs)
  then show ?case by (simp add: mod_Suc split: if_splits)
qed simp_all

lemma length_base64_encode: "length (base64_encode bs) = 4 * ((length bs + 2) div 3)"
proof (induction bs rule: base64_encode.induct)
  case (4 a b c bs)
  then show ?case unfolding list.size add_0_right add_Suc_right groups_step by simp
qed simp_all

lemma base64_encode_no_pad: "length bs mod 3 = 0 \<Longrightarrow> CHR ''='' \<notin> set (base64_encode bs)"
proof (induction bs rule: base64_encode.induct)
  case (4 a b c bs)
  have "base64_alphabet ! i \<noteq> CHR ''=''" if "i < 64" for i
    using base64_alphabet_no_pad that by (metis length_base64_alphabet nth_mem)
  with 4 show ?case
    by (simp add: mod_Suc sextet_bounds not_sym [of "CHR ''=''"] split: if_splits) (metis sextet_bounds)
qed simp_all

lemma base64_decoded_size_encode: "base64_decoded_size (base64_encode bs) = length bs"
proof -
  define xs where "xs = take (length bs div 3 * 3) bs"
  define ys where "ys = drop (length bs div 3 * 3) bs"
  have xs: "length xs mod 3 = 0" "length xs = 3 * (length bs div 3)" by (simp_all add: xs_def)
  have ys: "length ys = length bs mod 3" by (simp add: ys_def minus_div_mult_eq_mod)
  have enc: "base64_encode bs = base64_encode xs @ base64_encode ys"
    using base64_encode_snoc_group [OF xs(1), of ys] by (simp add: xs_def ys_def)
  have alph: "base64_alphabet ! i \<noteq> CHR ''=''" if "i < 64" for i
    using base64_alphabet_no_pad that by (metis length_base64_alphabet nth_mem)
  have "length ys = 0 \<or> length ys = 1 \<or> length ys = 2" unfolding ys by auto
  then consider "ys = []" | a where "ys = [a]" | a b where "ys = [a, b]"
    by (auto simp: length_Suc_conv numeral_2_eq_2)
  then show ?thesis
  proof cases
    case 1
    with enc xs ys have "base64_decoded_size (base64_encode bs) = (length (base64_encode bs) + 3) div 4 * 3"
      by (intro base64_decoded_size_no_pad) (simp add: base64_encode_no_pad)
    also have "\<dots> = length bs"
      using 1 xs ys by (simp add: length_base64_encode) presburger
    finally show ?thesis .
  next
    case 2
    with ys have "length bs mod 3 = 1" by simp
    then obtain q where q: "length bs = 3 * q + 1" "length xs = 3 * q"
      using mult_div_mod_eq [of 3 "length bs"] xs(2) by metis
    have div: "(3 * q + 2) div 3 = q" by simp
    show ?thesis
      using q(1) unfolding enc 2 base64_decoded_size_def Let_def
      by (simp add: length_base64_encode q(2) div nth_append)
  next
    case 3
    with ys have "length bs mod 3 = 2" by simp
    then obtain q where q: "length bs = 3 * q + 2" "length xs = 3 * q"
      using mult_div_mod_eq [of 3 "length bs"] xs(2) by metis
    have div: "(3 * q + 2) div 3 = q" by simp
    show ?thesis
      using q(1) alph sextet_bounds unfolding enc 3 base64_decoded_size_def Let_def
      by (simp add: length_base64_encode q(2) div nth_append)
  qed
qed

section \<open>Properties\<close>

text \<open>
  C26. What \<open>base64_decode\<close> makes of standard base64. Given room, decoding the encoding of
  \<open>bs\<close> succeeds and writes \<open>bs\<close> followed by one zero byte per padding character, all of
  which \<open>*produced\<close> counts: the bytes come back exactly when their number is a multiple of
  three, and with up to two spurious zeros otherwise.
\<close>

theorem base64_decode_standard:
  assumes "length bs \<le> out_cap" and "length (bs @ base64_padding bs) \<le> length out"
  shows "base64_decode (base64_encode bs) out out_cap produced =
    Some (0, bs @ base64_padding bs @ drop (length (bs @ base64_padding bs)) out, length (bs @ base64_padding bs))"
proof -
  have "\<not> out_cap < base64_decoded_size (base64_encode bs)"
    using assms(1) by (simp add: base64_decoded_size_encode)
  moreover have "\<not> length out < length (base64_bytes (base64_encode bs))"
    using assms(2) by (simp only: base64_bytes_encode)
  ultimately show ?thesis
    unfolding base64_decode_eq base64_bytes_encode by (simp add: mem_write_0)
qed

theorem base64_decode_standard_witness:
  "base64_encode [77] = ''TQ=='' \<and>
   base64_decode ''TQ=='' [9, 9, 9, 9] 4 0 = Some (0, [77, 0, 0, 9], 3)"
proof -
  have enc: "base64_encode [77] = ''TQ==''" by (simp add: base64_alphabet_def)
  have pad: "base64_padding [77] = [0, 0]" by (simp add: base64_padding_def numeral_2_eq_2)
  have "base64_decode (base64_encode [77]) [9, 9, 9, 9] 4 0 =
      Some (0, [77] @ [0, 0] @ drop (length [77 :: byte, 0, 0]) [9, 9, 9, 9], length [77 :: byte, 0, 0])"
    using base64_decode_standard [of "[77]" 4 "[9, 9, 9, 9]" 0] unfolding pad by simp
  with enc show ?thesis by simp
qed

text \<open>The characters the loop does not skip.\<close>

definition base64_kept :: "string \<Rightarrow> string" where
  "base64_kept input = filter (\<lambda>c. c \<in> set base64_alphabet \<or> c = CHR ''='') input"

lemma length_sextets_kept: "length (base64_sextets input) = length (base64_kept input)"
  by (simp add: base64_sextets_def base64_kept_def base64_table_skip)

lemma base64_decoded_size_padded:
  assumes "4 dvd length input" and "input \<noteq> []" and "last input = CHR ''=''"
  shows "base64_decoded_size input < 6 * length input div 8"
proof -
  from assms(1) obtain k where len: "length input = 4 * k" by blast
  with assms(2) have "0 < k" by (cases k) auto
  moreover have "input ! (length input - 1) = CHR ''=''" using assms(2,3) by (simp add: last_conv_nth)
  ultimately show ?thesis using len by (simp add: base64_decoded_size_def Let_def) linarith
qed

text \<open>
  C25. The capacity check is too weak. A buffer of exactly the size \<open>base64_decoded_size\<close>
  reports passes the check, and the loop stores past its end exactly when the characters it
  does not skip, padding included, fill more bytes than that. This holds of every text whose
  length is a multiple of four, that has no other characters and ends in a padding character,
  and so of every padded encoding.
\<close>

theorem base64_decode_overruns:
  assumes "length out = base64_decoded_size input"
  shows "(base64_decode input out (length out) produced = None \<longleftrightarrow>
      base64_decoded_size input < 6 * length (base64_kept input) div 8) \<and>
    (4 dvd length input \<longrightarrow> base64_kept input = input \<longrightarrow> input \<noteq> [] \<longrightarrow> last input = CHR ''='' \<longrightarrow>
      base64_decode input out (length out) produced = None)"
proof -
  have "base64_decode input out (length out) produced = None \<longleftrightarrow>
      base64_decoded_size input < 6 * length (base64_kept input) div 8"
    using assms by (simp add: base64_decode_eq length_sextets_kept)
  with base64_decoded_size_padded [of input] show ?thesis by auto
qed

theorem base64_decode_overruns_witness:
  "base64_decode ''TR=='' [9] 1 0 = None \<and> base64_decode ''A='' [9, 9] 2 0 \<noteq> None"
proof -
  have sizes: "base64_decoded_size ''TR=='' = 1" "base64_decoded_size ''A='' = 2" by (simp_all add: base64_decoded_size_def)
  have kept: "base64_kept ''TR=='' = ''TR==''" "length (base64_kept ''A='') = 2"
    by (simp_all add: base64_kept_def base64_alphabet_def)
  from base64_decode_overruns [of "[9]" "''TR==''" 0] base64_decode_overruns [of "[9, 9]" "''A=''" 0]
  show ?thesis unfolding sizes kept by (simp add: numeral_2_eq_2)
qed

text \<open>
  When the decoder is memory safe. Called with the real size of its buffer, it never
  stores past the end if that size is a multiple of three, and never does on input without
  padding characters.
\<close>

theorem base64_decode_safe:
  assumes "3 dvd length out \<or> CHR ''='' \<notin> set input"
  shows "base64_decode input out (length out) produced \<noteq> None"
proof (cases "length out < base64_decoded_size input")
  case True
  then show ?thesis by (simp add: base64_decode_eq)
next
  case False
  from assms have "length (base64_bytes input) \<le> length out"
  proof
    assume "3 dvd length out"
    with False show ?thesis using base64_no_overrun [of "length out" input] by simp
  next
    assume "CHR ''='' \<notin> set input"
    with False show ?thesis
      using base64_bytes_le_groups [of input] base64_decoded_size_no_pad [of input] by linarith
  qed
  with False show ?thesis by (simp add: base64_decode_eq del: length_base64_bytes)
qed

theorem base64_decode_safe_witness:
  "base64_decode ''TQ=='' (replicate 3 9) 3 0 \<noteq> None \<and> base64_decode ''TQ'' [9] 1 0 \<noteq> None"
  using base64_decode_safe [of "replicate 3 9" "''TQ==''" 0] base64_decode_safe [of "[9]" "''TQ''" 0] by simp

end
