(* ===== verification/Yurei_Event.thy ===== *)
theory Yurei_Event
  imports Yurei_Prelude
begin

text \<open>
  \<^verbatim>\<open>src/include/yurei_event.h\<close>: the events that travel from the ingest thread through the
  queue to the database thread. A \<open>uint8_t[32]\<close> is a byte list, an \<open>int64_t\<close> is kept as its
  64 bits, and \<open>char[88]\<close> is the list of its 88 characters, terminator included.
\<close>

definition YUREI_MAX_SIGNATURE_LEN :: nat where
  "YUREI_MAX_SIGNATURE_LEN = 88"

datatype yurei_event_type_t =
    YUREI_EVENT_NONE
  | YUREI_EVENT_PUMPFUN_TRADE
  | YUREI_EVENT_RAYDIUM_SWAP

record yurei_pumpfun_trade_t =
  mint :: "byte list"
  trader :: "byte list"
  creator :: "byte list"
  sol_amount :: u64
  token_amount :: u64
  is_buy :: bool
  virtual_sol_reserves :: u64
  virtual_token_reserves :: u64
  real_sol_reserves :: u64
  real_token_reserves :: u64
  fee_basis_points :: u64
  fee_lamports :: u64
  creator_fee_basis_points :: u64
  creator_fee_lamports :: u64
  trade_slot :: u64
  timestamp :: u64

record yurei_raydium_swap_t =
  amm :: "byte list"
  user_source_owner :: "byte list"
  amount_in :: u64
  amount_out :: u64
  swap_slot :: u64

text \<open>The union; which member is live is what was stored last.\<close>

datatype yurei_event_data =
    Pumpfun_Trade yurei_pumpfun_trade_t
  | Raydium_Swap yurei_raydium_swap_t

record yurei_event_t =
  event_type :: yurei_event_type_t
  event_signature :: string
  event_data :: yurei_event_data

text \<open>\<open>yurei_event_t event = {0}\<close>: every byte zero, the union through its first member.\<close>

definition zero_trade :: yurei_pumpfun_trade_t where
  "zero_trade = \<lparr>mint = replicate 32 0, trader = replicate 32 0, creator = replicate 32 0,
     sol_amount = 0, token_amount = 0, is_buy = False, virtual_sol_reserves = 0,
     virtual_token_reserves = 0, real_sol_reserves = 0, real_token_reserves = 0,
     fee_basis_points = 0, fee_lamports = 0, creator_fee_basis_points = 0,
     creator_fee_lamports = 0, trade_slot = 0, timestamp = 0\<rparr>"

definition zero_swap :: yurei_raydium_swap_t where
  "zero_swap = \<lparr>amm = replicate 32 0, user_source_owner = replicate 32 0, amount_in = 0,
     amount_out = 0, swap_slot = 0\<rparr>"

definition zero_event :: yurei_event_t where
  "zero_event = \<lparr>event_type = YUREI_EVENT_NONE,
     event_signature = replicate YUREI_MAX_SIGNATURE_LEN (CHR 0x00),
     event_data = Pumpfun_Trade zero_trade\<rparr>"

text \<open>The text a \<open>%s\<close> prints for a signature: the characters before the terminator.\<close>

definition c_str :: "string \<Rightarrow> string" where
  "c_str buf = takeWhile (\<lambda>c. c \<noteq> CHR 0x00) buf"

lemma c_str_append: "CHR 0x00 \<notin> set s \<Longrightarrow> c_str (s @ CHR 0x00 # r) = s"
  by (simp add: c_str_def takeWhile_append)

lemma c_str_empty [simp]: "c_str (CHR 0x00 # r) = []"
  by (simp add: c_str_def)

text \<open>
  The well-formed events: the live union member agrees with the tag, the keys have their
  length, and the signature is terminated inside its array.
\<close>

definition trade_wf :: "yurei_pumpfun_trade_t \<Rightarrow> bool" where
  "trade_wf t \<longleftrightarrow> length (mint t) = 32 \<and> length (trader t) = 32 \<and> length (creator t) = 32"

definition swap_wf :: "yurei_raydium_swap_t \<Rightarrow> bool" where
  "swap_wf s \<longleftrightarrow> length (amm s) = 32 \<and> length (user_source_owner s) = 32"

definition event_wf :: "yurei_event_t \<Rightarrow> bool" where
  "event_wf e \<longleftrightarrow>
     length (event_signature e) = YUREI_MAX_SIGNATURE_LEN \<and> CHR 0x00 \<in> set (event_signature e) \<and>
     (case event_data e of
        Pumpfun_Trade t \<Rightarrow> event_type e = YUREI_EVENT_PUMPFUN_TRADE \<and> trade_wf t
      | Raydium_Swap s \<Rightarrow> event_type e = YUREI_EVENT_RAYDIUM_SWAP \<and> swap_wf s)"

end
