(* ===== verification/Pumpfun_Parser.thy ===== *)
theory Pumpfun_Parser
  imports Base64 Yurei_Event
begin

text \<open>
  \<^verbatim>\<open>src/src/pumpfun_parser.c\<close>: the packed trade layout, the parser that overlays it on a
  byte buffer, and the parser of a whole log line. A pointer argument that the code compares
  with \<open>NULL\<close> is an option. \<open>None\<close> as the result of the log line parser is the decoder's store
  past its buffer.
\<close>

section \<open>The packed layout\<close>

record pumpfun_trade_layout_t =
  l_mint :: "byte list"
  l_sol_amount :: u64
  l_token_amount :: u64
  l_is_buy :: byte
  l_user :: "byte list"
  l_timestamp :: u64
  l_virtual_sol_reserves :: u64
  l_virtual_token_reserves :: u64
  l_real_sol_reserves :: u64
  l_real_token_reserves :: u64
  l_fee_recipient :: "byte list"
  l_fee_basis_points :: u64
  l_fee :: u64
  l_creator :: "byte list"
  l_creator_fee_basis_points :: u64
  l_creator_fee :: u64
  l_track_volume :: byte
  l_total_unclaimed_tokens :: u64
  l_total_claimed_tokens :: u64
  l_current_sol_volume :: u64
  l_last_update_timestamp :: u64

text \<open>The object representation under \<open>#pragma pack(1)\<close>: the members one after the other.\<close>

definition pumpfun_layout_bytes :: "pumpfun_trade_layout_t \<Rightarrow> byte list" where
  "pumpfun_layout_bytes l =
     l_mint l @ store_u64 (l_sol_amount l) @ store_u64 (l_token_amount l) @ [l_is_buy l] @
     l_user l @ store_u64 (l_timestamp l) @ store_u64 (l_virtual_sol_reserves l) @
     store_u64 (l_virtual_token_reserves l) @ store_u64 (l_real_sol_reserves l) @
     store_u64 (l_real_token_reserves l) @ l_fee_recipient l @ store_u64 (l_fee_basis_points l) @
     store_u64 (l_fee l) @ l_creator l @ store_u64 (l_creator_fee_basis_points l) @
     store_u64 (l_creator_fee l) @ [l_track_volume l] @ store_u64 (l_total_unclaimed_tokens l) @
     store_u64 (l_total_claimed_tokens l) @ store_u64 (l_current_sol_volume l) @
     store_u64 (l_last_update_timestamp l)"

definition pumpfun_layout_wf :: "pumpfun_trade_layout_t \<Rightarrow> bool" where
  "pumpfun_layout_wf l \<longleftrightarrow> length (l_mint l) = 32 \<and> length (l_user l) = 32 \<and>
     length (l_fee_recipient l) = 32 \<and> length (l_creator l) = 32"

text \<open>\<open>sizeof(pumpfun_trade_layout_t)\<close>, checked by the code's static assertion.\<close>

definition pumpfun_layout_size :: nat where
  "pumpfun_layout_size = 250"

text \<open>The cast \<open>(const pumpfun_trade_layout_t *)data\<close>, member by member at its offset.\<close>

definition pumpfun_overlay :: "byte list \<Rightarrow> pumpfun_trade_layout_t" where
  "pumpfun_overlay d =
     \<lparr>l_mint = chunk 0 32 d,
      l_sol_amount = load_u64 (chunk 32 8 d),
      l_token_amount = load_u64 (chunk 40 8 d),
      l_is_buy = d ! 48,
      l_user = chunk 49 32 d,
      l_timestamp = load_u64 (chunk 81 8 d),
      l_virtual_sol_reserves = load_u64 (chunk 89 8 d),
      l_virtual_token_reserves = load_u64 (chunk 97 8 d),
      l_real_sol_reserves = load_u64 (chunk 105 8 d),
      l_real_token_reserves = load_u64 (chunk 113 8 d),
      l_fee_recipient = chunk 121 32 d,
      l_fee_basis_points = load_u64 (chunk 153 8 d),
      l_fee = load_u64 (chunk 161 8 d),
      l_creator = chunk 169 32 d,
      l_creator_fee_basis_points = load_u64 (chunk 201 8 d),
      l_creator_fee = load_u64 (chunk 209 8 d),
      l_track_volume = d ! 217,
      l_total_unclaimed_tokens = load_u64 (chunk 218 8 d),
      l_total_claimed_tokens = load_u64 (chunk 226 8 d),
      l_current_sol_volume = load_u64 (chunk 234 8 d),
      l_last_update_timestamp = load_u64 (chunk 242 8 d)\<rparr>"

section \<open>The parsers\<close>

definition pumpfun_parse_trade ::
  "byte list option \<Rightarrow> nat \<Rightarrow> yurei_pumpfun_trade_t option \<Rightarrow> bool \<times> yurei_pumpfun_trade_t option" where
  "pumpfun_parse_trade data len out =
     (case (data, out) of
        (Some data, Some out) \<Rightarrow>
          if len < pumpfun_layout_size then (False, Some out)
          else let layout = pumpfun_overlay data in
            (True, Some (out\<lparr>
               mint := l_mint layout,
               trader := l_user layout,
               creator := l_creator layout,
               sol_amount := l_sol_amount layout,
               token_amount := l_token_amount layout,
               is_buy := (l_is_buy layout \<noteq> 0),
               virtual_sol_reserves := l_virtual_sol_reserves layout,
               virtual_token_reserves := l_virtual_token_reserves layout,
               real_sol_reserves := l_real_sol_reserves layout,
               real_token_reserves := l_real_token_reserves layout,
               fee_basis_points := l_fee_basis_points layout,
               fee_lamports := l_fee layout,
               creator_fee_basis_points := l_creator_fee_basis_points layout,
               creator_fee_lamports := l_creator_fee layout,
               timestamp := l_timestamp layout,
               trade_slot := 0\<rparr>))
      | _ \<Rightarrow> (False, out))"

text \<open>\<open>stack\<close> is the uninitialised local array \<open>buffer[512]\<close>.\<close>

definition pumpfun_parse_log_line ::
  "string option \<Rightarrow> byte list \<Rightarrow> yurei_pumpfun_trade_t option \<Rightarrow> (bool \<times> yurei_pumpfun_trade_t option) checked" where
  "pumpfun_parse_log_line log_line stack out =
     (case (log_line, out) of
        (Some log_line, Some _) \<Rightarrow>
          (let needle = ''Program data: '' in
           case strstr log_line needle of
             None \<Rightarrow> Some (False, out)
           | Some pos \<Rightarrow>
               (let pos = drop (length needle) pos; len = length pos in
                if len = 0 then Some (False, out)
                else case base64_decode pos stack 512 0 of
                  None \<Rightarrow> None
                | Some (rc, buffer, produced) \<Rightarrow>
                    if rc \<noteq> 0 then Some (False, out)
                    else Some (pumpfun_parse_trade (Some buffer) produced out)))
      | _ \<Rightarrow> Some (False, out))"

section \<open>The overlay reads back what the layout holds\<close>

lemma length_pumpfun_layout: "pumpfun_layout_wf l \<Longrightarrow> length (pumpfun_layout_bytes l) = pumpfun_layout_size"
  by (simp add: pumpfun_layout_bytes_def pumpfun_layout_wf_def pumpfun_layout_size_def)

lemma nth_append_skip: "length xs \<le> i \<Longrightarrow> (xs @ ys) ! i = ys ! (i - length xs)"
  by (simp add: nth_append)

lemma pumpfun_overlay_layout:
  assumes "pumpfun_layout_wf l"
  shows "pumpfun_overlay (pumpfun_layout_bytes l @ rest) = l"
  using assms
  by (simp add: pumpfun_overlay_def pumpfun_layout_bytes_def pumpfun_layout_wf_def nth_append_skip)

text \<open>The trade that a layout stands for, as the parser leaves it.\<close>

definition trade_of_layout :: "pumpfun_trade_layout_t \<Rightarrow> yurei_pumpfun_trade_t" where
  "trade_of_layout l =
     \<lparr>mint = l_mint l, trader = l_user l, creator = l_creator l,
      sol_amount = l_sol_amount l, token_amount = l_token_amount l, is_buy = (l_is_buy l \<noteq> 0),
      virtual_sol_reserves = l_virtual_sol_reserves l, virtual_token_reserves = l_virtual_token_reserves l,
      real_sol_reserves = l_real_sol_reserves l, real_token_reserves = l_real_token_reserves l,
      fee_basis_points = l_fee_basis_points l, fee_lamports = l_fee l,
      creator_fee_basis_points = l_creator_fee_basis_points l, creator_fee_lamports = l_creator_fee l,
      trade_slot = 0, timestamp = l_timestamp l\<rparr>"

lemma pumpfun_parse_trade_eq:
  "pumpfun_parse_trade (Some data) len (Some out) =
    (if len < pumpfun_layout_size then (False, Some out)
     else (True, Some (trade_of_layout (pumpfun_overlay data))))"
  by (simp add: pumpfun_parse_trade_def trade_of_layout_def Let_def)

lemma trade_of_overlay_wf:
  "pumpfun_layout_size \<le> length data \<Longrightarrow> trade_wf (trade_of_layout (pumpfun_overlay data))"
  by (simp add: trade_wf_def trade_of_layout_def pumpfun_overlay_def pumpfun_layout_size_def)

text \<open>The layout of the repository's parser test.\<close>

definition pumpfun_test_layout :: pumpfun_trade_layout_t where
  "pumpfun_test_layout =
     \<lparr>l_mint = map word_of_nat [0..<32], l_sol_amount = 42, l_token_amount = 1337, l_is_buy = 1,
      l_user = map (\<lambda>i. word_of_nat (i + 1)) [0..<32], l_timestamp = 123456789,
      l_virtual_sol_reserves = 10, l_virtual_token_reserves = 20, l_real_sol_reserves = 30,
      l_real_token_reserves = 40, l_fee_recipient = replicate 32 0, l_fee_basis_points = 50,
      l_fee = 60, l_creator = map (\<lambda>i. word_of_nat (i + 2)) [0..<32],
      l_creator_fee_basis_points = 70, l_creator_fee = 80, l_track_volume = 0,
      l_total_unclaimed_tokens = 0, l_total_claimed_tokens = 0, l_current_sol_volume = 0,
      l_last_update_timestamp = 0\<rparr>"

lemma pumpfun_test_layout_wf: "pumpfun_layout_wf pumpfun_test_layout"
  by (simp add: pumpfun_layout_wf_def pumpfun_test_layout_def)

text \<open>A buffer of 512 bytes takes every payload of up to 510 bytes.\<close>

lemma base64_decode_fits:
  assumes "length bs \<le> 3 * m" and "3 * m \<le> length out" and "length bs \<le> out_cap"
  shows "base64_decode (base64_encode bs) out out_cap produced =
    Some (0, mem_write 0 (bs @ base64_padding bs) out, length (bs @ base64_padding bs))"
proof -
  have "(length bs + 2) div 3 \<le> m" using assms(1) by linarith
  then have "length (bs @ base64_padding bs) \<le> length out"
    unfolding length_padded using assms(2) by linarith
  then show ?thesis
    using assms(3) unfolding base64_decode_eq base64_bytes_encode base64_decoded_size_encode by simp
qed

section \<open>Properties\<close>

text \<open>
  C28. The overlay parser mirrors the layout. On the packed bytes of any trade layout, with
  anything after them and whatever \<open>*out\<close> held, \<open>pumpfun_parse_trade\<close> succeeds and every
  member of \<open>*out\<close> is the layout's (the flag byte as a boolean, the slot zero): no member
  keeps an old or uninitialised value.
\<close>

theorem pumpfun_parse_mirrors_layout:
  assumes "pumpfun_layout_wf l" and "data = pumpfun_layout_bytes l @ rest" and "pumpfun_layout_size \<le> len"
  shows "pumpfun_parse_trade (Some data) len (Some out) = (True, Some (trade_of_layout l))"
  using assms by (simp add: pumpfun_parse_trade_eq pumpfun_overlay_layout)

theorem pumpfun_parse_mirrors_layout_witness:
  "sol_amount (the (snd (pumpfun_parse_trade (Some (pumpfun_layout_bytes pumpfun_test_layout)) 250 (Some zero_trade)))) = 42 \<and>
   creator_fee_lamports (the (snd (pumpfun_parse_trade (Some (pumpfun_layout_bytes pumpfun_test_layout)) 250 (Some zero_trade)))) = 80"
proof -
  have "pumpfun_layout_size \<le> 250" by (simp add: pumpfun_layout_size_def)
  from pumpfun_parse_mirrors_layout [OF pumpfun_test_layout_wf _ this,
      of "pumpfun_layout_bytes pumpfun_test_layout" "[]" zero_trade]
  have "pumpfun_parse_trade (Some (pumpfun_layout_bytes pumpfun_test_layout)) 250 (Some zero_trade) =
      (True, Some (trade_of_layout pumpfun_test_layout))" by simp
  then show ?thesis by (simp add: trade_of_layout_def pumpfun_test_layout_def)
qed

text \<open>
  When the overlay parser refuses. It returns true exactly when both pointers are there and
  at least 250 bytes are given, and when it returns false \<open>*out\<close> is untouched.
\<close>

theorem pumpfun_parse_refuses:
  "(fst (pumpfun_parse_trade data len out) \<longleftrightarrow> data \<noteq> None \<and> out \<noteq> None \<and> 250 \<le> len) \<and>
   (fst (pumpfun_parse_trade data len out) \<or> snd (pumpfun_parse_trade data len out) = out)"
  by (auto simp: pumpfun_parse_trade_def pumpfun_layout_size_def Let_def split: option.splits)

text \<open>
  A whole log line. If the text after the first \<open>Program data: \<close> is the base64 of a trade
  layout followed by at most 260 more bytes, \<open>pumpfun_parse_log_line\<close> stays inside its 512-byte
  buffer and produces that layout's trade.
\<close>

theorem pumpfun_log_line_parses:
  assumes "strstr line ''Program data: '' = Some (''Program data: '' @ base64_encode (pumpfun_layout_bytes l @ extra))"
    and "pumpfun_layout_wf l" and "length extra \<le> 260" and "length stack = 512"
  shows "pumpfun_parse_log_line (Some line) stack (Some out) = Some (True, Some (trade_of_layout l))"
proof -
  let ?bs = "pumpfun_layout_bytes l @ extra"
  have len: "length ?bs = 250 + length extra"
    using length_pumpfun_layout [OF assms(2)] by (simp add: pumpfun_layout_size_def)
  have enc: "length (base64_encode ?bs) \<noteq> 0"
    unfolding length_base64_encode len by simp
  have dec: "base64_decode (base64_encode ?bs) stack 512 0 =
      Some (0, mem_write 0 (?bs @ base64_padding ?bs) stack, length (?bs @ base64_padding ?bs))"
    by (rule base64_decode_fits [of _ 170]) (use len assms(3,4) in simp_all)
  have "pumpfun_parse_trade (Some (mem_write 0 (?bs @ base64_padding ?bs) stack))
      (length (?bs @ base64_padding ?bs)) (Some out) = (True, Some (trade_of_layout l))"
    using len pumpfun_overlay_layout [OF assms(2)]
    by (simp add: pumpfun_parse_trade_eq mem_write_0 pumpfun_layout_size_def)
  with dec enc show ?thesis
    unfolding pumpfun_parse_log_line_def Let_def option.case prod.case assms(1) by simp
qed

theorem pumpfun_log_line_parses_witness:
  "pumpfun_parse_log_line (Some (''Program data: '' @ base64_encode (pumpfun_layout_bytes pumpfun_test_layout)))
     (replicate 512 7) (Some zero_trade) = Some (True, Some (trade_of_layout pumpfun_test_layout))"
proof -
  have "strstr (''Program data: '' @ base64_encode (pumpfun_layout_bytes pumpfun_test_layout)) ''Program data: '' =
      Some (''Program data: '' @ base64_encode (pumpfun_layout_bytes pumpfun_test_layout @ []))"
    using strstr_at_start by (simp only: append_Nil2)
  from pumpfun_log_line_parses [OF this pumpfun_test_layout_wf] show ?thesis by simp
qed

text \<open>
  A log line can overflow the stack buffer. The base64 of any 511 or 512 bytes is within
  what the capacity check admits for the 512-byte buffer, and decoding it stores one byte past
  the buffer's end.
\<close>

theorem pumpfun_log_line_overflows:
  assumes "strstr line ''Program data: '' = Some (''Program data: '' @ base64_encode bs)"
    and "length bs = 511 \<or> length bs = 512" and "length stack = 512"
  shows "pumpfun_parse_log_line (Some line) stack (Some out) = None"
proof -
  have "length (bs @ base64_padding bs) = 513" unfolding length_padded using assms(2) by auto
  then have "base64_decode (base64_encode bs) stack 512 0 = None"
    using assms(2,3) unfolding base64_decode_eq base64_bytes_encode base64_decoded_size_encode by auto
  moreover have "length (base64_encode bs) \<noteq> 0"
    unfolding length_base64_encode using assms(2) by auto
  ultimately show ?thesis
    unfolding pumpfun_parse_log_line_def Let_def option.case prod.case assms(1) by simp
qed

theorem pumpfun_log_line_overflows_witness:
  "pumpfun_parse_log_line (Some (''Program data: '' @ base64_encode (replicate 512 65)))
     (replicate 512 0) (Some zero_trade) = None"
  by (rule pumpfun_log_line_overflows [OF strstr_at_start]) simp_all

end
