(* ===== verification/Raydium_Parser.thy ===== *)
theory Raydium_Parser
  imports Yurei_Event
begin

text \<open>
  \<^verbatim>\<open>src/src/raydium_parser.c\<close>: the cursor reads and the swap parser built from them. A read
  that does not fit leaves the cursor where it is; the parser looks at the outcome of some
  reads and ignores that of others, and the theory finds out which inputs it accepts.
\<close>

section \<open>Cursor reads\<close>

text \<open>\<open>None\<close> is \<open>false\<close>; otherwise the value and the cursor behind it.\<close>

definition read_u64 :: "byte list \<Rightarrow> nat \<Rightarrow> nat \<Rightarrow> (u64 \<times> nat) option" where
  "read_u64 data len offset =
     (if offset + 8 > len then None
      else Some (load_u64 (chunk offset 8 data), offset + 8))"

text \<open>The pointer that is returned, as the 32 bytes it points to, and the cursor.\<close>

definition read_pubkey :: "byte list \<Rightarrow> nat \<Rightarrow> nat \<Rightarrow> byte list option \<times> nat" where
  "read_pubkey data len offset =
     (if offset + 32 > len then (None, offset)
      else (Some (chunk offset 32 data), offset + 32))"

section \<open>The parser\<close>

definition raydium_parse_swap ::
  "byte list option \<Rightarrow> nat \<Rightarrow> yurei_raydium_swap_t option \<Rightarrow> bool \<times> yurei_raydium_swap_t option" where
  "raydium_parse_swap data len out =
     (case (data, out) of
        (Some data, Some out) \<Rightarrow>
          (case read_u64 data len 0 of
             None \<Rightarrow> (False, Some out)
           | Some (v, offset) \<Rightarrow>
             (let out = out\<lparr>amount_in := v\<rparr> in
              case read_u64 data len offset of
                None \<Rightarrow> (False, Some out)
              | Some (minimum_amount_out, offset) \<Rightarrow>
                (case read_u64 data len offset of
                   None \<Rightarrow> (False, Some out)
                 | Some (max_amount_in, offset) \<Rightarrow>
                   (case read_u64 data len offset of
                      None \<Rightarrow> (False, Some out)
                    | Some (v, offset) \<Rightarrow>
                      (let out = out\<lparr>amount_out := v\<rparr>;
                           (token_program, offset) = read_pubkey data len offset;
                           (amm_ptr, offset) = read_pubkey data len offset
                       in case amm_ptr of
                            None \<Rightarrow> (False, Some out)
                          | Some key \<Rightarrow>
                            (let out = out\<lparr>amm := key\<rparr>;
                                 (amm_authority, offset) = read_pubkey data len offset;
                                 (amm_open_orders, offset) = read_pubkey data len offset
                             in if offset \<ge> len then (False, Some out)
                                else let has_target = data ! offset; offset = offset + 1;
                                         (target, offset) =
                                           (if has_target \<noteq> 0 then read_pubkey data len offset else (Some [], offset))
                                     in if has_target \<noteq> 0 \<and> target = None then (False, Some out)
                                        else let (pool_coin, offset) = read_pubkey data len offset;
                                                 (pool_pc, offset) = read_pubkey data len offset;
                                                 (serum_program, offset) = read_pubkey data len offset;
                                                 (serum_market, offset) = read_pubkey data len offset;
                                                 (serum_bids, offset) = read_pubkey data len offset;
                                                 (serum_asks, offset) = read_pubkey data len offset;
                                                 (serum_event_queue, offset) = read_pubkey data len offset;
                                                 (serum_coin_vault, offset) = read_pubkey data len offset;
                                                 (serum_pc_vault, offset) = read_pubkey data len offset;
                                                 (serum_signer, offset) = read_pubkey data len offset;
                                                 (user_source, offset) = read_pubkey data len offset;
                                                 (user_destination, offset) = read_pubkey data len offset;
                                                 (user_owner, offset) = read_pubkey data len offset
                                             in case user_owner of
                                                  None \<Rightarrow> (False, Some out)
                                                | Some key \<Rightarrow> (True, Some (out\<lparr>user_source_owner := key\<rparr>))))))))
      | _ \<Rightarrow> (False, out))"

section \<open>Reads whose outcome is ignored\<close>

definition skip_pubkey :: "byte list \<Rightarrow> nat \<Rightarrow> nat \<Rightarrow> nat" where
  "skip_pubkey data len offset = snd (read_pubkey data len offset)"

lemma read_pubkey_eq:
  "read_pubkey data len offset =
    (if offset + 32 \<le> len then Some (chunk offset 32 data) else None, skip_pubkey data len offset)"
  by (simp add: read_pubkey_def skip_pubkey_def)

text \<open>Any number of ignored reads advances by whole keys as far as they fit.\<close>

lemma skip_pubkeys:
  "offset \<le> len \<Longrightarrow> (skip_pubkey data len ^^ k) offset = offset + 32 * min k ((len - offset) div 32)"
proof (induction k arbitrary: offset)
  case (Suc k)
  show ?case
  proof (cases "offset + 32 \<le> len")
    case True
    then have "(len - offset) div 32 = Suc ((len - (offset + 32)) div 32)"
      by (simp add: le_div_geq)
    moreover have "skip_pubkey data len offset = offset + 32"
      using True by (simp add: skip_pubkey_def read_pubkey_def)
    ultimately show ?thesis
      using Suc.IH [of "offset + 32"] True by (simp add: funpow_swap1)
  next
    case False
    then have "(len - offset) div 32 = 0" and "skip_pubkey data len offset = offset"
      by (simp_all add: skip_pubkey_def read_pubkey_def)
    with Suc show ?thesis by (simp add: funpow_swap1)
  qed
qed simp

lemma skip_pubkeys_fit:
  assumes "offset \<le> len"
  shows "(skip_pubkey data len ^^ k) offset + 32 \<le> len \<longleftrightarrow> offset + 32 * Suc k \<le> len" (is ?fit)
    and "offset + 32 * k \<le> len \<Longrightarrow> (skip_pubkey data len ^^ k) offset = offset + 32 * k"
proof -
  have "32 * k \<le> len - offset \<longleftrightarrow> k \<le> (len - offset) div 32"
    by (simp add: less_eq_div_iff_mult_less_eq mult.commute)
  then show "offset + 32 * k \<le> len \<Longrightarrow> (skip_pubkey data len ^^ k) offset = offset + 32 * k"
    using assms skip_pubkeys [OF assms, where data = data and k = k] by (simp add: min_def)
  have "32 * ((len - offset) div 32) + 32 > len - offset"
    by (metis add.commute dividend_less_div_times mult.commute zero_less_numeral)
  then show ?fit
    using assms skip_pubkeys [OF assms, where data = data and k = k] \<open>32 * k \<le> len - offset \<longleftrightarrow> k \<le> (len - offset) div 32\<close>
    by (auto simp: min_def split: if_splits)
qed

text \<open>Where the last key lies: behind the flag byte and, if the flag is set, one more key.\<close>

definition raydium_min_size :: "byte list \<Rightarrow> nat" where
  "raydium_min_size data = 577 + (if data ! 160 \<noteq> 0 then 32 else 0)"

lemma funpow_skip: "(f ^^ 2) x = f (f x)" "(f ^^ 4) x = f (f (f (f x)))"
  "(f ^^ 12) x = f (f (f (f (f (f (f (f (f (f (f (f x)))))))))))"
  by (simp_all add: eval_nat_numeral)

text \<open>The parser with its reads resolved; \<open>skip\<close> stands for a read whose outcome is ignored.\<close>

lemma raydium_parse_steps:
  fixes data len defines "skip \<equiv> skip_pubkey data len"
  shows "raydium_parse_swap (Some data) len (Some out) =
    (if len < 8 then (False, Some out)
     else let out = out\<lparr>amount_in := load_u64 (chunk 0 8 data)\<rparr> in
       if len < 32 then (False, Some out)
       else let out = out\<lparr>amount_out := load_u64 (chunk 24 8 data)\<rparr> in
         if len < skip 32 + 32 then (False, Some out)
         else let out = out\<lparr>amm := chunk (skip 32) 32 data\<rparr>; offset = (skip ^^ 4) 32
              in if len \<le> offset \<or> data ! offset \<noteq> 0 \<and> len < offset + 33 then (False, Some out)
                 else let offset = (skip ^^ 12) (if data ! offset \<noteq> 0 then skip (offset + 1) else offset + 1)
                      in if len < offset + 32 then (False, Some out)
                         else (True, Some (out\<lparr>user_source_owner := chunk offset 32 data\<rparr>)))"
  unfolding raydium_parse_swap_def read_u64_def read_pubkey_eq Let_def funpow_skip skip_def
  by (auto simp: not_le not_less)

lemma raydium_parse_value:
  assumes "raydium_min_size data \<le> len"
  shows "raydium_parse_swap (Some data) len (Some out) =
    (True, Some (out\<lparr>amount_in := load_u64 (chunk 0 8 data), amount_out := load_u64 (chunk 24 8 data),
       amm := chunk 64 32 data, user_source_owner := chunk (raydium_min_size data - 32) 32 data\<rparr>))"
proof -
  define flag where "flag = (if data ! 160 \<noteq> 0 then 32 else 0 :: nat)"
  have room: "577 + flag \<le> len"
    using assms by (simp add: raydium_min_size_def flag_def)
  have four: "(skip_pubkey data len ^^ 4) 32 = 160"
    using skip_pubkeys_fit(2) [of 32 len 4 data] room by simp
  have one: "skip_pubkey data len 32 = 64" "data ! 160 \<noteq> 0 \<Longrightarrow> skip_pubkey data len 161 = 193"
    using room by (simp_all add: skip_pubkey_def read_pubkey_def flag_def)
  have twelve: "(skip_pubkey data len ^^ 12) (161 + flag) = 545 + flag"
    using skip_pubkeys_fit(2) [of "161 + flag" len 12 data] room by simp
  have start: "(if data ! 160 \<noteq> 0 then skip_pubkey data len (160 + 1) else 160 + 1) = 161 + flag"
    using one by (simp add: flag_def)
  have "545 + flag = raydium_min_size data - 32"
    by (simp add: raydium_min_size_def flag_def)
  then show ?thesis
    unfolding raydium_parse_steps Let_def four start twelve one(1) using room by simp
qed

lemma raydium_parse_short:
  assumes "len < raydium_min_size data"
  shows "fst (raydium_parse_swap (Some data) len (Some out)) = False"
proof (cases "len < 64")
  case True
  have "32 \<le> skip_pubkey data len 32"
    by (simp add: skip_pubkey_def read_pubkey_def)
  with True show ?thesis
    unfolding raydium_parse_steps Let_def by simp
next
  case False
  define n where "n = min 4 ((len - 32) div 32)"
  have four: "(skip_pubkey data len ^^ 4) 32 = 32 + 32 * n"
    using skip_pubkeys [of 32 len 4 data] False by (simp add: n_def)
  show ?thesis
  proof (cases "len \<le> 32 + 32 * n \<or> data ! (32 + 32 * n) \<noteq> 0 \<and> len < 32 + 32 * n + 33")
    case True
    then show ?thesis unfolding raydium_parse_steps Let_def four by auto
  next
    case more: False
    define offset where "offset = (if data ! (32 + 32 * n) \<noteq> 0 then skip_pubkey data len (32 + 32 * n + 1) else 32 + 32 * n + 1)"
    have offset: "offset = 33 + 32 * n + (if data ! (32 + 32 * n) \<noteq> 0 then 32 else 0)" "offset \<le> len"
      using more by (auto simp: offset_def skip_pubkey_def read_pubkey_def)
    have "len < offset + 32 * Suc 12"
    proof (cases "n = 4")
      case True
      with offset assms show ?thesis by (auto simp: raydium_min_size_def)
    next
      case False
      then have "n = (len - 32) div 32" by (simp add: n_def min_def split: if_splits)
      then have "len - 32 < 32 * n + 32" by (simp add: div_less_iff_less_mult mult.commute)
      with offset show ?thesis by auto
    qed
    then have "len < (skip_pubkey data len ^^ 12) offset + 32"
      using skip_pubkeys_fit(1) [OF offset(2), where data = data and k = 12] by linarith
    then show ?thesis
      unfolding raydium_parse_steps Let_def four offset_def by simp
  qed
qed

section \<open>What the parser accepts\<close>

text \<open>
  The parser accepts exactly the inputs that hold all sixteen mandatory keys: 577 bytes, or
  609 when the byte behind the fourth key announces a target account. None of the reads whose
  outcome the code ignores lets a shorter input through, because an ignored read leaves the
  cursor where the last, checked read will miss the end as well.
\<close>

theorem raydium_accepts_iff:
  "fst (raydium_parse_swap (Some data) len (Some out)) \<longleftrightarrow> raydium_min_size data \<le> len"
  by (cases "raydium_min_size data \<le> len") (simp_all add: raydium_parse_value raydium_parse_short)

text \<open>
  C27. On an accepted input the amounts are the first and the fourth word, the pool is the second
  key, and the owner the last key; every key is 32 bytes of the input, and the slot and every
  other field of the caller's record keep their value.
\<close>

theorem raydium_parse_fields:
  assumes "raydium_min_size data \<le> len" and "len \<le> length data" and "swap_wf out"
  shows "\<exists>swap. raydium_parse_swap (Some data) len (Some out) = (True, Some swap) \<and> swap_wf swap \<and>
    amount_in swap = load_u64 (take 8 data) \<and> amount_out swap = load_u64 (take 8 (drop 24 data)) \<and>
    amm swap = take 32 (drop 64 data) \<and>
    user_source_owner swap = take 32 (drop (if data ! 160 \<noteq> 0 then 577 else 545) data) \<and>
    swap_slot swap = swap_slot out"
proof -
  have "raydium_min_size data - 32 + 32 \<le> length data" "577 \<le> length data"
    using assms(1,2) by (simp_all add: raydium_min_size_def)
  then show ?thesis
    using assms(3) unfolding raydium_parse_value [OF assms(1)]
    by (auto simp: swap_wf_def chunk_def raydium_min_size_def)
qed

definition raydium_test_data :: "byte list" where
  "raydium_test_data = replicate 8 1 @ replicate 16 0 @ replicate 8 2 @ replicate 32 3 @ replicate 32 4 @
     replicate 64 5 @ [0] @ replicate 384 6 @ replicate 32 7"

theorem raydium_parse_fields_witness:
  "\<exists>swap. raydium_parse_swap (Some raydium_test_data) 577 (Some zero_swap) = (True, Some swap) \<and>
    amm swap = replicate 32 4 \<and> user_source_owner swap = replicate 32 7"
proof -
  have "raydium_test_data ! 160 = 0" and "length raydium_test_data = 577"
    by (simp_all add: raydium_test_data_def nth_append)
  moreover have "swap_wf zero_swap" by (simp add: swap_wf_def zero_swap_def)
  moreover have "take 32 (drop 64 raydium_test_data) = replicate 32 4" "take 32 (drop 545 raydium_test_data) = replicate 32 7"
    by (simp_all add: raydium_test_data_def)
  ultimately show ?thesis
    using raydium_parse_fields [of raydium_test_data 577 zero_swap] by (auto simp: raydium_min_size_def)
qed

text \<open>
  A missing input or a missing record is refused without touching anything, and a refused
  input leaves the owner and the slot of the record alone.
\<close>

theorem raydium_refusals:
  "raydium_parse_swap None len out = (False, out) \<and> raydium_parse_swap data len None = (False, None) \<and>
   (case raydium_parse_swap (Some bytes) len (Some swap) of
      (accepted, Some swap') \<Rightarrow> swap_slot swap' = swap_slot swap \<and> (\<not> accepted \<longrightarrow> user_source_owner swap' = user_source_owner swap)
    | (_, None) \<Rightarrow> False)"
proof -
  have "case raydium_parse_swap (Some bytes) len (Some swap) of
      (accepted, Some swap') \<Rightarrow> swap_slot swap' = swap_slot swap \<and> (\<not> accepted \<longrightarrow> user_source_owner swap' = user_source_owner swap)
    | (_, None) \<Rightarrow> False"
    unfolding raydium_parse_steps Let_def by (simp split: if_split)
  then show ?thesis by (simp add: raydium_parse_swap_def split: option.split)
qed

end
