(* ===== verification/Protocol_Detector.thy ===== *)
theory Protocol_Detector
  imports Yurei_Event
begin

text \<open>
  \<^verbatim>\<open>src/src/protocol_detector.c\<close>: the search for a program id in a byte string, in the three
  variants the preprocessor chooses from, and the classification of a transaction by its
  account keys. A pointer and its length are one list; a null pointer is \<open>None\<close>.
\<close>

definition PROGRAM_ID_LEN :: nat where
  "PROGRAM_ID_LEN = 32"

datatype yurei_protocol_t = YUREI_PROTOCOL_NONE | YUREI_PROTOCOL_PUMPFUN | YUREI_PROTOCOL_RAYDIUM

record yurei_protocol_pattern_t =
  program_id :: "byte list"
  enabled :: bool

record yurei_protocol_detector_t =
  pumpfun :: yurei_protocol_pattern_t
  raydium :: yurei_protocol_pattern_t

section \<open>The search\<close>

text \<open>A vector load of \<open>w\<close> bytes at \<open>buf + i\<close>, and the lane comparison with its bit mask.\<close>

definition loadu :: "nat \<Rightarrow> byte list \<Rightarrow> nat \<Rightarrow> byte list checked" where
  "loadu w buf i = (if i + w \<le> length buf then Some (chunk i w buf) else None)"

definition movemask_cmpeq :: "byte list \<Rightarrow> byte list \<Rightarrow> u32" where
  "movemask_cmpeq a b = horner_sum of_bool 2 (map2 (=) a b)"

definition builtin_ctz :: "u32 \<Rightarrow> nat" where
  "builtin_ctz lanes = length (takeWhile (\<lambda>n. \<not> bit lanes n) [0..<32])"

text \<open>\<open>pos + needle_len <= haystack_len && memcmp(haystack + pos, needle, needle_len) == 0\<close>\<close>

definition occurs_at :: "byte list \<Rightarrow> byte list \<Rightarrow> nat \<Rightarrow> bool" where
  "occurs_at haystack needle pos \<longleftrightarrow>
     pos + length needle \<le> length haystack \<and> chunk pos (length needle) haystack = needle"

text \<open>
  \<open>while (mask)\<close>, on the \<open>int\<close> as its 32 bits: \<open>mask - 1\<close> overflows at \<open>INT_MIN\<close>, which is
  undefined behaviour.
\<close>

lemma and_minus_1_less: "lanes \<noteq> 0 \<Longrightarrow> unat (lanes AND (lanes - 1)) < unat lanes" for lanes :: u32
  by (metis linorder_not_le measure_unat order.trans word_and_le1 word_le_nat_alt)

function scan_mask :: "byte list \<Rightarrow> byte list \<Rightarrow> nat \<Rightarrow> u32 \<Rightarrow> nat option checked" where
  "scan_mask haystack needle i lanes =
     (if lanes = 0 then Some None
      else if lanes = 0x80000000 then None
      else let bit = builtin_ctz lanes; pos = i + bit in
           if occurs_at haystack needle pos then Some (Some pos)
           else scan_mask haystack needle i (lanes AND (lanes - 1)))"
  by pat_completeness auto
termination
  by (relation "measure (\<lambda>(_, _, _, lanes). unat lanes)") (auto simp: and_minus_1_less)

declare scan_mask.simps [simp del]

function memmem_avx2_loop :: "byte list \<Rightarrow> byte list \<Rightarrow> byte list \<Rightarrow> nat \<Rightarrow> nat option checked" where
  "memmem_avx2_loop haystack needle needle_vec i =
     (if i + length needle \<le> length haystack then
        (case loadu 32 haystack i of
           None \<Rightarrow> None
         | Some c \<Rightarrow>
             (let lanes = movemask_cmpeq c needle_vec in
              if lanes = -1 then
                (if chunk i (length needle) haystack = needle then Some (Some i)
                 else memmem_avx2_loop haystack needle needle_vec (i + 32))
              else (case scan_mask haystack needle i lanes of
                      None \<Rightarrow> None
                    | Some (Some pos) \<Rightarrow> Some (Some pos)
                    | Some None \<Rightarrow> memmem_avx2_loop haystack needle needle_vec (i + 32))))
      else Some None)"
  by pat_completeness auto
termination
  by (relation "measure (\<lambda>(haystack, _, _, i). Suc (length haystack) - i)") auto

function memmem_sse2_loop :: "byte list \<Rightarrow> byte list \<Rightarrow> byte list \<Rightarrow> nat \<Rightarrow> nat option checked" where
  "memmem_sse2_loop haystack needle first i =
     (if i + length needle \<le> length haystack then
        (case loadu 16 haystack i of
           None \<Rightarrow> None
         | Some c \<Rightarrow>
             (case scan_mask haystack needle i (movemask_cmpeq c first) of
                None \<Rightarrow> None
              | Some (Some pos) \<Rightarrow> Some (Some pos)
              | Some None \<Rightarrow> memmem_sse2_loop haystack needle first (i + 16)))
      else Some None)"
  by pat_completeness auto
termination
  by (relation "measure (\<lambda>(haystack, _, _, i). Suc (length haystack) - i)") auto

function memmem_scalar_loop :: "byte list \<Rightarrow> byte list \<Rightarrow> nat \<Rightarrow> nat option" where
  "memmem_scalar_loop haystack needle i =
     (if i + length needle \<le> length haystack then
        (if chunk i (length needle) haystack = needle then Some i
         else memmem_scalar_loop haystack needle (Suc i))
      else None)"
  by pat_completeness auto
termination
  by (relation "measure (\<lambda>(haystack, _, i). Suc (length haystack) - i)") auto

declare memmem_avx2_loop.simps [simp del] memmem_sse2_loop.simps [simp del] memmem_scalar_loop.simps [simp del]

text \<open>\<open>#if defined(__AVX2__) ... #elif defined(__SSE2__) ... #else\<close>\<close>

datatype simd_target = AVX2 | SSE2 | SCALAR

definition fast_memmem :: "simd_target \<Rightarrow> byte list \<Rightarrow> byte list \<Rightarrow> nat option checked" where
  "fast_memmem target haystack needle =
     (if length needle = 0 \<or> length haystack < length needle then Some None
      else case target of
             AVX2 \<Rightarrow> (case loadu 32 needle 0 of
                        None \<Rightarrow> None
                      | Some needle_vec \<Rightarrow> memmem_avx2_loop haystack needle needle_vec 0)
           | SSE2 \<Rightarrow> (case loadu 16 needle 0 of
                        None \<Rightarrow> None
                      | Some first \<Rightarrow> memmem_sse2_loop haystack needle first 0)
           | SCALAR \<Rightarrow> Some (memmem_scalar_loop haystack needle 0))"

section \<open>The detector\<close>

definition zero_pattern :: yurei_protocol_pattern_t where
  "zero_pattern = \<lparr>program_id = replicate 32 0, enabled = False\<rparr>"

definition protocol_detector_init ::
  "byte list \<Rightarrow> bool \<Rightarrow> byte list \<Rightarrow> bool \<Rightarrow> yurei_protocol_detector_t" where
  "protocol_detector_init pumpfun_program pumpfun_enabled raydium_program raydium_enabled =
     (let detector = \<lparr>pumpfun = zero_pattern, raydium = zero_pattern\<rparr>;
          detector =
            (if pumpfun_enabled
             then detector\<lparr>pumpfun := \<lparr>program_id = take PROGRAM_ID_LEN pumpfun_program, enabled = True\<rparr>\<rparr>
             else detector)
      in if raydium_enabled
         then detector\<lparr>raydium := \<lparr>program_id = take PROGRAM_ID_LEN raydium_program, enabled = True\<rparr>\<rparr>
         else detector)"

definition protocol_detector_match_program ::
  "simd_target \<Rightarrow> yurei_protocol_pattern_t \<Rightarrow> byte list option \<Rightarrow> bool checked" where
  "protocol_detector_match_program target pattern data =
     (case data of
        None \<Rightarrow> Some False
      | Some data \<Rightarrow>
          if \<not> enabled pattern then Some False
          else map_option (\<lambda>found. found \<noteq> None) (fast_memmem target data (program_id pattern)))"

text \<open>The account keys with their lengths; \<open>memcmp\<close> looks at the first 32 bytes.\<close>

fun protocol_detector_match_accounts ::
  "yurei_protocol_detector_t \<Rightarrow> (byte list option \<times> nat) list \<Rightarrow> yurei_protocol_t" where
  "protocol_detector_match_accounts detector [] = YUREI_PROTOCOL_NONE"
| "protocol_detector_match_accounts detector ((account, account_len) # accounts) =
     (case account of
        None \<Rightarrow> protocol_detector_match_accounts detector accounts
      | Some key \<Rightarrow>
          if account_len = 0 then protocol_detector_match_accounts detector accounts
          else if enabled (pumpfun detector) \<and> account_len = PROGRAM_ID_LEN \<and>
                  take PROGRAM_ID_LEN key = program_id (pumpfun detector)
               then YUREI_PROTOCOL_PUMPFUN
          else if enabled (raydium detector) \<and> account_len = PROGRAM_ID_LEN \<and>
                  take PROGRAM_ID_LEN key = program_id (raydium detector)
               then YUREI_PROTOCOL_RAYDIUM
          else protocol_detector_match_accounts detector accounts)"

section \<open>The bit loop\<close>

lemma find_filter: "List.find P (filter R xs) = List.find (\<lambda>x. R x \<and> P x) xs"
  by (induction xs) auto

lemma find_append: "List.find P (xs @ ys) = (case List.find P xs of None \<Rightarrow> List.find P ys | Some x \<Rightarrow> Some x)"
  by (induction xs) auto

lemma find_map: "List.find P (map f xs) = map_option f (List.find (P \<circ> f) xs)"
  by (induction xs) auto

lemma find_none: "\<forall>x \<in> set xs. \<not> P x \<Longrightarrow> List.find P xs = None"
  by (induction xs) auto

lemma builtin_ctz_bits:
  assumes "lanes \<noteq> 0"
  shows "builtin_ctz lanes < 32" and "bit lanes (builtin_ctz lanes)" and "n < builtin_ctz lanes \<Longrightarrow> \<not> bit lanes n"
proof -
  let ?ns = "takeWhile (\<lambda>n. \<not> bit lanes n) [0..<32]"
  obtain m where "bit lanes m" using assms by (auto simp: bit_eq_iff)
  moreover from this have "m < 32" using bit_imp_le_length by fastforce
  ultimately have "?ns \<noteq> [0..<32]" by (auto simp: takeWhile_eq_all_conv)
  then have "length ?ns \<noteq> length [0..<32]"
    by (metis takeWhile_eq_take take_all order_refl)
  then have less: "length ?ns < 32"
    using length_takeWhile_le [of "\<lambda>n. \<not> bit lanes n" "[0..<32]"] by simp
  then show "builtin_ctz lanes < 32" by (simp add: builtin_ctz_def)
  have "[0..<32] ! length ?ns = length ?ns" using less by simp
  then show "bit lanes (builtin_ctz lanes)"
    using nth_length_takeWhile [of "\<lambda>n. \<not> bit lanes n" "[0..<32]"] less by (simp add: builtin_ctz_def)
  assume "n < builtin_ctz lanes"
  then have "n < length ?ns" by (simp add: builtin_ctz_def)
  then have "?ns ! n \<in> set ?ns" by simp
  moreover have "?ns ! n = n" using \<open>n < length ?ns\<close> less by (simp add: takeWhile_nth)
  ultimately show "\<not> bit lanes n" by (metis set_takeWhileD)
qed

text \<open>\<open>mask & (mask - 1)\<close> clears the lowest set bit and nothing else.\<close>

lemma bit_clear_lowest:
  fixes lanes :: u32
  assumes "lanes \<noteq> 0"
  shows "bit (lanes AND (lanes - 1)) n \<longleftrightarrow> bit lanes n \<and> n \<noteq> builtin_ctz lanes"
proof -
  define k where "k = builtin_ctz lanes"
  define h where "h = unset_bit k lanes"
  have k: "k < 32" "bit lanes k" "\<And>n. n < k \<Longrightarrow> \<not> bit lanes n"
    using builtin_ctz_bits [OF assms] by (auto simp: k_def)
  have "h AND 2 ^ k = 0" and "h AND mask k = 0"
    using k(3) by (auto intro!: bit_word_eqI simp: h_def bit_simps)
  then have "h + 2 ^ k = h OR 2 ^ k" and "h + mask k = h OR mask k"
    by (simp_all add: disjunctive_add_eq_or)
  moreover have "h OR 2 ^ k = lanes"
    using k(2) by (auto intro!: bit_word_eqI simp: h_def bit_simps)
  ultimately have "lanes = h + 2 ^ k" and "lanes - 1 = h OR mask k"
    by (simp_all add: mask_eq_exp_minus_1 algebra_simps)
  then have "bit (lanes - 1) n \<longleftrightarrow> bit (h OR mask k) n" by simp
  then show ?thesis
    using k(3) by (auto simp: bit_and_iff bit_or_iff h_def bit_simps k_def [symmetric])
qed

lemma filter_lowest:
  assumes "lanes \<noteq> 0"
  shows "filter (bit lanes) [0..<32] = builtin_ctz lanes # filter (bit (lanes AND (lanes - 1))) [0..<32]"
proof -
  define k where "k = builtin_ctz lanes"
  have k: "k < 32" "bit lanes k" "\<And>n. n < k \<Longrightarrow> \<not> bit lanes n"
    using builtin_ctz_bits [OF assms] by (auto simp: k_def)
  have split: "[0..<32] = [0..<k] @ k # [Suc k..<32]"
    using k(1) upt_add_eq_append [of 0 k "32 - k"] by (simp add: upt_conv_Cons)
  have low: "filter (bit lanes) [0..<k] = []" "filter (bit (lanes AND (lanes - 1))) [0..<k] = []"
    using k(3) by (simp_all add: filter_empty_conv bit_clear_lowest [OF assms])
  have "filter (bit lanes) [Suc k..<32] = filter (bit (lanes AND (lanes - 1))) [Suc k..<32]"
    by (rule filter_cong) (auto simp: bit_clear_lowest [OF assms] k_def)
  then show ?thesis
    unfolding split filter_append low using k(2) by (simp add: bit_clear_lowest [OF assms] flip: k_def)
qed

text \<open>The loop tries the set bits from the lowest to the highest.\<close>

lemma scan_mask_find:
  "scan_mask haystack needle i lanes = Some r \<Longrightarrow>
    r = List.find (occurs_at haystack needle) (map ((+) i) (filter (bit lanes) [0..<32]))"
proof (induction haystack needle i lanes rule: scan_mask.induct)
  case (1 haystack needle i lanes)
  show ?case
  proof (cases "lanes = 0")
    case True
    with "1.prems" show ?thesis by (subst (asm) scan_mask.simps) simp
  next
    case False
    with 1 show ?thesis
      by (subst (asm) (2) scan_mask.simps) (simp add: Let_def filter_lowest split: if_splits)
  qed
qed

text \<open>It is defined unless it meets the highest bit.\<close>

lemma scan_mask_defined:
  "\<not> bit lanes 31 \<Longrightarrow> scan_mask haystack needle i lanes \<noteq> None"
proof (induction haystack needle i lanes rule: scan_mask.induct)
  case (1 haystack needle i lanes)
  have "lanes \<noteq> 0x80000000"
  proof
    assume "lanes = 0x80000000"
    then have "bit lanes 31" by simp
    with "1.prems" show False by simp
  qed
  moreover have "\<not> bit (lanes AND (lanes - 1)) 31"
    using "1.prems" by (simp add: bit_and_iff)
  ultimately show ?case
    using "1.IH" by (subst scan_mask.simps) (simp add: Let_def)
qed

section \<open>What the search finds\<close>

text \<open>
  The occurrences a search with stride \<open>w\<close> can notice: the lane of the occurrence's first byte
  compares that byte with the needle's byte of the same lane, so these two have to agree.
\<close>

definition seen_at :: "nat \<Rightarrow> byte list \<Rightarrow> byte list \<Rightarrow> nat \<Rightarrow> bool" where
  "seen_at w haystack needle pos \<longleftrightarrow>
     occurs_at haystack needle pos \<and> needle ! (pos mod w) = needle ! 0"

definition first_seen :: "nat \<Rightarrow> byte list \<Rightarrow> byte list \<Rightarrow> nat option" where
  "first_seen w haystack needle = List.find (seen_at w haystack needle) [0..<length haystack]"

lemma bit_movemask_cmpeq:
  "length a = w \<Longrightarrow> length b = w \<Longrightarrow> w \<le> 32 \<Longrightarrow> bit (movemask_cmpeq a b) n \<longleftrightarrow> n < w \<and> a ! n = b ! n"
  by (auto simp: movemask_cmpeq_def bit_horner_sum_bit_word_iff)

lemma occurs_nth: "occurs_at haystack needle pos \<Longrightarrow> n < length needle \<Longrightarrow> haystack ! (pos + n) = needle ! n"
  unfolding occurs_at_def chunk_def by (metis le_add1 le_trans nth_drop nth_take)

lemma lanes_find:
  assumes "0 < w" and "w \<le> 32" and "w dvd i" and "i + w \<le> length haystack" and "length needle = 32"
  shows "List.find (occurs_at haystack needle)
      (map ((+) i) (filter (bit (movemask_cmpeq (chunk i w haystack) (take w needle))) [0..<32])) =
    List.find (seen_at w haystack needle) [i..<i + w]"
proof -
  let ?lanes = "bit (movemask_cmpeq (chunk i w haystack) (take w needle))"
  have lanes: "?lanes n \<longleftrightarrow> n < w \<and> haystack ! (i + n) = needle ! n" for n
    using assms by (auto simp: bit_movemask_cmpeq [where w = w]) (auto simp: chunk_def)
  have "[0..<32] = [0..<w] @ [w..<32]"
    using upt_add_eq_append [of 0 w "32 - w"] assms(2) by simp
  then have "filter ?lanes [0..<32] = filter ?lanes [0..<w]"
    by (simp add: filter_empty_conv lanes)
  moreover have "List.find (\<lambda>n. ?lanes n \<and> occurs_at haystack needle (i + n)) [0..<w] =
      List.find (\<lambda>n. seen_at w haystack needle (i + n)) [0..<w]"
  proof (rule find_cong [OF refl])
    fix n assume "n \<in> set [0..<w]"
    moreover from this have "(i + n) mod w = n"
      using assms(3) by (auto simp: mod_add_left_eq [symmetric])
    ultimately show "(?lanes n \<and> occurs_at haystack needle (i + n)) = seen_at w haystack needle (i + n)"
      using occurs_nth [of haystack needle "i + n" 0] assms(5) by (auto simp: seen_at_def lanes)
  qed
  moreover have "map ((+) i) [0..<w] = map (\<lambda>n. n + i) [0..<w]"
    by (rule map_cong) simp_all
  then have "[i..<i + w] = map ((+) i) [0..<w]"
    using map_add_upt [of i w] add.commute [of i w] by metis
  ultimately show ?thesis
    by (simp add: find_map find_filter o_def)
qed

lemma find_seen_none: "length haystack < i + length needle \<Longrightarrow> List.find (seen_at w haystack needle) [i..<n] = None"
  by (rule find_none) (auto simp: seen_at_def occurs_at_def)

lemma find_seen_step:
  "i + w \<le> n \<Longrightarrow> List.find P [i..<n] =
    (case List.find P [i..<i + w] of None \<Rightarrow> List.find P [i + w..<n] | Some x \<Rightarrow> Some x)"
  using upt_add_eq_append [of i "i + w" "n - (i + w)"] by (simp add: find_append)

lemma movemask_all:
  assumes "length a = 32" and "length b = 32"
  shows "movemask_cmpeq a b = - 1 \<longleftrightarrow> a = b"
proof -
  have "movemask_cmpeq a b = - 1 \<longleftrightarrow> (\<forall>n < 32. bit (movemask_cmpeq a b) n)"
    by (auto simp: bit_eq_iff [where 'a = "32 word"])
  also have "\<dots> \<longleftrightarrow> a = b"
    using assms by (simp add: bit_movemask_cmpeq [where w = 32] list_eq_iff_nth_eq)
  finally show ?thesis .
qed

lemma memmem_avx2_step:
  assumes "i + 32 \<le> length haystack" and "length needle = 32"
  shows "memmem_avx2_loop haystack needle needle i =
    (if occurs_at haystack needle i then Some (Some i)
     else case scan_mask haystack needle i (movemask_cmpeq (chunk i 32 haystack) needle) of
            None \<Rightarrow> None
          | Some (Some pos) \<Rightarrow> Some (Some pos)
          | Some None \<Rightarrow> memmem_avx2_loop haystack needle needle (i + 32))"
  using assms by (subst memmem_avx2_loop.simps) (simp add: loadu_def Let_def movemask_all occurs_at_def)

lemma memmem_sse2_step:
  assumes "i + 32 \<le> length haystack" and "length needle = 32"
  shows "memmem_sse2_loop haystack needle (take 16 needle) i =
    (case scan_mask haystack needle i (movemask_cmpeq (chunk i 16 haystack) (take 16 needle)) of
       None \<Rightarrow> None
     | Some (Some pos) \<Rightarrow> Some (Some pos)
     | Some None \<Rightarrow> memmem_sse2_loop haystack needle (take 16 needle) (i + 16))"
  using assms by (subst memmem_sse2_loop.simps) (simp add: loadu_def Let_def)

lemma memmem_avx2_loop_find:
  "memmem_avx2_loop haystack needle needle i = Some r \<Longrightarrow> length needle = 32 \<Longrightarrow> 32 dvd i \<Longrightarrow>
    r = List.find (seen_at 32 haystack needle) [i..<length haystack]"
proof (induction "Suc (length haystack) - i" arbitrary: i rule: less_induct)
  case less
  show ?case
  proof (cases "i + 32 \<le> length haystack")
    case True
    show ?thesis
    proof (cases "occurs_at haystack needle i")
      case here: True
      with less.prems True have "r = Some i" by (simp add: memmem_avx2_step)
      moreover have "seen_at 32 haystack needle i" using here less.prems by (auto simp: seen_at_def)
      ultimately show ?thesis using True by (simp add: upt_conv_Cons)
    next
      case False
      with less.prems True
      obtain r' where scan: "scan_mask haystack needle i (movemask_cmpeq (chunk i 32 haystack) needle) = Some r'"
        and r: "case r' of None \<Rightarrow> memmem_avx2_loop haystack needle needle (i + 32) = Some r | Some pos \<Rightarrow> r = Some pos"
        by (auto simp: memmem_avx2_step split: option.splits)
      have "r' = List.find (seen_at 32 haystack needle) [i..<i + 32]"
        using scan_mask_find [OF scan] lanes_find [of 32 i haystack needle] less.prems True by simp
      moreover have "r' = None \<Longrightarrow> r = List.find (seen_at 32 haystack needle) [i + 32..<length haystack]"
        using less.hyps [of "i + 32"] r less.prems True by simp
      ultimately show ?thesis
        using r True find_seen_step [of i 32 "length haystack" "seen_at 32 haystack needle"] by (auto split: option.splits)
    qed
  qed (use less.prems in \<open>simp add: memmem_avx2_loop.simps [of haystack _ _ i] find_seen_none\<close>)
qed

lemma memmem_sse2_loop_find:
  "memmem_sse2_loop haystack needle (take 16 needle) i = Some r \<Longrightarrow> length needle = 32 \<Longrightarrow> 16 dvd i \<Longrightarrow>
    r = List.find (seen_at 16 haystack needle) [i..<length haystack]"
proof (induction "Suc (length haystack) - i" arbitrary: i rule: less_induct)
  case less
  show ?case
  proof (cases "i + 32 \<le> length haystack")
    case True
    with less.prems
    obtain r' where scan: "scan_mask haystack needle i (movemask_cmpeq (chunk i 16 haystack) (take 16 needle)) = Some r'"
      and r: "case r' of None \<Rightarrow> memmem_sse2_loop haystack needle (take 16 needle) (i + 16) = Some r | Some pos \<Rightarrow> r = Some pos"
      by (auto simp: memmem_sse2_step split: option.splits)
    have "r' = List.find (seen_at 16 haystack needle) [i..<i + 16]"
      using scan_mask_find [OF scan] lanes_find [of 16 i haystack needle] less.prems True by simp
    moreover have "r' = None \<Longrightarrow> r = List.find (seen_at 16 haystack needle) [i + 16..<length haystack]"
      using less.hyps [of "i + 16"] r less.prems True by simp
    ultimately show ?thesis
      using r True find_seen_step [of i 16 "length haystack" "seen_at 16 haystack needle"] by (auto split: option.splits)
  qed (use less.prems in \<open>simp add: memmem_sse2_loop.simps [of haystack _ _ i] find_seen_none\<close>)
qed

lemma seen_at_1: "seen_at 1 haystack needle = occurs_at haystack needle"
  by (simp add: seen_at_def fun_eq_iff)

lemma memmem_scalar_loop_find:
  "0 < length needle \<Longrightarrow> memmem_scalar_loop haystack needle i = List.find (occurs_at haystack needle) [i..<length haystack]"
proof (induction haystack needle i rule: memmem_scalar_loop.induct)
  case (1 haystack needle i)
  show ?case
  proof (cases "i + length needle \<le> length haystack")
    case True
    with "1.prems" have "i < length haystack" by linarith
    with True 1 show ?thesis
      by (subst memmem_scalar_loop.simps) (simp add: upt_conv_Cons occurs_at_def [of _ _ i])
  next
    case False
    then have "List.find (occurs_at haystack needle) [i..<length haystack] = None"
      by (intro find_none) (auto simp: occurs_at_def)
    with False show ?thesis by (simp add: memmem_scalar_loop.simps [of haystack _ i])
  qed
qed

text \<open>The SSE2 masks have sixteen bits, so the bit loop never meets \<open>INT_MIN\<close>.\<close>

lemma memmem_sse2_loop_defined:
  "length needle = 32 \<Longrightarrow> memmem_sse2_loop haystack needle (take 16 needle) i \<noteq> None"
proof (induction "Suc (length haystack) - i" arbitrary: i rule: less_induct)
  case less
  show ?case
  proof (cases "i + 32 \<le> length haystack")
    case True
    have "\<not> bit (movemask_cmpeq (chunk i 16 haystack) (take 16 needle)) 31"
      using True less.prems by (simp add: bit_movemask_cmpeq [where w = 16])
    moreover have "memmem_sse2_loop haystack needle (take 16 needle) (i + 16) \<noteq> None"
      using less.hyps [of "i + 16"] less.prems True by simp
    ultimately show ?thesis
      using scan_mask_defined True less.prems(1) by (auto simp: memmem_sse2_step split: option.splits)
  qed (use less.prems in \<open>simp add: memmem_sse2_loop.simps [of haystack _ _ i]\<close>)
qed

text \<open>The AVX2 variant is safe if the last lane of a vector agrees only when all lanes do.\<close>

lemma memmem_avx2_loop_defined:
  "length needle = 32 \<Longrightarrow> 32 dvd i \<Longrightarrow>
    \<forall>j. 32 dvd j \<longrightarrow> j + 32 \<le> length haystack \<longrightarrow> haystack ! (j + 31) = needle ! 31 \<longrightarrow> occurs_at haystack needle j \<Longrightarrow>
    memmem_avx2_loop haystack needle needle i \<noteq> None"
proof (induction "Suc (length haystack) - i" arbitrary: i rule: less_induct)
  case less
  show ?case
  proof (cases "i + 32 \<le> length haystack")
    case True
    have rest: "memmem_avx2_loop haystack needle needle (i + 32) \<noteq> None"
      using less.hyps [of "i + 32"] less.prems True by simp
    show ?thesis
    proof (cases "occurs_at haystack needle i")
      case False
      with True less.prems have "\<not> bit (movemask_cmpeq (chunk i 32 haystack) needle) 31"
        by (simp add: bit_movemask_cmpeq [where w = 32]) (auto simp: chunk_def)
      with rest False True less.prems(1) show ?thesis
        using scan_mask_defined by (auto simp: memmem_avx2_step split: option.splits)
    qed (use True less.prems in \<open>simp add: memmem_avx2_step\<close>)
  qed (use less.prems in \<open>simp add: memmem_avx2_loop.simps [of haystack _ _ i]\<close>)
qed

section \<open>The contract of a search\<close>

text \<open>
  What every variant promises: if it returns, it returns the first occurrence it can see with
  its stride. The clients below rely on nothing else.
\<close>

locale stride_search =
  fixes search :: "byte list \<Rightarrow> byte list \<Rightarrow> nat option checked" and stride :: nat
  assumes search_first: "length needle = PROGRAM_ID_LEN \<Longrightarrow> search haystack needle = Some r \<Longrightarrow>
    r = first_seen stride haystack needle"
begin

lemma finds_only_occurrences:
  assumes "length needle = PROGRAM_ID_LEN" and "search haystack needle = Some (Some pos)"
  shows "occurs_at haystack needle pos \<and> (\<forall>earlier < pos. \<not> seen_at stride haystack needle earlier)"
proof -
  have "List.find (seen_at stride haystack needle) [0..<length haystack] = Some pos"
    using search_first [OF assms] by (simp add: first_seen_def)
  then obtain i where "i < length haystack" "seen_at stride haystack needle pos" "pos = i"
      "\<forall>j < i. \<not> seen_at stride haystack needle j"
    by (auto simp: find_Some_iff)
  then show ?thesis by (simp add: seen_at_def)
qed

lemma misses_only_unseen:
  assumes "length needle = PROGRAM_ID_LEN" and "search haystack needle = Some None"
    and "occurs_at haystack needle pos"
  shows "needle ! (pos mod stride) \<noteq> needle ! 0"
proof -
  have "List.find (seen_at stride haystack needle) [0..<length haystack] = None"
    using search_first [OF assms(1,2)] by (simp add: first_seen_def)
  moreover have "pos < length haystack"
    using assms(1,3) by (simp add: occurs_at_def PROGRAM_ID_LEN_def)
  ultimately show ?thesis
    using assms(3) by (auto simp: find_None_iff seen_at_def)
qed

lemma aligned_never_missed:
  assumes "length needle = PROGRAM_ID_LEN" and "occurs_at haystack needle pos" and "stride dvd pos"
  shows "search haystack needle \<noteq> Some None"
  using misses_only_unseen [OF assms(1) _ assms(2)] assms(3) by auto

end

locale total_search = stride_search +
  assumes search_total: "length needle = PROGRAM_ID_LEN \<Longrightarrow> search haystack needle \<noteq> None"
begin

lemma search_eq: "length needle = PROGRAM_ID_LEN \<Longrightarrow> search haystack needle = Some (first_seen stride haystack needle)"
  using search_first search_total by (metis not_Some_eq)

end

lemma first_seen_short: "length haystack < length needle \<Longrightarrow> first_seen w haystack needle = None"
  unfolding first_seen_def by (rule find_none) (auto simp: seen_at_def occurs_at_def)

interpretation scalar: total_search "fast_memmem SCALAR" 1
proof unfold_locales
  fix needle haystack :: "byte list" and r
  assume len: "length needle = PROGRAM_ID_LEN"
  then show "fast_memmem SCALAR haystack needle \<noteq> None"
    by (simp add: fast_memmem_def)
  assume "fast_memmem SCALAR haystack needle = Some r"
  with len show "r = first_seen 1 haystack needle"
    by (cases "length haystack < length needle")
      (auto simp: fast_memmem_def first_seen_short memmem_scalar_loop_find PROGRAM_ID_LEN_def,
        simp add: first_seen_def seen_at_1 flip: One_nat_def)
qed

interpretation sse2: total_search "fast_memmem SSE2" 16
proof unfold_locales
  fix needle haystack :: "byte list" and r
  assume len: "length needle = PROGRAM_ID_LEN"
  then show "fast_memmem SSE2 haystack needle \<noteq> None"
    using memmem_sse2_loop_defined [of needle haystack 0]
    by (simp add: fast_memmem_def loadu_def PROGRAM_ID_LEN_def chunk_def)
  assume "fast_memmem SSE2 haystack needle = Some r"
  with len show "r = first_seen 16 haystack needle"
    using memmem_sse2_loop_find [of haystack needle 0 r]
    by (cases "length haystack < length needle")
      (simp_all add: fast_memmem_def first_seen_short loadu_def PROGRAM_ID_LEN_def chunk_def first_seen_def
        find_seen_none split: if_splits)
qed

interpretation avx2: stride_search "fast_memmem AVX2" 32
proof unfold_locales
  fix needle haystack :: "byte list" and r
  assume "length needle = PROGRAM_ID_LEN" and "fast_memmem AVX2 haystack needle = Some r"
  then show "r = first_seen 32 haystack needle"
    using memmem_avx2_loop_find [of haystack needle 0 r]
    by (cases "length haystack < length needle")
      (simp_all add: fast_memmem_def first_seen_short loadu_def PROGRAM_ID_LEN_def first_seen_def
        find_seen_none split: if_splits)
qed

section \<open>Properties\<close>

text \<open>
  Whatever variant is compiled in, a position the search returns is an occurrence of the
  needle that lies inside the haystack.
\<close>

theorem fast_memmem_sound:
  assumes "length needle = PROGRAM_ID_LEN" and "fast_memmem target haystack needle = Some (Some pos)"
  shows "pos + 32 \<le> length haystack \<and> take 32 (drop pos haystack) = needle"
proof -
  have "occurs_at haystack needle pos"
    using assms scalar.finds_only_occurrences sse2.finds_only_occurrences avx2.finds_only_occurrences
    by (cases target) auto
  with assms(1) show ?thesis by (simp add: occurs_at_def chunk_def PROGRAM_ID_LEN_def)
qed

definition test_program :: "byte list" where
  "test_program = map word_of_nat [1..<33]"

theorem fast_memmem_sound_witness:
  "take 32 (drop 2 ([7, 7] @ test_program @ [7])) = test_program"
proof -
  have "fast_memmem SCALAR ([7, 7] @ test_program @ [7]) test_program = Some (Some 2)" by code_simp
  moreover have "length test_program = PROGRAM_ID_LEN" by code_simp
  ultimately show ?thesis using fast_memmem_sound by blast
qed

text \<open>
  C30. The scalar variant is complete: it answers \<open>NULL\<close> exactly when the program id occurs
  nowhere in the haystack.
\<close>

theorem fast_memmem_scalar_complete:
  assumes "length needle = PROGRAM_ID_LEN"
  shows "fast_memmem SCALAR haystack needle = Some None \<longleftrightarrow> (\<nexists>pre post. haystack = pre @ needle @ post)"
proof -
  have occurs: "(\<exists>pos. occurs_at haystack needle pos) \<longleftrightarrow> (\<exists>pre post. haystack = pre @ needle @ post)"
  proof
    assume "\<exists>pos. occurs_at haystack needle pos"
    then obtain pos where "chunk pos (length needle) haystack = needle" by (auto simp: occurs_at_def)
    then have "haystack = take pos haystack @ needle @ drop (length needle) (drop pos haystack)"
      unfolding chunk_def by (metis append_take_drop_id)
    then show "\<exists>pre post. haystack = pre @ needle @ post" by blast
  next
    assume "\<exists>pre post. haystack = pre @ needle @ post"
    then obtain pre post where "haystack = pre @ needle @ post" by blast
    then have "occurs_at haystack needle (length pre)" by (simp add: occurs_at_def)
    then show "\<exists>pos. occurs_at haystack needle pos" by blast
  qed
  have "fast_memmem SCALAR haystack needle = Some None \<longleftrightarrow> (\<forall>pos < length haystack. \<not> occurs_at haystack needle pos)"
    using scalar.search_eq [OF assms, of haystack] by (simp add: first_seen_def seen_at_1 find_None_iff flip: One_nat_def)
  also have "\<dots> \<longleftrightarrow> (\<nexists>pos. occurs_at haystack needle pos)"
  proof -
    have "occurs_at haystack needle pos \<Longrightarrow> pos < length haystack" for pos
      using assms by (simp add: occurs_at_def PROGRAM_ID_LEN_def)
    then show ?thesis by blast
  qed
  finally show ?thesis using occurs by simp
qed

theorem fast_memmem_scalar_complete_witness:
  "fast_memmem SCALAR ([7] @ test_program) test_program \<noteq> Some None"
  using fast_memmem_scalar_complete [of test_program "[7] @ test_program"]
  by (simp add: test_program_def PROGRAM_ID_LEN_def) (metis append_Cons append_Nil append_Nil2)

text \<open>
  C31. The vector variants are not complete. They compare lane by lane, so they notice an
  occurrence only where the program id's byte of that lane equals its first byte: with
  distinct bytes, a program id that occurs once, at a position that is no multiple of the
  stride (sixteen for SSE2, thirty-two for AVX2), is reported as absent.
\<close>

theorem fast_memmem_vector_misses:
  assumes "length needle = PROGRAM_ID_LEN" and "distinct needle"
    and "\<forall>pos. occurs_at haystack needle pos \<longrightarrow> \<not> stride dvd pos"
    and "(target, stride) = (SSE2, 16) \<or> (target, stride) = (AVX2, 32)"
  shows "fast_memmem target haystack needle \<in> {Some None, None} \<and> (target = SSE2 \<longrightarrow> fast_memmem target haystack needle = Some None)"
proof -
  have unseen: "first_seen stride haystack needle = None"
    unfolding first_seen_def
  proof (rule find_none, rule ballI, rule notI)
    fix pos assume "seen_at stride haystack needle pos"
    then have "needle ! (pos mod stride) = needle ! 0" and "\<not> stride dvd pos"
      using assms(3) by (auto simp: seen_at_def)
    moreover have "pos mod stride < length needle" "0 < length needle"
      using assms(1,4) mod_less_divisor [of 16 pos] mod_less_divisor [of 32 pos] by (auto simp: PROGRAM_ID_LEN_def)
    ultimately show False
      using assms(2) by (simp add: nth_eq_iff_index_eq mod_eq_0_iff_dvd)
  qed
  show ?thesis
  proof (cases "target = SSE2")
    case True
    with assms(4) unseen sse2.search_eq [OF assms(1), of haystack] show ?thesis by simp
  next
    case False
    with assms(4) have "target = AVX2" "stride = 32" by auto
    with unseen avx2.search_first [OF assms(1), of haystack] show ?thesis by auto
  qed
qed

theorem fast_memmem_vector_misses_witness:
  "fast_memmem SSE2 ([0] @ test_program) test_program = Some None \<and> chunk 1 32 ([0] @ test_program) = test_program"
proof -
  have "occurs_at ([0] @ test_program) test_program pos \<Longrightarrow> \<not> 16 dvd pos" for pos
  proof -
    assume occurs: "occurs_at ([0] @ test_program) test_program pos"
    then have "pos \<le> 1" by (simp add: occurs_at_def test_program_def)
    moreover have "\<not> occurs_at ([0] @ test_program) test_program 0" by code_simp
    ultimately have "pos = 1" using occurs by (cases pos) auto
    then show "\<not> 16 dvd pos" by simp
  qed
  moreover have "distinct test_program" by code_simp
  moreover have "length test_program = PROGRAM_ID_LEN" by code_simp
  moreover have "chunk 1 32 ([0] @ test_program) = test_program" by code_simp
  ultimately show ?thesis
    using fast_memmem_vector_misses [of test_program "[0] @ test_program" 16 SSE2] by auto
qed

text \<open>
  Every occurrence at a multiple of the stride is noticed, by every variant that returns.
\<close>

theorem fast_memmem_aligned_found:
  assumes "length needle = PROGRAM_ID_LEN" and "occurs_at haystack needle pos" and "32 dvd pos"
  shows "fast_memmem target haystack needle \<noteq> Some None"
proof -
  have "16 dvd pos" "1 dvd pos" using assms(3) by (auto intro: dvd_trans)
  then show ?thesis
    using assms scalar.aligned_never_missed sse2.aligned_never_missed avx2.aligned_never_missed
    by (cases target) metis+
qed

theorem fast_memmem_aligned_found_witness:
  "fast_memmem AVX2 (replicate 32 0 @ test_program) test_program \<noteq> Some None"
proof (rule fast_memmem_aligned_found)
  show "length test_program = PROGRAM_ID_LEN" by code_simp
  show "occurs_at (replicate 32 0 @ test_program) test_program 32" by code_simp
qed simp

text \<open>
  The AVX2 bit loop reaches \<open>INT_MIN\<close>, where its decrement is undefined, as soon as the
  last lane of a vector agrees in a vector that does not match; without such a vector the
  search is defined on every input.
\<close>

theorem fast_memmem_avx2_defined:
  assumes "length needle = PROGRAM_ID_LEN"
    and "\<forall>i. 32 dvd i \<longrightarrow> i + 32 \<le> length haystack \<longrightarrow> haystack ! (i + 31) = needle ! 31 \<longrightarrow> occurs_at haystack needle i"
  shows "fast_memmem AVX2 haystack needle = Some (first_seen 32 haystack needle) \<and>
    fast_memmem AVX2 (replicate 31 0 @ [32]) test_program = None"
proof -
  have "fast_memmem AVX2 haystack needle \<noteq> None"
    using memmem_avx2_loop_defined [of needle 0 haystack] assms
    by (simp add: fast_memmem_def loadu_def PROGRAM_ID_LEN_def)
  then have "fast_memmem AVX2 haystack needle = Some (first_seen 32 haystack needle)"
    using avx2.search_first [OF assms(1), of haystack] by auto
  moreover have "fast_memmem AVX2 (replicate 31 0 @ [32]) test_program = None" by code_simp
  ultimately show ?thesis by simp
qed

theorem fast_memmem_avx2_defined_witness:
  "fast_memmem AVX2 test_program test_program = Some (Some 0)"
proof -
  have "\<forall>i. 32 dvd i \<longrightarrow> i + 32 \<le> length test_program \<longrightarrow> occurs_at test_program test_program i"
    by (auto simp: test_program_def occurs_at_def)
  moreover have "first_seen 32 test_program test_program = Some 0" by code_simp
  moreover have "length test_program = PROGRAM_ID_LEN" by code_simp
  ultimately show ?thesis
    using fast_memmem_avx2_defined [of test_program test_program] by simp
qed

text \<open>
  A match of the detector's program test means that the pattern is enabled and the data
  contains the program id.
\<close>

theorem match_program_sound:
  assumes "length (program_id pattern) = PROGRAM_ID_LEN"
    and "protocol_detector_match_program target pattern (Some data) = Some True"
  shows "enabled pattern \<and> (\<exists>pre post. data = pre @ program_id pattern @ post)"
proof -
  have enabled: "enabled pattern"
    using assms(2) by (auto simp: protocol_detector_match_program_def split: if_splits)
  with assms(2) obtain pos where "fast_memmem target data (program_id pattern) = Some (Some pos)"
    by (auto simp: protocol_detector_match_program_def split: if_splits)
  then have "occurs_at data (program_id pattern) pos"
    using scalar.finds_only_occurrences [OF assms(1)] sse2.finds_only_occurrences [OF assms(1)]
      avx2.finds_only_occurrences [OF assms(1)]
    by (cases target) auto
  then have "chunk pos (length (program_id pattern)) data = program_id pattern" by (simp add: occurs_at_def)
  then have "data = take pos data @ program_id pattern @ drop (length (program_id pattern)) (drop pos data)"
    unfolding chunk_def by (metis append_take_drop_id)
  with enabled show ?thesis by blast
qed

theorem match_program_sound_witness:
  "\<exists>pre post. [5] @ test_program = pre @ program_id \<lparr>program_id = test_program, enabled = True\<rparr> @ post"
proof -
  have "length (program_id \<lparr>program_id = test_program, enabled = True\<rparr>) = PROGRAM_ID_LEN" by code_simp
  moreover have "protocol_detector_match_program SCALAR \<lparr>program_id = test_program, enabled = True\<rparr> (Some ([5] @ test_program)) = Some True"
    by code_simp
  ultimately show ?thesis using match_program_sound by blast
qed

lemma protocol_detector_init_fields:
  "enabled (pumpfun (protocol_detector_init p pe r re)) = pe"
  "enabled (raydium (protocol_detector_init p pe r re)) = re"
  "pe \<Longrightarrow> program_id (pumpfun (protocol_detector_init p pe r re)) = take 32 p"
  "re \<Longrightarrow> program_id (raydium (protocol_detector_init p pe r re)) = take 32 r"
  by (simp_all add: protocol_detector_init_def zero_pattern_def PROGRAM_ID_LEN_def Let_def)

text \<open>The keys that decide: of the right length and equal to the id of an enabled program.\<close>

definition program_key :: "bool \<Rightarrow> byte list \<Rightarrow> byte list option \<times> nat \<Rightarrow> bool" where
  "program_key program_enabled program account \<longleftrightarrow>
     program_enabled \<and> snd account = 32 \<and> (\<exists>key. fst account = Some key \<and> take 32 key = take 32 program)"

lemma match_accounts_classified:
  "protocol_detector_match_accounts (protocol_detector_init p pe r re) accounts =
     (case List.find (\<lambda>account. program_key pe p account \<or> program_key re r account) accounts of
        None \<Rightarrow> YUREI_PROTOCOL_NONE
      | Some account \<Rightarrow>
          if program_key pe p account then YUREI_PROTOCOL_PUMPFUN else YUREI_PROTOCOL_RAYDIUM)"
proof (induction accounts)
  case (Cons account accounts)
  obtain key len where account: "account = (key, len)" by (cases account)
  have "program_key en q (None, len) = False" "program_key en q (Some k, len) = (en \<and> len = 32 \<and> take 32 k = take 32 q)" for en q k
    by (simp_all add: program_key_def)
  with Cons.IH show ?case
    unfolding account
    by (cases key) (auto simp: protocol_detector_init_fields PROGRAM_ID_LEN_def)
qed simp

text \<open>
  C29. A transaction is classified by the first of its account keys that is the id of an enabled
  program: a disabled program, a null key and a key of any other length never decide, later
  keys never override earlier ones, and Pump.fun wins if both programs have the same id.
\<close>

theorem match_accounts_first_key:
  "protocol_detector_match_accounts (protocol_detector_init p pe r re) accounts =
     (case List.find (\<lambda>account. program_key pe p account \<or> program_key re r account) accounts of
        None \<Rightarrow> YUREI_PROTOCOL_NONE
      | Some account \<Rightarrow>
          if program_key pe p account then YUREI_PROTOCOL_PUMPFUN else YUREI_PROTOCOL_RAYDIUM)"
  by (rule match_accounts_classified)

end
