(* ===== verification/Metrics.thy ===== *)
theory Metrics
  imports Yurei_Prelude
begin

text \<open>
  \<^verbatim>\<open>src/include/metrics.h\<close> and the initialisation in \<^verbatim>\<open>src/src/metrics.c\<close>: the process-wide
  counters. Every counter is an atomic 64-bit word that wraps around; the only operation that
  is not a single atomic addition is the update of the queue's high-water mark, a
  compare-and-exchange loop, which is modelled with the interference of other threads.
  A snapshot reads the counters one by one; its floating-point arithmetic is a parameter.
\<close>

record yurei_metrics_t =
  events_total :: u64
  events_pumpfun :: u64
  events_raydium :: u64
  events_dropped :: u64
  queue_pushes :: u64
  queue_pops :: u64
  queue_high_water :: u64
  queue_overflows :: u64
  db_inserts_success :: u64
  db_inserts_failed :: u64
  db_batches :: u64
  db_reconnects :: u64
  total_event_latency_us :: u64
  total_db_latency_us :: u64

definition metrics_init :: yurei_metrics_t where
  "metrics_init = \<lparr>events_total = 0, events_pumpfun = 0, events_raydium = 0, events_dropped = 0,
     queue_pushes = 0, queue_pops = 0, queue_high_water = 0, queue_overflows = 0,
     db_inserts_success = 0, db_inserts_failed = 0, db_batches = 0, db_reconnects = 0,
     total_event_latency_us = 0, total_db_latency_us = 0\<rparr>"

section \<open>The counters\<close>

definition metrics_inc_events_total :: "yurei_metrics_t \<Rightarrow> yurei_metrics_t" where
  "metrics_inc_events_total m = m\<lparr>events_total := events_total m + 1\<rparr>"

definition metrics_inc_pumpfun :: "yurei_metrics_t \<Rightarrow> yurei_metrics_t" where
  "metrics_inc_pumpfun m = m\<lparr>events_pumpfun := events_pumpfun m + 1\<rparr>"

definition metrics_inc_raydium :: "yurei_metrics_t \<Rightarrow> yurei_metrics_t" where
  "metrics_inc_raydium m = m\<lparr>events_raydium := events_raydium m + 1\<rparr>"

definition metrics_inc_dropped :: "yurei_metrics_t \<Rightarrow> yurei_metrics_t" where
  "metrics_inc_dropped m = m\<lparr>events_dropped := events_dropped m + 1\<rparr>"

definition metrics_inc_queue_push :: "yurei_metrics_t \<Rightarrow> yurei_metrics_t" where
  "metrics_inc_queue_push m = m\<lparr>queue_pushes := queue_pushes m + 1\<rparr>"

definition metrics_inc_queue_pop :: "yurei_metrics_t \<Rightarrow> yurei_metrics_t" where
  "metrics_inc_queue_pop m = m\<lparr>queue_pops := queue_pops m + 1\<rparr>"

definition metrics_inc_queue_overflow :: "yurei_metrics_t \<Rightarrow> yurei_metrics_t" where
  "metrics_inc_queue_overflow m = m\<lparr>queue_overflows := queue_overflows m + 1\<rparr>"

definition metrics_inc_db_success :: "yurei_metrics_t \<Rightarrow> yurei_metrics_t" where
  "metrics_inc_db_success m = m\<lparr>db_inserts_success := db_inserts_success m + 1\<rparr>"

definition metrics_inc_db_failed :: "yurei_metrics_t \<Rightarrow> yurei_metrics_t" where
  "metrics_inc_db_failed m = m\<lparr>db_inserts_failed := db_inserts_failed m + 1\<rparr>"

definition metrics_inc_db_batch :: "yurei_metrics_t \<Rightarrow> yurei_metrics_t" where
  "metrics_inc_db_batch m = m\<lparr>db_batches := db_batches m + 1\<rparr>"

definition metrics_inc_db_reconnect :: "yurei_metrics_t \<Rightarrow> yurei_metrics_t" where
  "metrics_inc_db_reconnect m = m\<lparr>db_reconnects := db_reconnects m + 1\<rparr>"

definition metrics_add_event_latency :: "u64 \<Rightarrow> yurei_metrics_t \<Rightarrow> yurei_metrics_t" where
  "metrics_add_event_latency us m = m\<lparr>total_event_latency_us := total_event_latency_us m + us\<rparr>"

definition metrics_add_db_latency :: "u64 \<Rightarrow> yurei_metrics_t \<Rightarrow> yurei_metrics_t" where
  "metrics_add_db_latency us m = m\<lparr>total_db_latency_us := total_db_latency_us m + us\<rparr>"

section \<open>The high-water mark\<close>

text \<open>
  One \<open>atomic_compare_exchange_weak(&mark, &current, sz)\<close>: a weak exchange may fail
  although the values agree. The result is the success, the mark, and the \<open>current\<close> that a
  failure reloads.
\<close>

definition compare_exchange_weak :: "bool \<Rightarrow> u64 \<Rightarrow> u64 \<Rightarrow> u64 \<Rightarrow> bool \<times> u64 \<times> u64" where
  "compare_exchange_weak spurious mark current sz =
     (if mark = current \<and> \<not> spurious then (True, sz, current) else (False, mark, mark))"

text \<open>
  The loop. Before each exchange other threads may have moved the mark to any value: the list
  holds, for every iteration, what the mark then is and whether the exchange fails
  spuriously. The result is the mark that the loop leaves behind, with the part of the
  schedule it did not use, or \<open>None\<close> if the schedule ends before the loop does.
\<close>

fun high_water_loop :: "(u64 \<times> bool) list \<Rightarrow> u64 \<Rightarrow> u64 \<Rightarrow> u64 \<Rightarrow> (u64 \<times> (u64 \<times> bool) list) option" where
  "high_water_loop schedule mark current sz =
     (if \<not> current < sz then Some (mark, schedule)
      else case schedule of
             [] \<Rightarrow> None
           | (mark, spurious) # schedule \<Rightarrow>
               (case compare_exchange_weak spurious mark current sz of
                  (True, mark, current) \<Rightarrow> Some (mark, schedule)
                | (False, mark, current) \<Rightarrow> high_water_loop schedule mark current sz))"

declare high_water_loop.simps [simp del]

text \<open>Without interference the first exchange succeeds.\<close>

definition metrics_update_queue_high_water :: "u64 \<Rightarrow> yurei_metrics_t \<Rightarrow> yurei_metrics_t" where
  "metrics_update_queue_high_water sz m =
     (case high_water_loop [(queue_high_water m, False)] (queue_high_water m) (queue_high_water m) sz of
        Some (mark, _) \<Rightarrow> m\<lparr>queue_high_water := mark\<rparr>
      | None \<Rightarrow> m)"

lemma metrics_update_queue_high_water_max:
  "metrics_update_queue_high_water sz m = m\<lparr>queue_high_water := max (queue_high_water m) sz\<rparr>"
  by (simp add: metrics_update_queue_high_water_def high_water_loop.simps compare_exchange_weak_def max_def)

text \<open>
  Other threads only run the same loop, so the mark they leave never falls: each entry of the
  schedule is at least the one before.
\<close>

fun mark_rises :: "u64 \<Rightarrow> (u64 \<times> bool) list \<Rightarrow> bool" where
  "mark_rises mark [] \<longleftrightarrow> True"
| "mark_rises mark ((mark', _) # schedule) \<longleftrightarrow> mark \<le> mark' \<and> mark_rises mark' schedule"

text \<open>One iteration, with the mark and \<open>current\<close> in step, as every failed exchange leaves them.\<close>

lemma high_water_step:
  "high_water_loop ((seen, spurious) # schedule) mark current sz =
    (if \<not> current < sz then Some (mark, (seen, spurious) # schedule)
     else if seen = current \<and> \<not> spurious then Some (sz, schedule)
     else high_water_loop schedule seen seen sz)"
  by (simp add: high_water_loop.simps [of "_ # _"] compare_exchange_weak_def)

lemma high_water_Nil:
  "high_water_loop [] mark current sz = (if \<not> current < sz then Some (mark, []) else None)"
  by (simp add: high_water_loop.simps)

lemma high_water_result:
  "mark_rises current schedule \<Longrightarrow> high_water_loop schedule current current sz = Some (mark, rest) \<Longrightarrow>
    sz \<le> mark \<and> current \<le> mark \<and> (\<exists>used. schedule = used @ rest \<and> (\<forall>(seen, _) \<in> set used. seen \<le> mark))"
proof (induction schedule arbitrary: current)
  case Nil
  then show ?case by (auto simp: high_water_Nil split: if_splits)
next
  case (Cons entry schedule)
  obtain seen spurious where entry: "entry = (seen, spurious)" by (cases entry)
  have "current \<le> seen" and rises: "mark_rises seen schedule" using Cons.prems(1) by (simp_all add: entry)
  consider (done_already) "\<not> current < sz" | (exchanged) "current < sz" "seen = current" "\<not> spurious"
    | (again) "current < sz" "\<not> (seen = current \<and> \<not> spurious)" by blast
  then show ?case
  proof cases
    case done_already
    with Cons.prems(2) show ?thesis by (simp add: entry high_water_step)
  next
    case exchanged
    with Cons.prems(2) show ?thesis
      by (auto simp: entry high_water_step intro: exI [of _ "[(seen, spurious)]"])
  next
    case again
    with Cons.prems(2) have "high_water_loop schedule seen seen sz = Some (mark, rest)"
      by (simp add: entry high_water_step split: if_splits)
    from Cons.IH [OF rises this] obtain used
      where "sz \<le> mark" "seen \<le> mark" "schedule = used @ rest" "\<forall>(seen, _) \<in> set used. seen \<le> mark"
      by blast
    moreover from this have "entry # schedule = (entry # used) @ rest \<and> (\<forall>(seen, _) \<in> set (entry # used). seen \<le> mark)"
      by (simp add: entry)
    ultimately show ?thesis using \<open>current \<le> seen\<close> by (meson order_trans)
  qed
qed

lemma high_water_returns:
  "high_water_loop (pre @ (seen, spurious) # (seen, False) # post) mark current sz \<noteq> None"
proof (induction pre arbitrary: mark current)
  case Nil
  show ?case by (simp add: high_water_step)
next
  case (Cons entry pre)
  then show ?case by (cases entry) (simp add: high_water_step)
qed

text \<open>
  Under any interference by threads that only raise the mark, and any number of spurious
  failures, a finished update leaves a mark that is at least the observed size and at least
  every mark it saw: a peak is never lost and the mark never falls.
\<close>

theorem high_water_never_lost:
  assumes "mark_rises current schedule" and "high_water_loop schedule current current sz = Some (mark, rest)"
  shows "sz \<le> mark \<and> current \<le> mark \<and> (\<exists>used. schedule = used @ rest \<and> (\<forall>(seen, _) \<in> set used. seen \<le> mark))"
  using assms by (rule high_water_result)

theorem high_water_never_lost_witness:
  "high_water_loop [(5, False), (5, True), (5, False)] 3 3 (9 :: u64) = Some (9, []) \<and> (9 :: u64) \<le> 9 \<and> (3 :: u64) \<le> 9"
proof -
  have "high_water_loop [(5, False), (5, True), (5, False)] 3 3 (9 :: u64) = Some (9, [])"
    by (simp add: high_water_step)
  moreover have "mark_rises 3 [(5, False), (5, True), (5, False)]" by (simp add: word_le_nat_alt)
  ultimately show ?thesis using high_water_never_lost by blast
qed

text \<open>
  The update returns as soon as the mark stays unchanged across two attempts and the second
  one does not fail spuriously, whatever happened before; without interference it is one
  exchange and the mark becomes the maximum of its value and the size, every other counter
  unchanged.
\<close>

theorem high_water_terminates:
  "high_water_loop (pre @ (seen, spurious) # (seen, False) # post) mark current sz \<noteq> None \<and>
   metrics_update_queue_high_water sz m = m\<lparr>queue_high_water := max (queue_high_water m) sz\<rparr>"
  by (simp add: high_water_returns metrics_update_queue_high_water_max)

text \<open>
  A counter is exact modulo \<open>2 ^ 64\<close>: after any number of increments, in whatever order the
  threads make them, it has advanced by their number.
\<close>

theorem metrics_counters_exact:
  "events_total ((metrics_inc_events_total ^^ n) m) = events_total m + of_nat n \<and>
   unat (queue_pushes ((metrics_inc_queue_push ^^ n) m)) = (unat (queue_pushes m) + n) mod 2 ^ 64 \<and>
   queue_pops ((metrics_inc_queue_push ^^ n) m) = queue_pops m"
proof -
  have total: "events_total ((metrics_inc_events_total ^^ n) m) = events_total m + of_nat n"
    by (induction n) (simp_all add: metrics_inc_events_total_def algebra_simps)
  have pushes: "queue_pushes ((metrics_inc_queue_push ^^ n) m) = queue_pushes m + of_nat n"
    by (induction n) (simp_all add: metrics_inc_queue_push_def algebra_simps)
  have pops: "queue_pops ((metrics_inc_queue_push ^^ n) m) = queue_pops m"
    by (induction n) (simp_all add: metrics_inc_queue_push_def)
  have "unat (queue_pushes m + of_nat n) = (unat (queue_pushes m) + n) mod 2 ^ 64"
    by (simp add: unat_word_ariths unsigned_of_nat mod_simps take_bit_eq_mod)
  with total pushes pops show ?thesis by simp
qed

section \<open>Snapshots\<close>

text \<open>
  Double-precision arithmetic is a parameter: the conversion of a counter, the quotient, and the
  comparison with zero. The counters are loaded one after the other while other threads go on
  counting, so \<open>at k\<close> is what the \<open>k\<close>-th load sees.
\<close>

record 'd double_ops =
  d_zero :: 'd
  d_of_u64 :: "u64 \<Rightarrow> 'd"
  d_div :: "'d \<Rightarrow> 'd \<Rightarrow> 'd"
  d_positive :: "'d \<Rightarrow> bool"

record 'd yurei_metrics_snapshot_t =
  snap_events_total :: u64
  snap_events_pumpfun :: u64
  snap_events_raydium :: u64
  snap_events_dropped :: u64
  snap_queue_high_water :: u64
  snap_db_inserts_success :: u64
  snap_db_inserts_failed :: u64
  snap_uptime_seconds :: 'd
  snap_events_per_second :: 'd
  snap_avg_event_latency_us :: 'd
  snap_avg_db_latency_us :: 'd

text \<open>\<open>elapsed\<close> is the difference of the clock readings and \<open>millisecond\<close> the constant \<open>0.001\<close>.\<close>

definition metrics_uptime_seconds :: "'d double_ops \<Rightarrow> 'd \<Rightarrow> 'd \<Rightarrow> 'd" where
  "metrics_uptime_seconds ops millisecond elapsed = (if d_positive ops elapsed then elapsed else millisecond)"

definition metrics_snapshot ::
  "'d double_ops \<Rightarrow> 'd \<Rightarrow> 'd \<Rightarrow> (nat \<Rightarrow> yurei_metrics_t) \<Rightarrow> 'd yurei_metrics_snapshot_t" where
  "metrics_snapshot ops millisecond elapsed at =
     (let total = events_total (at 0);
          success = db_inserts_success (at 5);
          uptime = metrics_uptime_seconds ops millisecond elapsed
      in \<lparr>snap_events_total = total,
          snap_events_pumpfun = events_pumpfun (at 1),
          snap_events_raydium = events_raydium (at 2),
          snap_events_dropped = events_dropped (at 3),
          snap_queue_high_water = queue_high_water (at 4),
          snap_db_inserts_success = success,
          snap_db_inserts_failed = db_inserts_failed (at 6),
          snap_uptime_seconds = uptime,
          snap_events_per_second = (if d_positive ops uptime then d_div ops (d_of_u64 ops total) uptime else d_zero ops),
          snap_avg_event_latency_us =
            (if 0 < total then d_div ops (d_of_u64 ops (total_event_latency_us (at 7))) (d_of_u64 ops total) else d_zero ops),
          snap_avg_db_latency_us =
            (if 0 < success then d_div ops (d_of_u64 ops (total_db_latency_us (at 8))) (d_of_u64 ops success) else d_zero ops)\<rparr>)"

text \<open>No rate divides by zero: the quotient only matters for divisors that are not zero.\<close>

lemma metrics_snapshot_division:
  assumes "\<And>x y. y \<noteq> d_zero ops \<Longrightarrow> d_div ops x y = d_div ops' x y"
    and "ops' = ops\<lparr>d_div := d_div ops'\<rparr>"
    and "\<not> d_positive ops (d_zero ops)" and "\<And>n. 0 < n \<Longrightarrow> d_of_u64 ops n \<noteq> d_zero ops"
  shows "metrics_snapshot ops millisecond elapsed at = metrics_snapshot ops' millisecond elapsed at"
proof -
  have same: "d_zero ops' = d_zero ops" "d_of_u64 ops' = d_of_u64 ops" "d_positive ops' = d_positive ops"
    by (subst assms(2), simp)+
  have "d_positive ops u \<Longrightarrow> u \<noteq> d_zero ops" for u using assms(3) by auto
  then show ?thesis
    using assms(1,4) by (simp add: metrics_snapshot_def metrics_uptime_seconds_def same Let_def)
qed

end
