(* ===== verification/Event_Queue.thy ===== *)
theory Event_Queue
  imports Yurei_Event Metrics "HOL-Library.Multiset"
begin

text \<open>
  \<^verbatim>\<open>src/src/event_queue.c\<close>: the bounded ring buffer between the ingest thread and the database
  thread. The first part is what one thread does while it holds the queue's lock, up to the
  point where it waits on a condition variable or releases the lock; the second part is the
  interleaving of any number of threads, with waits, signals, broadcasts and spurious wakeups.
\<close>

record yurei_event_queue =
  buffer :: "yurei_event_t list"
  capacity :: nat
  head :: nat
  tail :: nat
  qsize :: nat
  closed :: bool

section \<open>One thread under the lock\<close>

text \<open>The allocations of the queue and of its buffer succeed or fail; \<open>NULL\<close> is \<open>None\<close>.\<close>

definition event_queue_create :: "bool \<Rightarrow> bool \<Rightarrow> nat \<Rightarrow> yurei_event_queue option" where
  "event_queue_create queue_ok buffer_ok n =
     (if \<not> queue_ok then None
      else if \<not> buffer_ok then None
      else Some \<lparr>buffer = replicate n zero_event, capacity = n, head = 0, tail = 0, qsize = 0, closed = False\<rparr>)"

text \<open>A critical section ends in a wait or in the function's return value.\<close>

datatype 'r section_end = Wait | Return 'r

text \<open>
  What becomes of a thread that is given the list of what it meets: it has not returned where the
  list ends, it leaves defined behaviour, or it returns.
\<close>

datatype 'a outcome = Blocks | Undefined | Done 'a

definition event_queue_push_section ::
  "yurei_event_queue \<Rightarrow> yurei_metrics_t \<Rightarrow> yurei_event_t \<Rightarrow>
   (bool section_end \<times> yurei_event_queue \<times> yurei_metrics_t) checked" where
  "event_queue_push_section q m event =
     (if \<not> closed q \<and> qsize q = capacity q then Some (Wait, q, m)
      else if closed q then Some (Return False, q, m)
      else if length (buffer q) \<le> tail q \<or> capacity q = 0 then None
      else let q = q\<lparr>buffer := (buffer q)[tail q := event]\<rparr>;
               q = q\<lparr>tail := (tail q + 1) mod capacity q\<rparr>;
               q = q\<lparr>qsize := qsize q + 1\<rparr>;
               m = metrics_inc_queue_push m;
               m = metrics_update_queue_high_water (word_of_nat (qsize q)) m
           in Some (Return True, q, m))"

text \<open>The event is the out parameter together with \<open>true\<close>; \<open>None\<close> is \<open>false\<close>.\<close>

definition event_queue_pop_section ::
  "yurei_event_queue \<Rightarrow> yurei_metrics_t \<Rightarrow> bool \<Rightarrow>
   (yurei_event_t option section_end \<times> yurei_event_queue \<times> yurei_metrics_t) checked" where
  "event_queue_pop_section q m block =
     (if \<not> closed q \<and> qsize q = 0
      then (if \<not> block then Some (Return None, q, m) else Some (Wait, q, m))
      else if qsize q = 0 then Some (Return None, q, m)
      else if length (buffer q) \<le> head q \<or> capacity q = 0 then None
      else let event = buffer q ! head q;
               q = q\<lparr>head := (head q + 1) mod capacity q\<rparr>;
               q = q\<lparr>qsize := qsize q - 1\<rparr>;
               m = metrics_inc_queue_pop m
           in Some (Return (Some event), q, m))"

definition event_queue_close :: "yurei_event_queue \<Rightarrow> yurei_event_queue" where
  "event_queue_close q = q\<lparr>closed := True\<rparr>"

definition event_queue_size :: "yurei_event_queue \<Rightarrow> nat" where
  "event_queue_size q = qsize q"

definition event_queue_capacity :: "yurei_event_queue \<Rightarrow> nat" where
  "event_queue_capacity q = capacity q"

section \<open>The ring buffer as a list\<close>

definition queue_wf :: "yurei_event_queue \<Rightarrow> bool" where
  "queue_wf q \<longleftrightarrow> length (buffer q) = capacity q \<and> qsize q \<le> capacity q \<and>
     (if capacity q = 0 then head q = 0 \<and> tail q = 0
      else head q < capacity q \<and> tail q = (head q + qsize q) mod capacity q)"

definition contents :: "yurei_event_queue \<Rightarrow> yurei_event_t list" where
  "contents q = map (\<lambda>i. buffer q ! ((head q + i) mod capacity q)) [0..<qsize q]"

lemma length_contents [simp]: "length (contents q) = qsize q"
  by (simp add: contents_def)

text \<open>The slots of the stored events are distinct and none of them is the free slot behind.\<close>

lemma ring_slot_distinct:
  assumes "i < n" and "j < n" and "(h + i) mod n = (h + j) mod n" shows "i = (j :: nat)"
proof -
  have less: "a < n \<Longrightarrow> b < n \<Longrightarrow> a \<le> b \<Longrightarrow> (h + a) mod n = (h + b) mod n \<Longrightarrow> a = b" for a b
  proof -
    assume ab: "a < n" "b < n" "a \<le> b" "(h + a) mod n = (h + b) mod n"
    then have "n dvd b - a" using mod_eq_dvd_iff_nat [of "h + a" "h + b" n] by simp
    with ab have "b - a = 0" by (meson dvd_imp_le diff_less_mono2 less_imp_diff_less linorder_not_less gr0I)
    with ab show "a = b" by simp
  qed
  show ?thesis using assms less [of i j] less [of j i] by (cases "i \<le> j") auto
qed

lemma push_waits: "\<not> closed q \<Longrightarrow> qsize q = capacity q \<Longrightarrow> event_queue_push_section q m e = Some (Wait, q, m)"
  by (simp add: event_queue_push_section_def)

lemma push_refuses: "closed q \<Longrightarrow> event_queue_push_section q m e = Some (Return False, q, m)"
  by (simp add: event_queue_push_section_def)

definition pushed :: "yurei_event_t \<Rightarrow> yurei_event_queue \<Rightarrow> yurei_event_queue" where
  "pushed e q = q\<lparr>buffer := (buffer q)[tail q := e], tail := (tail q + 1) mod capacity q, qsize := qsize q + 1\<rparr>"

definition popped :: "yurei_event_queue \<Rightarrow> yurei_event_queue" where
  "popped q = q\<lparr>head := (head q + 1) mod capacity q, qsize := qsize q - 1\<rparr>"

lemma push_accepts:
  assumes "queue_wf q" and "\<not> closed q" and "qsize q < capacity q"
  shows "event_queue_push_section q m e = Some (Return True, pushed e q,
      metrics_update_queue_high_water (word_of_nat (qsize q + 1)) (metrics_inc_queue_push m))"
proof -
  have "tail q < length (buffer q)" using assms(1,3) by (auto simp: queue_wf_def)
  with assms(2,3) show ?thesis
    by (simp add: event_queue_push_section_def pushed_def Let_def)
qed

lemma pushed_contents:
  assumes "queue_wf q" and "qsize q < capacity q"
  shows "queue_wf (pushed e q)" and "contents (pushed e q) = contents q @ [e]"
proof -
  let ?n = "capacity q"
  from assms have len: "length (buffer q) = ?n" and tail: "tail q = (head q + qsize q) mod ?n" "tail q < ?n"
    by (auto simp: queue_wf_def)
  have "(tail q + 1) mod ?n = (head q + (qsize q + 1)) mod ?n"
    by (simp add: tail(1) mod_Suc_eq)
  then show "queue_wf (pushed e q)"
    using assms by (auto simp: queue_wf_def pushed_def)
  have "(buffer q)[tail q := e] ! ((head q + i) mod ?n) = buffer q ! ((head q + i) mod ?n)" if "i < qsize q" for i
    using that assms(2) ring_slot_distinct [of i ?n "qsize q" "head q"] tail(1) by (intro nth_list_update_neq) auto
  moreover have "(buffer q)[tail q := e] ! ((head q + qsize q) mod ?n) = e"
    using tail len by simp
  ultimately show "contents (pushed e q) = contents q @ [e]"
    by (simp add: contents_def pushed_def)
qed

lemma pop_waits: "\<not> closed q \<Longrightarrow> qsize q = 0 \<Longrightarrow> event_queue_pop_section q m True = Some (Wait, q, m)"
  by (simp add: event_queue_pop_section_def)

lemma pop_refuses:
  "closed q \<or> \<not> block \<Longrightarrow> qsize q = 0 \<Longrightarrow> event_queue_pop_section q m block = Some (Return None, q, m)"
  by (auto simp: event_queue_pop_section_def)

lemma popped_contents:
  assumes "queue_wf q" and "0 < qsize q"
  shows "queue_wf (popped q)" and "contents q = buffer q ! head q # contents (popped q)"
proof -
  let ?n = "capacity q"
  from assms have pos: "0 < ?n" and head: "head q < ?n" and tail: "tail q = (head q + qsize q) mod ?n"
    by (auto simp: queue_wf_def)
  have "((head q + 1) mod ?n + (qsize q - 1)) mod ?n = (head q + 1 + (qsize q - 1)) mod ?n"
    by (rule mod_add_left_eq)
  then have "tail q = ((head q + 1) mod ?n + (qsize q - 1)) mod ?n"
    using assms(2) tail by simp
  then show "queue_wf (popped q)"
    using assms pos by (auto simp: queue_wf_def popped_def)
  have "((head q + 1) mod ?n + i) mod ?n = (head q + Suc i) mod ?n" for i
    using mod_add_left_eq [of "head q + 1" ?n i] by simp
  then have "contents (popped q) = map (\<lambda>i. buffer q ! ((head q + Suc i) mod ?n)) [0..<qsize q - 1]"
    by (simp add: contents_def popped_def)
  also have "\<dots> = map (\<lambda>i. buffer q ! ((head q + i) mod ?n)) [1..<qsize q]"
  proof -
    have "[1..<qsize q] = map Suc [0..<qsize q - 1]" using assms(2) by (simp add: map_Suc_upt)
    then show ?thesis by simp
  qed
  finally show "contents q = buffer q ! head q # contents (popped q)"
    using assms(2) head by (simp add: contents_def upt_conv_Cons)
qed

lemma pop_delivers:
  assumes "queue_wf q" and "0 < qsize q"
  shows "event_queue_pop_section q m block = Some (Return (Some (hd (contents q))), popped q, metrics_inc_queue_pop m)"
proof -
  have "head q < length (buffer q)" "0 < capacity q" using assms by (auto simp: queue_wf_def)
  with assms(2) show ?thesis
    by (simp add: event_queue_pop_section_def popped_contents(2) [OF assms]) (simp add: popped_def)
qed

lemma popped_tl: "queue_wf q \<Longrightarrow> 0 < qsize q \<Longrightarrow> contents (popped q) = tl (contents q)"
  using popped_contents(2) by (metis list.sel(3))

section \<open>Refinement of a specification\<close>

text \<open>A sequence of calls, with what each returns, of an implementation and of a specification.\<close>

fun calls :: "('op \<Rightarrow> 'c \<Rightarrow> ('r \<times> 'c) option) \<Rightarrow> 'op list \<Rightarrow> 'c \<Rightarrow> ('r list \<times> 'c) option" where
  "calls step [] c = Some ([], c)"
| "calls step (op # ops) c =
     (case step op c of
        None \<Rightarrow> None
      | Some (r, c) \<Rightarrow> map_option (\<lambda>(rs, c). (r # rs, c)) (calls step ops c))"

fun spec_calls :: "('op \<Rightarrow> 'a \<Rightarrow> 'r \<times> 'a) \<Rightarrow> 'op list \<Rightarrow> 'a \<Rightarrow> 'r list \<times> 'a" where
  "spec_calls spec [] s = ([], s)"
| "spec_calls spec (op # ops) s =
     (case spec op s of (r, s) \<Rightarrow> case spec_calls spec ops s of (rs, s) \<Rightarrow> (r # rs, s))"

text \<open>What the callers of a component with a specification rely on.\<close>

locale implements =
  fixes step :: "'op \<Rightarrow> 'c \<Rightarrow> ('r \<times> 'c) option"
    and spec :: "'op \<Rightarrow> 'a \<Rightarrow> 'r \<times> 'a"
    and abs :: "'c \<Rightarrow> 'a"
    and ok :: "'c \<Rightarrow> bool"
  assumes step_refines: "ok c \<Longrightarrow>
      \<exists>c'. step op c = Some (fst (spec op (abs c)), c') \<and> ok c' \<and> abs c' = snd (spec op (abs c))"
begin

lemma calls_refine:
  "ok c \<Longrightarrow>
    \<exists>c'. calls step ops c = Some (fst (spec_calls spec ops (abs c)), c') \<and> ok c' \<and> abs c' = snd (spec_calls spec ops (abs c))"
proof (induction ops arbitrary: c)
  case (Cons op ops)
  from step_refines [OF Cons.prems, of op] obtain c1 where
    one: "step op c = Some (fst (spec op (abs c)), c1)" "ok c1" "abs c1 = snd (spec op (abs c))" by blast
  from Cons.IH [OF one(2)] obtain c2 where
    "calls step ops c1 = Some (fst (spec_calls spec ops (abs c1)), c2)" "ok c2" "abs c2 = snd (spec_calls spec ops (abs c1))" by blast
  with one show ?case by (simp add: split_beta)
qed simp

end

lemma pushed_simps [simp]: "capacity (pushed e q) = capacity q" "qsize (pushed e q) = Suc (qsize q)" "closed (pushed e q) = closed q"
  by (simp_all add: pushed_def)

lemma popped_simps [simp]: "capacity (popped q) = capacity q" "qsize (popped q) = qsize q - 1" "closed (popped q) = closed q"
  by (simp_all add: popped_def)

text \<open>The complete case distinction of a critical section.\<close>

lemma push_section_cases:
  assumes "queue_wf q"
  obtains (waits) "\<not> closed q" "qsize q = capacity q" "event_queue_push_section q m e = Some (Wait, q, m)"
    | (refuses) "closed q" "event_queue_push_section q m e = Some (Return False, q, m)"
    | (accepts) "\<not> closed q" "qsize q < capacity q"
        "event_queue_push_section q m e = Some (Return True, pushed e q,
           metrics_update_queue_high_water (word_of_nat (qsize q + 1)) (metrics_inc_queue_push m))"
  using assms push_waits push_refuses push_accepts by (metis le_neq_implies_less queue_wf_def)

lemma pop_section_cases:
  assumes "queue_wf q"
  obtains (waits) "\<not> closed q" "block" "qsize q = 0" "event_queue_pop_section q m block = Some (Wait, q, m)"
    | (refuses) "closed q \<or> \<not> block" "qsize q = 0" "event_queue_pop_section q m block = Some (Return None, q, m)"
    | (delivers) "0 < qsize q"
        "event_queue_pop_section q m block = Some (Return (Some (hd (contents q))), popped q, metrics_inc_queue_pop m)"
  using assms pop_waits pop_refuses pop_delivers by (metis (full_types) gr0I)

lemma event_queue_create_wf:
  "event_queue_create queue_ok buffer_ok n = Some q \<Longrightarrow>
    queue_wf q \<and> contents q = [] \<and> capacity q = n \<and> \<not> closed q \<and> qsize q = 0"
  by (auto simp: event_queue_create_def queue_wf_def contents_def split: if_splits)

section \<open>Properties of the operations\<close>

text \<open>
  A critical section of \<open>event_queue_push\<close> on a well-formed queue never divides by zero or
  stores outside the buffer. It waits exactly when the queue is open and full, refuses exactly
  when it is closed, and otherwise appends the event to the contents; the queue stays
  well-formed, keeps its capacity, and changes in no other case.
\<close>

theorem event_queue_push_behaviour:
  assumes "queue_wf q"
  shows "\<exists>r q' m'. event_queue_push_section q m e = Some (r, q', m') \<and> queue_wf q' \<and> capacity q' = capacity q \<and>
    (r = Wait \<longleftrightarrow> \<not> closed q \<and> length (contents q) = capacity q) \<and>
    (r = Return False \<longleftrightarrow> closed q) \<and>
    (if r = Return True then contents q' = contents q @ [e] \<and> queue_pushes m' = queue_pushes m + 1
     else q' = q \<and> m' = m)"
  using assms
proof (cases rule: push_section_cases [of q m e])
  case accepts
  with assms show ?thesis
    by (auto simp: pushed_contents metrics_update_queue_high_water_max metrics_inc_queue_push_def)
qed (use assms in auto)

definition test_event :: "nat \<Rightarrow> yurei_event_t" where
  "test_event n = zero_event\<lparr>event_data := Pumpfun_Trade (zero_trade\<lparr>sol_amount := word_of_nat n\<rparr>)\<rparr>"

definition test_queue :: yurei_event_queue where
  "test_queue = \<lparr>buffer = [test_event 2, test_event 0, test_event 1], capacity = 3, head = 1, tail = 0, qsize = 2, closed = False\<rparr>"

lemma test_queue_wf: "queue_wf test_queue" "contents test_queue = [test_event 0, test_event 1]"
  by (simp_all add: queue_wf_def test_queue_def contents_def upt_conv_Cons numeral_2_eq_2)

theorem event_queue_push_behaviour_witness:
  "\<exists>q'. fst (the (event_queue_push_section test_queue metrics_init (test_event 7))) = Return True \<and>
    event_queue_push_section test_queue metrics_init (test_event 7) =
      Some (Return True, q', snd (snd (the (event_queue_push_section test_queue metrics_init (test_event 7))))) \<and>
    contents q' = [test_event 0, test_event 1, test_event 7]"
proof -
  obtain r q' m' where push: "event_queue_push_section test_queue metrics_init (test_event 7) = Some (r, q', m')"
    and "r = Wait \<longleftrightarrow> \<not> closed test_queue \<and> length (contents test_queue) = capacity test_queue"
    and "r = Return False \<longleftrightarrow> closed test_queue"
    and "if r = Return True then contents q' = contents test_queue @ [test_event 7] \<and> queue_pushes m' = queue_pushes metrics_init + 1
      else q' = test_queue \<and> m' = metrics_init"
    using event_queue_push_behaviour [OF test_queue_wf(1), of metrics_init "test_event 7"] by blast
  moreover from this have "r = Return True"
    by (cases r) (auto simp: test_queue_def)
  ultimately show ?thesis by (simp add: test_queue_wf)
qed

text \<open>
  A critical section of \<open>event_queue_pop\<close> on a well-formed queue stays inside the buffer. It
  delivers the oldest event whenever there is one, closed or not; on an empty queue it waits
  if the queue is open and the caller asked to block, and returns \<open>false\<close> otherwise.
\<close>

theorem event_queue_pop_behaviour:
  assumes "queue_wf q"
  shows "\<exists>r q' m'. event_queue_pop_section q m block = Some (r, q', m') \<and> queue_wf q' \<and> capacity q' = capacity q \<and>
    (r = Wait \<longleftrightarrow> contents q = [] \<and> \<not> closed q \<and> block) \<and>
    (r = Return None \<longleftrightarrow> contents q = [] \<and> (closed q \<or> \<not> block)) \<and>
    (case r of
       Return (Some e) \<Rightarrow> contents q = e # contents q' \<and> queue_pops m' = queue_pops m + 1
     | _ \<Rightarrow> q' = q \<and> m' = m)"
  using assms
proof (cases rule: pop_section_cases [of q block m])
  case delivers
  moreover have "contents q \<noteq> []" using delivers(1) by (metis length_contents length_0_conv less_irrefl)
  ultimately show ?thesis
    using assms popped_contents [of q] by (auto simp: metrics_inc_queue_pop_def)
qed (use assms in \<open>auto simp: contents_def\<close>)

theorem event_queue_pop_behaviour_witness:
  "\<exists>q' m'. event_queue_pop_section test_queue metrics_init True = Some (Return (Some (test_event 0)), q', m') \<and>
    contents q' = [test_event 1]"
proof -
  obtain r q' m' where pop: "event_queue_pop_section test_queue metrics_init True = Some (r, q', m')"
    and r: "r \<noteq> Wait" "r \<noteq> Return None"
    and "case r of Return (Some e) \<Rightarrow> contents test_queue = e # contents q' \<and> queue_pops m' = queue_pops metrics_init + 1
      | _ \<Rightarrow> q' = test_queue \<and> m' = metrics_init"
    using event_queue_pop_behaviour [OF test_queue_wf(1), of metrics_init True] test_queue_wf(2) by auto
  moreover from r obtain e where "r = Return (Some e)" by (cases r) auto
  ultimately show ?thesis by (auto simp: test_queue_wf)
qed

section \<open>The queue as a list\<close>

text \<open>
  Calls from one thread at a time, with what each returns: a push and a pop may have to wait, and
  then change nothing.
\<close>

datatype queue_op = Push yurei_event_t | Pop bool | Close | Size

datatype queue_result =
    Pushed "bool section_end"
  | Popped "yurei_event_t option section_end"
  | Closed
  | Counted nat

fun queue_call ::
  "queue_op \<Rightarrow> yurei_event_queue \<times> yurei_metrics_t \<Rightarrow> (queue_result \<times> yurei_event_queue \<times> yurei_metrics_t) checked" where
  "queue_call (Push e) (q, m) = map_option (\<lambda>(r, qm). (Pushed r, qm)) (event_queue_push_section q m e)"
| "queue_call (Pop block) (q, m) = map_option (\<lambda>(r, qm). (Popped r, qm)) (event_queue_pop_section q m block)"
| "queue_call Close (q, m) = Some (Closed, event_queue_close q, m)"
| "queue_call Size (q, m) = Some (Counted (event_queue_size q), q, m)"

text \<open>The specification: a flag and a list of at most \<open>n\<close> events.\<close>

fun fifo_call :: "nat \<Rightarrow> queue_op \<Rightarrow> bool \<times> yurei_event_t list \<Rightarrow> queue_result \<times> bool \<times> yurei_event_t list" where
  "fifo_call n (Push e) (c, es) =
     (if c then (Pushed (Return False), c, es)
      else if n \<le> length es then (Pushed Wait, c, es)
      else (Pushed (Return True), c, es @ [e]))"
| "fifo_call n (Pop block) (c, []) = (Popped (if \<not> c \<and> block then Wait else Return None), c, [])"
| "fifo_call n (Pop block) (c, e # es) = (Popped (Return (Some e)), c, es)"
| "fifo_call n Close (c, es) = (Closed, True, es)"
| "fifo_call n Size (c, es) = (Counted (length es), c, es)"

definition queue_abs :: "yurei_event_queue \<Rightarrow> bool \<times> yurei_event_t list" where
  "queue_abs q = (closed q, contents q)"

lemma close_contents [simp]: "queue_wf (event_queue_close q) = queue_wf q" "contents (event_queue_close q) = contents q"
    "capacity (event_queue_close q) = capacity q" "qsize (event_queue_close q) = qsize q" "closed (event_queue_close q)"
  by (simp_all add: event_queue_close_def queue_wf_def contents_def)

lemma contents_Nil_iff: "contents q = [] \<longleftrightarrow> qsize q = 0"
  by (simp add: contents_def)

text \<open>The simulation, call by call; the counters of the database are not touched.\<close>

lemma queue_call_refines:
  assumes "queue_wf q"
  shows "\<exists>q' m'. queue_call op (q, m) = Some (fst (fifo_call (capacity q) op (queue_abs q)), q', m') \<and>
    queue_wf q' \<and> capacity q' = capacity q \<and> queue_abs q' = snd (fifo_call (capacity q) op (queue_abs q)) \<and>
    events_total m' = events_total m \<and> db_inserts_success m' = db_inserts_success m \<and>
    db_inserts_failed m' = db_inserts_failed m"
proof (cases op)
  case (Push e)
  from assms show ?thesis
  proof (cases rule: push_section_cases [of q m e])
    case accepts
    with assms Push show ?thesis
      by (simp add: queue_abs_def pushed_contents metrics_update_queue_high_water_max metrics_inc_queue_push_def)
  qed (use assms Push in \<open>simp_all add: queue_abs_def\<close>)
next
  case (Pop block)
  from assms show ?thesis
  proof (cases rule: pop_section_cases [of q block m])
    case delivers
    then obtain e es where "contents q = e # es" using contents_Nil_iff [of q] by (cases "contents q") auto
    with assms Pop delivers show ?thesis
      using popped_contents [OF assms delivers(1)] by (simp add: queue_abs_def metrics_inc_queue_pop_def)
  qed (use assms Pop contents_Nil_iff [of q] in \<open>simp_all add: queue_abs_def\<close>)
next
  case Close
  with assms show ?thesis by (simp add: queue_abs_def)
next
  case Size
  with assms show ?thesis by (simp add: queue_abs_def event_queue_size_def)
qed

interpretation event_queue: implements queue_call "fifo_call n" "\<lambda>(q, m). queue_abs q" "\<lambda>(q, m). queue_wf q \<and> capacity q = n"
  for n
proof unfold_locales
  fix qm :: "yurei_event_queue \<times> yurei_metrics_t" and op
  obtain q m where qm: "qm = (q, m)" by (cases qm)
  assume "case qm of (q, m) \<Rightarrow> queue_wf q \<and> capacity q = n"
  then have "queue_wf q" "capacity q = n" by (simp_all add: qm)
  with queue_call_refines [of q op m]
  show "\<exists>qm'. queue_call op qm = Some (fst (fifo_call n op (case qm of (q, m) \<Rightarrow> queue_abs q)), qm') \<and>
      (case qm' of (q, m) \<Rightarrow> queue_wf q \<and> capacity q = n) \<and>
      (case qm' of (q, m) \<Rightarrow> queue_abs q) = snd (fifo_call n op (case qm of (q, m) \<Rightarrow> queue_abs q))"
    by (auto simp: qm)
qed

text \<open>
  C33. The ring buffer is a bounded first-in first-out list. For every sequence of pushes, pops,
  closes and size queries, of any length and on any well-formed queue, the calls stay inside
  the buffer and return, one by one, what they return on a flag and a list that holds at most
  the capacity: a push waits when the list is full and is refused when the flag is set, a pop
  takes the first event, waits or reports an empty queue; and the queue then holds that list.
\<close>

theorem queue_refines_fifo:
  assumes "queue_wf q"
  shows "\<exists>q' m'. calls queue_call ops (q, m) = Some (fst (spec_calls (fifo_call (capacity q)) ops (closed q, contents q)), q', m') \<and>
    queue_wf q' \<and> capacity q' = capacity q \<and>
    (closed q', contents q') = snd (spec_calls (fifo_call (capacity q)) ops (closed q, contents q))"
  using event_queue.calls_refine [of "capacity q" "(q, m)" ops] assms by (auto simp: queue_abs_def)

theorem queue_refines_fifo_witness:
  "\<exists>q' m'. calls queue_call [Push (test_event 1), Push (test_event 2), Push (test_event 3), Pop True, Push (test_event 4), Close,
        Push (test_event 5), Pop True, Pop True, Pop True, Size] (the (event_queue_create True True 2), metrics_init) =
      Some ([Pushed (Return True), Pushed (Return True), Pushed Wait, Popped (Return (Some (test_event 1))), Pushed (Return True),
        Closed, Pushed (Return False), Popped (Return (Some (test_event 2))), Popped (Return (Some (test_event 4))),
        Popped (Return None), Counted 0], q', m') \<and> contents q' = []"
proof -
  let ?q = "the (event_queue_create True True 2)"
  have "event_queue_create True True 2 = Some ?q" by (simp add: event_queue_create_def)
  note fresh = event_queue_create_wf [OF this]
  then have wf: "queue_wf ?q" by simp
  from queue_refines_fifo [OF wf, of "[Push (test_event 1), Push (test_event 2), Push (test_event 3), Pop True, Push (test_event 4), Close,
        Push (test_event 5), Pop True, Pop True, Pop True, Size]" metrics_init] fresh
  show ?thesis by auto
qed

section \<open>All threads\<close>

text \<open>
  The queue with the threads that are inside it: those that compete for the lock, because they
  just called an operation or were woken, and those that wait on \<open>not_full\<close> and
  \<open>not_empty\<close>. A push carries its event, a pop its \<open>block\<close> argument (only blocking pops
  wait). Two ghost fields record the events accepted and delivered so far.
\<close>

record queue_system =
  queue :: yurei_event_queue
  counters :: yurei_metrics_t
  push_ready :: "yurei_event_t multiset"
  push_waiting :: "yurei_event_t multiset"
  pop_ready :: "bool multiset"
  pop_waiting :: nat
  accepted :: "yurei_event_t list"
  delivered :: "yurei_event_t list"

text \<open>
  One step is one critical section: the mutex makes it atomic, and a thread that waits gives up
  the lock. \<open>pthread_cond_signal\<close> wakes at least one waiting thread if there is one,
  \<open>pthread_cond_broadcast\<close> all of them, and a waiting thread may wake up by itself.
\<close>

inductive queue_step :: "queue_system \<Rightarrow> queue_system \<Rightarrow> bool" where
  call_push: "queue_step s (s\<lparr>push_ready := add_mset e (push_ready s)\<rparr>)"
| call_pop: "queue_step s (s\<lparr>pop_ready := add_mset block (pop_ready s)\<rparr>)"
| push_blocks: "e \<in># push_ready s \<Longrightarrow>
    event_queue_push_section (queue s) (counters s) e = Some (Wait, q, m) \<Longrightarrow>
    queue_step s (s\<lparr>queue := q, counters := m, push_ready := push_ready s - {#e#},
      push_waiting := add_mset e (push_waiting s)\<rparr>)"
| push_fails: "e \<in># push_ready s \<Longrightarrow>
    event_queue_push_section (queue s) (counters s) e = Some (Return False, q, m) \<Longrightarrow>
    queue_step s (s\<lparr>queue := q, counters := m, push_ready := push_ready s - {#e#}\<rparr>)"
| push_succeeds: "e \<in># push_ready s \<Longrightarrow>
    event_queue_push_section (queue s) (counters s) e = Some (Return True, q, m) \<Longrightarrow>
    woken \<le> pop_waiting s \<Longrightarrow> woken = 0 \<longleftrightarrow> pop_waiting s = 0 \<Longrightarrow>
    queue_step s (s\<lparr>queue := q, counters := m, push_ready := push_ready s - {#e#},
      pop_waiting := pop_waiting s - woken, pop_ready := pop_ready s + replicate_mset woken True,
      accepted := accepted s @ [e]\<rparr>)"
| pop_blocks: "block \<in># pop_ready s \<Longrightarrow>
    event_queue_pop_section (queue s) (counters s) block = Some (Wait, q, m) \<Longrightarrow>
    queue_step s (s\<lparr>queue := q, counters := m, pop_ready := pop_ready s - {#block#},
      pop_waiting := Suc (pop_waiting s)\<rparr>)"
| pop_fails: "block \<in># pop_ready s \<Longrightarrow>
    event_queue_pop_section (queue s) (counters s) block = Some (Return None, q, m) \<Longrightarrow>
    queue_step s (s\<lparr>queue := q, counters := m, pop_ready := pop_ready s - {#block#}\<rparr>)"
| pop_succeeds: "block \<in># pop_ready s \<Longrightarrow>
    event_queue_pop_section (queue s) (counters s) block = Some (Return (Some e), q, m) \<Longrightarrow>
    woken \<subseteq># push_waiting s \<Longrightarrow> woken = {#} \<longleftrightarrow> push_waiting s = {#} \<Longrightarrow>
    queue_step s (s\<lparr>queue := q, counters := m, pop_ready := pop_ready s - {#block#},
      push_waiting := push_waiting s - woken, push_ready := push_ready s + woken,
      delivered := delivered s @ [e]\<rparr>)"
| closing: "queue_step s (s\<lparr>queue := event_queue_close (queue s),
      push_ready := push_ready s + push_waiting s, push_waiting := {#},
      pop_ready := pop_ready s + replicate_mset (pop_waiting s) True, pop_waiting := 0\<rparr>)"
| spurious_push: "e \<in># push_waiting s \<Longrightarrow>
    queue_step s (s\<lparr>push_waiting := push_waiting s - {#e#}, push_ready := add_mset e (push_ready s)\<rparr>)"
| spurious_pop: "0 < pop_waiting s \<Longrightarrow>
    queue_step s (s\<lparr>pop_waiting := pop_waiting s - 1, pop_ready := add_mset True (pop_ready s)\<rparr>)"

definition initial_system :: "nat \<Rightarrow> queue_system" where
  "initial_system n = \<lparr>queue = the (event_queue_create True True n), counters = metrics_init,
     push_ready = {#}, push_waiting = {#}, pop_ready = {#}, pop_waiting = 0, accepted = [], delivered = []\<rparr>"

inductive reachable :: "nat \<Rightarrow> queue_system \<Rightarrow> bool" for n where
  start: "reachable n (initial_system n)"
| step: "reachable n s \<Longrightarrow> queue_step s s' \<Longrightarrow> reachable n s'"

text \<open>
  The invariant. Nothing is lost, duplicated or reordered; a consumer sleeps only while the
  queue is open and at least as many consumers are on their way to the lock as there are
  events to fetch; a producer sleeps only while at least as many producers are on their way
  as there are free slots; the difference of the two counters is the queue's length, and the
  high-water mark is at least that length.
\<close>

definition system_ok :: "nat \<Rightarrow> queue_system \<Rightarrow> bool" where
  "system_ok n s \<longleftrightarrow>
     queue_wf (queue s) \<and> capacity (queue s) = n \<and>
     accepted s = delivered s @ contents (queue s) \<and>
     (0 < pop_waiting s \<longrightarrow> \<not> closed (queue s) \<and> qsize (queue s) \<le> size (pop_ready s)) \<and>
     (push_waiting s \<noteq> {#} \<longrightarrow> \<not> closed (queue s) \<and> n - qsize (queue s) \<le> size (push_ready s)) \<and>
     queue_pushes (counters s) = word_of_nat (length (accepted s)) \<and>
     queue_pops (counters s) = word_of_nat (length (delivered s)) \<and>
     (n < 2 ^ 64 \<longrightarrow> word_of_nat (qsize (queue s)) \<le> queue_high_water (counters s) \<and>
        unat (queue_high_water (counters s)) \<le> n)"

lemma push_section_ends:
  assumes "queue_wf q" and "event_queue_push_section q m e = Some (r, q', m')"
  shows "r = Wait \<Longrightarrow> q' = q \<and> m' = m \<and> \<not> closed q \<and> qsize q = capacity q"
    and "r = Return False \<Longrightarrow> q' = q \<and> m' = m \<and> closed q"
    and "r = Return True \<Longrightarrow> q' = pushed e q \<and> \<not> closed q \<and> qsize q < capacity q \<and>
      m' = metrics_update_queue_high_water (word_of_nat (qsize q + 1)) (metrics_inc_queue_push m)"
proof -
  show "r = Wait \<Longrightarrow> q' = q \<and> m' = m \<and> \<not> closed q \<and> qsize q = capacity q"
    by (rule push_section_cases [OF assms(1), of m e]) (use assms(2) in simp_all)
  show "r = Return False \<Longrightarrow> q' = q \<and> m' = m \<and> closed q"
    by (rule push_section_cases [OF assms(1), of m e]) (use assms(2) in simp_all)
  show "r = Return True \<Longrightarrow> q' = pushed e q \<and> \<not> closed q \<and> qsize q < capacity q \<and>
      m' = metrics_update_queue_high_water (word_of_nat (qsize q + 1)) (metrics_inc_queue_push m)"
    by (rule push_section_cases [OF assms(1), of m e]) (use assms(2) in simp_all)
qed

lemma pop_section_ends:
  assumes "queue_wf q" and "event_queue_pop_section q m block = Some (r, q', m')"
  shows "r = Wait \<Longrightarrow> q' = q \<and> m' = m \<and> \<not> closed q \<and> block \<and> qsize q = 0"
    and "r = Return None \<Longrightarrow> q' = q \<and> m' = m \<and> qsize q = 0"
    and "r = Return (Some e) \<Longrightarrow> q' = popped q \<and> m' = metrics_inc_queue_pop m \<and> 0 < qsize q \<and> e = hd (contents q)"
proof -
  show "r = Wait \<Longrightarrow> q' = q \<and> m' = m \<and> \<not> closed q \<and> block \<and> qsize q = 0"
    by (rule pop_section_cases [OF assms(1), of block m]) (use assms(2) in simp_all)
  show "r = Return None \<Longrightarrow> q' = q \<and> m' = m \<and> qsize q = 0"
    by (rule pop_section_cases [OF assms(1), of block m]) (use assms(2) in simp_all)
  show "r = Return (Some e) \<Longrightarrow> q' = popped q \<and> m' = metrics_inc_queue_pop m \<and> 0 < qsize q \<and> e = hd (contents q)"
    by (rule pop_section_cases [OF assms(1), of block m]) (use assms(2) in simp_all)
qed

lemma high_water_grows:
  assumes "k < n" and "n < 2 ^ 64" and "unat mark \<le> n"
  shows "word_of_nat (k + 1) \<le> max mark (word_of_nat (k + 1) :: u64)" and "unat (max mark (word_of_nat (k + 1) :: u64)) \<le> n"
proof -
  have "unat (word_of_nat (k + 1) :: u64) = k + 1"
    by (rule unat_u64_of_nat) (use assms in simp)
  with assms show "unat (max mark (word_of_nat (k + 1) :: u64)) \<le> n" by (simp add: max_def)
qed simp

lemma word_of_nat_pred_le: "0 < k \<Longrightarrow> k < 2 ^ 64 \<Longrightarrow> (word_of_nat (k - 1) :: u64) \<le> word_of_nat k"
  unfolding word_le_nat_alt using unat_u64_of_nat [of "k - 1"] unat_u64_of_nat [of k] by simp

lemma system_ok_push_succeeds:
  assumes ok: "system_ok n s" and e: "e \<in># push_ready s"
    and push: "event_queue_push_section (queue s) (counters s) e = Some (Return True, q, m)"
    and woken: "woken \<le> pop_waiting s" "woken = 0 \<longleftrightarrow> pop_waiting s = 0"
  shows "system_ok n (s\<lparr>queue := q, counters := m, push_ready := push_ready s - {#e#},
      pop_waiting := pop_waiting s - woken, pop_ready := pop_ready s + replicate_mset woken True,
      accepted := accepted s @ [e]\<rparr>)"
proof -
  have wf: "queue_wf (queue s)" and n: "capacity (queue s) = n" using ok by (simp_all add: system_ok_def)
  from push_section_ends(3) [OF wf push]
  have q: "q = pushed e (queue s)" "\<not> closed (queue s)" "qsize (queue s) < n"
    and m: "m = metrics_update_queue_high_water (word_of_nat (qsize (queue s) + 1)) (metrics_inc_queue_push (counters s))"
    by (simp_all add: n)
  have "size (push_ready s - {#e#}) = size (push_ready s) - 1" using e by (simp add: size_Diff_singleton)
  moreover have "n < 2 ^ 64 \<Longrightarrow> unat (queue_high_water (counters s)) \<le> n" using ok by (simp add: system_ok_def)
  note high_water_grows [OF q(3) _ this]
  moreover have "woken < pop_waiting s \<Longrightarrow> Suc (qsize (queue s)) \<le> size (pop_ready s) + woken"
    using ok woken by (auto simp: system_ok_def)
  moreover have "push_waiting s \<noteq> {#} \<Longrightarrow> n - Suc (qsize (queue s)) \<le> size (push_ready s) - Suc 0"
    using ok by (auto simp: system_ok_def)
  ultimately show ?thesis
    using ok woken q pushed_contents [OF wf, of e] n
    by (simp add: system_ok_def m metrics_update_queue_high_water_max metrics_inc_queue_push_def)
qed

lemma system_ok_pop_succeeds:
  assumes ok: "system_ok n s" and block: "block \<in># pop_ready s"
    and pop: "event_queue_pop_section (queue s) (counters s) block = Some (Return (Some e), q, m)"
    and woken: "woken \<subseteq># push_waiting s" "woken = {#} \<longleftrightarrow> push_waiting s = {#}"
  shows "system_ok n (s\<lparr>queue := q, counters := m, pop_ready := pop_ready s - {#block#},
      push_waiting := push_waiting s - woken, push_ready := push_ready s + woken,
      delivered := delivered s @ [e]\<rparr>)"
proof -
  have wf: "queue_wf (queue s)" and n: "capacity (queue s) = n" using ok by (simp_all add: system_ok_def)
  from pop_section_ends(3) [OF wf pop]
  have q: "q = popped (queue s)" "0 < qsize (queue s)" and m: "m = metrics_inc_queue_pop (counters s)"
    and e: "e = hd (contents (queue s))" by simp_all
  have contents: "contents (queue s) = e # contents (popped (queue s))"
    using popped_contents(2) [OF wf q(2)] e by simp
  have ready: "size (pop_ready s - {#block#}) = size (pop_ready s) - 1" using block by (simp add: size_Diff_singleton)
  have woken_size: "push_waiting s \<noteq> {#} \<Longrightarrow> 0 < size woken" using woken(2) by (metis nonempty_has_size)
  have mark: "n < 2 ^ 64 \<Longrightarrow> word_of_nat (qsize (queue s) - 1) \<le> queue_high_water (counters s)"
  proof -
    assume "n < 2 ^ 64"
    moreover have "qsize (queue s) \<le> n" using wf n by (simp add: queue_wf_def)
    ultimately have "(word_of_nat (qsize (queue s) - 1) :: u64) \<le> word_of_nat (qsize (queue s))"
      using q(2) by (intro word_of_nat_pred_le) auto
    also have "\<dots> \<le> queue_high_water (counters s)" using ok \<open>n < 2 ^ 64\<close> by (simp add: system_ok_def)
    finally show ?thesis .
  qed
  have sleepers: "push_waiting s - woken \<noteq> {#} \<Longrightarrow> push_waiting s \<noteq> {#}" by auto
  show ?thesis
    using ok woken q popped_contents(1) [OF wf q(2)] n contents ready woken_size mark sleepers
    by (auto simp: system_ok_def m metrics_inc_queue_pop_def)
qed

lemma system_ok_step: "queue_step s s' \<Longrightarrow> system_ok n s \<Longrightarrow> system_ok n s'"
proof (induction rule: queue_step.induct)
  case (push_blocks e s q m)
  then have "queue_wf (queue s)" by (simp add: system_ok_def)
  with push_section_ends(1) [OF this push_blocks(2)] push_blocks show ?case
    by (auto simp: system_ok_def size_Diff_singleton)
next
  case (push_fails e s q m)
  then have "queue_wf (queue s)" by (simp add: system_ok_def)
  with push_section_ends(2) [OF this push_fails(2)] push_fails show ?case
    by (auto simp: system_ok_def)
next
  case (push_succeeds e s q m woken)
  then show ?case by (intro system_ok_push_succeeds)
next
  case (pop_blocks block s q m)
  then have "queue_wf (queue s)" by (simp add: system_ok_def)
  with pop_section_ends(1) [OF this pop_blocks(2)] pop_blocks show ?case
    by (auto simp: system_ok_def)
next
  case (pop_fails block s q m)
  then have "queue_wf (queue s)" by (simp add: system_ok_def)
  with pop_section_ends(2) [OF this pop_fails(2)] pop_fails show ?case
    by (auto simp: system_ok_def)
next
  case (pop_succeeds block s e q m woken)
  then show ?case by (intro system_ok_pop_succeeds)
next
  case (closing s)
  then show ?case
    by (simp add: system_ok_def)
next
  case (spurious_push e s)
  then show ?case by (auto simp: system_ok_def)
qed (auto simp: system_ok_def)

lemma system_ok_initial: "system_ok n (initial_system n)"
  using event_queue_create_wf [of True True n]
  by (simp add: system_ok_def initial_system_def event_queue_create_def queue_wf_def contents_def metrics_init_def)

lemma reachable_ok: "reachable n s \<Longrightarrow> system_ok n s"
  by (induction rule: reachable.induct) (auto intro: system_ok_initial system_ok_step)

section \<open>An example run\<close>

text \<open>A consumer finds the queue empty and sleeps; a producer stores an event and wakes it.\<close>

definition sleeping_consumer :: queue_system where
  "sleeping_consumer = (initial_system 2)\<lparr>pop_waiting := 1\<rparr>"

definition woken_consumer :: queue_system where
  "woken_consumer = sleeping_consumer\<lparr>
     queue := pushed (test_event 5) (queue sleeping_consumer),
     counters := metrics_update_queue_high_water (word_of_nat (qsize (queue sleeping_consumer) + 1))
       (metrics_inc_queue_push (counters sleeping_consumer)),
     pop_waiting := 0, pop_ready := {#True#}, accepted := [test_event 5]\<rparr>"

lemma sleeping_consumer_reachable: "reachable 2 sleeping_consumer"
proof -
  let ?s1 = "(initial_system 2)\<lparr>pop_ready := add_mset True (pop_ready (initial_system 2))\<rparr>"
  have "reachable 2 ?s1" by (intro reachable.step [OF reachable.start] call_pop)
  moreover have "queue_step ?s1 (?s1\<lparr>queue := queue ?s1, counters := counters ?s1,
      pop_ready := pop_ready ?s1 - {#True#}, pop_waiting := Suc (pop_waiting ?s1)\<rparr>)"
    by (rule pop_blocks) (simp_all add: initial_system_def event_queue_create_def event_queue_pop_section_def)
  moreover have "?s1\<lparr>queue := queue ?s1, counters := counters ?s1,
      pop_ready := pop_ready ?s1 - {#True#}, pop_waiting := Suc (pop_waiting ?s1)\<rparr> = sleeping_consumer"
    by (simp add: sleeping_consumer_def initial_system_def)
  ultimately show ?thesis by (metis reachable.step)
qed

lemma woken_consumer_reachable: "reachable 2 woken_consumer"
proof -
  let ?e = "test_event 5"
  let ?s1 = "sleeping_consumer\<lparr>push_ready := add_mset ?e (push_ready sleeping_consumer)\<rparr>"
  let ?q = "pushed ?e (queue ?s1)"
  let ?m = "metrics_update_queue_high_water (word_of_nat (qsize (queue ?s1) + 1)) (metrics_inc_queue_push (counters ?s1))"
  have "reachable 2 ?s1" by (intro reachable.step [OF sleeping_consumer_reachable] call_push)
  moreover have "event_queue_push_section (queue ?s1) (counters ?s1) ?e = Some (Return True, ?q, ?m)"
    by (rule push_accepts)
      (simp_all add: sleeping_consumer_def initial_system_def event_queue_create_def queue_wf_def)
  then have "queue_step ?s1 (?s1\<lparr>queue := ?q, counters := ?m, push_ready := push_ready ?s1 - {#?e#},
      pop_waiting := pop_waiting ?s1 - 1, pop_ready := pop_ready ?s1 + replicate_mset 1 True,
      accepted := accepted ?s1 @ [?e]\<rparr>)"
    by (intro push_succeeds) (simp_all add: sleeping_consumer_def)
  moreover have "?s1\<lparr>queue := ?q, counters := ?m, push_ready := push_ready ?s1 - {#?e#},
      pop_waiting := pop_waiting ?s1 - 1, pop_ready := pop_ready ?s1 + replicate_mset 1 True,
      accepted := accepted ?s1 @ [?e]\<rparr> = woken_consumer"
    by (simp add: woken_consumer_def sleeping_consumer_def initial_system_def)
  ultimately show ?thesis by (metis reachable.step)
qed

section \<open>Properties of the interleavings\<close>

text \<open>
  C2. In every interleaving of producers, consumers and closers, the events delivered so far
  followed by the events in the queue are exactly the accepted ones, in the order in which
  they were accepted: none is lost, duplicated or reordered. The queue never holds more than
  its capacity, the counters tell its length, and the high-water mark lies between the current
  length and the capacity.
\<close>

theorem queue_delivers_exactly_once:
  assumes "reachable n s"
  shows "accepted s = delivered s @ contents (queue s) \<and> length (contents (queue s)) \<le> n \<and>
    queue_pushes (counters s) - queue_pops (counters s) = word_of_nat (length (contents (queue s))) \<and>
    (n < 2 ^ 64 \<longrightarrow> length (contents (queue s)) \<le> unat (queue_high_water (counters s)) \<and>
       unat (queue_high_water (counters s)) \<le> n)"
proof -
  note ok = reachable_ok [OF assms, unfolded system_ok_def]
  have le: "qsize (queue s) \<le> n" using ok by (auto simp: queue_wf_def)
  have "length (accepted s) = length (delivered s) + qsize (queue s)" using ok by simp
  then have "queue_pushes (counters s) - queue_pops (counters s) = word_of_nat (qsize (queue s))"
    using ok by simp
  moreover have "n < 2 ^ 64 \<Longrightarrow> qsize (queue s) \<le> unat (queue_high_water (counters s))"
    using ok le unat_u64_of_nat [of "qsize (queue s)"] by (simp add: word_le_nat_alt)
  ultimately show ?thesis using ok le by simp
qed

theorem queue_delivers_exactly_once_witness:
  "[test_event 5] = contents (queue woken_consumer) \<and> queue_pushes (counters woken_consumer) - queue_pops (counters woken_consumer) = 1"
proof -
  have "accepted woken_consumer = [test_event 5]" "delivered woken_consumer = []"
    by (simp_all add: woken_consumer_def sleeping_consumer_def initial_system_def)
  with queue_delivers_exactly_once [OF woken_consumer_reachable] show ?thesis
    by (metis One_nat_def append_Nil length_Cons list.size(3) of_nat_1)
qed

text \<open>
  C3. No wakeup is lost and the threads cannot deadlock on the queue: a consumer sleeps only
  while the queue is open and every stored event has a consumer on its way to the lock, a
  producer only while every free slot has a producer on its way; so with a positive capacity
  there are never sleeping producers and sleeping consumers with nobody running.
\<close>

theorem queue_no_lost_wakeup:
  assumes "reachable n s"
  shows "(0 < pop_waiting s \<longrightarrow> \<not> closed (queue s) \<and> length (contents (queue s)) \<le> size (pop_ready s)) \<and>
    (push_waiting s \<noteq> {#} \<longrightarrow> \<not> closed (queue s) \<and> n - length (contents (queue s)) \<le> size (push_ready s)) \<and>
    (0 < n \<longrightarrow> 0 < pop_waiting s \<longrightarrow> push_waiting s \<noteq> {#} \<longrightarrow> pop_ready s \<noteq> {#} \<or> push_ready s \<noteq> {#})"
  using reachable_ok [OF assms] by (auto simp: system_ok_def)

theorem queue_no_lost_wakeup_witness:
  "0 < pop_waiting sleeping_consumer \<and> length (contents (queue sleeping_consumer)) \<le> size (pop_ready sleeping_consumer)"
proof -
  have "0 < pop_waiting sleeping_consumer" by (simp add: sleeping_consumer_def)
  with queue_no_lost_wakeup [OF sleeping_consumer_reachable] show ?thesis by simp
qed

end
