(* ===== verification/Logging.thy ===== *)
theory Logging
  imports Yurei_Prelude
begin

text \<open>
  \<^verbatim>\<open>src/src/log.c\<close>: the level and colour settings with their initialisation from the
  environment, the filter, and the line that is printed. The settings are global and guarded by
  a mutex; \<open>level_to_color\<close> reads the colour setting again without it, so the settings at that
  moment are a parameter of their own. The clock and the formatted message are parameters.
\<close>

section \<open>Levels\<close>

datatype yurei_log_level_t =
    YUREI_LOG_TRACE
  | YUREI_LOG_DEBUG
  | YUREI_LOG_INFO
  | YUREI_LOG_WARN
  | YUREI_LOG_ERROR

text \<open>The enumeration's values; C compares levels by them.\<close>

fun level_value :: "yurei_log_level_t \<Rightarrow> nat" where
  "level_value YUREI_LOG_TRACE = 0"
| "level_value YUREI_LOG_DEBUG = 1"
| "level_value YUREI_LOG_INFO = 2"
| "level_value YUREI_LOG_WARN = 3"
| "level_value YUREI_LOG_ERROR = 4"

lemma level_value_inj: "level_value a = level_value b \<longleftrightarrow> a = b"
  by (cases a; cases b) simp_all

instantiation yurei_log_level_t :: linorder
begin

definition less_eq_yurei_log_level_t :: "yurei_log_level_t \<Rightarrow> yurei_log_level_t \<Rightarrow> bool" where
  "less_eq_yurei_log_level_t a b \<longleftrightarrow> level_value a \<le> level_value b"

definition less_yurei_log_level_t :: "yurei_log_level_t \<Rightarrow> yurei_log_level_t \<Rightarrow> bool" where
  "less_yurei_log_level_t a b \<longleftrightarrow> level_value a < level_value b"

instance
  by intro_classes (auto simp: less_eq_yurei_log_level_t_def less_yurei_log_level_t_def level_value_inj)

end

lemmas level_order_defs = less_eq_yurei_log_level_t_def less_yurei_log_level_t_def

section \<open>Settings\<close>

record log_state =
  g_level :: yurei_log_level_t
  g_use_color :: bool

definition log_static :: log_state where
  "log_static = \<lparr>g_level = YUREI_LOG_INFO, g_use_color = False\<rparr>"

definition yurei_log_init :: "(string \<Rightarrow> string option) \<Rightarrow> log_state \<Rightarrow> log_state" where
  "yurei_log_init getenv state =
     (let color_env = getenv ''YUREI_LOG_COLOR'';
          level_env = getenv ''YUREI_LOG_LEVEL'';
          state = state\<lparr>g_use_color := (case color_env of None \<Rightarrow> False | Some v \<Rightarrow> v = ''1'' \<or> v = ''true'')\<rparr>
      in case level_env of
           None \<Rightarrow> state
         | Some v \<Rightarrow>
             if v = ''TRACE'' then state\<lparr>g_level := YUREI_LOG_TRACE\<rparr>
             else if v = ''DEBUG'' then state\<lparr>g_level := YUREI_LOG_DEBUG\<rparr>
             else if v = ''INFO'' then state\<lparr>g_level := YUREI_LOG_INFO\<rparr>
             else if v = ''WARN'' then state\<lparr>g_level := YUREI_LOG_WARN\<rparr>
             else if v = ''ERROR'' then state\<lparr>g_level := YUREI_LOG_ERROR\<rparr>
             else state)"

definition yurei_log_set_level :: "yurei_log_level_t \<Rightarrow> log_state \<Rightarrow> log_state" where
  "yurei_log_set_level level state = state\<lparr>g_level := level\<rparr>"

definition yurei_log_set_color :: "bool \<Rightarrow> log_state \<Rightarrow> log_state" where
  "yurei_log_set_color on state = state\<lparr>g_use_color := on\<rparr>"

section \<open>Texts\<close>

definition ANSI_RESET :: string where "ANSI_RESET = CHR 0x1B # ''[0m''"
definition ANSI_GRAY :: string where "ANSI_GRAY = CHR 0x1B # ''[90m''"
definition ANSI_CYAN :: string where "ANSI_CYAN = CHR 0x1B # ''[36m''"
definition ANSI_YELLOW :: string where "ANSI_YELLOW = CHR 0x1B # ''[33m''"
definition ANSI_RED :: string where "ANSI_RED = CHR 0x1B # ''[31m''"
definition ANSI_BOLD :: string where "ANSI_BOLD = CHR 0x1B # ''[1m''"

fun level_to_string :: "yurei_log_level_t \<Rightarrow> string" where
  "level_to_string YUREI_LOG_TRACE = ''TRACE''"
| "level_to_string YUREI_LOG_DEBUG = ''DEBUG''"
| "level_to_string YUREI_LOG_INFO = ''INFO''"
| "level_to_string YUREI_LOG_WARN = ''WARN''"
| "level_to_string YUREI_LOG_ERROR = ''ERROR''"

definition level_to_color :: "log_state \<Rightarrow> yurei_log_level_t \<Rightarrow> string" where
  "level_to_color state level =
     (if \<not> g_use_color state then []
      else case level of
             YUREI_LOG_TRACE \<Rightarrow> ANSI_GRAY
           | YUREI_LOG_DEBUG \<Rightarrow> ANSI_CYAN
           | YUREI_LOG_INFO \<Rightarrow> ANSI_RESET
           | YUREI_LOG_WARN \<Rightarrow> ANSI_YELLOW
           | YUREI_LOG_ERROR \<Rightarrow> ANSI_RED @ ANSI_BOLD)"

text \<open>\<open>%d\<close> and \<open>%06ld\<close> of numbers that are not negative, and \<open>%-5s\<close>.\<close>

definition print_d :: "nat \<Rightarrow> string" where
  "print_d n = (if n = 0 then ''0'' else map (\<lambda>d. char_of (48 + d)) (to_digits 10 n))"

definition print_06ld :: "nat \<Rightarrow> string" where
  "print_06ld n = replicate (6 - length (print_d n)) (CHR ''0'') @ print_d n"

definition print_5s :: "string \<Rightarrow> string" where
  "print_5s s = s @ replicate (5 - length s) (CHR '' '')"

section \<open>A message\<close>

text \<open>
  What one call prints to \<open>stderr\<close>, if anything: \<open>state\<close> is what it reads with the lock and
  \<open>later\<close> what \<open>level_to_color\<close> reads without it; \<open>timestamp\<close> is the formatted second, \<open>nsec\<close> the
  nanoseconds in it, and \<open>text\<close> the formatted message.
\<close>

definition yurei_log_message ::
  "log_state \<Rightarrow> log_state \<Rightarrow> string \<Rightarrow> nat \<Rightarrow> yurei_log_level_t \<Rightarrow> string \<Rightarrow> nat \<Rightarrow> string \<Rightarrow> string option" where
  "yurei_log_message state later timestamp nsec level source lineno msg =
     (if level < g_level state then None
      else let use_color = g_use_color state;
               color = level_to_color later level;
               reset = (if use_color then ANSI_RESET else [])
           in Some (color @ timestamp @ ''.'' @ print_06ld (nsec div 1000) @ ''Z ['' @ print_5s (level_to_string level) @
                ''] '' @ source @ '':'' @ print_d lineno @ '': '' @ msg @ reset @ [CHR 0x0A]))"

section \<open>What is printed\<close>

text \<open>The level an environment names: only the exact names are recognised.\<close>

definition named_level :: "string option \<Rightarrow> yurei_log_level_t option" where
  "named_level v =
     List.find (\<lambda>level. v = Some (level_to_string level))
       [YUREI_LOG_TRACE, YUREI_LOG_DEBUG, YUREI_LOG_INFO, YUREI_LOG_WARN, YUREI_LOG_ERROR]"

lemma init_level:
  "g_level (yurei_log_init getenv state) =
    (case named_level (getenv ''YUREI_LOG_LEVEL'') of None \<Rightarrow> g_level state | Some level \<Rightarrow> level)"
  by (cases "getenv ''YUREI_LOG_LEVEL''") (simp_all add: yurei_log_init_def named_level_def Let_def)

lemma init_color:
  "g_use_color (yurei_log_init getenv state) \<longleftrightarrow> getenv ''YUREI_LOG_COLOR'' \<in> {Some ''1'', Some ''true''}"
  by (auto simp: yurei_log_init_def Let_def split: option.splits)

lemma length_print_06ld:
  assumes "nsec < 10 ^ 9"
  shows "length (print_06ld (nsec div 1000)) = 6"
proof -
  have "nsec div 1000 < 10 ^ 6" using assms by simp
  then have "length (to_digits 10 (nsec div 1000)) \<le> 6" by (intro length_to_digits_le) simp_all
  then have "length (print_d (nsec div 1000)) \<le> 6" by (simp add: print_d_def)
  then show ?thesis by (simp add: print_06ld_def)
qed

lemma length_print_level: "length (print_5s (level_to_string level)) = 5"
  by (cases level) (simp_all add: print_5s_def)

text \<open>The settings the environment asks for, and what is printed between the timestamp and the file.\<close>

definition log_threshold :: "(string \<Rightarrow> string option) \<Rightarrow> yurei_log_level_t" where
  "log_threshold getenv =
     (case named_level (getenv ''YUREI_LOG_LEVEL'') of None \<Rightarrow> YUREI_LOG_INFO | Some level \<Rightarrow> level)"

definition log_colored :: "(string \<Rightarrow> string option) \<Rightarrow> bool" where
  "log_colored getenv \<longleftrightarrow> getenv ''YUREI_LOG_COLOR'' \<in> {Some ''1'', Some ''true''}"

definition log_header :: "nat \<Rightarrow> yurei_log_level_t \<Rightarrow> string" where
  "log_header nsec level = ''.'' @ print_06ld (nsec div 1000) @ ''Z ['' @ print_5s (level_to_string level) @ ''] ''"

lemma init_state: "yurei_log_init getenv log_static = \<lparr>g_level = log_threshold getenv, g_use_color = log_colored getenv\<rparr>"
  using init_level [of getenv log_static] init_color [of getenv log_static]
  by (intro log_state.equality) (simp_all add: log_threshold_def log_colored_def, simp add: log_static_def split: option.split)

text \<open>
  C39. After the initialisation from the environment, a message is printed exactly when its level is
  at least the one \<open>YUREI_LOG_LEVEL\<close> names, or \<open>INFO\<close> when it is unset or names no level. The line
  is put between the level's colour and a reset exactly when \<open>YUREI_LOG_COLOR\<close> is \<open>1\<close> or \<open>true\<close>,
  and has the file at a fixed column behind the timestamp, since the fraction of a second has six
  digits and the level takes five characters.
\<close>

theorem log_message_printed:
  assumes "nsec < 10 ^ 9"
  shows "yurei_log_message (yurei_log_init getenv log_static) (yurei_log_init getenv log_static) timestamp nsec level source lineno msg =
      (if level < log_threshold getenv then None
       else Some ((if log_colored getenv then level_to_color (yurei_log_set_color True log_static) level else []) @
         timestamp @ log_header nsec level @ source @ '':'' @ print_d lineno @ '': '' @ msg @
         (if log_colored getenv then ANSI_RESET else []) @ [CHR 0x0A])) \<and>
    length (log_header nsec level) = 17"
proof -
  have "length (log_header nsec level) = 17"
    using length_print_06ld [OF assms] length_print_level by (simp add: log_header_def)
  moreover have "level_to_color \<lparr>g_level = log_threshold getenv, g_use_color = log_colored getenv\<rparr> level =
      (if log_colored getenv then level_to_color (yurei_log_set_color True log_static) level else [])"
    by (simp add: level_to_color_def yurei_log_set_color_def)
  ultimately show ?thesis
    unfolding init_state yurei_log_message_def by (simp add: Let_def log_header_def)
qed

theorem log_message_printed_witness:
  "yurei_log_message (yurei_log_init (\<lambda>v. if v = ''YUREI_LOG_LEVEL'' then Some ''WARN'' else None) log_static)
      (yurei_log_init (\<lambda>v. if v = ''YUREI_LOG_LEVEL'' then Some ''WARN'' else None) log_static)
      ''2025-01-01T00:00:00'' 5000 YUREI_LOG_INFO ''main.c'' 7 ''x'' = None"
proof -
  let ?env = "\<lambda>v. if v = ''YUREI_LOG_LEVEL'' then Some ''WARN'' else None :: string option"
  have "log_threshold ?env = YUREI_LOG_WARN" by (simp add: log_threshold_def named_level_def)
  then show ?thesis
    using log_message_printed [where getenv = ?env and nsec = 5000 and timestamp = "''2025-01-01T00:00:00''"
        and level = YUREI_LOG_INFO and source = "''main.c''" and lineno = 7 and msg = "''x''"]
    by (simp add: level_order_defs)
qed

text \<open>
  A colour setting that changes between the two reads leaves a line with a colour and without
  the reset at its end.
\<close>

lemma log_message_colour_race:
  "yurei_log_message (yurei_log_set_color False log_static) (yurei_log_set_color True log_static)
      timestamp nsec YUREI_LOG_ERROR source lineno msg =
    Some (ANSI_RED @ ANSI_BOLD @ timestamp @ ''.'' @ print_06ld (nsec div 1000) @ ''Z [ERROR] '' @ source @ '':'' @
      print_d lineno @ '': '' @ msg @ [CHR 0x0A])"
  by (simp add: yurei_log_message_def level_order_defs log_static_def yurei_log_set_color_def level_to_color_def print_5s_def)

end
