(* ===== verification/Geyser_Client.thy ===== *)
theory Geyser_Client
  imports Base58 Base64 Pumpfun_Parser Raydium_Parser Protocol_Detector Event_Queue Yurei_Config
begin

text \<open>
  \<^verbatim>\<open>src/src/geyser_client.c\<close>: the ingest thread. The first part takes an unpacked transaction
  update to at most one event in the queue; the second part is the bookkeeping around the
  gRPC completion queue; the third the request's contents, the end of a subscription and the
  pauses of the reconnect loop. \<open>Geyser_Stream\<close> runs the whole subscription and the thread.

  gRPC and protobuf-c are not part of the repository. What they hand over is a parameter: the
  unpacked messages (with the members the code reads), and the events of the completion
  queue. A stack buffer is a list of its size with arbitrary
  contents; \<open>None\<close> is a store outside it.
\<close>

section \<open>Unpacked messages\<close>

text \<open>\<open>ProtobufCBinaryData\<close>; a repeated field is a null pointer or its elements.\<close>

record binary_data =
  bin_len :: nat
  bin_data :: "byte list option"

record storage_message =
  account_keys :: "binary_data list option"

record storage_transaction =
  message :: "storage_message option"

record transaction_status_meta =
  log_messages :: "string list option"

record transaction_info =
  signature :: binary_data
  info_transaction :: "storage_transaction option"
  info_meta :: "transaction_status_meta option"

record update_transaction =
  update_info :: "transaction_info option"
  has_slot :: bool
  update_slot :: u64

section \<open>The client\<close>

record geyser_client =
  client_config :: yurei_config_t
  client_detector :: yurei_protocol_detector_t
  client_queue :: yurei_event_queue
  client_metrics :: yurei_metrics_t
  client_running :: bool

section \<open>From log lines to events\<close>

definition decode_program_data_line ::
  "string \<Rightarrow> byte list \<Rightarrow> nat \<Rightarrow> nat \<Rightarrow> (bool \<times> byte list \<times> nat) checked" where
  "decode_program_data_line line buf buf_len written =
     (let prefix = ''Program data: '' in
      case strstr line prefix of
        None \<Rightarrow> Some (False, buf, written)
      | Some pos \<Rightarrow>
          (let pos = drop (length prefix) pos; len = length pos in
           if len = 0 then Some (False, buf, written)
           else case base64_decode pos buf buf_len written of
                  None \<Rightarrow> None
                | Some (rc, buf, written) \<Rightarrow> Some (rc = 0, buf, written)))"

text \<open>
  Handing an event to the queue. The push waits, or it returns and the client goes on; the
  Boolean is whether the drop warning is logged.
\<close>

definition dispatch_event ::
  "geyser_client \<Rightarrow> yurei_event_t \<Rightarrow> (bool section_end \<times> geyser_client) checked" where
  "dispatch_event client event =
     (case event_queue_push_section (client_queue client) (client_metrics client) event of
        None \<Rightarrow> None
      | Some (r, q, m) \<Rightarrow>
          Some (case r of Wait \<Rightarrow> Wait | Return taken \<Rightarrow> Return (\<not> taken),
                client\<lparr>client_queue := q, client_metrics := m\<rparr>))"

text \<open>The signature block, the same in both handlers; \<open>ok\<close> is the encoder's allocation.\<close>

definition encode_signature :: "bool \<Rightarrow> update_transaction \<Rightarrow> yurei_event_t \<Rightarrow> yurei_event_t" where
  "encode_signature ok tx_update event =
     (let event = event\<lparr>event_signature := (event_signature event)[0 := CHR 0x00]\<rparr> in
      case update_info tx_update of
        None \<Rightarrow> event
      | Some info \<Rightarrow>
          (case bin_data (signature info) of
             None \<Rightarrow> event
           | Some data \<Rightarrow>
               if 0 < bin_len (signature info)
               then (case base58_encode ok (take (bin_len (signature info)) data) (event_signature event)
                            YUREI_MAX_SIGNATURE_LEN of
                       (n, sig) \<Rightarrow>
                         if n < 0 then event\<lparr>event_signature := sig[0 := CHR 0x00]\<rparr>
                         else event\<lparr>event_signature := sig\<rparr>)
               else event))"

text \<open>The loop over the log messages up to the event it dispatches, if any.\<close>

fun pumpfun_event ::
  "bool \<Rightarrow> update_transaction \<Rightarrow> string list \<Rightarrow> byte list \<Rightarrow> yurei_pumpfun_trade_t \<Rightarrow> yurei_event_t option checked" where
  "pumpfun_event ok tx_update [] decode_buf trade = Some None"
| "pumpfun_event ok tx_update (line # lines) decode_buf trade =
     (case decode_program_data_line line decode_buf 768 0 of
        None \<Rightarrow> None
      | Some (False, decode_buf, produced) \<Rightarrow> pumpfun_event ok tx_update lines decode_buf trade
      | Some (True, decode_buf, produced) \<Rightarrow>
          (case pumpfun_parse_trade (Some decode_buf) produced (Some trade) of
             (True, Some trade) \<Rightarrow>
               (let event = zero_event;
                    event = event\<lparr>event_type := YUREI_EVENT_PUMPFUN_TRADE\<rparr>;
                    trade = trade\<lparr>trade_slot := (if has_slot tx_update then update_slot tx_update else 0)\<rparr>;
                    event = event\<lparr>event_data := Pumpfun_Trade trade\<rparr>
                in Some (Some (encode_signature ok tx_update event)))
           | _ \<Rightarrow> pumpfun_event ok tx_update lines decode_buf trade))"

definition process_pumpfun ::
  "bool \<Rightarrow> byte list \<Rightarrow> yurei_pumpfun_trade_t \<Rightarrow> geyser_client \<Rightarrow> update_transaction \<Rightarrow>
   transaction_status_meta option \<Rightarrow> (bool section_end \<times> geyser_client) checked" where
  "process_pumpfun ok decode_buf trade client tx_update meta =
     (case Option.bind meta log_messages of
        None \<Rightarrow> Some (Return False, client)
      | Some lines \<Rightarrow>
          (case pumpfun_event ok tx_update lines decode_buf trade of
             None \<Rightarrow> None
           | Some None \<Rightarrow> Some (Return False, client)
           | Some (Some event) \<Rightarrow> dispatch_event client event))"

fun raydium_event ::
  "bool \<Rightarrow> update_transaction \<Rightarrow> string list \<Rightarrow> byte list \<Rightarrow> yurei_raydium_swap_t \<Rightarrow> yurei_event_t option checked" where
  "raydium_event ok tx_update [] decode_buf swap = Some None"
| "raydium_event ok tx_update (line # lines) decode_buf swap =
     (case decode_program_data_line line decode_buf 512 0 of
        None \<Rightarrow> None
      | Some (False, decode_buf, produced) \<Rightarrow> raydium_event ok tx_update lines decode_buf swap
      | Some (True, decode_buf, produced) \<Rightarrow>
          (case raydium_parse_swap (Some decode_buf) produced (Some swap) of
             (True, Some swap) \<Rightarrow>
               (let swap = swap\<lparr>swap_slot := (if has_slot tx_update then update_slot tx_update else 0)\<rparr>;
                    event = zero_event;
                    event = event\<lparr>event_type := YUREI_EVENT_RAYDIUM_SWAP\<rparr>;
                    event = event\<lparr>event_data := Raydium_Swap swap\<rparr>
                in Some (Some (encode_signature ok tx_update event)))
           | _ \<Rightarrow> raydium_event ok tx_update lines decode_buf swap))"

definition process_raydium ::
  "bool \<Rightarrow> byte list \<Rightarrow> yurei_raydium_swap_t \<Rightarrow> geyser_client \<Rightarrow> update_transaction \<Rightarrow>
   transaction_status_meta option \<Rightarrow> (bool section_end \<times> geyser_client) checked" where
  "process_raydium ok decode_buf swap client tx_update meta =
     (case Option.bind meta log_messages of
        None \<Rightarrow> Some (Return False, client)
      | Some lines \<Rightarrow>
          (case raydium_event ok tx_update lines decode_buf swap of
             None \<Rightarrow> None
           | Some None \<Rightarrow> Some (Return False, client)
           | Some (Some event) \<Rightarrow> dispatch_event client event))"

text \<open>The uninitialised locals of the two handlers.\<close>

record handler_stack =
  pumpfun_buf :: "byte list"
  raydium_buf :: "byte list"
  pumpfun_local :: yurei_pumpfun_trade_t
  raydium_local :: yurei_raydium_swap_t

definition handle_transaction ::
  "bool \<Rightarrow> handler_stack \<Rightarrow> geyser_client \<Rightarrow> update_transaction option \<Rightarrow> (bool section_end \<times> geyser_client) checked" where
  "handle_transaction ok stack client tx =
     (case tx of
        None \<Rightarrow> Some (Return False, client)
      | Some tx \<Rightarrow>
      (case update_info tx of
        None \<Rightarrow> Some (Return False, client)
      | Some info \<Rightarrow>
      (case Option.bind (info_transaction info) message of
        None \<Rightarrow> Some (Return False, client)
      | Some msg \<Rightarrow>
      (case account_keys msg of
        None \<Rightarrow> Some (Return False, client)
      | Some keys \<Rightarrow>
          if keys = [] then Some (Return False, client)
          else let n_accounts = (if 256 < length keys then 256 else length keys);
                   accounts = map (\<lambda>key. (bin_data key, bin_len key)) (take n_accounts keys)
               in case protocol_detector_match_accounts (client_detector client) accounts of
                    YUREI_PROTOCOL_PUMPFUN \<Rightarrow>
                      process_pumpfun ok (pumpfun_buf stack) (pumpfun_local stack) client tx (info_meta info)
                  | YUREI_PROTOCOL_RAYDIUM \<Rightarrow>
                      process_raydium ok (raydium_buf stack) (raydium_local stack) client tx (info_meta info)
                  | YUREI_PROTOCOL_NONE \<Rightarrow> Some (Return False, client)))))"

section \<open>Completion queue events\<close>

text \<open>
  \<open>grpc_event\<close>. A tag is a number; what \<open>grpc_completion_queue_next\<close> returns call after call
  is a list, and where it ends the call never returns.
\<close>

datatype grpc_completion_type = GRPC_QUEUE_SHUTDOWN | GRPC_QUEUE_TIMEOUT | GRPC_OP_COMPLETE

record grpc_event =
  ev_type :: grpc_completion_type
  ev_tag :: nat
  ev_success :: bool

definition CQ_CACHE_MAX_EVENTS :: nat where
  "CQ_CACHE_MAX_EVENTS = 4"

record cq_event_cache_entry =
  used :: bool
  cached_event :: grpc_event

definition empty_cache :: "cq_event_cache_entry list" where
  "empty_cache = replicate CQ_CACHE_MAX_EVENTS
     \<lparr>used = False, cached_event = \<lparr>ev_type = GRPC_QUEUE_SHUTDOWN, ev_tag = 0, ev_success = False\<rparr>\<rparr>"

fun cq_cache_take :: "cq_event_cache_entry list \<Rightarrow> nat \<Rightarrow> grpc_event option \<times> cq_event_cache_entry list" where
  "cq_cache_take [] tag = (None, [])"
| "cq_cache_take (entry # entries) tag =
     (if used entry \<and> ev_tag (cached_event entry) = tag
      then (Some (cached_event entry), entry\<lparr>used := False\<rparr> # entries)
      else case cq_cache_take entries tag of (out, entries) \<Rightarrow> (out, entry # entries))"

text \<open>The event is dropped, with a warning, when no entry is free.\<close>

fun cq_cache_store :: "cq_event_cache_entry list \<Rightarrow> grpc_event \<Rightarrow> cq_event_cache_entry list" where
  "cq_cache_store [] ev = []"
| "cq_cache_store (entry # entries) ev =
     (if \<not> used entry then \<lparr>used = True, cached_event = ev\<rparr> # entries
      else entry # cq_cache_store entries ev)"

fun cq_wait_loop ::
  "grpc_event list \<Rightarrow> nat \<Rightarrow> cq_event_cache_entry list \<Rightarrow>
   (bool \<times> grpc_event \<times> cq_event_cache_entry list \<times> grpc_event list) option" where
  "cq_wait_loop [] tag cache = None"
| "cq_wait_loop (ev # evs) tag cache =
     (if ev_type ev = GRPC_QUEUE_SHUTDOWN then Some (False, ev, cache, evs)
      else if ev_type ev = GRPC_QUEUE_TIMEOUT then cq_wait_loop evs tag cache
      else if ev_tag ev = tag then Some (True, ev, cache, evs)
      else cq_wait_loop evs tag (cq_cache_store cache ev))"

definition cq_wait_for_tag ::
  "grpc_event list \<Rightarrow> nat \<Rightarrow> cq_event_cache_entry list \<Rightarrow>
   (bool \<times> grpc_event \<times> cq_event_cache_entry list \<times> grpc_event list) option" where
  "cq_wait_for_tag evs tag cache =
     (case cq_cache_take cache tag of
        (Some ev, cache) \<Rightarrow> Some (True, ev, cache, evs)
      | (None, cache) \<Rightarrow> cq_wait_loop evs tag cache)"

text \<open>\<open>destroy_completion_queue\<close> after the shutdown: events are discarded until it is reported.\<close>

fun drain_completion_queue :: "grpc_event list \<Rightarrow> grpc_event list option" where
  "drain_completion_queue [] = None"
| "drain_completion_queue (ev # evs) =
     (if ev_type ev = GRPC_QUEUE_SHUTDOWN then Some evs else drain_completion_queue evs)"

section \<open>Searching the status text\<close>

function slice_search :: "string \<Rightarrow> string \<Rightarrow> nat \<Rightarrow> bool" where
  "slice_search hay needle i =
     (if i \<le> length hay - length needle
      then (if chunk i (length needle) hay = needle then True else slice_search hay needle (Suc i))
      else False)"
  by pat_completeness auto
termination
  by (relation "measure (\<lambda>(hay, needle, i). Suc (length hay - length needle) - i)") auto

declare slice_search.simps [simp del]

definition slice_contains_string :: "string \<Rightarrow> string option \<Rightarrow> bool" where
  "slice_contains_string hay needle =
     (case needle of
        None \<Rightarrow> False
      | Some needle \<Rightarrow>
          if needle = [] then False
          else if length needle = 0 \<or> length hay < length needle then False
          else slice_search hay needle 0)"

section \<open>The subscription request\<close>

datatype commitment_level =
    COMMITMENT_LEVEL_PROCESSED
  | COMMITMENT_LEVEL_CONFIRMED
  | COMMITMENT_LEVEL_FINALIZED

text \<open>
  The members the client sets; the initialisers leave every other member empty or unset. A
  filter's \<open>account_include\<close> is its list of texts.
\<close>

record filter_transactions =
  account_include :: "string list"

record subscribe_request =
  has_commitment :: bool
  commitment :: commitment_level
  has_from_slot :: bool
  request_from_slot :: u64
  transactions :: "(string \<times> filter_transactions) list"

text \<open>
  The request before it is packed, with the outcomes of the encoder's two allocations;
  \<open>filter1\<close> and \<open>filter2\<close> are the uninitialised local arrays.
\<close>

definition subscribe_includes :: "bool \<Rightarrow> bool \<Rightarrow> string \<Rightarrow> string \<Rightarrow> yurei_protocol_detector_t \<Rightarrow> string list" where
  "subscribe_includes ok1 ok2 filter1 filter2 detector =
     (let includes = [];
          includes =
            (if enabled (pumpfun detector)
             then (case base58_encode ok1 (take 32 (program_id (pumpfun detector))) filter1 64 of
                     (n, text_buf) \<Rightarrow> if n > 0 then includes @ [c_str text_buf] else includes)
             else includes)
      in if enabled (raydium detector)
         then (case base58_encode ok2 (take 32 (program_id (raydium detector))) filter2 64 of
                 (n, text_buf) \<Rightarrow> if n > 0 then includes @ [c_str text_buf] else includes)
         else includes)"

definition build_subscribe_request ::
  "bool \<Rightarrow> bool \<Rightarrow> string \<Rightarrow> string \<Rightarrow> geyser_client \<Rightarrow> subscribe_request" where
  "build_subscribe_request ok1 ok2 filter1 filter2 client =
     (let request = \<lparr>has_commitment = True, commitment = COMMITMENT_LEVEL_PROCESSED,
                     has_from_slot = False, request_from_slot = 0, transactions = []\<rparr>;
          request = (if from_slot_set (client_config client)
                     then request\<lparr>has_from_slot := True, request_from_slot := from_slot (client_config client)\<rparr>
                     else request)
      in request\<lparr>transactions :=
           [(''transactions'', \<lparr>account_include = subscribe_includes ok1 ok2 filter1 filter2 (client_detector client)\<rparr>)]\<rparr>)"

section \<open>The end of a subscription and the reconnect loop\<close>

text \<open>
  What \<open>run_subscription\<close> does once the receive loop is over: the status it waits for may say
  that the endpoint cannot replay, and then the resume slot is cleared and the attempt counts
  as failed. The result is \<open>handshake_ok\<close>.
\<close>

definition finish_subscription :: "bool \<Rightarrow> string \<Rightarrow> geyser_client \<Rightarrow> bool \<times> geyser_client" where
  "finish_subscription status_received status_details client =
     (if status_received \<and> from_slot_set (client_config client) \<and>
         slice_contains_string status_details (Some ''from_slot is not supported'')
      then (False, client\<lparr>client_config := (client_config client)\<lparr>from_slot_set := False, from_slot := 0\<rparr>\<rparr>)
      else (True, client))"

text \<open>
  The loop of \<open>geyser_thread\<close>. Each entry is one subscription: its result, and whether the
  client is still running afterwards; the list ends where the loop condition stops the thread.
  The result is the seconds slept between the subscriptions.
\<close>

fun geyser_thread_sleeps :: "nat \<Rightarrow> (bool \<times> bool) list \<Rightarrow> nat list" where
  "geyser_thread_sleeps backoff [] = []"
| "geyser_thread_sleeps backoff ((ok, running) # subscriptions) =
     (if \<not> running then []
      else let slept = backoff;
               backoff = (if backoff < 32 then backoff * 2 else backoff);
               backoff = (if ok then 1 else backoff)
           in slept # geyser_thread_sleeps backoff subscriptions)"

definition geyser_client_start ::
  "bool \<Rightarrow> bool \<Rightarrow> yurei_config_t \<Rightarrow> yurei_protocol_detector_t \<Rightarrow> yurei_event_queue \<Rightarrow> yurei_metrics_t \<Rightarrow> geyser_client option" where
  "geyser_client_start calloc_ok thread_ok config detector q m =
     (if \<not> calloc_ok then None
      else let client = \<lparr>client_config = config, client_detector = detector, client_queue = q,
                         client_metrics = m, client_running = True\<rparr>
           in if \<not> thread_ok then None else Some client)"

definition geyser_client_stop :: "geyser_client \<Rightarrow> geyser_client" where
  "geyser_client_stop client = client\<lparr>client_running := False\<rparr>"

section \<open>The payload of a log line\<close>

text \<open>What a log line decodes to, if it names data and passes the capacity check.\<close>

definition data_text :: "string \<Rightarrow> string option" where
  "data_text line = map_option (drop (length ''Program data: '')) (strstr line ''Program data: '')"

definition line_payload :: "nat \<Rightarrow> string \<Rightarrow> byte list option" where
  "line_payload cap line =
     (case data_text line of
        None \<Rightarrow> None
      | Some body \<Rightarrow> if body = [] \<or> cap < base64_decoded_size body then None else Some (base64_bytes body))"

lemma decode_line_eq:
  "decode_program_data_line line buf cap 0 =
    (case line_payload cap line of
       None \<Rightarrow> Some (False, buf, 0)
     | Some payload \<Rightarrow>
         if length buf < length payload then None
         else Some (True, mem_write 0 payload buf, length payload))"
proof (cases "strstr line ''Program data: ''")
  case None
  then show ?thesis by (simp only: decode_program_data_line_def line_payload_def data_text_def Let_def) simp
next
  case (Some pos)
  define body where "body = drop (length ''Program data: '') pos"
  have "data_text line = Some body" unfolding data_text_def Some body_def by (simp only: option.map)
  then show ?thesis
    unfolding decode_program_data_line_def line_payload_def Let_def Some option.case body_def [symmetric] base64_decode_eq
    by (simp del: length_base64_bytes)
qed

lemma line_payload_Some:
  "line_payload cap line = Some payload \<longleftrightarrow>
    (\<exists>body. data_text line = Some body \<and> body \<noteq> [] \<and> base64_decoded_size body \<le> cap \<and> payload = base64_bytes body)"
  by (auto simp: line_payload_def not_less split: option.splits)

lemma line_payload_bound: "line_payload cap line = Some payload \<Longrightarrow> length payload \<le> cap + 2"
proof -
  assume "line_payload cap line = Some payload"
  then obtain body where "base64_decoded_size body \<le> cap" "payload = base64_bytes body"
    by (auto simp: line_payload_Some)
  moreover from this have "length (base64_bytes body) \<le> cap + 2"
    using base64_decoded_size_bounds [of body] base64_bytes_le_groups [of body] by linarith
  ultimately show ?thesis by (simp del: length_base64_bytes)
qed

lemma line_payload_fits: "3 dvd cap \<Longrightarrow> line_payload cap line = Some payload \<Longrightarrow> length payload \<le> cap"
  unfolding line_payload_Some using base64_no_overrun by blast

text \<open>The payload of a line that carries the standard encoding of some bytes.\<close>

lemma line_payload_standard:
  assumes "strstr line ''Program data: '' = Some (''Program data: '' @ base64_encode bs)" and "bs \<noteq> []" and "length bs \<le> cap"
  shows "line_payload cap line = Some (bs @ base64_padding bs)"
proof -
  have "length (base64_encode bs) \<noteq> 0"
    using assms(2) unfolding length_base64_encode by (cases bs) auto
  then have "base64_encode bs \<noteq> []" by (metis list.size(3))
  moreover have "data_text line = Some (base64_encode bs)"
    unfolding data_text_def assms(1) option.map append_eq_conv_conj by (simp only: append_eq_conv_conj [THEN iffD1, OF refl, THEN conjunct2, symmetric])
  ultimately show ?thesis
    using assms(3) unfolding line_payload_Some base64_bytes_encode [symmetric]
    by (auto simp: base64_decoded_size_encode)
qed

section \<open>Which events are made\<close>

definition slot_of :: "update_transaction \<Rightarrow> u64" where
  "slot_of tx_update = (if has_slot tx_update then update_slot tx_update else 0)"

definition trade_event :: "bool \<Rightarrow> update_transaction \<Rightarrow> byte list \<Rightarrow> yurei_event_t" where
  "trade_event ok tx_update payload = encode_signature ok tx_update
     (zero_event\<lparr>event_type := YUREI_EVENT_PUMPFUN_TRADE,
        event_data := Pumpfun_Trade (trade_of_layout (pumpfun_overlay payload)\<lparr>trade_slot := slot_of tx_update\<rparr>)\<rparr>)"

definition trade_line :: "string \<Rightarrow> bool" where
  "trade_line line \<longleftrightarrow> (\<exists>payload. line_payload 768 line = Some payload \<and> 250 \<le> length payload)"

lemma pumpfun_overlay_append:
  "250 \<le> length payload \<Longrightarrow> pumpfun_overlay (payload @ rest) = pumpfun_overlay payload"
  by (simp add: pumpfun_overlay_def chunk_append_in nth_append)

text \<open>The first line that carries enough bytes makes the event; the buffer is never overrun.\<close>

lemma pumpfun_event_eq:
  "length decode_buf = 768 \<Longrightarrow>
    pumpfun_event ok tx_update lines decode_buf trade =
      Some (map_option (\<lambda>line. trade_event ok tx_update (the (line_payload 768 line))) (List.find trade_line lines))"
proof (induction lines arbitrary: decode_buf)
  case (Cons line lines)
  show ?case
  proof (cases "line_payload 768 line")
    case None
    then show ?thesis
      using Cons by (simp add: decode_line_eq trade_line_def)
  next
    case (Some payload)
    then have len: "length payload \<le> length decode_buf"
      using line_payload_fits [of 768 line] Cons.prems by simp
    show ?thesis
    proof (cases "250 \<le> length payload")
      case True
      then have "trade_line line" using Some by (simp add: trade_line_def)
      moreover have "pumpfun_overlay (mem_write 0 payload decode_buf) = pumpfun_overlay payload"
        using True by (simp add: mem_write_0 pumpfun_overlay_append)
      ultimately show ?thesis
        using True Some len
        by (simp add: decode_line_eq pumpfun_parse_trade_eq pumpfun_layout_size_def trade_event_def slot_of_def Let_def)
    next
      case False
      moreover from this have "\<not> trade_line line" using Some by (simp add: trade_line_def)
      moreover have "length (mem_write 0 payload decode_buf) = 768" using len Cons.prems by simp
      ultimately show ?thesis
        using Some len Cons.IH [of "mem_write 0 payload decode_buf"]
        by (simp add: decode_line_eq pumpfun_parse_trade_eq pumpfun_layout_size_def)
    qed
  qed
qed simp

text \<open>No payload of the Raydium handler's buffer is long enough for a swap.\<close>

lemma raydium_event_eq:
  "length decode_buf = 512 \<Longrightarrow>
    raydium_event ok tx_update lines decode_buf swap =
      (if \<exists>line \<in> set lines. \<exists>payload. line_payload 512 line = Some payload \<and> 512 < length payload
       then None else Some None)"
proof (induction lines arbitrary: decode_buf)
  case (Cons line lines)
  show ?case
  proof (cases "line_payload 512 line")
    case None
    then show ?thesis
      using Cons by (simp add: decode_line_eq)
  next
    case (Some payload)
    then have short: "length payload \<le> 514" using line_payload_bound [of 512 line] by simp
    show ?thesis
    proof (cases "512 < length payload")
      case True
      then show ?thesis using Some Cons.prems by (auto simp: decode_line_eq)
    next
      case False
      let ?buf = "mem_write 0 payload decode_buf"
      have "\<not> fst (raydium_parse_swap (Some ?buf) (length payload) (Some swap))"
        using short raydium_parse_short [of "length payload" ?buf swap] by (simp add: raydium_min_size_def)
      then have "raydium_event ok tx_update (line # lines) decode_buf swap = raydium_event ok tx_update lines ?buf swap"
        using Some False Cons.prems by (auto simp: decode_line_eq split: prod.split bool.split option.split)
      moreover have "length ?buf = 512" using False Cons.prems by simp
      ultimately show ?thesis using Cons.IH [of ?buf] Some False by simp
    qed
  qed
qed simp

section \<open>Signatures\<close>

text \<open>
  The text the event carries: the base58 text if it is at most 87 characters long, which
  leaves room for the terminator, and nothing otherwise.
\<close>

definition signature_text :: "byte list \<Rightarrow> string" where
  "signature_text sig = (if length (base58_text sig) < YUREI_MAX_SIGNATURE_LEN then base58_text sig else [])"

definition signature_bytes :: "update_transaction \<Rightarrow> byte list" where
  "signature_bytes tx_update =
     (case update_info tx_update of
        None \<Rightarrow> []
      | Some info \<Rightarrow> (case bin_data (signature info) of None \<Rightarrow> [] | Some data \<Rightarrow> take (bin_len (signature info)) data))"

lemma base58_text_no_nul: "CHR 0x00 \<notin> set (base58_text bs)"
  using base58_text_alphabet [of bs] ALPHABET_ascii by blast

lemma c_str_mem_write: "c_str (mem_write 0 (base58_text bs @ [CHR 0x00]) out) = base58_text bs"
  using base58_text_no_nul by (simp add: mem_write_0 c_str_append)

lemma cleared_signature:
  assumes "length sig = YUREI_MAX_SIGNATURE_LEN"
  shows "c_str (sig[0 := CHR 0x00]) = []" and "CHR 0x00 \<in> set (sig[0 := CHR 0x00])"
  using assms by (cases sig; simp add: YUREI_MAX_SIGNATURE_LEN_def)+

lemma signature_text_Nil [simp]: "signature_text [] = []"
  by (simp add: signature_text_def base58_text_def)

text \<open>The characters the signature block leaves in the array.\<close>

definition stored_signature :: "bool \<Rightarrow> byte list \<Rightarrow> string \<Rightarrow> string" where
  "stored_signature ok sig arr =
     (let cleared = arr[0 := CHR 0x00] in
      if ok \<and> sig \<noteq> [] \<and> length (base58_text sig) < YUREI_MAX_SIGNATURE_LEN
      then mem_write 0 (base58_text sig @ [CHR 0x00]) cleared else cleared)"

definition signature_there :: "update_transaction \<Rightarrow> bool" where
  "signature_there tx_update \<longleftrightarrow>
     (case update_info tx_update of
        None \<Rightarrow> True
      | Some info \<Rightarrow> (case bin_data (signature info) of None \<Rightarrow> True | Some data \<Rightarrow> length data = bin_len (signature info)))"

lemma encode_signature_eq:
  assumes "signature_there tx_update"
  shows "encode_signature ok tx_update event =
    event\<lparr>event_signature := stored_signature ok (signature_bytes tx_update) (event_signature event)\<rparr>"
proof (cases "\<exists>info data. update_info tx_update = Some info \<and> bin_data (signature info) = Some data")
  case False
  then have "signature_bytes tx_update = []"
    by (auto simp: signature_bytes_def split: option.split)
  with False show ?thesis
    by (auto simp: encode_signature_def stored_signature_def Let_def split: option.split)
next
  case True
  then obtain info data where info: "update_info tx_update = Some info" "bin_data (signature info) = Some data" by blast
  with assms have len: "length data = bin_len (signature info)" by (simp add: signature_there_def)
  then have sig: "signature_bytes tx_update = data" by (simp add: signature_bytes_def info)
  have upd: "l[0 := c, 0 := c] = l[0 := c]" for l :: string and c by simp
  show ?thesis
  proof (cases "data = []")
    case True
    with len have "bin_len (signature info) = 0" by simp
    then show ?thesis by (simp add: encode_signature_def info Let_def stored_signature_def sig True)
  next
    case False
    with len have "0 < bin_len (signature info)" by (cases data) auto
    then show ?thesis
      using False len
      by (cases ok)
        (simp_all add: encode_signature_def info Let_def stored_signature_def sig base58_encode_correct
          YUREI_MAX_SIGNATURE_LEN_def size_to_int_id, simp add: base58_encode_def Let_def)
  qed
qed

lemma stored_signature_ok:
  assumes "length arr = YUREI_MAX_SIGNATURE_LEN"
  shows "length (stored_signature ok sig arr) = YUREI_MAX_SIGNATURE_LEN"
    and "CHR 0x00 \<in> set (stored_signature ok sig arr)"
    and "c_str (stored_signature ok sig arr) = (if ok then signature_text sig else [])"
proof -
  show "length (stored_signature ok sig arr) = YUREI_MAX_SIGNATURE_LEN"
    using assms by (simp add: stored_signature_def Let_def)
  show "CHR 0x00 \<in> set (stored_signature ok sig arr)"
    using cleared_signature(2) [OF assms] by (simp add: stored_signature_def Let_def mem_write_0)
  show "c_str (stored_signature ok sig arr) = (if ok then signature_text sig else [])"
    using cleared_signature(1) [OF assms] c_str_mem_write
    by (auto simp: stored_signature_def Let_def signature_text_def base58_text_def)
qed

lemma zero_event_signature: "length (event_signature zero_event) = YUREI_MAX_SIGNATURE_LEN"
  by (simp add: zero_event_def)

lemma trade_event_wf:
  assumes "signature_there tx_update" and "250 \<le> length payload"
  shows "event_wf (trade_event ok tx_update payload)"
  using stored_signature_ok [OF zero_event_signature] assms trade_of_overlay_wf [of payload]
  by (simp add: trade_event_def encode_signature_eq event_wf_def trade_wf_def pumpfun_layout_size_def)

text \<open>A 64-byte signature whose first byte is 51 or more needs all 88 characters.\<close>

lemma long_signature:
  assumes "length sig = 64" and "51 \<le> unat (hd sig)"
  shows "length (base58_text sig) = 88"
proof -
  obtain b bs where sig: "sig = b # bs" using assms(1) by (cases sig) auto
  then have "length bs = 63" using assms(1) by simp
  then have "bytes_val sig = unat b * 256 ^ 63 + bytes_val bs"
    by (simp add: sig bytes_val_def digits_val_Cons)
  moreover have "51 * 256 ^ 63 \<le> unat b * (256 :: nat) ^ 63" using assms(2) by (simp add: sig del: power_numeral)
  moreover have "(58 :: nat) ^ 87 \<le> 51 * 256 ^ 63" by simp
  ultimately have "58 ^ 87 \<le> bytes_val sig" by linarith
  then have "87 < length (base58_text sig)" by (rule length_base58_text_ge)
  moreover have "length (base58_text sig) \<le> 88" using assms(1) by (rule length_base58_text_64)
  ultimately show ?thesis by simp
qed

section \<open>Properties of the ingest path\<close>

text \<open>
  C10. The Pump.fun handler on any log messages. It never stores outside its 768-byte buffer, and
  it makes an event exactly when some message names data that passes the capacity check and
  decodes to at least 250 bytes; the event is the trade of the first such message, with the
  transaction's slot and the layout's fields, and it is well-formed.
\<close>

theorem pumpfun_handler_event:
  assumes "length decode_buf = 768" and "signature_there tx_update"
  shows "pumpfun_event ok tx_update lines decode_buf trade =
      Some (map_option (\<lambda>line. trade_event ok tx_update (the (line_payload 768 line))) (List.find trade_line lines)) \<and>
    (\<forall>event. pumpfun_event ok tx_update lines decode_buf trade = Some (Some event) \<longrightarrow> event_wf event)"
proof -
  have "event_wf (trade_event ok tx_update (the (line_payload 768 line)))" if "List.find trade_line lines = Some line" for line
  proof -
    from that have "trade_line line" by (auto simp: find_Some_iff)
    then show ?thesis using trade_event_wf [OF assms(2)] by (auto simp: trade_line_def)
  qed
  then show ?thesis using pumpfun_event_eq [OF assms(1)] by auto
qed

definition test_update :: update_transaction where
  "test_update = \<lparr>update_info = Some \<lparr>signature = \<lparr>bin_len = 64, bin_data = Some (replicate 64 255)\<rparr>,
     info_transaction = Some \<lparr>message = Some \<lparr>account_keys = Some [\<lparr>bin_len = 32, bin_data = Some (replicate 32 9)\<rparr>]\<rparr>\<rparr>,
     info_meta = Some \<lparr>log_messages = Some [''Program log: Instruction: Buy'',
       ''Program data: '' @ base64_encode (pumpfun_layout_bytes pumpfun_test_layout)]\<rparr>\<rparr>,
     has_slot = True, update_slot = 99\<rparr>"

lemma signature_there_test: "signature_there test_update"
  by (simp add: signature_there_def test_update_def)

lemma test_layout_payload:
  "line_payload 768 (''Program data: '' @ base64_encode (pumpfun_layout_bytes pumpfun_test_layout)) =
    Some (pumpfun_layout_bytes pumpfun_test_layout @ base64_padding (pumpfun_layout_bytes pumpfun_test_layout))"
proof (rule line_payload_standard [OF strstr_at_start])
  have "length (pumpfun_layout_bytes pumpfun_test_layout) = 250"
    using length_pumpfun_layout [OF pumpfun_test_layout_wf] by (simp add: pumpfun_layout_size_def)
  then show "pumpfun_layout_bytes pumpfun_test_layout \<noteq> []" "length (pumpfun_layout_bytes pumpfun_test_layout) \<le> 768"
    by auto
qed

theorem pumpfun_handler_event_witness:
  "\<exists>event. pumpfun_event True test_update
      [''Program data: '' @ base64_encode (pumpfun_layout_bytes pumpfun_test_layout)] (replicate 768 0) zero_trade = Some (Some event) \<and>
    event_wf event"
proof -
  let ?line = "''Program data: '' @ base64_encode (pumpfun_layout_bytes pumpfun_test_layout)"
  have "trade_line ?line"
    using test_layout_payload length_pumpfun_layout [OF pumpfun_test_layout_wf]
    by (simp add: trade_line_def pumpfun_layout_size_def)
  then have "List.find trade_line [?line] = Some ?line" by (simp del: append.simps)
  with pumpfun_handler_event [OF _ signature_there_test, of "replicate 768 0" True "[?line]" zero_trade] show ?thesis
    by (simp del: append.simps)
qed

text \<open>
  C4. The Raydium handler never makes an event. Whatever the log messages say, what fits its
  512-byte buffer is shorter than the shortest swap the parser accepts, so the loop runs to
  its end; and if some message decodes to 513 or 514 bytes, which the capacity check lets
  through, it stores past the buffer on the way.
\<close>

theorem raydium_handler_never_emits:
  assumes "length decode_buf = 512"
  shows "raydium_event ok tx_update lines decode_buf swap =
    (if \<exists>line \<in> set lines. \<exists>payload. line_payload 512 line = Some payload \<and> 512 < length payload
     then None else Some None)"
  using assms by (rule raydium_event_eq)

theorem raydium_handler_never_emits_witness:
  "raydium_event True test_update [''Program data: AAAA''] (replicate 512 0) zero_swap = Some None \<and>
   raydium_event True test_update [''Program data: '' @ base64_encode (replicate 512 1)] (replicate 512 0) zero_swap = None"
proof
  have "data_text ''Program data: AAAA'' = Some ''AAAA''" by (simp add: data_text_def)
  then have "line_payload 512 ''Program data: AAAA'' = Some payload \<Longrightarrow> payload = base64_bytes ''AAAA''" for payload
    by (simp add: line_payload_Some)
  moreover have "length (base64_bytes ''AAAA'') \<le> 3" using base64_bytes_le_groups [of "''AAAA''"] by simp
  ultimately have "\<not> (\<exists>payload. line_payload 512 ''Program data: AAAA'' = Some payload \<and> 512 < length payload)"
    by fastforce
  then show "raydium_event True test_update [''Program data: AAAA''] (replicate 512 0) zero_swap = Some None"
    using raydium_handler_never_emits [of "replicate 512 0" True test_update "[''Program data: AAAA'']" zero_swap] by simp
next
  let ?line = "''Program data: '' @ base64_encode (replicate 512 1)"
  have "line_payload 512 ?line = Some (replicate 512 1 @ base64_padding (replicate 512 1))"
    by (rule line_payload_standard [OF strstr_at_start]) simp_all
  moreover have "512 < length (replicate 512 1 @ base64_padding (replicate 512 (1 :: byte)))"
    unfolding length_padded by simp
  ultimately have "\<exists>line \<in> set [?line]. \<exists>payload. line_payload 512 line = Some payload \<and> 512 < length payload"
    by (simp del: append.simps length_append)
  then show "raydium_event True test_update [?line] (replicate 512 0) zero_swap = None"
    using raydium_handler_never_emits [of "replicate 512 0" True test_update "[?line]" zero_swap]
    by (simp del: append.simps)
qed

text \<open>
  C24. The signature array is one character too short. A transaction's signature is stored as its
  base58 text exactly if the encoder gets its memory and the text has at most 87 characters;
  otherwise, and so for every signature of 88 characters, the event carries the empty string.
  Every 64-byte signature whose first byte is 51 or more has 88.
\<close>

theorem signature_dropped:
  assumes "signature_there tx_update" and "length (event_signature event) = YUREI_MAX_SIGNATURE_LEN"
  shows "c_str (event_signature (encode_signature ok tx_update event)) =
      (if ok \<and> length (base58_text (signature_bytes tx_update)) \<le> 87 then base58_text (signature_bytes tx_update) else []) \<and>
    (length (signature_bytes tx_update) = 64 \<longrightarrow> 51 \<le> unat (hd (signature_bytes tx_update)) \<longrightarrow>
      length (base58_text (signature_bytes tx_update)) = 88)"
  using long_signature [of "signature_bytes tx_update"] stored_signature_ok(3) [OF assms(2)]
  by (auto simp: encode_signature_eq [OF assms(1)] YUREI_MAX_SIGNATURE_LEN_def signature_text_def)

theorem signature_dropped_witness:
  "c_str (event_signature (encode_signature True test_update zero_event)) = []"
proof -
  have bytes: "signature_bytes test_update = replicate 64 255" by (simp add: signature_bytes_def test_update_def)
  from signature_dropped [OF signature_there_test zero_event_signature, of True] show ?thesis
    unfolding bytes by simp
qed

text \<open>
  Where the text fits, the signature is kept: with its allocation the encoder stores exactly
  the base58 text of the transaction's signature, terminated inside the array, and the rest of
  the event is untouched.
\<close>

theorem signature_kept:
  assumes "signature_there tx_update" and "length (base58_text (signature_bytes tx_update)) \<le> 87"
    and "length (event_signature event) = YUREI_MAX_SIGNATURE_LEN"
  shows "c_str (event_signature (encode_signature True tx_update event)) = base58_text (signature_bytes tx_update) \<and>
    length (event_signature (encode_signature True tx_update event)) = YUREI_MAX_SIGNATURE_LEN \<and>
    event_data (encode_signature True tx_update event) = event_data event"
  using stored_signature_ok [OF assms(3)] assms(2)
  by (simp add: encode_signature_eq [OF assms(1)] YUREI_MAX_SIGNATURE_LEN_def signature_text_def)

definition short_signature_update :: update_transaction where
  "short_signature_update = test_update\<lparr>update_info := Some ((the (update_info test_update))
     \<lparr>signature := \<lparr>bin_len = 64, bin_data = Some (replicate 64 0)\<rparr>\<rparr>)\<rparr>"

theorem signature_kept_witness:
  "c_str (event_signature (encode_signature True short_signature_update zero_event)) = replicate 64 CHR ''1''"
proof -
  have bytes: "signature_bytes short_signature_update = replicate 64 0"
    by (simp add: signature_bytes_def short_signature_update_def test_update_def)
  have there: "signature_there short_signature_update"
    by (simp add: signature_there_def short_signature_update_def test_update_def)
  have "bytes_val (replicate 64 0) = 0" by (simp add: bytes_val_def)
  then have ones: "base58_text (replicate 64 0) = replicate 64 CHR ''1''"
    by (simp add: base58_text_def map_replicate_const)
  show ?thesis using signature_kept [OF there _ zero_event_signature] unfolding bytes ones by simp
qed

section \<open>Handling a whole transaction\<close>

lemma dispatch_event_accepts:
  assumes "queue_wf (client_queue client)" and "\<not> closed (client_queue client)"
    and "length (contents (client_queue client)) < capacity (client_queue client)"
  shows "\<exists>client'. dispatch_event client event = Some (Return False, client') \<and>
    contents (client_queue client') = contents (client_queue client) @ [event] \<and>
    queue_wf (client_queue client') \<and> client_config client' = client_config client"
proof -
  have "qsize (client_queue client) < capacity (client_queue client)" using assms(3) by simp
  from push_accepts [OF assms(1,2) this] pushed_contents [OF assms(1) this] show ?thesis
    by (simp add: dispatch_event_def)
qed

lemma trade_line_standard:
  assumes "pumpfun_layout_wf l" and "length extra \<le> 518"
  shows "line_payload 768 (''Program data: '' @ base64_encode (pumpfun_layout_bytes l @ extra)) =
      Some (pumpfun_layout_bytes l @ extra @ base64_padding (pumpfun_layout_bytes l @ extra))"
    and "trade_line (''Program data: '' @ base64_encode (pumpfun_layout_bytes l @ extra))"
proof -
  have len: "length (pumpfun_layout_bytes l) = 250"
    using length_pumpfun_layout [OF assms(1)] by (simp add: pumpfun_layout_size_def)
  then have "pumpfun_layout_bytes l @ extra \<noteq> []" "length (pumpfun_layout_bytes l @ extra) \<le> 768"
    using assms(2) by auto
  from line_payload_standard [OF strstr_at_start this]
  show payload: "line_payload 768 (''Program data: '' @ base64_encode (pumpfun_layout_bytes l @ extra)) =
      Some (pumpfun_layout_bytes l @ extra @ base64_padding (pumpfun_layout_bytes l @ extra))" by simp
  then show "trade_line (''Program data: '' @ base64_encode (pumpfun_layout_bytes l @ extra))"
    unfolding trade_line_def using len by simp
qed

lemma find_first: "\<forall>x \<in> set pre. \<not> P x \<Longrightarrow> P y \<Longrightarrow> List.find P (pre @ y # post) = Some y"
  by (induction pre) auto

text \<open>
  C1. From a transaction to the queue. If the first account key that names an enabled program is
  Pump.fun's, among the first 256, and the first log message that carries a trade carries the
  base64 of a trade layout (with up to 518 bytes after it), then the event with that layout's
  trade, the update's slot and the transaction's signature text is appended to an open queue
  with room, and nothing else is.
\<close>

theorem pumpfun_transaction_enqueued:
  assumes "client_detector client = protocol_detector_init p True r re"
    and "update_info tx = Some info" and "info_transaction info = Some \<lparr>message = Some \<lparr>account_keys = Some keys\<rparr>\<rparr>"
    and "keys = before @ \<lparr>bin_len = 32, bin_data = Some p\<rparr> # after" and "length before < 256"
    and "\<forall>key \<in> set before. \<not> program_key True p (bin_data key, bin_len key) \<and> \<not> program_key re r (bin_data key, bin_len key)"
    and "info_meta info = Some \<lparr>log_messages = Some (pre @ (''Program data: '' @ base64_encode (pumpfun_layout_bytes l @ extra)) # post)\<rparr>"
    and "\<forall>line \<in> set pre. \<not> trade_line line" and "pumpfun_layout_wf l" and "length extra \<le> 518"
    and "length (pumpfun_buf stack) = 768" and "signature_there tx"
    and "queue_wf (client_queue client)" and "\<not> closed (client_queue client)"
    and "length (contents (client_queue client)) < capacity (client_queue client)"
  shows "\<exists>client' event. handle_transaction ok stack client (Some tx) = Some (Return False, client') \<and>
    contents (client_queue client') = contents (client_queue client) @ [event] \<and>
    event_type event = YUREI_EVENT_PUMPFUN_TRADE \<and>
    event_data event = Pumpfun_Trade (trade_of_layout l\<lparr>trade_slot := slot_of tx\<rparr>) \<and>
    c_str (event_signature event) = (if ok then signature_text (signature_bytes tx) else [])"
proof -
  let ?line = "''Program data: '' @ base64_encode (pumpfun_layout_bytes l @ extra)"
  let ?payload = "pumpfun_layout_bytes l @ extra @ base64_padding (pumpfun_layout_bytes l @ extra)"
  let ?accounts = "map (\<lambda>key. (bin_data key, bin_len key)) (take (if 256 < length keys then 256 else length keys) keys)"
  define event where "event = trade_event ok tx ?payload"
  have key: "program_key True p (Some p, 32)" by (simp add: program_key_def)
  have "\<exists>rest. ?accounts = map (\<lambda>key. (bin_data key, bin_len key)) before @ (Some p, 32) # rest"
    using assms(5) by (simp add: assms(4) take_Cons')
  then obtain rest where "?accounts = map (\<lambda>key. (bin_data key, bin_len key)) before @ (Some p, 32) # rest" ..
  then have "List.find (\<lambda>a. program_key True p a \<or> program_key re r a) ?accounts = Some (Some p, 32)"
    using assms(6) key by (simp only:) (rule find_first; auto)
  moreover have "protocol_detector_match_accounts (protocol_detector_init p True r re) ?accounts =
      (case List.find (\<lambda>a. program_key True p a \<or> program_key re r a) ?accounts of
         None \<Rightarrow> YUREI_PROTOCOL_NONE
       | Some a \<Rightarrow> if program_key True p a then YUREI_PROTOCOL_PUMPFUN else YUREI_PROTOCOL_RAYDIUM)"
    by (rule match_accounts_classified)
  ultimately have proto: "protocol_detector_match_accounts (client_detector client) ?accounts = YUREI_PROTOCOL_PUMPFUN"
    using key assms(1) by simp
  have "keys \<noteq> []" using assms(4) by simp
  then have handle: "handle_transaction ok stack client (Some tx) =
      process_pumpfun ok (pumpfun_buf stack) (pumpfun_local stack) client tx (info_meta info)"
    using proto by (simp add: handle_transaction_def assms(2,3) Let_def)
  have "List.find trade_line (pre @ ?line # post) = Some ?line"
    using assms(8) trade_line_standard(2) [OF assms(9,10)] by (intro find_first)
  then have "pumpfun_event ok tx (pre @ ?line # post) (pumpfun_buf stack) (pumpfun_local stack) = Some (Some event)"
    unfolding pumpfun_event_eq [OF assms(11)] event_def
    by (simp only: option.map trade_line_standard(1) [OF assms(9,10)] option.sel)
  then have "process_pumpfun ok (pumpfun_buf stack) (pumpfun_local stack) client tx (info_meta info) = dispatch_event client event"
    by (simp add: process_pumpfun_def assms(7) del: append.simps)
  moreover from dispatch_event_accepts [OF assms(13,14,15), of event] obtain client'
    where "dispatch_event client event = Some (Return False, client')"
      "contents (client_queue client') = contents (client_queue client) @ [event]" by blast
  moreover have "event_data event = Pumpfun_Trade (trade_of_layout l\<lparr>trade_slot := slot_of tx\<rparr>)"
    "event_type event = YUREI_EVENT_PUMPFUN_TRADE"
    by (simp_all add: event_def trade_event_def encode_signature_eq [OF assms(12)] pumpfun_overlay_layout [OF assms(9)])
  moreover have "c_str (event_signature event) = (if ok then signature_text (signature_bytes tx) else [])"
    using stored_signature_ok(3) [OF zero_event_signature]
    by (simp add: event_def trade_event_def encode_signature_eq [OF assms(12)])
  ultimately show ?thesis using handle by auto
qed

definition test_client :: geyser_client where
  "test_client = \<lparr>client_config = zero_config,
     client_detector = protocol_detector_init (replicate 32 9) True (replicate 32 8) True,
     client_queue = the (event_queue_create True True 1024), client_metrics = metrics_init, client_running = True\<rparr>"

definition test_stack :: handler_stack where
  "test_stack = \<lparr>pumpfun_buf = replicate 768 0, raydium_buf = replicate 512 0,
     pumpfun_local = zero_trade, raydium_local = zero_swap\<rparr>"

lemma test_client_queue:
  "queue_wf (client_queue test_client)" "contents (client_queue test_client) = []"
  "\<not> closed (client_queue test_client)" "capacity (client_queue test_client) = 1024"
  using event_queue_create_wf [of True True 1024] by (simp_all add: test_client_def event_queue_create_def)

theorem pumpfun_transaction_enqueued_witness:
  "\<exists>client' event. handle_transaction True test_stack test_client (Some test_update) = Some (Return False, client') \<and>
    contents (client_queue client') = [event] \<and>
    event_data event = Pumpfun_Trade (trade_of_layout pumpfun_test_layout\<lparr>trade_slot := 99\<rparr>) \<and>
    c_str (event_signature event) = []"
proof -
  let ?keys = "[\<lparr>bin_len = 32, bin_data = Some (replicate 32 (9 :: byte))\<rparr>]"
  have no_line: "\<not> trade_line ''Program log: Instruction: Buy''"
    by (simp add: trade_line_def line_payload_Some data_text_def)
  have "\<exists>client' event. handle_transaction True test_stack test_client (Some test_update) = Some (Return False, client') \<and>
    contents (client_queue client') = contents (client_queue test_client) @ [event] \<and>
    event_type event = YUREI_EVENT_PUMPFUN_TRADE \<and>
    event_data event = Pumpfun_Trade (trade_of_layout pumpfun_test_layout\<lparr>trade_slot := slot_of test_update\<rparr>) \<and>
    c_str (event_signature event) = (if True then signature_text (signature_bytes test_update) else [])"
  proof (rule pumpfun_transaction_enqueued [where before = "[]" and after = "[]" and post = "[]" and extra = "[]" and
        pre = "[''Program log: Instruction: Buy'']" and l = pumpfun_test_layout and keys = ?keys])
    show "info_meta (the (update_info test_update)) = Some \<lparr>log_messages = Some ([''Program log: Instruction: Buy''] @
        (''Program data: '' @ base64_encode (pumpfun_layout_bytes pumpfun_test_layout @ [])) # [])\<rparr>"
      by (simp add: test_update_def del: base64_encode.simps)
    show "update_info test_update = Some (the (update_info test_update))" by (simp add: test_update_def)
    show "\<forall>line \<in> set [''Program log: Instruction: Buy'']. \<not> trade_line line" using no_line by simp
    show "client_detector test_client = protocol_detector_init (replicate 32 9) True (replicate 32 8) True"
      by (simp add: test_client_def)
    show "info_transaction (the (update_info test_update)) = Some \<lparr>message = Some \<lparr>account_keys = Some ?keys\<rparr>\<rparr>"
      by (simp add: test_update_def)
  qed (simp_all add: pumpfun_test_layout_wf signature_there_test test_client_queue test_stack_def)
  moreover have "slot_of test_update = 99" by (simp add: slot_of_def test_update_def)
  moreover have "signature_bytes test_update = replicate 64 255" by (simp add: signature_bytes_def test_update_def)
  moreover have "signature_text (replicate 64 255) = []"
    using long_signature [of "replicate 64 255"] by (simp add: signature_text_def YUREI_MAX_SIGNATURE_LEN_def)
  ultimately show ?thesis by (auto simp: test_client_queue)
qed

text \<open>The log messages of an update.\<close>

definition log_lines :: "update_transaction option \<Rightarrow> string list" where
  "log_lines tx =
     (case Option.bind tx update_info of
        None \<Rightarrow> []
      | Some info \<Rightarrow> (case Option.bind (info_meta info) log_messages of None \<Rightarrow> [] | Some lines \<Rightarrow> lines))"

text \<open>The account keys of an update, and the protocol the detector finds among the first 256.\<close>

definition transaction_keys :: "update_transaction option \<Rightarrow> binary_data list" where
  "transaction_keys tx =
     (case Option.bind tx update_info of
        None \<Rightarrow> []
      | Some info \<Rightarrow>
          (case Option.bind (Option.bind (info_transaction info) message) account_keys of None \<Rightarrow> [] | Some keys \<Rightarrow> keys))"

definition transaction_protocol :: "yurei_protocol_detector_t \<Rightarrow> update_transaction option \<Rightarrow> yurei_protocol_t" where
  "transaction_protocol detector tx =
     (if transaction_keys tx = [] then YUREI_PROTOCOL_NONE
      else protocol_detector_match_accounts detector
             (map (\<lambda>key. (bin_data key, bin_len key)) (take 256 (transaction_keys tx))))"

text \<open>
  The event a transaction stands for: the trade of its first log line that carries one, if it is
  a Pump.fun transaction. No buffer and no queue is involved.
\<close>

definition transaction_event ::
  "bool \<Rightarrow> yurei_protocol_detector_t \<Rightarrow> update_transaction option \<Rightarrow> yurei_event_t option" where
  "transaction_event ok detector tx =
     (if transaction_protocol detector tx = YUREI_PROTOCOL_PUMPFUN
      then map_option (\<lambda>line. trade_event ok (the tx) (the (line_payload 768 line))) (List.find trade_line (log_lines tx))
      else None)"

text \<open>A log line of a Raydium transaction that overflows its handler's buffer.\<close>

definition raydium_overflow :: "yurei_protocol_detector_t \<Rightarrow> update_transaction option \<Rightarrow> bool" where
  "raydium_overflow detector tx \<longleftrightarrow>
     transaction_protocol detector tx = YUREI_PROTOCOL_RAYDIUM \<and>
     (\<exists>line \<in> set (log_lines tx). \<exists>payload. line_payload 512 line = Some payload \<and> 512 < length payload)"

definition enqueued :: "yurei_event_t \<Rightarrow> geyser_client \<Rightarrow> geyser_client" where
  "enqueued event client = client\<lparr>client_queue := pushed event (client_queue client),
     client_metrics := metrics_update_queue_high_water (word_of_nat (qsize (client_queue client) + 1))
       (metrics_inc_queue_push (client_metrics client))\<rparr>"

lemma enqueued_simps [simp]:
  "client_queue (enqueued event client) = pushed event (client_queue client)"
  "client_config (enqueued event client) = client_config client"
  "client_detector (enqueued event client) = client_detector client"
  by (simp_all add: enqueued_def)

lemma dispatch_event_eq:
  assumes "queue_wf (client_queue client)"
  shows "dispatch_event client event =
    Some (if closed (client_queue client) then (Return True, client)
          else if length (contents (client_queue client)) = capacity (client_queue client) then (Wait, client)
          else (Return False, enqueued event client))"
  by (rule push_section_cases [OF assms, of "client_metrics client" event])
    (simp_all add: dispatch_event_def enqueued_def)

lemma process_pumpfun_eq:
  assumes "length decode_buf = 768" and "info_meta info = meta" and "update_info tx = Some info"
  shows "process_pumpfun ok decode_buf trade client tx meta =
    (case List.find trade_line (log_lines (Some tx)) of
       None \<Rightarrow> Some (Return False, client)
     | Some line \<Rightarrow> dispatch_event client (trade_event ok tx (the (line_payload 768 line))))"
  using assms(2,3)
  by (auto simp: process_pumpfun_def pumpfun_event_eq [OF assms(1)] log_lines_def split: option.split)

lemma process_raydium_eq:
  assumes "length decode_buf = 512" and "info_meta info = meta" and "update_info tx = Some info"
  shows "process_raydium ok decode_buf swap client tx meta =
    (if \<exists>line \<in> set (log_lines (Some tx)). \<exists>payload. line_payload 512 line = Some payload \<and> 512 < length payload
     then None else Some (Return False, client))"
  using assms(2,3)
  by (auto simp: process_raydium_def raydium_event_eq [OF assms(1)] log_lines_def split: option.split)

lemma handle_transaction_eq:
  assumes "length (pumpfun_buf stack) = 768" and "length (raydium_buf stack) = 512"
  shows "handle_transaction ok stack client tx =
    (if raydium_overflow (client_detector client) tx then None
     else case transaction_event ok (client_detector client) tx of
       None \<Rightarrow> Some (Return False, client)
     | Some event \<Rightarrow> dispatch_event client event)"
proof (cases "transaction_keys tx = []")
  case True
  then have "handle_transaction ok stack client tx = Some (Return False, client)"
    by (auto simp: handle_transaction_def transaction_keys_def split: option.splits bind_splits)
  with True show ?thesis by (simp add: raydium_overflow_def transaction_event_def transaction_protocol_def)
next
  case False
  then obtain update info msg keys where tx: "tx = Some update" "update_info update = Some info"
    "Option.bind (info_transaction info) message = Some msg" "account_keys msg = Some keys" "keys \<noteq> []"
    by (auto simp: transaction_keys_def bind_eq_Some_conv split: option.splits)
  then have keys: "transaction_keys tx = keys" by (simp add: transaction_keys_def)
  have "take (if 256 < length keys then 256 else length keys) keys = take 256 keys" by simp
  then have proto: "protocol_detector_match_accounts (client_detector client)
      (map (\<lambda>key. (bin_data key, bin_len key)) (take (if 256 < length keys then 256 else length keys) keys)) =
      transaction_protocol (client_detector client) tx"
    using tx(5) by (simp only: transaction_protocol_def keys if_False)
  show ?thesis
    unfolding handle_transaction_def tx(1) option.case tx(2,3,4) Let_def proto [unfolded tx(1)]
    using tx(5) process_pumpfun_eq [OF assms(1) refl tx(2)] process_raydium_eq [OF assms(2) refl tx(2)]
    by (auto simp: raydium_overflow_def transaction_event_def split: yurei_protocol_t.split option.split)
qed

text \<open>
  C7. Everything a transaction does. Whatever the update holds (null pointers and any number of
  keys included), it leaves defined behaviour only if it is a Raydium transaction with a log
  line that overflows its handler's buffer. A transaction that stands for no event changes
  nothing at all. One that does changes the queue and its counters, and nothing else: the
  event is appended if the queue is open and has room; a full queue makes the thread wait and a
  closed one drops the event, without any change.
\<close>

theorem handle_transaction_exact:
  assumes "length (pumpfun_buf stack) = 768" and "length (raydium_buf stack) = 512"
    and "queue_wf (client_queue client)"
  shows "handle_transaction ok stack client tx =
    (if raydium_overflow (client_detector client) tx then None
     else case transaction_event ok (client_detector client) tx of
       None \<Rightarrow> Some (Return False, client)
     | Some event \<Rightarrow>
         Some (if closed (client_queue client) then (Return True, client)
               else if length (contents (client_queue client)) = capacity (client_queue client) then (Wait, client)
               else (Return False, client\<lparr>client_queue := pushed event (client_queue client),
                  client_metrics := metrics_update_queue_high_water (word_of_nat (length (contents (client_queue client)) + 1))
                    (metrics_inc_queue_push (client_metrics client))\<rparr>)))"
  using handle_transaction_eq [OF assms(1,2)] dispatch_event_eq [OF assms(3)]
  by (simp add: enqueued_def split: option.split)

lemma test_update_event:
  "\<exists>event. transaction_event True (client_detector test_client) (Some test_update) = Some event"
proof -
  have "protocol_detector_match_accounts (protocol_detector_init (replicate 32 9) True (replicate 32 8) True)
      [(Some (replicate 32 9), 32)] = YUREI_PROTOCOL_PUMPFUN"
    by (simp add: protocol_detector_init_fields PROGRAM_ID_LEN_def)
  then have proto: "transaction_protocol (client_detector test_client) (Some test_update) = YUREI_PROTOCOL_PUMPFUN"
    by (simp add: transaction_protocol_def transaction_keys_def test_update_def test_client_def)
  have "trade_line (''Program data: '' @ base64_encode (pumpfun_layout_bytes pumpfun_test_layout @ []))"
    by (rule trade_line_standard(2)) (simp_all add: pumpfun_test_layout_wf)
  moreover have "''Program data: '' @ base64_encode (pumpfun_layout_bytes pumpfun_test_layout) \<in> set (log_lines (Some test_update))"
    by (simp add: log_lines_def test_update_def)
  ultimately have "List.find trade_line (log_lines (Some test_update)) \<noteq> None"
    unfolding find_None_iff by (metis append_Nil2)
  with proto show ?thesis by (auto simp: transaction_event_def)
qed

lemma test_update_no_overflow: "\<not> raydium_overflow (client_detector test_client) (Some test_update)"
  using test_update_event by (auto simp: raydium_overflow_def transaction_event_def split: if_splits)

theorem handle_transaction_exact_witness:
  "\<exists>event m. handle_transaction True test_stack test_client (Some test_update) =
    Some (Return False, test_client\<lparr>client_queue := pushed event (client_queue test_client), client_metrics := m\<rparr>)"
proof -
  obtain event where "transaction_event True (client_detector test_client) (Some test_update) = Some event"
    using test_update_event by blast
  moreover have "length (pumpfun_buf test_stack) = 768" "length (raydium_buf test_stack) = 512" by (simp_all add: test_stack_def)
  note handle_transaction_exact [OF this test_client_queue(1), of True "Some test_update"]
  ultimately have "handle_transaction True test_stack test_client (Some test_update) =
      Some (Return False, test_client\<lparr>client_queue := pushed event (client_queue test_client),
        client_metrics := metrics_update_queue_high_water 1 (metrics_inc_queue_push (client_metrics test_client))\<rparr>)"
    by (simp add: test_update_no_overflow test_client_queue)
  then show ?thesis by blast
qed

section \<open>The completion queue's cache\<close>

definition cached :: "cq_event_cache_entry list \<Rightarrow> grpc_event list" where
  "cached cache = map cached_event (filter used cache)"

lemma take_absent: "cq_cache_take cache tag = (None, cache) \<longleftrightarrow> (\<forall>ev \<in> set (cached cache). ev_tag ev \<noteq> tag)"
  by (induction cache tag rule: cq_cache_take.induct) (auto simp: cached_def split: prod.splits)

lemma take_present:
  "cq_cache_take cache tag = (Some ev, cache') \<Longrightarrow>
    ev_tag ev = tag \<and> length cache' = length cache \<and>
    (\<exists>pre post. cached cache = pre @ ev # post \<and> cached cache' = pre @ post \<and> (\<forall>e \<in> set pre. ev_tag e \<noteq> tag))"
proof (induction cache tag arbitrary: cache' rule: cq_cache_take.induct)
  case (2 entry entries tag)
  show ?case
  proof (cases "used entry \<and> ev_tag (cached_event entry) = tag")
    case True
    with "2.prems" show ?thesis by (auto simp: cached_def intro: exI [of _ "[]"])
  next
    case False
    with "2.prems" obtain entries' where rest: "cq_cache_take entries tag = (Some ev, entries')" "cache' = entry # entries'"
      by (auto split: prod.splits)
    from "2.IH" [OF False rest(1)] obtain pre post where "ev_tag ev = tag" "length entries' = length entries"
      "cached entries = pre @ ev # post" "cached entries' = pre @ post" "\<forall>e \<in> set pre. ev_tag e \<noteq> tag" by blast
    with False rest(2) show ?thesis
      by (cases "used entry") (auto simp: cached_def intro: exI [of _ "cached_event entry # pre"])
  qed
qed simp

lemma store_fits:
  "length (cached cache) < length cache \<Longrightarrow>
    length (cq_cache_store cache ev) = length cache \<and> mset (cached (cq_cache_store cache ev)) = add_mset ev (mset (cached cache))"
  by (induction cache ev rule: cq_cache_store.induct) (auto simp: cached_def)

text \<open>The completions among the events.\<close>

definition completions :: "grpc_event list \<Rightarrow> grpc_event list" where
  "completions evs = filter (\<lambda>ev. ev_type ev = GRPC_OP_COMPLETE) evs"

lemma cq_wait_loop_keeps:
  "length (cached cache) + length (completions before) \<le> length cache \<Longrightarrow>
    \<forall>e \<in> set before. ev_type e \<noteq> GRPC_QUEUE_SHUTDOWN \<and> (ev_type e = GRPC_OP_COMPLETE \<longrightarrow> ev_tag e \<noteq> tag) \<Longrightarrow>
    ev_type ev = GRPC_OP_COMPLETE \<Longrightarrow> ev_tag ev = tag \<Longrightarrow>
    \<exists>cache'. cq_wait_loop (before @ ev # after) tag cache = Some (True, ev, cache', after) \<and>
      mset (cached cache') = mset (cached cache) + mset (completions before)"
proof (induction before arbitrary: cache)
  case Nil
  then show ?case by (simp add: completions_def)
next
  case (Cons e before)
  show ?case
  proof (cases "ev_type e = GRPC_OP_COMPLETE")
    case True
    then have room: "length (cached cache) < length cache" using Cons.prems(1) by (simp add: completions_def)
    from store_fits [OF this, of e] have stored: "length (cq_cache_store cache e) = length cache"
      "mset (cached (cq_cache_store cache e)) = add_mset e (mset (cached cache))" by simp_all
    then have "length (cached (cq_cache_store cache e)) = Suc (length (cached cache))"
      by (metis size_mset size_add_mset)
    with Cons.IH [of "cq_cache_store cache e"] Cons.prems True stored show ?thesis
      by (auto simp: completions_def)
  next
    case False
    then have "ev_type e = GRPC_QUEUE_TIMEOUT"
      using Cons.prems(2) by (cases "ev_type e") auto
    with Cons.IH [of cache] Cons.prems show ?thesis by (auto simp: completions_def)
  qed
qed

text \<open>
  C38. No completion is lost. While the client waits for a tag, completions of other operations
  go to the cache; as long as there are no more of them than free entries, the wait returns
  the first completion with its tag and every other one is kept, to be taken by a later wait.
\<close>

theorem completion_not_lost:
  assumes "\<forall>e \<in> set (cached cache). ev_tag e \<noteq> tag"
    and "length (cached cache) + length (completions before) \<le> length cache"
    and "\<forall>e \<in> set before. ev_type e \<noteq> GRPC_QUEUE_SHUTDOWN \<and> (ev_type e = GRPC_OP_COMPLETE \<longrightarrow> ev_tag e \<noteq> tag)"
    and "ev_type ev = GRPC_OP_COMPLETE" and "ev_tag ev = tag"
  shows "\<exists>cache'. cq_wait_for_tag (before @ ev # after) tag cache = Some (True, ev, cache', after) \<and>
    mset (cached cache') = mset (cached cache) + mset (completions before) \<and>
    (\<forall>e \<in> set (completions before). fst (cq_cache_take cache' (ev_tag e)) \<noteq> None)"
proof -
  obtain cache' where wait: "cq_wait_loop (before @ ev # after) tag cache = Some (True, ev, cache', after)"
    and kept: "mset (cached cache') = mset (cached cache) + mset (completions before)"
    using cq_wait_loop_keeps [OF assms(2-5), of after] by blast
  have "cq_cache_take cache tag = (None, cache)" using assms(1) by (simp add: take_absent)
  moreover have "fst (cq_cache_take cache' (ev_tag e)) \<noteq> None" if "e \<in> set (completions before)" for e
  proof
    assume none: "fst (cq_cache_take cache' (ev_tag e)) = None"
    have "snd (cq_cache_take cs t) = cs" if "fst (cq_cache_take cs t) = None" for cs t
      using that by (induction cs t rule: cq_cache_take.induct) (auto split: prod.splits if_splits)
    with none have "cq_cache_take cache' (ev_tag e) = (None, cache')" by (simp add: prod_eq_iff)
    moreover have "e \<in> set (cached cache')"
    proof -
      have "e \<in># mset (cached cache')" using that unfolding kept by simp
      then show ?thesis by simp
    qed
    ultimately show False by (auto simp: take_absent)
  qed
  ultimately show ?thesis using wait kept by (auto simp: cq_wait_for_tag_def)
qed

theorem completion_not_lost_witness:
  "let status = \<lparr>ev_type = GRPC_OP_COMPLETE, ev_tag = 2, ev_success = True\<rparr>;
       received = \<lparr>ev_type = GRPC_OP_COMPLETE, ev_tag = 3, ev_success = True\<rparr> in
   \<exists>cache'. cq_wait_for_tag ([status] @ received # []) 3 empty_cache = Some (True, received, cache', []) \<and>
     fst (cq_cache_take cache' 2) \<noteq> None"
proof -
  let ?status = "\<lparr>ev_type = GRPC_OP_COMPLETE, ev_tag = 2, ev_success = True\<rparr>"
  let ?received = "\<lparr>ev_type = GRPC_OP_COMPLETE, ev_tag = 3, ev_success = True\<rparr>"
  have "\<forall>e \<in> set (cached empty_cache). ev_tag e \<noteq> 3" "length (cached empty_cache) + length (completions [?status]) \<le> length empty_cache"
    by (simp_all add: cached_def empty_cache_def completions_def CQ_CACHE_MAX_EVENTS_def)
  from completion_not_lost [OF this, of ?received "[]"] show ?thesis
    by (auto simp: completions_def)
qed

section \<open>The rejection of a resume slot\<close>

lemma slice_search_iff:
  "length needle \<le> length hay \<Longrightarrow>
    slice_search hay needle i \<longleftrightarrow> (\<exists>pos \<ge> i. pos + length needle \<le> length hay \<and> chunk pos (length needle) hay = needle)"
proof (induction hay needle i rule: slice_search.induct)
  case (1 hay needle i)
  have split: "(\<exists>pos \<ge> i. P pos) \<longleftrightarrow> P i \<or> (\<exists>pos \<ge> Suc i. P pos)" for P
    by (metis Suc_leD le_refl not_less_eq_eq nle_le)
  show ?case
  proof (cases "i \<le> length hay - length needle")
    case True
    with 1 show ?thesis
      by (subst slice_search.simps, subst split) auto
  next
    case False
    then show ?thesis by (subst slice_search.simps) auto
  qed
qed

lemma slice_contains_iff:
  "slice_contains_string hay (Some needle) \<longleftrightarrow> needle \<noteq> [] \<and> (\<exists>pre post. hay = pre @ needle @ post)"
proof (cases "needle = [] \<or> length hay < length needle")
  case True
  then show ?thesis by (auto simp: slice_contains_string_def)
next
  case False
  then have "slice_contains_string hay (Some needle) \<longleftrightarrow>
      (\<exists>pos. pos + length needle \<le> length hay \<and> chunk pos (length needle) hay = needle)"
    by (simp add: slice_contains_string_def slice_search_iff)
  also have "\<dots> \<longleftrightarrow> (\<exists>pre post. hay = pre @ needle @ post)"
  proof
    assume "\<exists>pos. pos + length needle \<le> length hay \<and> chunk pos (length needle) hay = needle"
    then obtain pos where "chunk pos (length needle) hay = needle" by blast
    then have "hay = take pos hay @ needle @ drop (length needle) (drop pos hay)"
      unfolding chunk_def by (metis append_take_drop_id)
    then show "\<exists>pre post. hay = pre @ needle @ post" by blast
  next
    assume "\<exists>pre post. hay = pre @ needle @ post"
    then obtain pre post where "hay = pre @ needle @ post" by blast
    then show "\<exists>pos. pos + length needle \<le> length hay \<and> chunk pos (length needle) hay = needle"
      by (intro exI [of _ "length pre"]) simp
  qed
  finally show ?thesis using False by simp
qed

text \<open>
  The resume slot is given up exactly when a status was received, a slot is set and the
  status text contains the endpoint's refusal anywhere; then the next attempt starts from the
  head, and the attempt does not count as a success. In every other case the configuration
  stays as it is.
\<close>

theorem resume_slot_given_up:
  "finish_subscription received details client =
    (if received \<and> from_slot_set (client_config client) \<and>
        (\<exists>pre post. details = pre @ ''from_slot is not supported'' @ post)
     then (False, client\<lparr>client_config := (client_config client)\<lparr>from_slot_set := False, from_slot := 0\<rparr>\<rparr>)
     else (True, client))"
  by (simp add: finish_subscription_def slice_contains_iff)

section \<open>The subscription request\<close>

lemma subscribe_includes_eq:
  assumes "length (program_id (pumpfun detector)) = 32" and "length (program_id (raydium detector)) = 32"
  shows "subscribe_includes True True filter1 filter2 detector =
    (if enabled (pumpfun detector) then [base58_text (program_id (pumpfun detector))] else []) @
    (if enabled (raydium detector) then [base58_text (program_id (raydium detector))] else [])"
proof -
  have nonempty: "0 < length (base58_text key)" if "length key = 32" for key
  proof -
    have "base58_text key = [] \<Longrightarrow> key = base58_bytes []" using base58_bytes_text [of key] by simp
    then show ?thesis using that by (auto simp: base58_bytes_def base58_number_def)
  qed
  have "base58_encode True key arr 64 = (int (length (base58_text key)), mem_write 0 (base58_text key @ [CHR 0x00]) arr)"
    if "length key = 32" for key arr
    using length_base58_text_32 [OF that] by (simp add: base58_encode_correct size_to_int_id)
  then show ?thesis
    using assms nonempty [OF assms(1)] nonempty [OF assms(2)]
    by (simp add: subscribe_includes_def c_str_mem_write Let_def)
qed

text \<open>
  C37. The request asks for the transactions of exactly the enabled programs: the filter lists
  the base58 text of each enabled program id, which decodes to that id, and is empty (so that
  the server sends every transaction) exactly when neither protocol is enabled. It carries the
  resume slot exactly when one is set and always asks for processed commitment.
\<close>

theorem subscribe_request_filters:
  assumes "length (program_id (pumpfun (client_detector client))) = 32"
    and "length (program_id (raydium (client_detector client))) = 32"
    and "request = build_subscribe_request True True filter1 filter2 client"
  shows "\<exists>filter. transactions request = [(''transactions'', filter)] \<and>
    map base58_bytes (account_include filter) =
      (if enabled (pumpfun (client_detector client)) then [program_id (pumpfun (client_detector client))] else []) @
      (if enabled (raydium (client_detector client)) then [program_id (raydium (client_detector client))] else []) \<and>
    (account_include filter = [] \<longleftrightarrow>
      \<not> enabled (pumpfun (client_detector client)) \<and> \<not> enabled (raydium (client_detector client))) \<and>
    has_from_slot request = from_slot_set (client_config client) \<and>
    (has_from_slot request \<longrightarrow> request_from_slot request = from_slot (client_config client)) \<and>
    has_commitment request \<and> commitment request = COMMITMENT_LEVEL_PROCESSED"
  using subscribe_includes_eq [OF assms(1,2)]
  by (simp add: assms(3) build_subscribe_request_def Let_def base58_bytes_text)

theorem subscribe_request_filters_witness:
  "\<exists>filter. transactions (build_subscribe_request True True [] [] test_client) = [(''transactions'', filter)] \<and>
    map base58_bytes (account_include filter) = [replicate 32 9, replicate 32 8]"
proof -
  have ids: "program_id (pumpfun (client_detector test_client)) = replicate 32 9"
    "program_id (raydium (client_detector test_client)) = replicate 32 8"
    "enabled (pumpfun (client_detector test_client))" "enabled (raydium (client_detector test_client))"
    by (simp_all add: test_client_def protocol_detector_init_fields)
  show ?thesis using subscribe_request_filters [of test_client _ "[]" "[]"] unfolding ids by (auto simp: ids)
qed

section \<open>Backing off\<close>

definition next_backoff :: "nat \<Rightarrow> nat" where
  "next_backoff b = (if b < 32 then b * 2 else b)"

lemma sleeps_Cons:
  "geyser_thread_sleeps b ((ok, True) # subs) = b # geyser_thread_sleeps (if ok then 1 else next_backoff b) subs"
  by (simp add: Let_def next_backoff_def)

lemma next_backoff_min: "next_backoff (min (2 ^ k) 32) = min (2 ^ Suc k) 32"
proof (cases "(2 :: nat) ^ k < 32")
  case True
  then have "(2 :: nat) ^ k < 2 ^ 5" by simp
  then have "k < 5" by (simp only: power_strict_increasing_iff)
  then consider "k = 0" | "k = 1" | "k = 2" | "k = 3" | "k = 4" by linarith
  then show ?thesis by cases (simp_all add: next_backoff_def)
qed (simp add: next_backoff_def)

lemma sleeps_failures:
  "geyser_thread_sleeps (min (2 ^ k) 32) (replicate n (False, True) @ rest) =
    map (\<lambda>i. min (2 ^ (k + i)) 32) [0..<n] @ geyser_thread_sleeps (min (2 ^ (k + n)) 32) rest"
proof (induction n arbitrary: k)
  case (Suc n)
  have "geyser_thread_sleeps (min (2 ^ k) 32) (replicate (Suc n) (False, True) @ rest) =
      min (2 ^ k) 32 # geyser_thread_sleeps (min (2 ^ Suc k) 32) (replicate n (False, True) @ rest)"
    using next_backoff_min [of k] by (simp only: replicate_Suc append_Cons sleeps_Cons if_False)
  with Suc.IH [of "Suc k"] show ?case
    by (simp add: map_upt_Suc del: upt_Suc geyser_thread_sleeps.simps)
qed simp

lemma sleeps_range:
  "b \<in> {1, 2, 4, 8, 16, 32} \<Longrightarrow> set (geyser_thread_sleeps b subs) \<subseteq> {1, 2, 4, 8, 16, 32}"
proof (induction subs arbitrary: b)
  case (Cons sub subs)
  obtain ok running where sub: "sub = (ok, running)" by (cases sub)
  show ?case
  proof (cases running)
    case True
    have "(if ok then 1 else next_backoff b) \<in> {1, 2, 4, 8, 16, 32}"
      using Cons.prems by (auto simp: next_backoff_def)
    moreover have "sub = (ok, True)" using sub True by simp
    ultimately show ?thesis
      using Cons.IH Cons.prems by (simp only: sleeps_Cons list.set insert_subset simp_thms)
  qed (simp add: sub)
qed simp

text \<open>
  The reconnect delay. Every pause is a power of two between one second and 32. In a row of
  failed subscriptions the pauses double from one second up to 32; a subscription that worked
  resets the pause to one second for the failure after it (its own pause is still the old one).
\<close>

theorem reconnect_delays:
  "set (geyser_thread_sleeps 1 subscriptions) \<subseteq> {1, 2, 4, 8, 16, 32} \<and>
   geyser_thread_sleeps 1 (replicate n (False, True)) = map (\<lambda>i. min (2 ^ i) 32) [0..<n] \<and>
   geyser_thread_sleeps 1 (replicate n (False, True) @ (True, True) # replicate m (False, True)) =
     map (\<lambda>i. min (2 ^ i) 32) [0..<Suc n] @ map (\<lambda>i. min (2 ^ i) 32) [0..<m]"
proof -
  have zero: "min (2 ^ 0) 32 = (1 :: nat)" by simp
  have "geyser_thread_sleeps 1 (replicate n (False, True)) = map (\<lambda>i. min (2 ^ i) 32) [0..<n]" for n
    using sleeps_failures [of 0 n "[]"] by (simp add: zero)
  moreover have "geyser_thread_sleeps 1 (replicate n (False, True) @ (True, True) # rest) =
      map (\<lambda>i. min (2 ^ i) 32) [0..<Suc n] @ geyser_thread_sleeps 1 rest" for rest
    using sleeps_failures [of 0 n "(True, True) # rest"] unfolding sleeps_Cons by (simp add: zero)
  ultimately show ?thesis using sleeps_range [of 1 subscriptions] by simp
qed

end
