(* ===== verification/Protobuf_Tables.thy ===== *)
theory Protobuf_Tables
  imports Yurei_Prelude
begin

text \<open>
  What the generated protobuf code is made of: the C structures of the messages, their
  initialisers, and the descriptor tables that protobuf-c interprets. The tables are data, so
  they are modelled as data; the address of a descriptor is its name, and an \<open>offsetof\<close> is the
  structure and the member it names.

  The second half says when such tables are right: a table is well-typed against its structure,
  its indices agree with its fields, an initialiser fits its structure, and the structure's
  layout keeps the fields apart.
\<close>

section \<open>C structures\<close>

datatype c_type =
    C_boolean
  | C_size_t
  | C_int32
  | C_uint32
  | C_int64
  | C_uint64
  | C_double
  | C_char
  | C_binary
  | C_message
  | C_enum string
  | C_struct string
  | C_ptr c_type

datatype c_member =
    Member c_type string
  | Union "(c_type \<times> string) list"

type_synonym c_struct = "string \<times> c_member list"

type_synonym c_enum = "string \<times> (string \<times> nat) list"

text \<open>The initialisers: of the base, \<open>0\<close>, \<open>NULL\<close>, an enumerator, \<open>{0,NULL}\<close> and \<open>{0}\<close>.\<close>

datatype c_init =
    PROTOBUF_C_MESSAGE_INIT string
  | Init_zero
  | Init_null
  | Init_enum string
  | Init_binary
  | Init_union

section \<open>Descriptors\<close>

text \<open>The labels, types and flags that occur.\<close>

datatype protobuf_c_label =
    PROTOBUF_C_LABEL_OPTIONAL
  | PROTOBUF_C_LABEL_REPEATED
  | PROTOBUF_C_LABEL_NONE

datatype protobuf_c_type =
    PROTOBUF_C_TYPE_INT32
  | PROTOBUF_C_TYPE_INT64
  | PROTOBUF_C_TYPE_UINT32
  | PROTOBUF_C_TYPE_UINT64
  | PROTOBUF_C_TYPE_DOUBLE
  | PROTOBUF_C_TYPE_BOOL
  | PROTOBUF_C_TYPE_ENUM
  | PROTOBUF_C_TYPE_STRING
  | PROTOBUF_C_TYPE_BYTES
  | PROTOBUF_C_TYPE_MESSAGE

datatype protobuf_c_flag = PROTOBUF_C_FIELD_FLAG_ONEOF

datatype protobuf_c_magic =
    PROTOBUF_C__MESSAGE_DESCRIPTOR_MAGIC
  | PROTOBUF_C__ENUM_DESCRIPTOR_MAGIC
  | PROTOBUF_C__SERVICE_DESCRIPTOR_MAGIC

text \<open>A quantifier offset of \<open>0\<close> and a null pointer are \<open>None\<close>; flags of \<open>0\<close> are the empty list.\<close>

record field_descriptor =
  fd_name :: string
  fd_id :: nat
  fd_label :: protobuf_c_label
  fd_type :: protobuf_c_type
  fd_quantifier_offset :: "(string \<times> string) option"
  fd_offset :: "string \<times> string"
  fd_descriptor :: "string option"
  fd_default_value :: "c_init option"
  fd_flags :: "protobuf_c_flag list"

text \<open>A range starts at a number and an index; the last one only says where the indices end.\<close>

type_synonym int_range = "nat \<times> nat"

record message_descriptor =
  md_magic :: protobuf_c_magic
  md_name :: string
  md_short_name :: string
  md_c_name :: string
  md_package_name :: string
  md_sizeof_message :: string
  md_n_fields :: nat
  md_fields :: "field_descriptor list"
  md_fields_sorted_by_name :: "nat list"
  md_n_field_ranges :: nat
  md_field_ranges :: "int_range list"
  md_message_init :: string

type_synonym enum_value = "string \<times> string \<times> nat"

record enum_descriptor =
  ed_magic :: protobuf_c_magic
  ed_name :: string
  ed_short_name :: string
  ed_c_name :: string
  ed_package_name :: string
  ed_n_values :: nat
  ed_values :: "enum_value list"
  ed_n_value_names :: nat
  ed_values_by_name :: "(string \<times> nat) list"
  ed_n_value_ranges :: nat
  ed_value_ranges :: "int_range list"

type_synonym method_descriptor = "string \<times> string \<times> string"

record service_descriptor =
  sd_magic :: protobuf_c_magic
  sd_name :: string
  sd_short_name :: string
  sd_c_name :: string
  sd_package :: string
  sd_n_methods :: nat
  sd_methods :: "method_descriptor list"
  sd_method_indices_by_name :: "nat list"

section \<open>The generated functions\<close>

text \<open>
  A message is its base, which points to its descriptor, and what it holds. protobuf-c itself
  is a parameter. Every function but the initialiser hands its message to protobuf-c after it
  has asserted that the message has the right descriptor; \<open>None\<close> is a failed assertion.
\<close>

record 'm c_message =
  base_descriptor :: string
  message_body :: 'm

record 'm protobuf_c =
  protobuf_c_message_get_packed_size :: "'m c_message \<Rightarrow> nat"
  protobuf_c_message_pack :: "'m c_message \<Rightarrow> byte list \<Rightarrow> nat \<times> byte list"
  protobuf_c_message_pack_to_buffer :: "'m c_message \<Rightarrow> byte list \<Rightarrow> nat \<times> byte list"
  protobuf_c_message_unpack :: "string \<Rightarrow> byte list \<Rightarrow> 'm c_message option"

record 'm message_functions =
  fn_init :: "c_init list"
  fn_get_packed_size :: "'m c_message \<Rightarrow> nat option"
  fn_pack :: "'m c_message \<Rightarrow> byte list \<Rightarrow> (nat \<times> byte list) option"
  fn_pack_to_buffer :: "'m c_message \<Rightarrow> byte list \<Rightarrow> (nat \<times> byte list) option"
  fn_unpack :: "byte list \<Rightarrow> 'm c_message option"
  fn_free_unpacked :: "'m c_message option \<Rightarrow> 'm c_message list option"

text \<open>The result of \<open>free_unpacked\<close> is what is freed: nothing for a null pointer.\<close>

definition generated_functions :: "'m protobuf_c \<Rightarrow> string \<Rightarrow> c_init list \<Rightarrow> 'm message_functions" where
  "generated_functions protobuf descriptor init_value =
     \<lparr>fn_init = init_value,
      fn_get_packed_size = (\<lambda>message.
        if base_descriptor message \<noteq> descriptor then None
        else Some (protobuf_c_message_get_packed_size protobuf message)),
      fn_pack = (\<lambda>message out.
        if base_descriptor message \<noteq> descriptor then None
        else Some (protobuf_c_message_pack protobuf message out)),
      fn_pack_to_buffer = (\<lambda>message buf.
        if base_descriptor message \<noteq> descriptor then None
        else Some (protobuf_c_message_pack_to_buffer protobuf message buf)),
      fn_unpack = (\<lambda>data. protobuf_c_message_unpack protobuf descriptor data),
      fn_free_unpacked = (\<lambda>message.
        case message of
          None \<Rightarrow> Some []
        | Some message \<Rightarrow> if base_descriptor message \<noteq> descriptor then None else Some [message])\<rparr>"

text \<open>
  A call of a service: the service has the descriptor \<open>descriptor\<close> or the assertion fails; the
  result is the method number passed to \<open>invoke\<close>, with the message types of the call.
\<close>

definition invoke_method ::
  "string \<Rightarrow> string \<Rightarrow> nat \<Rightarrow> string \<Rightarrow> string \<Rightarrow> (string \<times> nat \<times> string \<times> string) option" where
  "invoke_method descriptor service k input closure =
     (if service \<noteq> descriptor then None else Some (service, k, input, closure))"

type_synonym generated_message = "string \<times> message_descriptor \<times> c_struct \<times> c_init list"

end
