(* ===== verification/Geyser_Structs.thy ===== *)
theory Geyser_Structs
  imports Protobuf_Tables
begin

text \<open>
  \<^verbatim>\<open>src/src/proto/geyser.pb-c.h\<close>: the enumerations and structures of the subscription
  messages, member by member, with their initialisers. A structure with a \<open>oneof\<close> has an
  enumeration of its cases and an anonymous union.
\<close>

section \<open>Enumerations, structures and initialisers\<close>

definition Geyser__CommitmentLevel :: c_enum where
  "Geyser__CommitmentLevel =
     (''Geyser__CommitmentLevel'',
      [(''GEYSER__COMMITMENT_LEVEL__PROCESSED'', 0),
       (''GEYSER__COMMITMENT_LEVEL__CONFIRMED'', 1),
       (''GEYSER__COMMITMENT_LEVEL__FINALIZED'', 2)])"

definition Geyser__SlotStatus :: c_enum where
  "Geyser__SlotStatus =
     (''Geyser__SlotStatus'',
      [(''GEYSER__SLOT_STATUS__SLOT_PROCESSED'', 0),
       (''GEYSER__SLOT_STATUS__SLOT_CONFIRMED'', 1),
       (''GEYSER__SLOT_STATUS__SLOT_FINALIZED'', 2),
       (''GEYSER__SLOT_STATUS__SLOT_FIRST_SHRED_RECEIVED'', 3),
       (''GEYSER__SLOT_STATUS__SLOT_COMPLETED'', 4),
       (''GEYSER__SLOT_STATUS__SLOT_CREATED_BANK'', 5),
       (''GEYSER__SLOT_STATUS__SLOT_DEAD'', 6)])"

definition Geyser__SubscribeRequest__AccountsEntry :: c_struct where
  "Geyser__SubscribeRequest__AccountsEntry =
     (''Geyser__SubscribeRequest__AccountsEntry'',
      [Member C_message ''base'',
       Member (C_ptr C_char) ''key'',
       Member (C_ptr (C_struct ''Geyser__SubscribeRequestFilterAccounts'')) ''value''])"

definition GEYSER__SUBSCRIBE_REQUEST__ACCOUNTS_ENTRY__INIT :: "c_init list" where
  "GEYSER__SUBSCRIBE_REQUEST__ACCOUNTS_ENTRY__INIT =
     [PROTOBUF_C_MESSAGE_INIT ''geyser__subscribe_request__accounts_entry__descriptor'', Init_null, Init_null]"

definition Geyser__SubscribeRequest__SlotsEntry :: c_struct where
  "Geyser__SubscribeRequest__SlotsEntry =
     (''Geyser__SubscribeRequest__SlotsEntry'',
      [Member C_message ''base'',
       Member (C_ptr C_char) ''key'',
       Member (C_ptr (C_struct ''Geyser__SubscribeRequestFilterSlots'')) ''value''])"

definition GEYSER__SUBSCRIBE_REQUEST__SLOTS_ENTRY__INIT :: "c_init list" where
  "GEYSER__SUBSCRIBE_REQUEST__SLOTS_ENTRY__INIT =
     [PROTOBUF_C_MESSAGE_INIT ''geyser__subscribe_request__slots_entry__descriptor'', Init_null, Init_null]"

definition Geyser__SubscribeRequest__TransactionsEntry :: c_struct where
  "Geyser__SubscribeRequest__TransactionsEntry =
     (''Geyser__SubscribeRequest__TransactionsEntry'',
      [Member C_message ''base'',
       Member (C_ptr C_char) ''key'',
       Member (C_ptr (C_struct ''Geyser__SubscribeRequestFilterTransactions'')) ''value''])"

definition GEYSER__SUBSCRIBE_REQUEST__TRANSACTIONS_ENTRY__INIT :: "c_init list" where
  "GEYSER__SUBSCRIBE_REQUEST__TRANSACTIONS_ENTRY__INIT =
     [PROTOBUF_C_MESSAGE_INIT ''geyser__subscribe_request__transactions_entry__descriptor'', Init_null, Init_null]"

definition Geyser__SubscribeRequest__TransactionsStatusEntry :: c_struct where
  "Geyser__SubscribeRequest__TransactionsStatusEntry =
     (''Geyser__SubscribeRequest__TransactionsStatusEntry'',
      [Member C_message ''base'',
       Member (C_ptr C_char) ''key'',
       Member (C_ptr (C_struct ''Geyser__SubscribeRequestFilterTransactions'')) ''value''])"

definition GEYSER__SUBSCRIBE_REQUEST__TRANSACTIONS_STATUS_ENTRY__INIT :: "c_init list" where
  "GEYSER__SUBSCRIBE_REQUEST__TRANSACTIONS_STATUS_ENTRY__INIT =
     [PROTOBUF_C_MESSAGE_INIT ''geyser__subscribe_request__transactions_status_entry__descriptor'', Init_null, Init_null]"

definition Geyser__SubscribeRequest__BlocksEntry :: c_struct where
  "Geyser__SubscribeRequest__BlocksEntry =
     (''Geyser__SubscribeRequest__BlocksEntry'',
      [Member C_message ''base'',
       Member (C_ptr C_char) ''key'',
       Member (C_ptr (C_struct ''Geyser__SubscribeRequestFilterBlocks'')) ''value''])"

definition GEYSER__SUBSCRIBE_REQUEST__BLOCKS_ENTRY__INIT :: "c_init list" where
  "GEYSER__SUBSCRIBE_REQUEST__BLOCKS_ENTRY__INIT =
     [PROTOBUF_C_MESSAGE_INIT ''geyser__subscribe_request__blocks_entry__descriptor'', Init_null, Init_null]"

definition Geyser__SubscribeRequest__BlocksMetaEntry :: c_struct where
  "Geyser__SubscribeRequest__BlocksMetaEntry =
     (''Geyser__SubscribeRequest__BlocksMetaEntry'',
      [Member C_message ''base'',
       Member (C_ptr C_char) ''key'',
       Member (C_ptr (C_struct ''Geyser__SubscribeRequestFilterBlocksMeta'')) ''value''])"

definition GEYSER__SUBSCRIBE_REQUEST__BLOCKS_META_ENTRY__INIT :: "c_init list" where
  "GEYSER__SUBSCRIBE_REQUEST__BLOCKS_META_ENTRY__INIT =
     [PROTOBUF_C_MESSAGE_INIT ''geyser__subscribe_request__blocks_meta_entry__descriptor'', Init_null, Init_null]"

definition Geyser__SubscribeRequest__EntryEntry :: c_struct where
  "Geyser__SubscribeRequest__EntryEntry =
     (''Geyser__SubscribeRequest__EntryEntry'',
      [Member C_message ''base'',
       Member (C_ptr C_char) ''key'',
       Member (C_ptr (C_struct ''Geyser__SubscribeRequestFilterEntry'')) ''value''])"

definition GEYSER__SUBSCRIBE_REQUEST__ENTRY_ENTRY__INIT :: "c_init list" where
  "GEYSER__SUBSCRIBE_REQUEST__ENTRY_ENTRY__INIT =
     [PROTOBUF_C_MESSAGE_INIT ''geyser__subscribe_request__entry_entry__descriptor'', Init_null, Init_null]"

definition Geyser__SubscribeRequest :: c_struct where
  "Geyser__SubscribeRequest =
     (''Geyser__SubscribeRequest'',
      [Member C_message ''base'',
       Member C_size_t ''n_accounts'',
       Member (C_ptr (C_ptr (C_struct ''Geyser__SubscribeRequest__AccountsEntry''))) ''accounts'',
       Member C_size_t ''n_slots'',
       Member (C_ptr (C_ptr (C_struct ''Geyser__SubscribeRequest__SlotsEntry''))) ''slots'',
       Member C_size_t ''n_transactions'',
       Member (C_ptr (C_ptr (C_struct ''Geyser__SubscribeRequest__TransactionsEntry''))) ''transactions'',
       Member C_size_t ''n_transactions_status'',
       Member (C_ptr (C_ptr (C_struct ''Geyser__SubscribeRequest__TransactionsStatusEntry''))) ''transactions_status'',
       Member C_size_t ''n_blocks'',
       Member (C_ptr (C_ptr (C_struct ''Geyser__SubscribeRequest__BlocksEntry''))) ''blocks'',
       Member C_size_t ''n_blocks_meta'',
       Member (C_ptr (C_ptr (C_struct ''Geyser__SubscribeRequest__BlocksMetaEntry''))) ''blocks_meta'',
       Member C_size_t ''n_entry'',
       Member (C_ptr (C_ptr (C_struct ''Geyser__SubscribeRequest__EntryEntry''))) ''entry'',
       Member C_boolean ''has_commitment'',
       Member (C_enum ''Geyser__CommitmentLevel'') ''commitment'',
       Member C_size_t ''n_accounts_data_slice'',
       Member (C_ptr (C_ptr (C_struct ''Geyser__SubscribeRequestAccountsDataSlice''))) ''accounts_data_slice'',
       Member (C_ptr (C_struct ''Geyser__SubscribeRequestPing'')) ''ping'',
       Member C_boolean ''has_from_slot'',
       Member C_uint64 ''from_slot''])"

definition GEYSER__SUBSCRIBE_REQUEST__INIT :: "c_init list" where
  "GEYSER__SUBSCRIBE_REQUEST__INIT =
     [PROTOBUF_C_MESSAGE_INIT ''geyser__subscribe_request__descriptor'', Init_zero, Init_null, Init_zero, Init_null, Init_zero, Init_null, Init_zero, Init_null, Init_zero, Init_null, Init_zero, Init_null, Init_zero, Init_null, Init_zero, Init_enum ''GEYSER__COMMITMENT_LEVEL__PROCESSED'', Init_zero, Init_null, Init_null, Init_zero, Init_zero]"

definition Geyser__SubscribeRequestFilterAccounts :: c_struct where
  "Geyser__SubscribeRequestFilterAccounts =
     (''Geyser__SubscribeRequestFilterAccounts'',
      [Member C_message ''base'',
       Member C_size_t ''n_account'',
       Member (C_ptr (C_ptr C_char)) ''account'',
       Member C_size_t ''n_owner'',
       Member (C_ptr (C_ptr C_char)) ''owner'',
       Member C_size_t ''n_filters'',
       Member (C_ptr (C_ptr (C_struct ''Geyser__SubscribeRequestFilterAccountsFilter''))) ''filters'',
       Member C_boolean ''has_nonempty_txn_signature'',
       Member C_boolean ''nonempty_txn_signature''])"

definition GEYSER__SUBSCRIBE_REQUEST_FILTER_ACCOUNTS__INIT :: "c_init list" where
  "GEYSER__SUBSCRIBE_REQUEST_FILTER_ACCOUNTS__INIT =
     [PROTOBUF_C_MESSAGE_INIT ''geyser__subscribe_request_filter_accounts__descriptor'', Init_zero, Init_null, Init_zero, Init_null, Init_zero, Init_null, Init_zero, Init_zero]"

definition Geyser__SubscribeRequestFilterAccountsFilter__FilterCase :: c_enum where
  "Geyser__SubscribeRequestFilterAccountsFilter__FilterCase =
     (''Geyser__SubscribeRequestFilterAccountsFilter__FilterCase'',
      [(''GEYSER__SUBSCRIBE_REQUEST_FILTER_ACCOUNTS_FILTER__FILTER__NOT_SET'', 0),
       (''GEYSER__SUBSCRIBE_REQUEST_FILTER_ACCOUNTS_FILTER__FILTER_MEMCMP'', 1),
       (''GEYSER__SUBSCRIBE_REQUEST_FILTER_ACCOUNTS_FILTER__FILTER_DATASIZE'', 2),
       (''GEYSER__SUBSCRIBE_REQUEST_FILTER_ACCOUNTS_FILTER__FILTER_TOKEN_ACCOUNT_STATE'', 3),
       (''GEYSER__SUBSCRIBE_REQUEST_FILTER_ACCOUNTS_FILTER__FILTER_LAMPORTS'', 4)])"

definition Geyser__SubscribeRequestFilterAccountsFilter :: c_struct where
  "Geyser__SubscribeRequestFilterAccountsFilter =
     (''Geyser__SubscribeRequestFilterAccountsFilter'',
      [Member C_message ''base'',
       Member (C_enum ''Geyser__SubscribeRequestFilterAccountsFilter__FilterCase'') ''filter_case'',
       Union [(C_ptr (C_struct ''Geyser__SubscribeRequestFilterAccountsFilterMemcmp''), ''memcmp''), (C_uint64, ''datasize''), (C_boolean, ''token_account_state''), (C_ptr (C_struct ''Geyser__SubscribeRequestFilterAccountsFilterLamports''), ''lamports'')]])"

definition GEYSER__SUBSCRIBE_REQUEST_FILTER_ACCOUNTS_FILTER__INIT :: "c_init list" where
  "GEYSER__SUBSCRIBE_REQUEST_FILTER_ACCOUNTS_FILTER__INIT =
     [PROTOBUF_C_MESSAGE_INIT ''geyser__subscribe_request_filter_accounts_filter__descriptor'', Init_enum ''GEYSER__SUBSCRIBE_REQUEST_FILTER_ACCOUNTS_FILTER__FILTER__NOT_SET'', Init_union]"

definition Geyser__SubscribeRequestFilterAccountsFilterMemcmp__DataCase :: c_enum where
  "Geyser__SubscribeRequestFilterAccountsFilterMemcmp__DataCase =
     (''Geyser__SubscribeRequestFilterAccountsFilterMemcmp__DataCase'',
      [(''GEYSER__SUBSCRIBE_REQUEST_FILTER_ACCOUNTS_FILTER_MEMCMP__DATA__NOT_SET'', 0),
       (''GEYSER__SUBSCRIBE_REQUEST_FILTER_ACCOUNTS_FILTER_MEMCMP__DATA_BYTES'', 2),
       (''GEYSER__SUBSCRIBE_REQUEST_FILTER_ACCOUNTS_FILTER_MEMCMP__DATA_BASE58'', 3),
       (''GEYSER__SUBSCRIBE_REQUEST_FILTER_ACCOUNTS_FILTER_MEMCMP__DATA_BASE64'', 4)])"

definition Geyser__SubscribeRequestFilterAccountsFilterMemcmp :: c_struct where
  "Geyser__SubscribeRequestFilterAccountsFilterMemcmp =
     (''Geyser__SubscribeRequestFilterAccountsFilterMemcmp'',
      [Member C_message ''base'',
       Member C_boolean ''has_offset'',
       Member C_uint64 ''offset'',
       Member (C_enum ''Geyser__SubscribeRequestFilterAccountsFilterMemcmp__DataCase'') ''data_case'',
       Union [(C_binary, ''bytes''), (C_ptr C_char, ''base58''), (C_ptr C_char, ''base64'')]])"

definition GEYSER__SUBSCRIBE_REQUEST_FILTER_ACCOUNTS_FILTER_MEMCMP__INIT :: "c_init list" where
  "GEYSER__SUBSCRIBE_REQUEST_FILTER_ACCOUNTS_FILTER_MEMCMP__INIT =
     [PROTOBUF_C_MESSAGE_INIT ''geyser__subscribe_request_filter_accounts_filter_memcmp__descriptor'', Init_zero, Init_zero, Init_enum ''GEYSER__SUBSCRIBE_REQUEST_FILTER_ACCOUNTS_FILTER_MEMCMP__DATA__NOT_SET'', Init_union]"

definition Geyser__SubscribeRequestFilterAccountsFilterLamports__CmpCase :: c_enum where
  "Geyser__SubscribeRequestFilterAccountsFilterLamports__CmpCase =
     (''Geyser__SubscribeRequestFilterAccountsFilterLamports__CmpCase'',
      [(''GEYSER__SUBSCRIBE_REQUEST_FILTER_ACCOUNTS_FILTER_LAMPORTS__CMP__NOT_SET'', 0),
       (''GEYSER__SUBSCRIBE_REQUEST_FILTER_ACCOUNTS_FILTER_LAMPORTS__CMP_EQ'', 1),
       (''GEYSER__SUBSCRIBE_REQUEST_FILTER_ACCOUNTS_FILTER_LAMPORTS__CMP_NE'', 2),
       (''GEYSER__SUBSCRIBE_REQUEST_FILTER_ACCOUNTS_FILTER_LAMPORTS__CMP_LT'', 3),
       (''GEYSER__SUBSCRIBE_REQUEST_FILTER_ACCOUNTS_FILTER_LAMPORTS__CMP_GT'', 4)])"

definition Geyser__SubscribeRequestFilterAccountsFilterLamports :: c_struct where
  "Geyser__SubscribeRequestFilterAccountsFilterLamports =
     (''Geyser__SubscribeRequestFilterAccountsFilterLamports'',
      [Member C_message ''base'',
       Member (C_enum ''Geyser__SubscribeRequestFilterAccountsFilterLamports__CmpCase'') ''cmp_case'',
       Union [(C_uint64, ''eq''), (C_uint64, ''ne''), (C_uint64, ''lt''), (C_uint64, ''gt'')]])"

definition GEYSER__SUBSCRIBE_REQUEST_FILTER_ACCOUNTS_FILTER_LAMPORTS__INIT :: "c_init list" where
  "GEYSER__SUBSCRIBE_REQUEST_FILTER_ACCOUNTS_FILTER_LAMPORTS__INIT =
     [PROTOBUF_C_MESSAGE_INIT ''geyser__subscribe_request_filter_accounts_filter_lamports__descriptor'', Init_enum ''GEYSER__SUBSCRIBE_REQUEST_FILTER_ACCOUNTS_FILTER_LAMPORTS__CMP__NOT_SET'', Init_union]"

definition Geyser__SubscribeRequestFilterSlots :: c_struct where
  "Geyser__SubscribeRequestFilterSlots =
     (''Geyser__SubscribeRequestFilterSlots'',
      [Member C_message ''base'',
       Member C_boolean ''has_filter_by_commitment'',
       Member C_boolean ''filter_by_commitment'',
       Member C_boolean ''has_interslot_updates'',
       Member C_boolean ''interslot_updates''])"

definition GEYSER__SUBSCRIBE_REQUEST_FILTER_SLOTS__INIT :: "c_init list" where
  "GEYSER__SUBSCRIBE_REQUEST_FILTER_SLOTS__INIT =
     [PROTOBUF_C_MESSAGE_INIT ''geyser__subscribe_request_filter_slots__descriptor'', Init_zero, Init_zero, Init_zero, Init_zero]"

definition Geyser__SubscribeRequestFilterTransactions :: c_struct where
  "Geyser__SubscribeRequestFilterTransactions =
     (''Geyser__SubscribeRequestFilterTransactions'',
      [Member C_message ''base'',
       Member C_boolean ''has_vote'',
       Member C_boolean ''vote'',
       Member C_boolean ''has_failed'',
       Member C_boolean ''failed'',
       Member (C_ptr C_char) ''signature'',
       Member C_size_t ''n_account_include'',
       Member (C_ptr (C_ptr C_char)) ''account_include'',
       Member C_size_t ''n_account_exclude'',
       Member (C_ptr (C_ptr C_char)) ''account_exclude'',
       Member C_size_t ''n_account_required'',
       Member (C_ptr (C_ptr C_char)) ''account_required''])"

definition GEYSER__SUBSCRIBE_REQUEST_FILTER_TRANSACTIONS__INIT :: "c_init list" where
  "GEYSER__SUBSCRIBE_REQUEST_FILTER_TRANSACTIONS__INIT =
     [PROTOBUF_C_MESSAGE_INIT ''geyser__subscribe_request_filter_transactions__descriptor'', Init_zero, Init_zero, Init_zero, Init_zero, Init_null, Init_zero, Init_null, Init_zero, Init_null, Init_zero, Init_null]"

definition Geyser__SubscribeRequestFilterBlocks :: c_struct where
  "Geyser__SubscribeRequestFilterBlocks =
     (''Geyser__SubscribeRequestFilterBlocks'',
      [Member C_message ''base'',
       Member C_size_t ''n_account_include'',
       Member (C_ptr (C_ptr C_char)) ''account_include'',
       Member C_boolean ''has_include_transactions'',
       Member C_boolean ''include_transactions'',
       Member C_boolean ''has_include_accounts'',
       Member C_boolean ''include_accounts'',
       Member C_boolean ''has_include_entries'',
       Member C_boolean ''include_entries''])"

definition GEYSER__SUBSCRIBE_REQUEST_FILTER_BLOCKS__INIT :: "c_init list" where
  "GEYSER__SUBSCRIBE_REQUEST_FILTER_BLOCKS__INIT =
     [PROTOBUF_C_MESSAGE_INIT ''geyser__subscribe_request_filter_blocks__descriptor'', Init_zero, Init_null, Init_zero, Init_zero, Init_zero, Init_zero, Init_zero, Init_zero]"

definition Geyser__SubscribeRequestFilterBlocksMeta :: c_struct where
  "Geyser__SubscribeRequestFilterBlocksMeta =
     (''Geyser__SubscribeRequestFilterBlocksMeta'',
      [Member C_message ''base''])"

definition GEYSER__SUBSCRIBE_REQUEST_FILTER_BLOCKS_META__INIT :: "c_init list" where
  "GEYSER__SUBSCRIBE_REQUEST_FILTER_BLOCKS_META__INIT =
     [PROTOBUF_C_MESSAGE_INIT ''geyser__subscribe_request_filter_blocks_meta__descriptor'']"

definition Geyser__SubscribeRequestFilterEntry :: c_struct where
  "Geyser__SubscribeRequestFilterEntry =
     (''Geyser__SubscribeRequestFilterEntry'',
      [Member C_message ''base''])"

definition GEYSER__SUBSCRIBE_REQUEST_FILTER_ENTRY__INIT :: "c_init list" where
  "GEYSER__SUBSCRIBE_REQUEST_FILTER_ENTRY__INIT =
     [PROTOBUF_C_MESSAGE_INIT ''geyser__subscribe_request_filter_entry__descriptor'']"

definition Geyser__SubscribeRequestAccountsDataSlice :: c_struct where
  "Geyser__SubscribeRequestAccountsDataSlice =
     (''Geyser__SubscribeRequestAccountsDataSlice'',
      [Member C_message ''base'',
       Member C_boolean ''has_offset'',
       Member C_uint64 ''offset'',
       Member C_boolean ''has_length'',
       Member C_uint64 ''length''])"

definition GEYSER__SUBSCRIBE_REQUEST_ACCOUNTS_DATA_SLICE__INIT :: "c_init list" where
  "GEYSER__SUBSCRIBE_REQUEST_ACCOUNTS_DATA_SLICE__INIT =
     [PROTOBUF_C_MESSAGE_INIT ''geyser__subscribe_request_accounts_data_slice__descriptor'', Init_zero, Init_zero, Init_zero, Init_zero]"

definition Geyser__SubscribeRequestPing :: c_struct where
  "Geyser__SubscribeRequestPing =
     (''Geyser__SubscribeRequestPing'',
      [Member C_message ''base'',
       Member C_boolean ''has_id'',
       Member C_int32 ''id''])"

definition GEYSER__SUBSCRIBE_REQUEST_PING__INIT :: "c_init list" where
  "GEYSER__SUBSCRIBE_REQUEST_PING__INIT =
     [PROTOBUF_C_MESSAGE_INIT ''geyser__subscribe_request_ping__descriptor'', Init_zero, Init_zero]"

definition Geyser__SubscribeUpdate__UpdateOneofCase :: c_enum where
  "Geyser__SubscribeUpdate__UpdateOneofCase =
     (''Geyser__SubscribeUpdate__UpdateOneofCase'',
      [(''GEYSER__SUBSCRIBE_UPDATE__UPDATE_ONEOF__NOT_SET'', 0),
       (''GEYSER__SUBSCRIBE_UPDATE__UPDATE_ONEOF_ACCOUNT'', 2),
       (''GEYSER__SUBSCRIBE_UPDATE__UPDATE_ONEOF_SLOT'', 3),
       (''GEYSER__SUBSCRIBE_UPDATE__UPDATE_ONEOF_TRANSACTION'', 4),
       (''GEYSER__SUBSCRIBE_UPDATE__UPDATE_ONEOF_TRANSACTION_STATUS'', 10),
       (''GEYSER__SUBSCRIBE_UPDATE__UPDATE_ONEOF_BLOCK'', 5),
       (''GEYSER__SUBSCRIBE_UPDATE__UPDATE_ONEOF_PING'', 6),
       (''GEYSER__SUBSCRIBE_UPDATE__UPDATE_ONEOF_PONG'', 9),
       (''GEYSER__SUBSCRIBE_UPDATE__UPDATE_ONEOF_BLOCK_META'', 7),
       (''GEYSER__SUBSCRIBE_UPDATE__UPDATE_ONEOF_ENTRY'', 8)])"

definition Geyser__SubscribeUpdate :: c_struct where
  "Geyser__SubscribeUpdate =
     (''Geyser__SubscribeUpdate'',
      [Member C_message ''base'',
       Member C_size_t ''n_filters'',
       Member (C_ptr (C_ptr C_char)) ''filters'',
       Member (C_ptr (C_struct ''Google__Protobuf__Timestamp'')) ''created_at'',
       Member (C_enum ''Geyser__SubscribeUpdate__UpdateOneofCase'') ''update_oneof_case'',
       Union [(C_ptr (C_struct ''Geyser__SubscribeUpdateAccount''), ''account''), (C_ptr (C_struct ''Geyser__SubscribeUpdateSlot''), ''slot''), (C_ptr (C_struct ''Geyser__SubscribeUpdateTransaction''), ''transaction''), (C_ptr (C_struct ''Geyser__SubscribeUpdateTransactionStatus''), ''transaction_status''), (C_ptr (C_struct ''Geyser__SubscribeUpdateBlock''), ''block''), (C_ptr (C_struct ''Geyser__SubscribeUpdatePing''), ''ping''), (C_ptr (C_struct ''Geyser__SubscribeUpdatePong''), ''pong''), (C_ptr (C_struct ''Geyser__SubscribeUpdateBlockMeta''), ''block_meta''), (C_ptr (C_struct ''Geyser__SubscribeUpdateEntry''), ''entry'')]])"

definition GEYSER__SUBSCRIBE_UPDATE__INIT :: "c_init list" where
  "GEYSER__SUBSCRIBE_UPDATE__INIT =
     [PROTOBUF_C_MESSAGE_INIT ''geyser__subscribe_update__descriptor'', Init_zero, Init_null, Init_null, Init_enum ''GEYSER__SUBSCRIBE_UPDATE__UPDATE_ONEOF__NOT_SET'', Init_union]"

definition Geyser__SubscribeUpdateAccount :: c_struct where
  "Geyser__SubscribeUpdateAccount =
     (''Geyser__SubscribeUpdateAccount'',
      [Member C_message ''base'',
       Member (C_ptr (C_struct ''Geyser__SubscribeUpdateAccountInfo'')) ''account'',
       Member C_boolean ''has_slot'',
       Member C_uint64 ''slot'',
       Member C_boolean ''has_is_startup'',
       Member C_boolean ''is_startup''])"

definition GEYSER__SUBSCRIBE_UPDATE_ACCOUNT__INIT :: "c_init list" where
  "GEYSER__SUBSCRIBE_UPDATE_ACCOUNT__INIT =
     [PROTOBUF_C_MESSAGE_INIT ''geyser__subscribe_update_account__descriptor'', Init_null, Init_zero, Init_zero, Init_zero, Init_zero]"

definition Geyser__SubscribeUpdateAccountInfo :: c_struct where
  "Geyser__SubscribeUpdateAccountInfo =
     (''Geyser__SubscribeUpdateAccountInfo'',
      [Member C_message ''base'',
       Member C_boolean ''has_pubkey'',
       Member C_binary ''pubkey'',
       Member C_boolean ''has_lamports'',
       Member C_uint64 ''lamports'',
       Member C_boolean ''has_owner'',
       Member C_binary ''owner'',
       Member C_boolean ''has_executable'',
       Member C_boolean ''executable'',
       Member C_boolean ''has_rent_epoch'',
       Member C_uint64 ''rent_epoch'',
       Member C_boolean ''has_data'',
       Member C_binary ''data'',
       Member C_boolean ''has_write_version'',
       Member C_uint64 ''write_version'',
       Member C_boolean ''has_txn_signature'',
       Member C_binary ''txn_signature''])"

definition GEYSER__SUBSCRIBE_UPDATE_ACCOUNT_INFO__INIT :: "c_init list" where
  "GEYSER__SUBSCRIBE_UPDATE_ACCOUNT_INFO__INIT =
     [PROTOBUF_C_MESSAGE_INIT ''geyser__subscribe_update_account_info__descriptor'', Init_zero, Init_binary, Init_zero, Init_zero, Init_zero, Init_binary, Init_zero, Init_zero, Init_zero, Init_zero, Init_zero, Init_binary, Init_zero, Init_zero, Init_zero, Init_binary]"

definition Geyser__SubscribeUpdateSlot :: c_struct where
  "Geyser__SubscribeUpdateSlot =
     (''Geyser__SubscribeUpdateSlot'',
      [Member C_message ''base'',
       Member C_boolean ''has_slot'',
       Member C_uint64 ''slot'',
       Member C_boolean ''has_parent'',
       Member C_uint64 ''parent'',
       Member C_boolean ''has_status'',
       Member (C_enum ''Geyser__SlotStatus'') ''status'',
       Member (C_ptr C_char) ''dead_error''])"

definition GEYSER__SUBSCRIBE_UPDATE_SLOT__INIT :: "c_init list" where
  "GEYSER__SUBSCRIBE_UPDATE_SLOT__INIT =
     [PROTOBUF_C_MESSAGE_INIT ''geyser__subscribe_update_slot__descriptor'', Init_zero, Init_zero, Init_zero, Init_zero, Init_zero, Init_enum ''GEYSER__SLOT_STATUS__SLOT_PROCESSED'', Init_null]"

definition Geyser__SubscribeUpdateTransaction :: c_struct where
  "Geyser__SubscribeUpdateTransaction =
     (''Geyser__SubscribeUpdateTransaction'',
      [Member C_message ''base'',
       Member (C_ptr (C_struct ''Geyser__SubscribeUpdateTransactionInfo'')) ''transaction'',
       Member C_boolean ''has_slot'',
       Member C_uint64 ''slot''])"

definition GEYSER__SUBSCRIBE_UPDATE_TRANSACTION__INIT :: "c_init list" where
  "GEYSER__SUBSCRIBE_UPDATE_TRANSACTION__INIT =
     [PROTOBUF_C_MESSAGE_INIT ''geyser__subscribe_update_transaction__descriptor'', Init_null, Init_zero, Init_zero]"

definition Geyser__SubscribeUpdateTransactionInfo :: c_struct where
  "Geyser__SubscribeUpdateTransactionInfo =
     (''Geyser__SubscribeUpdateTransactionInfo'',
      [Member C_message ''base'',
       Member C_boolean ''has_signature'',
       Member C_binary ''signature'',
       Member C_boolean ''has_is_vote'',
       Member C_boolean ''is_vote'',
       Member (C_ptr (C_struct ''Solana__Storage__ConfirmedBlock__Transaction'')) ''transaction'',
       Member (C_ptr (C_struct ''Solana__Storage__ConfirmedBlock__TransactionStatusMeta'')) ''meta'',
       Member C_boolean ''has_index'',
       Member C_uint64 ''index''])"

definition GEYSER__SUBSCRIBE_UPDATE_TRANSACTION_INFO__INIT :: "c_init list" where
  "GEYSER__SUBSCRIBE_UPDATE_TRANSACTION_INFO__INIT =
     [PROTOBUF_C_MESSAGE_INIT ''geyser__subscribe_update_transaction_info__descriptor'', Init_zero, Init_binary, Init_zero, Init_zero, Init_null, Init_null, Init_zero, Init_zero]"

definition Geyser__SubscribeUpdateTransactionStatus :: c_struct where
  "Geyser__SubscribeUpdateTransactionStatus =
     (''Geyser__SubscribeUpdateTransactionStatus'',
      [Member C_message ''base'',
       Member C_boolean ''has_slot'',
       Member C_uint64 ''slot'',
       Member C_boolean ''has_signature'',
       Member C_binary ''signature'',
       Member C_boolean ''has_is_vote'',
       Member C_boolean ''is_vote'',
       Member C_boolean ''has_index'',
       Member C_uint64 ''index'',
       Member (C_ptr (C_struct ''Solana__Storage__ConfirmedBlock__TransactionError'')) ''err''])"

definition GEYSER__SUBSCRIBE_UPDATE_TRANSACTION_STATUS__INIT :: "c_init list" where
  "GEYSER__SUBSCRIBE_UPDATE_TRANSACTION_STATUS__INIT =
     [PROTOBUF_C_MESSAGE_INIT ''geyser__subscribe_update_transaction_status__descriptor'', Init_zero, Init_zero, Init_zero, Init_binary, Init_zero, Init_zero, Init_zero, Init_zero, Init_null]"

definition Geyser__SubscribeUpdateBlock :: c_struct where
  "Geyser__SubscribeUpdateBlock =
     (''Geyser__SubscribeUpdateBlock'',
      [Member C_message ''base'',
       Member C_boolean ''has_slot'',
       Member C_uint64 ''slot'',
       Member (C_ptr C_char) ''blockhash'',
       Member (C_ptr (C_struct ''Solana__Storage__ConfirmedBlock__Rewards'')) ''rewards'',
       Member (C_ptr (C_struct ''Solana__Storage__ConfirmedBlock__UnixTimestamp'')) ''block_time'',
       Member (C_ptr (C_struct ''Solana__Storage__ConfirmedBlock__BlockHeight'')) ''block_height'',
       Member C_boolean ''has_parent_slot'',
       Member C_uint64 ''parent_slot'',
       Member (C_ptr C_char) ''parent_blockhash'',
       Member C_boolean ''has_executed_transaction_count'',
       Member C_uint64 ''executed_transaction_count'',
       Member C_size_t ''n_transactions'',
       Member (C_ptr (C_ptr (C_struct ''Geyser__SubscribeUpdateTransactionInfo''))) ''transactions'',
       Member C_boolean ''has_updated_account_count'',
       Member C_uint64 ''updated_account_count'',
       Member C_size_t ''n_accounts'',
       Member (C_ptr (C_ptr (C_struct ''Geyser__SubscribeUpdateAccountInfo''))) ''accounts'',
       Member C_boolean ''has_entries_count'',
       Member C_uint64 ''entries_count'',
       Member C_size_t ''n_entries'',
       Member (C_ptr (C_ptr (C_struct ''Geyser__SubscribeUpdateEntry''))) ''entries''])"

definition GEYSER__SUBSCRIBE_UPDATE_BLOCK__INIT :: "c_init list" where
  "GEYSER__SUBSCRIBE_UPDATE_BLOCK__INIT =
     [PROTOBUF_C_MESSAGE_INIT ''geyser__subscribe_update_block__descriptor'', Init_zero, Init_zero, Init_null, Init_null, Init_null, Init_null, Init_zero, Init_zero, Init_null, Init_zero, Init_zero, Init_zero, Init_null, Init_zero, Init_zero, Init_zero, Init_null, Init_zero, Init_zero, Init_zero, Init_null]"

definition Geyser__SubscribeUpdateBlockMeta :: c_struct where
  "Geyser__SubscribeUpdateBlockMeta =
     (''Geyser__SubscribeUpdateBlockMeta'',
      [Member C_message ''base'',
       Member C_boolean ''has_slot'',
       Member C_uint64 ''slot'',
       Member (C_ptr C_char) ''blockhash'',
       Member (C_ptr (C_struct ''Solana__Storage__ConfirmedBlock__Rewards'')) ''rewards'',
       Member (C_ptr (C_struct ''Solana__Storage__ConfirmedBlock__UnixTimestamp'')) ''block_time'',
       Member (C_ptr (C_struct ''Solana__Storage__ConfirmedBlock__BlockHeight'')) ''block_height'',
       Member C_boolean ''has_parent_slot'',
       Member C_uint64 ''parent_slot'',
       Member (C_ptr C_char) ''parent_blockhash'',
       Member C_boolean ''has_executed_transaction_count'',
       Member C_uint64 ''executed_transaction_count'',
       Member C_boolean ''has_entries_count'',
       Member C_uint64 ''entries_count''])"

definition GEYSER__SUBSCRIBE_UPDATE_BLOCK_META__INIT :: "c_init list" where
  "GEYSER__SUBSCRIBE_UPDATE_BLOCK_META__INIT =
     [PROTOBUF_C_MESSAGE_INIT ''geyser__subscribe_update_block_meta__descriptor'', Init_zero, Init_zero, Init_null, Init_null, Init_null, Init_null, Init_zero, Init_zero, Init_null, Init_zero, Init_zero, Init_zero, Init_zero]"

definition Geyser__SubscribeUpdateEntry :: c_struct where
  "Geyser__SubscribeUpdateEntry =
     (''Geyser__SubscribeUpdateEntry'',
      [Member C_message ''base'',
       Member C_boolean ''has_slot'',
       Member C_uint64 ''slot'',
       Member C_boolean ''has_index'',
       Member C_uint64 ''index'',
       Member C_boolean ''has_num_hashes'',
       Member C_uint64 ''num_hashes'',
       Member C_boolean ''has_hash'',
       Member C_binary ''hash'',
       Member C_boolean ''has_executed_transaction_count'',
       Member C_uint64 ''executed_transaction_count'',
       Member C_boolean ''has_starting_transaction_index'',
       Member C_uint64 ''starting_transaction_index''])"

definition GEYSER__SUBSCRIBE_UPDATE_ENTRY__INIT :: "c_init list" where
  "GEYSER__SUBSCRIBE_UPDATE_ENTRY__INIT =
     [PROTOBUF_C_MESSAGE_INIT ''geyser__subscribe_update_entry__descriptor'', Init_zero, Init_zero, Init_zero, Init_zero, Init_zero, Init_zero, Init_zero, Init_binary, Init_zero, Init_zero, Init_zero, Init_zero]"

definition Geyser__SubscribeUpdatePing :: c_struct where
  "Geyser__SubscribeUpdatePing =
     (''Geyser__SubscribeUpdatePing'',
      [Member C_message ''base''])"

definition GEYSER__SUBSCRIBE_UPDATE_PING__INIT :: "c_init list" where
  "GEYSER__SUBSCRIBE_UPDATE_PING__INIT =
     [PROTOBUF_C_MESSAGE_INIT ''geyser__subscribe_update_ping__descriptor'']"

definition Geyser__SubscribeUpdatePong :: c_struct where
  "Geyser__SubscribeUpdatePong =
     (''Geyser__SubscribeUpdatePong'',
      [Member C_message ''base'',
       Member C_boolean ''has_id'',
       Member C_int32 ''id''])"

definition GEYSER__SUBSCRIBE_UPDATE_PONG__INIT :: "c_init list" where
  "GEYSER__SUBSCRIBE_UPDATE_PONG__INIT =
     [PROTOBUF_C_MESSAGE_INIT ''geyser__subscribe_update_pong__descriptor'', Init_zero, Init_zero]"

definition Geyser__SubscribeReplayInfoRequest :: c_struct where
  "Geyser__SubscribeReplayInfoRequest =
     (''Geyser__SubscribeReplayInfoRequest'',
      [Member C_message ''base''])"

definition GEYSER__SUBSCRIBE_REPLAY_INFO_REQUEST__INIT :: "c_init list" where
  "GEYSER__SUBSCRIBE_REPLAY_INFO_REQUEST__INIT =
     [PROTOBUF_C_MESSAGE_INIT ''geyser__subscribe_replay_info_request__descriptor'']"

definition Geyser__SubscribeReplayInfoResponse :: c_struct where
  "Geyser__SubscribeReplayInfoResponse =
     (''Geyser__SubscribeReplayInfoResponse'',
      [Member C_message ''base'',
       Member C_boolean ''has_first_available'',
       Member C_uint64 ''first_available''])"

definition GEYSER__SUBSCRIBE_REPLAY_INFO_RESPONSE__INIT :: "c_init list" where
  "GEYSER__SUBSCRIBE_REPLAY_INFO_RESPONSE__INIT =
     [PROTOBUF_C_MESSAGE_INIT ''geyser__subscribe_replay_info_response__descriptor'', Init_zero, Init_zero]"

definition Geyser__PingRequest :: c_struct where
  "Geyser__PingRequest =
     (''Geyser__PingRequest'',
      [Member C_message ''base'',
       Member C_boolean ''has_count'',
       Member C_int32 ''count''])"

definition GEYSER__PING_REQUEST__INIT :: "c_init list" where
  "GEYSER__PING_REQUEST__INIT =
     [PROTOBUF_C_MESSAGE_INIT ''geyser__ping_request__descriptor'', Init_zero, Init_zero]"

definition Geyser__PongResponse :: c_struct where
  "Geyser__PongResponse =
     (''Geyser__PongResponse'',
      [Member C_message ''base'',
       Member C_boolean ''has_count'',
       Member C_int32 ''count''])"

definition GEYSER__PONG_RESPONSE__INIT :: "c_init list" where
  "GEYSER__PONG_RESPONSE__INIT =
     [PROTOBUF_C_MESSAGE_INIT ''geyser__pong_response__descriptor'', Init_zero, Init_zero]"

definition Geyser__GetLatestBlockhashRequest :: c_struct where
  "Geyser__GetLatestBlockhashRequest =
     (''Geyser__GetLatestBlockhashRequest'',
      [Member C_message ''base'',
       Member C_boolean ''has_commitment'',
       Member (C_enum ''Geyser__CommitmentLevel'') ''commitment''])"

definition GEYSER__GET_LATEST_BLOCKHASH_REQUEST__INIT :: "c_init list" where
  "GEYSER__GET_LATEST_BLOCKHASH_REQUEST__INIT =
     [PROTOBUF_C_MESSAGE_INIT ''geyser__get_latest_blockhash_request__descriptor'', Init_zero, Init_enum ''GEYSER__COMMITMENT_LEVEL__PROCESSED'']"

definition Geyser__GetLatestBlockhashResponse :: c_struct where
  "Geyser__GetLatestBlockhashResponse =
     (''Geyser__GetLatestBlockhashResponse'',
      [Member C_message ''base'',
       Member C_boolean ''has_slot'',
       Member C_uint64 ''slot'',
       Member (C_ptr C_char) ''blockhash'',
       Member C_boolean ''has_last_valid_block_height'',
       Member C_uint64 ''last_valid_block_height''])"

definition GEYSER__GET_LATEST_BLOCKHASH_RESPONSE__INIT :: "c_init list" where
  "GEYSER__GET_LATEST_BLOCKHASH_RESPONSE__INIT =
     [PROTOBUF_C_MESSAGE_INIT ''geyser__get_latest_blockhash_response__descriptor'', Init_zero, Init_zero, Init_null, Init_zero, Init_zero]"

definition Geyser__GetBlockHeightRequest :: c_struct where
  "Geyser__GetBlockHeightRequest =
     (''Geyser__GetBlockHeightRequest'',
      [Member C_message ''base'',
       Member C_boolean ''has_commitment'',
       Member (C_enum ''Geyser__CommitmentLevel'') ''commitment''])"

definition GEYSER__GET_BLOCK_HEIGHT_REQUEST__INIT :: "c_init list" where
  "GEYSER__GET_BLOCK_HEIGHT_REQUEST__INIT =
     [PROTOBUF_C_MESSAGE_INIT ''geyser__get_block_height_request__descriptor'', Init_zero, Init_enum ''GEYSER__COMMITMENT_LEVEL__PROCESSED'']"

definition Geyser__GetBlockHeightResponse :: c_struct where
  "Geyser__GetBlockHeightResponse =
     (''Geyser__GetBlockHeightResponse'',
      [Member C_message ''base'',
       Member C_boolean ''has_block_height'',
       Member C_uint64 ''block_height''])"

definition GEYSER__GET_BLOCK_HEIGHT_RESPONSE__INIT :: "c_init list" where
  "GEYSER__GET_BLOCK_HEIGHT_RESPONSE__INIT =
     [PROTOBUF_C_MESSAGE_INIT ''geyser__get_block_height_response__descriptor'', Init_zero, Init_zero]"

definition Geyser__GetSlotRequest :: c_struct where
  "Geyser__GetSlotRequest =
     (''Geyser__GetSlotRequest'',
      [Member C_message ''base'',
       Member C_boolean ''has_commitment'',
       Member (C_enum ''Geyser__CommitmentLevel'') ''commitment''])"

definition GEYSER__GET_SLOT_REQUEST__INIT :: "c_init list" where
  "GEYSER__GET_SLOT_REQUEST__INIT =
     [PROTOBUF_C_MESSAGE_INIT ''geyser__get_slot_request__descriptor'', Init_zero, Init_enum ''GEYSER__COMMITMENT_LEVEL__PROCESSED'']"

definition Geyser__GetSlotResponse :: c_struct where
  "Geyser__GetSlotResponse =
     (''Geyser__GetSlotResponse'',
      [Member C_message ''base'',
       Member C_boolean ''has_slot'',
       Member C_uint64 ''slot''])"

definition GEYSER__GET_SLOT_RESPONSE__INIT :: "c_init list" where
  "GEYSER__GET_SLOT_RESPONSE__INIT =
     [PROTOBUF_C_MESSAGE_INIT ''geyser__get_slot_response__descriptor'', Init_zero, Init_zero]"

definition Geyser__GetVersionRequest :: c_struct where
  "Geyser__GetVersionRequest =
     (''Geyser__GetVersionRequest'',
      [Member C_message ''base''])"

definition GEYSER__GET_VERSION_REQUEST__INIT :: "c_init list" where
  "GEYSER__GET_VERSION_REQUEST__INIT =
     [PROTOBUF_C_MESSAGE_INIT ''geyser__get_version_request__descriptor'']"

definition Geyser__GetVersionResponse :: c_struct where
  "Geyser__GetVersionResponse =
     (''Geyser__GetVersionResponse'',
      [Member C_message ''base'',
       Member (C_ptr C_char) ''version''])"

definition GEYSER__GET_VERSION_RESPONSE__INIT :: "c_init list" where
  "GEYSER__GET_VERSION_RESPONSE__INIT =
     [PROTOBUF_C_MESSAGE_INIT ''geyser__get_version_response__descriptor'', Init_null]"

definition Geyser__IsBlockhashValidRequest :: c_struct where
  "Geyser__IsBlockhashValidRequest =
     (''Geyser__IsBlockhashValidRequest'',
      [Member C_message ''base'',
       Member (C_ptr C_char) ''blockhash'',
       Member C_boolean ''has_commitment'',
       Member (C_enum ''Geyser__CommitmentLevel'') ''commitment''])"

definition GEYSER__IS_BLOCKHASH_VALID_REQUEST__INIT :: "c_init list" where
  "GEYSER__IS_BLOCKHASH_VALID_REQUEST__INIT =
     [PROTOBUF_C_MESSAGE_INIT ''geyser__is_blockhash_valid_request__descriptor'', Init_null, Init_zero, Init_enum ''GEYSER__COMMITMENT_LEVEL__PROCESSED'']"

definition Geyser__IsBlockhashValidResponse :: c_struct where
  "Geyser__IsBlockhashValidResponse =
     (''Geyser__IsBlockhashValidResponse'',
      [Member C_message ''base'',
       Member C_boolean ''has_slot'',
       Member C_uint64 ''slot'',
       Member C_boolean ''has_valid'',
       Member C_boolean ''valid''])"

definition GEYSER__IS_BLOCKHASH_VALID_RESPONSE__INIT :: "c_init list" where
  "GEYSER__IS_BLOCKHASH_VALID_RESPONSE__INIT =
     [PROTOBUF_C_MESSAGE_INIT ''geyser__is_blockhash_valid_response__descriptor'', Init_zero, Init_zero, Init_zero, Init_zero]"

end
