(* ===== verification/Geyser_Proto.thy ===== *)
theory Geyser_Proto
  imports Geyser_Structs
begin

text \<open>
  \<^verbatim>\<open>src/src/proto/geyser.pb-c.c\<close>: the functions and the descriptor tables of the
  subscription messages, and the service.
\<close>

section \<open>Functions\<close>

text \<open>The functions of a message are its initialiser, the five that call protobuf-c with its
  descriptor, and for a map entry the initialiser alone.\<close>

definition geyser__subscribe_request__accounts_entry__init :: "c_init list \<Rightarrow> c_init list" where
  "geyser__subscribe_request__accounts_entry__init message = (let init_value = GEYSER__SUBSCRIBE_REQUEST__ACCOUNTS_ENTRY__INIT in init_value)"

definition geyser__subscribe_request__slots_entry__init :: "c_init list \<Rightarrow> c_init list" where
  "geyser__subscribe_request__slots_entry__init message = (let init_value = GEYSER__SUBSCRIBE_REQUEST__SLOTS_ENTRY__INIT in init_value)"

definition geyser__subscribe_request__transactions_entry__init :: "c_init list \<Rightarrow> c_init list" where
  "geyser__subscribe_request__transactions_entry__init message = (let init_value = GEYSER__SUBSCRIBE_REQUEST__TRANSACTIONS_ENTRY__INIT in init_value)"

definition geyser__subscribe_request__transactions_status_entry__init :: "c_init list \<Rightarrow> c_init list" where
  "geyser__subscribe_request__transactions_status_entry__init message = (let init_value = GEYSER__SUBSCRIBE_REQUEST__TRANSACTIONS_STATUS_ENTRY__INIT in init_value)"

definition geyser__subscribe_request__blocks_entry__init :: "c_init list \<Rightarrow> c_init list" where
  "geyser__subscribe_request__blocks_entry__init message = (let init_value = GEYSER__SUBSCRIBE_REQUEST__BLOCKS_ENTRY__INIT in init_value)"

definition geyser__subscribe_request__blocks_meta_entry__init :: "c_init list \<Rightarrow> c_init list" where
  "geyser__subscribe_request__blocks_meta_entry__init message = (let init_value = GEYSER__SUBSCRIBE_REQUEST__BLOCKS_META_ENTRY__INIT in init_value)"

definition geyser__subscribe_request__entry_entry__init :: "c_init list \<Rightarrow> c_init list" where
  "geyser__subscribe_request__entry_entry__init message = (let init_value = GEYSER__SUBSCRIBE_REQUEST__ENTRY_ENTRY__INIT in init_value)"

definition geyser__subscribe_request__functions :: "'m protobuf_c \<Rightarrow> 'm message_functions" where
  "geyser__subscribe_request__functions protobuf =
     generated_functions protobuf ''geyser__subscribe_request__descriptor'' GEYSER__SUBSCRIBE_REQUEST__INIT"

definition geyser__subscribe_request_filter_accounts__functions :: "'m protobuf_c \<Rightarrow> 'm message_functions" where
  "geyser__subscribe_request_filter_accounts__functions protobuf =
     generated_functions protobuf ''geyser__subscribe_request_filter_accounts__descriptor'' GEYSER__SUBSCRIBE_REQUEST_FILTER_ACCOUNTS__INIT"

definition geyser__subscribe_request_filter_accounts_filter__functions :: "'m protobuf_c \<Rightarrow> 'm message_functions" where
  "geyser__subscribe_request_filter_accounts_filter__functions protobuf =
     generated_functions protobuf ''geyser__subscribe_request_filter_accounts_filter__descriptor'' GEYSER__SUBSCRIBE_REQUEST_FILTER_ACCOUNTS_FILTER__INIT"

definition geyser__subscribe_request_filter_accounts_filter_memcmp__functions :: "'m protobuf_c \<Rightarrow> 'm message_functions" where
  "geyser__subscribe_request_filter_accounts_filter_memcmp__functions protobuf =
     generated_functions protobuf ''geyser__subscribe_request_filter_accounts_filter_memcmp__descriptor'' GEYSER__SUBSCRIBE_REQUEST_FILTER_ACCOUNTS_FILTER_MEMCMP__INIT"

definition geyser__subscribe_request_filter_accounts_filter_lamports__functions :: "'m protobuf_c \<Rightarrow> 'm message_functions" where
  "geyser__subscribe_request_filter_accounts_filter_lamports__functions protobuf =
     generated_functions protobuf ''geyser__subscribe_request_filter_accounts_filter_lamports__descriptor'' GEYSER__SUBSCRIBE_REQUEST_FILTER_ACCOUNTS_FILTER_LAMPORTS__INIT"

definition geyser__subscribe_request_filter_slots__functions :: "'m protobuf_c \<Rightarrow> 'm message_functions" where
  "geyser__subscribe_request_filter_slots__functions protobuf =
     generated_functions protobuf ''geyser__subscribe_request_filter_slots__descriptor'' GEYSER__SUBSCRIBE_REQUEST_FILTER_SLOTS__INIT"

definition geyser__subscribe_request_filter_transactions__functions :: "'m protobuf_c \<Rightarrow> 'm message_functions" where
  "geyser__subscribe_request_filter_transactions__functions protobuf =
     generated_functions protobuf ''geyser__subscribe_request_filter_transactions__descriptor'' GEYSER__SUBSCRIBE_REQUEST_FILTER_TRANSACTIONS__INIT"

definition geyser__subscribe_request_filter_blocks__functions :: "'m protobuf_c \<Rightarrow> 'm message_functions" where
  "geyser__subscribe_request_filter_blocks__functions protobuf =
     generated_functions protobuf ''geyser__subscribe_request_filter_blocks__descriptor'' GEYSER__SUBSCRIBE_REQUEST_FILTER_BLOCKS__INIT"

definition geyser__subscribe_request_filter_blocks_meta__functions :: "'m protobuf_c \<Rightarrow> 'm message_functions" where
  "geyser__subscribe_request_filter_blocks_meta__functions protobuf =
     generated_functions protobuf ''geyser__subscribe_request_filter_blocks_meta__descriptor'' GEYSER__SUBSCRIBE_REQUEST_FILTER_BLOCKS_META__INIT"

definition geyser__subscribe_request_filter_entry__functions :: "'m protobuf_c \<Rightarrow> 'm message_functions" where
  "geyser__subscribe_request_filter_entry__functions protobuf =
     generated_functions protobuf ''geyser__subscribe_request_filter_entry__descriptor'' GEYSER__SUBSCRIBE_REQUEST_FILTER_ENTRY__INIT"

definition geyser__subscribe_request_accounts_data_slice__functions :: "'m protobuf_c \<Rightarrow> 'm message_functions" where
  "geyser__subscribe_request_accounts_data_slice__functions protobuf =
     generated_functions protobuf ''geyser__subscribe_request_accounts_data_slice__descriptor'' GEYSER__SUBSCRIBE_REQUEST_ACCOUNTS_DATA_SLICE__INIT"

definition geyser__subscribe_request_ping__functions :: "'m protobuf_c \<Rightarrow> 'm message_functions" where
  "geyser__subscribe_request_ping__functions protobuf =
     generated_functions protobuf ''geyser__subscribe_request_ping__descriptor'' GEYSER__SUBSCRIBE_REQUEST_PING__INIT"

definition geyser__subscribe_update__functions :: "'m protobuf_c \<Rightarrow> 'm message_functions" where
  "geyser__subscribe_update__functions protobuf =
     generated_functions protobuf ''geyser__subscribe_update__descriptor'' GEYSER__SUBSCRIBE_UPDATE__INIT"

definition geyser__subscribe_update_account__functions :: "'m protobuf_c \<Rightarrow> 'm message_functions" where
  "geyser__subscribe_update_account__functions protobuf =
     generated_functions protobuf ''geyser__subscribe_update_account__descriptor'' GEYSER__SUBSCRIBE_UPDATE_ACCOUNT__INIT"

definition geyser__subscribe_update_account_info__functions :: "'m protobuf_c \<Rightarrow> 'm message_functions" where
  "geyser__subscribe_update_account_info__functions protobuf =
     generated_functions protobuf ''geyser__subscribe_update_account_info__descriptor'' GEYSER__SUBSCRIBE_UPDATE_ACCOUNT_INFO__INIT"

definition geyser__subscribe_update_slot__functions :: "'m protobuf_c \<Rightarrow> 'm message_functions" where
  "geyser__subscribe_update_slot__functions protobuf =
     generated_functions protobuf ''geyser__subscribe_update_slot__descriptor'' GEYSER__SUBSCRIBE_UPDATE_SLOT__INIT"

definition geyser__subscribe_update_transaction__functions :: "'m protobuf_c \<Rightarrow> 'm message_functions" where
  "geyser__subscribe_update_transaction__functions protobuf =
     generated_functions protobuf ''geyser__subscribe_update_transaction__descriptor'' GEYSER__SUBSCRIBE_UPDATE_TRANSACTION__INIT"

definition geyser__subscribe_update_transaction_info__functions :: "'m protobuf_c \<Rightarrow> 'm message_functions" where
  "geyser__subscribe_update_transaction_info__functions protobuf =
     generated_functions protobuf ''geyser__subscribe_update_transaction_info__descriptor'' GEYSER__SUBSCRIBE_UPDATE_TRANSACTION_INFO__INIT"

definition geyser__subscribe_update_transaction_status__functions :: "'m protobuf_c \<Rightarrow> 'm message_functions" where
  "geyser__subscribe_update_transaction_status__functions protobuf =
     generated_functions protobuf ''geyser__subscribe_update_transaction_status__descriptor'' GEYSER__SUBSCRIBE_UPDATE_TRANSACTION_STATUS__INIT"

definition geyser__subscribe_update_block__functions :: "'m protobuf_c \<Rightarrow> 'm message_functions" where
  "geyser__subscribe_update_block__functions protobuf =
     generated_functions protobuf ''geyser__subscribe_update_block__descriptor'' GEYSER__SUBSCRIBE_UPDATE_BLOCK__INIT"

definition geyser__subscribe_update_block_meta__functions :: "'m protobuf_c \<Rightarrow> 'm message_functions" where
  "geyser__subscribe_update_block_meta__functions protobuf =
     generated_functions protobuf ''geyser__subscribe_update_block_meta__descriptor'' GEYSER__SUBSCRIBE_UPDATE_BLOCK_META__INIT"

definition geyser__subscribe_update_entry__functions :: "'m protobuf_c \<Rightarrow> 'm message_functions" where
  "geyser__subscribe_update_entry__functions protobuf =
     generated_functions protobuf ''geyser__subscribe_update_entry__descriptor'' GEYSER__SUBSCRIBE_UPDATE_ENTRY__INIT"

definition geyser__subscribe_update_ping__functions :: "'m protobuf_c \<Rightarrow> 'm message_functions" where
  "geyser__subscribe_update_ping__functions protobuf =
     generated_functions protobuf ''geyser__subscribe_update_ping__descriptor'' GEYSER__SUBSCRIBE_UPDATE_PING__INIT"

definition geyser__subscribe_update_pong__functions :: "'m protobuf_c \<Rightarrow> 'm message_functions" where
  "geyser__subscribe_update_pong__functions protobuf =
     generated_functions protobuf ''geyser__subscribe_update_pong__descriptor'' GEYSER__SUBSCRIBE_UPDATE_PONG__INIT"

definition geyser__subscribe_replay_info_request__functions :: "'m protobuf_c \<Rightarrow> 'm message_functions" where
  "geyser__subscribe_replay_info_request__functions protobuf =
     generated_functions protobuf ''geyser__subscribe_replay_info_request__descriptor'' GEYSER__SUBSCRIBE_REPLAY_INFO_REQUEST__INIT"

definition geyser__subscribe_replay_info_response__functions :: "'m protobuf_c \<Rightarrow> 'm message_functions" where
  "geyser__subscribe_replay_info_response__functions protobuf =
     generated_functions protobuf ''geyser__subscribe_replay_info_response__descriptor'' GEYSER__SUBSCRIBE_REPLAY_INFO_RESPONSE__INIT"

definition geyser__ping_request__functions :: "'m protobuf_c \<Rightarrow> 'm message_functions" where
  "geyser__ping_request__functions protobuf =
     generated_functions protobuf ''geyser__ping_request__descriptor'' GEYSER__PING_REQUEST__INIT"

definition geyser__pong_response__functions :: "'m protobuf_c \<Rightarrow> 'm message_functions" where
  "geyser__pong_response__functions protobuf =
     generated_functions protobuf ''geyser__pong_response__descriptor'' GEYSER__PONG_RESPONSE__INIT"

definition geyser__get_latest_blockhash_request__functions :: "'m protobuf_c \<Rightarrow> 'm message_functions" where
  "geyser__get_latest_blockhash_request__functions protobuf =
     generated_functions protobuf ''geyser__get_latest_blockhash_request__descriptor'' GEYSER__GET_LATEST_BLOCKHASH_REQUEST__INIT"

definition geyser__get_latest_blockhash_response__functions :: "'m protobuf_c \<Rightarrow> 'm message_functions" where
  "geyser__get_latest_blockhash_response__functions protobuf =
     generated_functions protobuf ''geyser__get_latest_blockhash_response__descriptor'' GEYSER__GET_LATEST_BLOCKHASH_RESPONSE__INIT"

definition geyser__get_block_height_request__functions :: "'m protobuf_c \<Rightarrow> 'm message_functions" where
  "geyser__get_block_height_request__functions protobuf =
     generated_functions protobuf ''geyser__get_block_height_request__descriptor'' GEYSER__GET_BLOCK_HEIGHT_REQUEST__INIT"

definition geyser__get_block_height_response__functions :: "'m protobuf_c \<Rightarrow> 'm message_functions" where
  "geyser__get_block_height_response__functions protobuf =
     generated_functions protobuf ''geyser__get_block_height_response__descriptor'' GEYSER__GET_BLOCK_HEIGHT_RESPONSE__INIT"

definition geyser__get_slot_request__functions :: "'m protobuf_c \<Rightarrow> 'm message_functions" where
  "geyser__get_slot_request__functions protobuf =
     generated_functions protobuf ''geyser__get_slot_request__descriptor'' GEYSER__GET_SLOT_REQUEST__INIT"

definition geyser__get_slot_response__functions :: "'m protobuf_c \<Rightarrow> 'm message_functions" where
  "geyser__get_slot_response__functions protobuf =
     generated_functions protobuf ''geyser__get_slot_response__descriptor'' GEYSER__GET_SLOT_RESPONSE__INIT"

definition geyser__get_version_request__functions :: "'m protobuf_c \<Rightarrow> 'm message_functions" where
  "geyser__get_version_request__functions protobuf =
     generated_functions protobuf ''geyser__get_version_request__descriptor'' GEYSER__GET_VERSION_REQUEST__INIT"

definition geyser__get_version_response__functions :: "'m protobuf_c \<Rightarrow> 'm message_functions" where
  "geyser__get_version_response__functions protobuf =
     generated_functions protobuf ''geyser__get_version_response__descriptor'' GEYSER__GET_VERSION_RESPONSE__INIT"

definition geyser__is_blockhash_valid_request__functions :: "'m protobuf_c \<Rightarrow> 'm message_functions" where
  "geyser__is_blockhash_valid_request__functions protobuf =
     generated_functions protobuf ''geyser__is_blockhash_valid_request__descriptor'' GEYSER__IS_BLOCKHASH_VALID_REQUEST__INIT"

definition geyser__is_blockhash_valid_response__functions :: "'m protobuf_c \<Rightarrow> 'm message_functions" where
  "geyser__is_blockhash_valid_response__functions protobuf =
     generated_functions protobuf ''geyser__is_blockhash_valid_response__descriptor'' GEYSER__IS_BLOCKHASH_VALID_RESPONSE__INIT"

section \<open>Tables\<close>

definition geyser__subscribe_request__accounts_entry__field_descriptors :: "field_descriptor list" where
  "geyser__subscribe_request__accounts_entry__field_descriptors =
     [\<lparr>fd_name = ''key'', fd_id = 1, fd_label = PROTOBUF_C_LABEL_OPTIONAL, fd_type = PROTOBUF_C_TYPE_STRING,
        fd_quantifier_offset = None,
        fd_offset = (''Geyser__SubscribeRequest__AccountsEntry'', ''key''),
        fd_descriptor = None, fd_default_value = None, fd_flags = []\<rparr>,
      \<lparr>fd_name = ''value'', fd_id = 2, fd_label = PROTOBUF_C_LABEL_OPTIONAL, fd_type = PROTOBUF_C_TYPE_MESSAGE,
        fd_quantifier_offset = None,
        fd_offset = (''Geyser__SubscribeRequest__AccountsEntry'', ''value''),
        fd_descriptor = Some ''geyser__subscribe_request_filter_accounts__descriptor'', fd_default_value = None, fd_flags = []\<rparr>]"

definition geyser__subscribe_request__accounts_entry__field_indices_by_name :: "nat list" where
  "geyser__subscribe_request__accounts_entry__field_indices_by_name = [0, 1]"

definition geyser__subscribe_request__accounts_entry__number_ranges :: "int_range list" where
  "geyser__subscribe_request__accounts_entry__number_ranges = [(1, 0), (0, 2)]"

definition geyser__subscribe_request__accounts_entry__descriptor :: message_descriptor where
  "geyser__subscribe_request__accounts_entry__descriptor =
     \<lparr>md_magic = PROTOBUF_C__MESSAGE_DESCRIPTOR_MAGIC,
      md_name = ''geyser.SubscribeRequest.AccountsEntry'', md_short_name = ''AccountsEntry'',
      md_c_name = ''Geyser__SubscribeRequest__AccountsEntry'', md_package_name = ''geyser'',
      md_sizeof_message = ''Geyser__SubscribeRequest__AccountsEntry'', md_n_fields = 2,
      md_fields = geyser__subscribe_request__accounts_entry__field_descriptors, md_fields_sorted_by_name = geyser__subscribe_request__accounts_entry__field_indices_by_name,
      md_n_field_ranges = 1, md_field_ranges = geyser__subscribe_request__accounts_entry__number_ranges,
      md_message_init = ''geyser__subscribe_request__accounts_entry__init''\<rparr>"

definition geyser__subscribe_request__slots_entry__field_descriptors :: "field_descriptor list" where
  "geyser__subscribe_request__slots_entry__field_descriptors =
     [\<lparr>fd_name = ''key'', fd_id = 1, fd_label = PROTOBUF_C_LABEL_OPTIONAL, fd_type = PROTOBUF_C_TYPE_STRING,
        fd_quantifier_offset = None,
        fd_offset = (''Geyser__SubscribeRequest__SlotsEntry'', ''key''),
        fd_descriptor = None, fd_default_value = None, fd_flags = []\<rparr>,
      \<lparr>fd_name = ''value'', fd_id = 2, fd_label = PROTOBUF_C_LABEL_OPTIONAL, fd_type = PROTOBUF_C_TYPE_MESSAGE,
        fd_quantifier_offset = None,
        fd_offset = (''Geyser__SubscribeRequest__SlotsEntry'', ''value''),
        fd_descriptor = Some ''geyser__subscribe_request_filter_slots__descriptor'', fd_default_value = None, fd_flags = []\<rparr>]"

definition geyser__subscribe_request__slots_entry__field_indices_by_name :: "nat list" where
  "geyser__subscribe_request__slots_entry__field_indices_by_name = [0, 1]"

definition geyser__subscribe_request__slots_entry__number_ranges :: "int_range list" where
  "geyser__subscribe_request__slots_entry__number_ranges = [(1, 0), (0, 2)]"

definition geyser__subscribe_request__slots_entry__descriptor :: message_descriptor where
  "geyser__subscribe_request__slots_entry__descriptor =
     \<lparr>md_magic = PROTOBUF_C__MESSAGE_DESCRIPTOR_MAGIC,
      md_name = ''geyser.SubscribeRequest.SlotsEntry'', md_short_name = ''SlotsEntry'',
      md_c_name = ''Geyser__SubscribeRequest__SlotsEntry'', md_package_name = ''geyser'',
      md_sizeof_message = ''Geyser__SubscribeRequest__SlotsEntry'', md_n_fields = 2,
      md_fields = geyser__subscribe_request__slots_entry__field_descriptors, md_fields_sorted_by_name = geyser__subscribe_request__slots_entry__field_indices_by_name,
      md_n_field_ranges = 1, md_field_ranges = geyser__subscribe_request__slots_entry__number_ranges,
      md_message_init = ''geyser__subscribe_request__slots_entry__init''\<rparr>"

definition geyser__subscribe_request__transactions_entry__field_descriptors :: "field_descriptor list" where
  "geyser__subscribe_request__transactions_entry__field_descriptors =
     [\<lparr>fd_name = ''key'', fd_id = 1, fd_label = PROTOBUF_C_LABEL_OPTIONAL, fd_type = PROTOBUF_C_TYPE_STRING,
        fd_quantifier_offset = None,
        fd_offset = (''Geyser__SubscribeRequest__TransactionsEntry'', ''key''),
        fd_descriptor = None, fd_default_value = None, fd_flags = []\<rparr>,
      \<lparr>fd_name = ''value'', fd_id = 2, fd_label = PROTOBUF_C_LABEL_OPTIONAL, fd_type = PROTOBUF_C_TYPE_MESSAGE,
        fd_quantifier_offset = None,
        fd_offset = (''Geyser__SubscribeRequest__TransactionsEntry'', ''value''),
        fd_descriptor = Some ''geyser__subscribe_request_filter_transactions__descriptor'', fd_default_value = None, fd_flags = []\<rparr>]"

definition geyser__subscribe_request__transactions_entry__field_indices_by_name :: "nat list" where
  "geyser__subscribe_request__transactions_entry__field_indices_by_name = [0, 1]"

definition geyser__subscribe_request__transactions_entry__number_ranges :: "int_range list" where
  "geyser__subscribe_request__transactions_entry__number_ranges = [(1, 0), (0, 2)]"

definition geyser__subscribe_request__transactions_entry__descriptor :: message_descriptor where
  "geyser__subscribe_request__transactions_entry__descriptor =
     \<lparr>md_magic = PROTOBUF_C__MESSAGE_DESCRIPTOR_MAGIC,
      md_name = ''geyser.SubscribeRequest.TransactionsEntry'', md_short_name = ''TransactionsEntry'',
      md_c_name = ''Geyser__SubscribeRequest__TransactionsEntry'', md_package_name = ''geyser'',
      md_sizeof_message = ''Geyser__SubscribeRequest__TransactionsEntry'', md_n_fields = 2,
      md_fields = geyser__subscribe_request__transactions_entry__field_descriptors, md_fields_sorted_by_name = geyser__subscribe_request__transactions_entry__field_indices_by_name,
      md_n_field_ranges = 1, md_field_ranges = geyser__subscribe_request__transactions_entry__number_ranges,
      md_message_init = ''geyser__subscribe_request__transactions_entry__init''\<rparr>"

definition geyser__subscribe_request__transactions_status_entry__field_descriptors :: "field_descriptor list" where
  "geyser__subscribe_request__transactions_status_entry__field_descriptors =
     [\<lparr>fd_name = ''key'', fd_id = 1, fd_label = PROTOBUF_C_LABEL_OPTIONAL, fd_type = PROTOBUF_C_TYPE_STRING,
        fd_quantifier_offset = None,
        fd_offset = (''Geyser__SubscribeRequest__TransactionsStatusEntry'', ''key''),
        fd_descriptor = None, fd_default_value = None, fd_flags = []\<rparr>,
      \<lparr>fd_name = ''value'', fd_id = 2, fd_label = PROTOBUF_C_LABEL_OPTIONAL, fd_type = PROTOBUF_C_TYPE_MESSAGE,
        fd_quantifier_offset = None,
        fd_offset = (''Geyser__SubscribeRequest__TransactionsStatusEntry'', ''value''),
        fd_descriptor = Some ''geyser__subscribe_request_filter_transactions__descriptor'', fd_default_value = None, fd_flags = []\<rparr>]"

definition geyser__subscribe_request__transactions_status_entry__field_indices_by_name :: "nat list" where
  "geyser__subscribe_request__transactions_status_entry__field_indices_by_name = [0, 1]"

definition geyser__subscribe_request__transactions_status_entry__number_ranges :: "int_range list" where
  "geyser__subscribe_request__transactions_status_entry__number_ranges = [(1, 0), (0, 2)]"

definition geyser__subscribe_request__transactions_status_entry__descriptor :: message_descriptor where
  "geyser__subscribe_request__transactions_status_entry__descriptor =
     \<lparr>md_magic = PROTOBUF_C__MESSAGE_DESCRIPTOR_MAGIC,
      md_name = ''geyser.SubscribeRequest.TransactionsStatusEntry'', md_short_name = ''TransactionsStatusEntry'',
      md_c_name = ''Geyser__SubscribeRequest__TransactionsStatusEntry'', md_package_name = ''geyser'',
      md_sizeof_message = ''Geyser__SubscribeRequest__TransactionsStatusEntry'', md_n_fields = 2,
      md_fields = geyser__subscribe_request__transactions_status_entry__field_descriptors, md_fields_sorted_by_name = geyser__subscribe_request__transactions_status_entry__field_indices_by_name,
      md_n_field_ranges = 1, md_field_ranges = geyser__subscribe_request__transactions_status_entry__number_ranges,
      md_message_init = ''geyser__subscribe_request__transactions_status_entry__init''\<rparr>"

definition geyser__subscribe_request__blocks_entry__field_descriptors :: "field_descriptor list" where
  "geyser__subscribe_request__blocks_entry__field_descriptors =
     [\<lparr>fd_name = ''key'', fd_id = 1, fd_label = PROTOBUF_C_LABEL_OPTIONAL, fd_type = PROTOBUF_C_TYPE_STRING,
        fd_quantifier_offset = None,
        fd_offset = (''Geyser__SubscribeRequest__BlocksEntry'', ''key''),
        fd_descriptor = None, fd_default_value = None, fd_flags = []\<rparr>,
      \<lparr>fd_name = ''value'', fd_id = 2, fd_label = PROTOBUF_C_LABEL_OPTIONAL, fd_type = PROTOBUF_C_TYPE_MESSAGE,
        fd_quantifier_offset = None,
        fd_offset = (''Geyser__SubscribeRequest__BlocksEntry'', ''value''),
        fd_descriptor = Some ''geyser__subscribe_request_filter_blocks__descriptor'', fd_default_value = None, fd_flags = []\<rparr>]"

definition geyser__subscribe_request__blocks_entry__field_indices_by_name :: "nat list" where
  "geyser__subscribe_request__blocks_entry__field_indices_by_name = [0, 1]"

definition geyser__subscribe_request__blocks_entry__number_ranges :: "int_range list" where
  "geyser__subscribe_request__blocks_entry__number_ranges = [(1, 0), (0, 2)]"

definition geyser__subscribe_request__blocks_entry__descriptor :: message_descriptor where
  "geyser__subscribe_request__blocks_entry__descriptor =
     \<lparr>md_magic = PROTOBUF_C__MESSAGE_DESCRIPTOR_MAGIC,
      md_name = ''geyser.SubscribeRequest.BlocksEntry'', md_short_name = ''BlocksEntry'',
      md_c_name = ''Geyser__SubscribeRequest__BlocksEntry'', md_package_name = ''geyser'',
      md_sizeof_message = ''Geyser__SubscribeRequest__BlocksEntry'', md_n_fields = 2,
      md_fields = geyser__subscribe_request__blocks_entry__field_descriptors, md_fields_sorted_by_name = geyser__subscribe_request__blocks_entry__field_indices_by_name,
      md_n_field_ranges = 1, md_field_ranges = geyser__subscribe_request__blocks_entry__number_ranges,
      md_message_init = ''geyser__subscribe_request__blocks_entry__init''\<rparr>"

definition geyser__subscribe_request__blocks_meta_entry__field_descriptors :: "field_descriptor list" where
  "geyser__subscribe_request__blocks_meta_entry__field_descriptors =
     [\<lparr>fd_name = ''key'', fd_id = 1, fd_label = PROTOBUF_C_LABEL_OPTIONAL, fd_type = PROTOBUF_C_TYPE_STRING,
        fd_quantifier_offset = None,
        fd_offset = (''Geyser__SubscribeRequest__BlocksMetaEntry'', ''key''),
        fd_descriptor = None, fd_default_value = None, fd_flags = []\<rparr>,
      \<lparr>fd_name = ''value'', fd_id = 2, fd_label = PROTOBUF_C_LABEL_OPTIONAL, fd_type = PROTOBUF_C_TYPE_MESSAGE,
        fd_quantifier_offset = None,
        fd_offset = (''Geyser__SubscribeRequest__BlocksMetaEntry'', ''value''),
        fd_descriptor = Some ''geyser__subscribe_request_filter_blocks_meta__descriptor'', fd_default_value = None, fd_flags = []\<rparr>]"

definition geyser__subscribe_request__blocks_meta_entry__field_indices_by_name :: "nat list" where
  "geyser__subscribe_request__blocks_meta_entry__field_indices_by_name = [0, 1]"

definition geyser__subscribe_request__blocks_meta_entry__number_ranges :: "int_range list" where
  "geyser__subscribe_request__blocks_meta_entry__number_ranges = [(1, 0), (0, 2)]"

definition geyser__subscribe_request__blocks_meta_entry__descriptor :: message_descriptor where
  "geyser__subscribe_request__blocks_meta_entry__descriptor =
     \<lparr>md_magic = PROTOBUF_C__MESSAGE_DESCRIPTOR_MAGIC,
      md_name = ''geyser.SubscribeRequest.BlocksMetaEntry'', md_short_name = ''BlocksMetaEntry'',
      md_c_name = ''Geyser__SubscribeRequest__BlocksMetaEntry'', md_package_name = ''geyser'',
      md_sizeof_message = ''Geyser__SubscribeRequest__BlocksMetaEntry'', md_n_fields = 2,
      md_fields = geyser__subscribe_request__blocks_meta_entry__field_descriptors, md_fields_sorted_by_name = geyser__subscribe_request__blocks_meta_entry__field_indices_by_name,
      md_n_field_ranges = 1, md_field_ranges = geyser__subscribe_request__blocks_meta_entry__number_ranges,
      md_message_init = ''geyser__subscribe_request__blocks_meta_entry__init''\<rparr>"

definition geyser__subscribe_request__entry_entry__field_descriptors :: "field_descriptor list" where
  "geyser__subscribe_request__entry_entry__field_descriptors =
     [\<lparr>fd_name = ''key'', fd_id = 1, fd_label = PROTOBUF_C_LABEL_OPTIONAL, fd_type = PROTOBUF_C_TYPE_STRING,
        fd_quantifier_offset = None,
        fd_offset = (''Geyser__SubscribeRequest__EntryEntry'', ''key''),
        fd_descriptor = None, fd_default_value = None, fd_flags = []\<rparr>,
      \<lparr>fd_name = ''value'', fd_id = 2, fd_label = PROTOBUF_C_LABEL_OPTIONAL, fd_type = PROTOBUF_C_TYPE_MESSAGE,
        fd_quantifier_offset = None,
        fd_offset = (''Geyser__SubscribeRequest__EntryEntry'', ''value''),
        fd_descriptor = Some ''geyser__subscribe_request_filter_entry__descriptor'', fd_default_value = None, fd_flags = []\<rparr>]"

definition geyser__subscribe_request__entry_entry__field_indices_by_name :: "nat list" where
  "geyser__subscribe_request__entry_entry__field_indices_by_name = [0, 1]"

definition geyser__subscribe_request__entry_entry__number_ranges :: "int_range list" where
  "geyser__subscribe_request__entry_entry__number_ranges = [(1, 0), (0, 2)]"

definition geyser__subscribe_request__entry_entry__descriptor :: message_descriptor where
  "geyser__subscribe_request__entry_entry__descriptor =
     \<lparr>md_magic = PROTOBUF_C__MESSAGE_DESCRIPTOR_MAGIC,
      md_name = ''geyser.SubscribeRequest.EntryEntry'', md_short_name = ''EntryEntry'',
      md_c_name = ''Geyser__SubscribeRequest__EntryEntry'', md_package_name = ''geyser'',
      md_sizeof_message = ''Geyser__SubscribeRequest__EntryEntry'', md_n_fields = 2,
      md_fields = geyser__subscribe_request__entry_entry__field_descriptors, md_fields_sorted_by_name = geyser__subscribe_request__entry_entry__field_indices_by_name,
      md_n_field_ranges = 1, md_field_ranges = geyser__subscribe_request__entry_entry__number_ranges,
      md_message_init = ''geyser__subscribe_request__entry_entry__init''\<rparr>"

definition geyser__subscribe_request__field_descriptors :: "field_descriptor list" where
  "geyser__subscribe_request__field_descriptors =
     [\<lparr>fd_name = ''accounts'', fd_id = 1, fd_label = PROTOBUF_C_LABEL_REPEATED, fd_type = PROTOBUF_C_TYPE_MESSAGE,
        fd_quantifier_offset = Some (''Geyser__SubscribeRequest'', ''n_accounts''),
        fd_offset = (''Geyser__SubscribeRequest'', ''accounts''),
        fd_descriptor = Some ''geyser__subscribe_request__accounts_entry__descriptor'', fd_default_value = None, fd_flags = []\<rparr>,
      \<lparr>fd_name = ''slots'', fd_id = 2, fd_label = PROTOBUF_C_LABEL_REPEATED, fd_type = PROTOBUF_C_TYPE_MESSAGE,
        fd_quantifier_offset = Some (''Geyser__SubscribeRequest'', ''n_slots''),
        fd_offset = (''Geyser__SubscribeRequest'', ''slots''),
        fd_descriptor = Some ''geyser__subscribe_request__slots_entry__descriptor'', fd_default_value = None, fd_flags = []\<rparr>,
      \<lparr>fd_name = ''transactions'', fd_id = 3, fd_label = PROTOBUF_C_LABEL_REPEATED, fd_type = PROTOBUF_C_TYPE_MESSAGE,
        fd_quantifier_offset = Some (''Geyser__SubscribeRequest'', ''n_transactions''),
        fd_offset = (''Geyser__SubscribeRequest'', ''transactions''),
        fd_descriptor = Some ''geyser__subscribe_request__transactions_entry__descriptor'', fd_default_value = None, fd_flags = []\<rparr>,
      \<lparr>fd_name = ''blocks'', fd_id = 4, fd_label = PROTOBUF_C_LABEL_REPEATED, fd_type = PROTOBUF_C_TYPE_MESSAGE,
        fd_quantifier_offset = Some (''Geyser__SubscribeRequest'', ''n_blocks''),
        fd_offset = (''Geyser__SubscribeRequest'', ''blocks''),
        fd_descriptor = Some ''geyser__subscribe_request__blocks_entry__descriptor'', fd_default_value = None, fd_flags = []\<rparr>,
      \<lparr>fd_name = ''blocks_meta'', fd_id = 5, fd_label = PROTOBUF_C_LABEL_REPEATED, fd_type = PROTOBUF_C_TYPE_MESSAGE,
        fd_quantifier_offset = Some (''Geyser__SubscribeRequest'', ''n_blocks_meta''),
        fd_offset = (''Geyser__SubscribeRequest'', ''blocks_meta''),
        fd_descriptor = Some ''geyser__subscribe_request__blocks_meta_entry__descriptor'', fd_default_value = None, fd_flags = []\<rparr>,
      \<lparr>fd_name = ''commitment'', fd_id = 6, fd_label = PROTOBUF_C_LABEL_OPTIONAL, fd_type = PROTOBUF_C_TYPE_ENUM,
        fd_quantifier_offset = Some (''Geyser__SubscribeRequest'', ''has_commitment''),
        fd_offset = (''Geyser__SubscribeRequest'', ''commitment''),
        fd_descriptor = Some ''geyser__commitment_level__descriptor'', fd_default_value = None, fd_flags = []\<rparr>,
      \<lparr>fd_name = ''accounts_data_slice'', fd_id = 7, fd_label = PROTOBUF_C_LABEL_REPEATED, fd_type = PROTOBUF_C_TYPE_MESSAGE,
        fd_quantifier_offset = Some (''Geyser__SubscribeRequest'', ''n_accounts_data_slice''),
        fd_offset = (''Geyser__SubscribeRequest'', ''accounts_data_slice''),
        fd_descriptor = Some ''geyser__subscribe_request_accounts_data_slice__descriptor'', fd_default_value = None, fd_flags = []\<rparr>,
      \<lparr>fd_name = ''entry'', fd_id = 8, fd_label = PROTOBUF_C_LABEL_REPEATED, fd_type = PROTOBUF_C_TYPE_MESSAGE,
        fd_quantifier_offset = Some (''Geyser__SubscribeRequest'', ''n_entry''),
        fd_offset = (''Geyser__SubscribeRequest'', ''entry''),
        fd_descriptor = Some ''geyser__subscribe_request__entry_entry__descriptor'', fd_default_value = None, fd_flags = []\<rparr>,
      \<lparr>fd_name = ''ping'', fd_id = 9, fd_label = PROTOBUF_C_LABEL_OPTIONAL, fd_type = PROTOBUF_C_TYPE_MESSAGE,
        fd_quantifier_offset = None,
        fd_offset = (''Geyser__SubscribeRequest'', ''ping''),
        fd_descriptor = Some ''geyser__subscribe_request_ping__descriptor'', fd_default_value = None, fd_flags = []\<rparr>,
      \<lparr>fd_name = ''transactions_status'', fd_id = 10, fd_label = PROTOBUF_C_LABEL_REPEATED, fd_type = PROTOBUF_C_TYPE_MESSAGE,
        fd_quantifier_offset = Some (''Geyser__SubscribeRequest'', ''n_transactions_status''),
        fd_offset = (''Geyser__SubscribeRequest'', ''transactions_status''),
        fd_descriptor = Some ''geyser__subscribe_request__transactions_status_entry__descriptor'', fd_default_value = None, fd_flags = []\<rparr>,
      \<lparr>fd_name = ''from_slot'', fd_id = 11, fd_label = PROTOBUF_C_LABEL_OPTIONAL, fd_type = PROTOBUF_C_TYPE_UINT64,
        fd_quantifier_offset = Some (''Geyser__SubscribeRequest'', ''has_from_slot''),
        fd_offset = (''Geyser__SubscribeRequest'', ''from_slot''),
        fd_descriptor = None, fd_default_value = None, fd_flags = []\<rparr>]"

definition geyser__subscribe_request__field_indices_by_name :: "nat list" where
  "geyser__subscribe_request__field_indices_by_name = [0, 6, 3, 4, 5, 7, 10, 8, 1, 2, 9]"

definition geyser__subscribe_request__number_ranges :: "int_range list" where
  "geyser__subscribe_request__number_ranges = [(1, 0), (0, 11)]"

definition geyser__subscribe_request__descriptor :: message_descriptor where
  "geyser__subscribe_request__descriptor =
     \<lparr>md_magic = PROTOBUF_C__MESSAGE_DESCRIPTOR_MAGIC,
      md_name = ''geyser.SubscribeRequest'', md_short_name = ''SubscribeRequest'',
      md_c_name = ''Geyser__SubscribeRequest'', md_package_name = ''geyser'',
      md_sizeof_message = ''Geyser__SubscribeRequest'', md_n_fields = 11,
      md_fields = geyser__subscribe_request__field_descriptors, md_fields_sorted_by_name = geyser__subscribe_request__field_indices_by_name,
      md_n_field_ranges = 1, md_field_ranges = geyser__subscribe_request__number_ranges,
      md_message_init = ''geyser__subscribe_request__init''\<rparr>"

definition geyser__subscribe_request_filter_accounts__field_descriptors :: "field_descriptor list" where
  "geyser__subscribe_request_filter_accounts__field_descriptors =
     [\<lparr>fd_name = ''account'', fd_id = 2, fd_label = PROTOBUF_C_LABEL_REPEATED, fd_type = PROTOBUF_C_TYPE_STRING,
        fd_quantifier_offset = Some (''Geyser__SubscribeRequestFilterAccounts'', ''n_account''),
        fd_offset = (''Geyser__SubscribeRequestFilterAccounts'', ''account''),
        fd_descriptor = None, fd_default_value = None, fd_flags = []\<rparr>,
      \<lparr>fd_name = ''owner'', fd_id = 3, fd_label = PROTOBUF_C_LABEL_REPEATED, fd_type = PROTOBUF_C_TYPE_STRING,
        fd_quantifier_offset = Some (''Geyser__SubscribeRequestFilterAccounts'', ''n_owner''),
        fd_offset = (''Geyser__SubscribeRequestFilterAccounts'', ''owner''),
        fd_descriptor = None, fd_default_value = None, fd_flags = []\<rparr>,
      \<lparr>fd_name = ''filters'', fd_id = 4, fd_label = PROTOBUF_C_LABEL_REPEATED, fd_type = PROTOBUF_C_TYPE_MESSAGE,
        fd_quantifier_offset = Some (''Geyser__SubscribeRequestFilterAccounts'', ''n_filters''),
        fd_offset = (''Geyser__SubscribeRequestFilterAccounts'', ''filters''),
        fd_descriptor = Some ''geyser__subscribe_request_filter_accounts_filter__descriptor'', fd_default_value = None, fd_flags = []\<rparr>,
      \<lparr>fd_name = ''nonempty_txn_signature'', fd_id = 5, fd_label = PROTOBUF_C_LABEL_OPTIONAL, fd_type = PROTOBUF_C_TYPE_BOOL,
        fd_quantifier_offset = Some (''Geyser__SubscribeRequestFilterAccounts'', ''has_nonempty_txn_signature''),
        fd_offset = (''Geyser__SubscribeRequestFilterAccounts'', ''nonempty_txn_signature''),
        fd_descriptor = None, fd_default_value = None, fd_flags = []\<rparr>]"

definition geyser__subscribe_request_filter_accounts__field_indices_by_name :: "nat list" where
  "geyser__subscribe_request_filter_accounts__field_indices_by_name = [0, 2, 3, 1]"

definition geyser__subscribe_request_filter_accounts__number_ranges :: "int_range list" where
  "geyser__subscribe_request_filter_accounts__number_ranges = [(2, 0), (0, 4)]"

definition geyser__subscribe_request_filter_accounts__descriptor :: message_descriptor where
  "geyser__subscribe_request_filter_accounts__descriptor =
     \<lparr>md_magic = PROTOBUF_C__MESSAGE_DESCRIPTOR_MAGIC,
      md_name = ''geyser.SubscribeRequestFilterAccounts'', md_short_name = ''SubscribeRequestFilterAccounts'',
      md_c_name = ''Geyser__SubscribeRequestFilterAccounts'', md_package_name = ''geyser'',
      md_sizeof_message = ''Geyser__SubscribeRequestFilterAccounts'', md_n_fields = 4,
      md_fields = geyser__subscribe_request_filter_accounts__field_descriptors, md_fields_sorted_by_name = geyser__subscribe_request_filter_accounts__field_indices_by_name,
      md_n_field_ranges = 1, md_field_ranges = geyser__subscribe_request_filter_accounts__number_ranges,
      md_message_init = ''geyser__subscribe_request_filter_accounts__init''\<rparr>"

definition geyser__subscribe_request_filter_accounts_filter__field_descriptors :: "field_descriptor list" where
  "geyser__subscribe_request_filter_accounts_filter__field_descriptors =
     [\<lparr>fd_name = ''memcmp'', fd_id = 1, fd_label = PROTOBUF_C_LABEL_OPTIONAL, fd_type = PROTOBUF_C_TYPE_MESSAGE,
        fd_quantifier_offset = Some (''Geyser__SubscribeRequestFilterAccountsFilter'', ''filter_case''),
        fd_offset = (''Geyser__SubscribeRequestFilterAccountsFilter'', ''memcmp''),
        fd_descriptor = Some ''geyser__subscribe_request_filter_accounts_filter_memcmp__descriptor'', fd_default_value = None, fd_flags = [PROTOBUF_C_FIELD_FLAG_ONEOF]\<rparr>,
      \<lparr>fd_name = ''datasize'', fd_id = 2, fd_label = PROTOBUF_C_LABEL_OPTIONAL, fd_type = PROTOBUF_C_TYPE_UINT64,
        fd_quantifier_offset = Some (''Geyser__SubscribeRequestFilterAccountsFilter'', ''filter_case''),
        fd_offset = (''Geyser__SubscribeRequestFilterAccountsFilter'', ''datasize''),
        fd_descriptor = None, fd_default_value = None, fd_flags = [PROTOBUF_C_FIELD_FLAG_ONEOF]\<rparr>,
      \<lparr>fd_name = ''token_account_state'', fd_id = 3, fd_label = PROTOBUF_C_LABEL_OPTIONAL, fd_type = PROTOBUF_C_TYPE_BOOL,
        fd_quantifier_offset = Some (''Geyser__SubscribeRequestFilterAccountsFilter'', ''filter_case''),
        fd_offset = (''Geyser__SubscribeRequestFilterAccountsFilter'', ''token_account_state''),
        fd_descriptor = None, fd_default_value = None, fd_flags = [PROTOBUF_C_FIELD_FLAG_ONEOF]\<rparr>,
      \<lparr>fd_name = ''lamports'', fd_id = 4, fd_label = PROTOBUF_C_LABEL_OPTIONAL, fd_type = PROTOBUF_C_TYPE_MESSAGE,
        fd_quantifier_offset = Some (''Geyser__SubscribeRequestFilterAccountsFilter'', ''filter_case''),
        fd_offset = (''Geyser__SubscribeRequestFilterAccountsFilter'', ''lamports''),
        fd_descriptor = Some ''geyser__subscribe_request_filter_accounts_filter_lamports__descriptor'', fd_default_value = None, fd_flags = [PROTOBUF_C_FIELD_FLAG_ONEOF]\<rparr>]"

definition geyser__subscribe_request_filter_accounts_filter__field_indices_by_name :: "nat list" where
  "geyser__subscribe_request_filter_accounts_filter__field_indices_by_name = [1, 3, 0, 2]"

definition geyser__subscribe_request_filter_accounts_filter__number_ranges :: "int_range list" where
  "geyser__subscribe_request_filter_accounts_filter__number_ranges = [(1, 0), (0, 4)]"

definition geyser__subscribe_request_filter_accounts_filter__descriptor :: message_descriptor where
  "geyser__subscribe_request_filter_accounts_filter__descriptor =
     \<lparr>md_magic = PROTOBUF_C__MESSAGE_DESCRIPTOR_MAGIC,
      md_name = ''geyser.SubscribeRequestFilterAccountsFilter'', md_short_name = ''SubscribeRequestFilterAccountsFilter'',
      md_c_name = ''Geyser__SubscribeRequestFilterAccountsFilter'', md_package_name = ''geyser'',
      md_sizeof_message = ''Geyser__SubscribeRequestFilterAccountsFilter'', md_n_fields = 4,
      md_fields = geyser__subscribe_request_filter_accounts_filter__field_descriptors, md_fields_sorted_by_name = geyser__subscribe_request_filter_accounts_filter__field_indices_by_name,
      md_n_field_ranges = 1, md_field_ranges = geyser__subscribe_request_filter_accounts_filter__number_ranges,
      md_message_init = ''geyser__subscribe_request_filter_accounts_filter__init''\<rparr>"

definition geyser__subscribe_request_filter_accounts_filter_memcmp__field_descriptors :: "field_descriptor list" where
  "geyser__subscribe_request_filter_accounts_filter_memcmp__field_descriptors =
     [\<lparr>fd_name = ''offset'', fd_id = 1, fd_label = PROTOBUF_C_LABEL_OPTIONAL, fd_type = PROTOBUF_C_TYPE_UINT64,
        fd_quantifier_offset = Some (''Geyser__SubscribeRequestFilterAccountsFilterMemcmp'', ''has_offset''),
        fd_offset = (''Geyser__SubscribeRequestFilterAccountsFilterMemcmp'', ''offset''),
        fd_descriptor = None, fd_default_value = None, fd_flags = []\<rparr>,
      \<lparr>fd_name = ''bytes'', fd_id = 2, fd_label = PROTOBUF_C_LABEL_OPTIONAL, fd_type = PROTOBUF_C_TYPE_BYTES,
        fd_quantifier_offset = Some (''Geyser__SubscribeRequestFilterAccountsFilterMemcmp'', ''data_case''),
        fd_offset = (''Geyser__SubscribeRequestFilterAccountsFilterMemcmp'', ''bytes''),
        fd_descriptor = None, fd_default_value = None, fd_flags = [PROTOBUF_C_FIELD_FLAG_ONEOF]\<rparr>,
      \<lparr>fd_name = ''base58'', fd_id = 3, fd_label = PROTOBUF_C_LABEL_OPTIONAL, fd_type = PROTOBUF_C_TYPE_STRING,
        fd_quantifier_offset = Some (''Geyser__SubscribeRequestFilterAccountsFilterMemcmp'', ''data_case''),
        fd_offset = (''Geyser__SubscribeRequestFilterAccountsFilterMemcmp'', ''base58''),
        fd_descriptor = None, fd_default_value = None, fd_flags = [PROTOBUF_C_FIELD_FLAG_ONEOF]\<rparr>,
      \<lparr>fd_name = ''base64'', fd_id = 4, fd_label = PROTOBUF_C_LABEL_OPTIONAL, fd_type = PROTOBUF_C_TYPE_STRING,
        fd_quantifier_offset = Some (''Geyser__SubscribeRequestFilterAccountsFilterMemcmp'', ''data_case''),
        fd_offset = (''Geyser__SubscribeRequestFilterAccountsFilterMemcmp'', ''base64''),
        fd_descriptor = None, fd_default_value = None, fd_flags = [PROTOBUF_C_FIELD_FLAG_ONEOF]\<rparr>]"

definition geyser__subscribe_request_filter_accounts_filter_memcmp__field_indices_by_name :: "nat list" where
  "geyser__subscribe_request_filter_accounts_filter_memcmp__field_indices_by_name = [2, 3, 1, 0]"

definition geyser__subscribe_request_filter_accounts_filter_memcmp__number_ranges :: "int_range list" where
  "geyser__subscribe_request_filter_accounts_filter_memcmp__number_ranges = [(1, 0), (0, 4)]"

definition geyser__subscribe_request_filter_accounts_filter_memcmp__descriptor :: message_descriptor where
  "geyser__subscribe_request_filter_accounts_filter_memcmp__descriptor =
     \<lparr>md_magic = PROTOBUF_C__MESSAGE_DESCRIPTOR_MAGIC,
      md_name = ''geyser.SubscribeRequestFilterAccountsFilterMemcmp'', md_short_name = ''SubscribeRequestFilterAccountsFilterMemcmp'',
      md_c_name = ''Geyser__SubscribeRequestFilterAccountsFilterMemcmp'', md_package_name = ''geyser'',
      md_sizeof_message = ''Geyser__SubscribeRequestFilterAccountsFilterMemcmp'', md_n_fields = 4,
      md_fields = geyser__subscribe_request_filter_accounts_filter_memcmp__field_descriptors, md_fields_sorted_by_name = geyser__subscribe_request_filter_accounts_filter_memcmp__field_indices_by_name,
      md_n_field_ranges = 1, md_field_ranges = geyser__subscribe_request_filter_accounts_filter_memcmp__number_ranges,
      md_message_init = ''geyser__subscribe_request_filter_accounts_filter_memcmp__init''\<rparr>"

definition geyser__subscribe_request_filter_accounts_filter_lamports__field_descriptors :: "field_descriptor list" where
  "geyser__subscribe_request_filter_accounts_filter_lamports__field_descriptors =
     [\<lparr>fd_name = ''eq'', fd_id = 1, fd_label = PROTOBUF_C_LABEL_OPTIONAL, fd_type = PROTOBUF_C_TYPE_UINT64,
        fd_quantifier_offset = Some (''Geyser__SubscribeRequestFilterAccountsFilterLamports'', ''cmp_case''),
        fd_offset = (''Geyser__SubscribeRequestFilterAccountsFilterLamports'', ''eq''),
        fd_descriptor = None, fd_default_value = None, fd_flags = [PROTOBUF_C_FIELD_FLAG_ONEOF]\<rparr>,
      \<lparr>fd_name = ''ne'', fd_id = 2, fd_label = PROTOBUF_C_LABEL_OPTIONAL, fd_type = PROTOBUF_C_TYPE_UINT64,
        fd_quantifier_offset = Some (''Geyser__SubscribeRequestFilterAccountsFilterLamports'', ''cmp_case''),
        fd_offset = (''Geyser__SubscribeRequestFilterAccountsFilterLamports'', ''ne''),
        fd_descriptor = None, fd_default_value = None, fd_flags = [PROTOBUF_C_FIELD_FLAG_ONEOF]\<rparr>,
      \<lparr>fd_name = ''lt'', fd_id = 3, fd_label = PROTOBUF_C_LABEL_OPTIONAL, fd_type = PROTOBUF_C_TYPE_UINT64,
        fd_quantifier_offset = Some (''Geyser__SubscribeRequestFilterAccountsFilterLamports'', ''cmp_case''),
        fd_offset = (''Geyser__SubscribeRequestFilterAccountsFilterLamports'', ''lt''),
        fd_descriptor = None, fd_default_value = None, fd_flags = [PROTOBUF_C_FIELD_FLAG_ONEOF]\<rparr>,
      \<lparr>fd_name = ''gt'', fd_id = 4, fd_label = PROTOBUF_C_LABEL_OPTIONAL, fd_type = PROTOBUF_C_TYPE_UINT64,
        fd_quantifier_offset = Some (''Geyser__SubscribeRequestFilterAccountsFilterLamports'', ''cmp_case''),
        fd_offset = (''Geyser__SubscribeRequestFilterAccountsFilterLamports'', ''gt''),
        fd_descriptor = None, fd_default_value = None, fd_flags = [PROTOBUF_C_FIELD_FLAG_ONEOF]\<rparr>]"

definition geyser__subscribe_request_filter_accounts_filter_lamports__field_indices_by_name :: "nat list" where
  "geyser__subscribe_request_filter_accounts_filter_lamports__field_indices_by_name = [0, 3, 2, 1]"

definition geyser__subscribe_request_filter_accounts_filter_lamports__number_ranges :: "int_range list" where
  "geyser__subscribe_request_filter_accounts_filter_lamports__number_ranges = [(1, 0), (0, 4)]"

definition geyser__subscribe_request_filter_accounts_filter_lamports__descriptor :: message_descriptor where
  "geyser__subscribe_request_filter_accounts_filter_lamports__descriptor =
     \<lparr>md_magic = PROTOBUF_C__MESSAGE_DESCRIPTOR_MAGIC,
      md_name = ''geyser.SubscribeRequestFilterAccountsFilterLamports'', md_short_name = ''SubscribeRequestFilterAccountsFilterLamports'',
      md_c_name = ''Geyser__SubscribeRequestFilterAccountsFilterLamports'', md_package_name = ''geyser'',
      md_sizeof_message = ''Geyser__SubscribeRequestFilterAccountsFilterLamports'', md_n_fields = 4,
      md_fields = geyser__subscribe_request_filter_accounts_filter_lamports__field_descriptors, md_fields_sorted_by_name = geyser__subscribe_request_filter_accounts_filter_lamports__field_indices_by_name,
      md_n_field_ranges = 1, md_field_ranges = geyser__subscribe_request_filter_accounts_filter_lamports__number_ranges,
      md_message_init = ''geyser__subscribe_request_filter_accounts_filter_lamports__init''\<rparr>"

definition geyser__subscribe_request_filter_slots__field_descriptors :: "field_descriptor list" where
  "geyser__subscribe_request_filter_slots__field_descriptors =
     [\<lparr>fd_name = ''filter_by_commitment'', fd_id = 1, fd_label = PROTOBUF_C_LABEL_OPTIONAL, fd_type = PROTOBUF_C_TYPE_BOOL,
        fd_quantifier_offset = Some (''Geyser__SubscribeRequestFilterSlots'', ''has_filter_by_commitment''),
        fd_offset = (''Geyser__SubscribeRequestFilterSlots'', ''filter_by_commitment''),
        fd_descriptor = None, fd_default_value = None, fd_flags = []\<rparr>,
      \<lparr>fd_name = ''interslot_updates'', fd_id = 2, fd_label = PROTOBUF_C_LABEL_OPTIONAL, fd_type = PROTOBUF_C_TYPE_BOOL,
        fd_quantifier_offset = Some (''Geyser__SubscribeRequestFilterSlots'', ''has_interslot_updates''),
        fd_offset = (''Geyser__SubscribeRequestFilterSlots'', ''interslot_updates''),
        fd_descriptor = None, fd_default_value = None, fd_flags = []\<rparr>]"

definition geyser__subscribe_request_filter_slots__field_indices_by_name :: "nat list" where
  "geyser__subscribe_request_filter_slots__field_indices_by_name = [0, 1]"

definition geyser__subscribe_request_filter_slots__number_ranges :: "int_range list" where
  "geyser__subscribe_request_filter_slots__number_ranges = [(1, 0), (0, 2)]"

definition geyser__subscribe_request_filter_slots__descriptor :: message_descriptor where
  "geyser__subscribe_request_filter_slots__descriptor =
     \<lparr>md_magic = PROTOBUF_C__MESSAGE_DESCRIPTOR_MAGIC,
      md_name = ''geyser.SubscribeRequestFilterSlots'', md_short_name = ''SubscribeRequestFilterSlots'',
      md_c_name = ''Geyser__SubscribeRequestFilterSlots'', md_package_name = ''geyser'',
      md_sizeof_message = ''Geyser__SubscribeRequestFilterSlots'', md_n_fields = 2,
      md_fields = geyser__subscribe_request_filter_slots__field_descriptors, md_fields_sorted_by_name = geyser__subscribe_request_filter_slots__field_indices_by_name,
      md_n_field_ranges = 1, md_field_ranges = geyser__subscribe_request_filter_slots__number_ranges,
      md_message_init = ''geyser__subscribe_request_filter_slots__init''\<rparr>"

definition geyser__subscribe_request_filter_transactions__field_descriptors :: "field_descriptor list" where
  "geyser__subscribe_request_filter_transactions__field_descriptors =
     [\<lparr>fd_name = ''vote'', fd_id = 1, fd_label = PROTOBUF_C_LABEL_OPTIONAL, fd_type = PROTOBUF_C_TYPE_BOOL,
        fd_quantifier_offset = Some (''Geyser__SubscribeRequestFilterTransactions'', ''has_vote''),
        fd_offset = (''Geyser__SubscribeRequestFilterTransactions'', ''vote''),
        fd_descriptor = None, fd_default_value = None, fd_flags = []\<rparr>,
      \<lparr>fd_name = ''failed'', fd_id = 2, fd_label = PROTOBUF_C_LABEL_OPTIONAL, fd_type = PROTOBUF_C_TYPE_BOOL,
        fd_quantifier_offset = Some (''Geyser__SubscribeRequestFilterTransactions'', ''has_failed''),
        fd_offset = (''Geyser__SubscribeRequestFilterTransactions'', ''failed''),
        fd_descriptor = None, fd_default_value = None, fd_flags = []\<rparr>,
      \<lparr>fd_name = ''account_include'', fd_id = 3, fd_label = PROTOBUF_C_LABEL_REPEATED, fd_type = PROTOBUF_C_TYPE_STRING,
        fd_quantifier_offset = Some (''Geyser__SubscribeRequestFilterTransactions'', ''n_account_include''),
        fd_offset = (''Geyser__SubscribeRequestFilterTransactions'', ''account_include''),
        fd_descriptor = None, fd_default_value = None, fd_flags = []\<rparr>,
      \<lparr>fd_name = ''account_exclude'', fd_id = 4, fd_label = PROTOBUF_C_LABEL_REPEATED, fd_type = PROTOBUF_C_TYPE_STRING,
        fd_quantifier_offset = Some (''Geyser__SubscribeRequestFilterTransactions'', ''n_account_exclude''),
        fd_offset = (''Geyser__SubscribeRequestFilterTransactions'', ''account_exclude''),
        fd_descriptor = None, fd_default_value = None, fd_flags = []\<rparr>,
      \<lparr>fd_name = ''signature'', fd_id = 5, fd_label = PROTOBUF_C_LABEL_OPTIONAL, fd_type = PROTOBUF_C_TYPE_STRING,
        fd_quantifier_offset = None,
        fd_offset = (''Geyser__SubscribeRequestFilterTransactions'', ''signature''),
        fd_descriptor = None, fd_default_value = None, fd_flags = []\<rparr>,
      \<lparr>fd_name = ''account_required'', fd_id = 6, fd_label = PROTOBUF_C_LABEL_REPEATED, fd_type = PROTOBUF_C_TYPE_STRING,
        fd_quantifier_offset = Some (''Geyser__SubscribeRequestFilterTransactions'', ''n_account_required''),
        fd_offset = (''Geyser__SubscribeRequestFilterTransactions'', ''account_required''),
        fd_descriptor = None, fd_default_value = None, fd_flags = []\<rparr>]"

definition geyser__subscribe_request_filter_transactions__field_indices_by_name :: "nat list" where
  "geyser__subscribe_request_filter_transactions__field_indices_by_name = [3, 2, 5, 1, 4, 0]"

definition geyser__subscribe_request_filter_transactions__number_ranges :: "int_range list" where
  "geyser__subscribe_request_filter_transactions__number_ranges = [(1, 0), (0, 6)]"

definition geyser__subscribe_request_filter_transactions__descriptor :: message_descriptor where
  "geyser__subscribe_request_filter_transactions__descriptor =
     \<lparr>md_magic = PROTOBUF_C__MESSAGE_DESCRIPTOR_MAGIC,
      md_name = ''geyser.SubscribeRequestFilterTransactions'', md_short_name = ''SubscribeRequestFilterTransactions'',
      md_c_name = ''Geyser__SubscribeRequestFilterTransactions'', md_package_name = ''geyser'',
      md_sizeof_message = ''Geyser__SubscribeRequestFilterTransactions'', md_n_fields = 6,
      md_fields = geyser__subscribe_request_filter_transactions__field_descriptors, md_fields_sorted_by_name = geyser__subscribe_request_filter_transactions__field_indices_by_name,
      md_n_field_ranges = 1, md_field_ranges = geyser__subscribe_request_filter_transactions__number_ranges,
      md_message_init = ''geyser__subscribe_request_filter_transactions__init''\<rparr>"

definition geyser__subscribe_request_filter_blocks__field_descriptors :: "field_descriptor list" where
  "geyser__subscribe_request_filter_blocks__field_descriptors =
     [\<lparr>fd_name = ''account_include'', fd_id = 1, fd_label = PROTOBUF_C_LABEL_REPEATED, fd_type = PROTOBUF_C_TYPE_STRING,
        fd_quantifier_offset = Some (''Geyser__SubscribeRequestFilterBlocks'', ''n_account_include''),
        fd_offset = (''Geyser__SubscribeRequestFilterBlocks'', ''account_include''),
        fd_descriptor = None, fd_default_value = None, fd_flags = []\<rparr>,
      \<lparr>fd_name = ''include_transactions'', fd_id = 2, fd_label = PROTOBUF_C_LABEL_OPTIONAL, fd_type = PROTOBUF_C_TYPE_BOOL,
        fd_quantifier_offset = Some (''Geyser__SubscribeRequestFilterBlocks'', ''has_include_transactions''),
        fd_offset = (''Geyser__SubscribeRequestFilterBlocks'', ''include_transactions''),
        fd_descriptor = None, fd_default_value = None, fd_flags = []\<rparr>,
      \<lparr>fd_name = ''include_accounts'', fd_id = 3, fd_label = PROTOBUF_C_LABEL_OPTIONAL, fd_type = PROTOBUF_C_TYPE_BOOL,
        fd_quantifier_offset = Some (''Geyser__SubscribeRequestFilterBlocks'', ''has_include_accounts''),
        fd_offset = (''Geyser__SubscribeRequestFilterBlocks'', ''include_accounts''),
        fd_descriptor = None, fd_default_value = None, fd_flags = []\<rparr>,
      \<lparr>fd_name = ''include_entries'', fd_id = 4, fd_label = PROTOBUF_C_LABEL_OPTIONAL, fd_type = PROTOBUF_C_TYPE_BOOL,
        fd_quantifier_offset = Some (''Geyser__SubscribeRequestFilterBlocks'', ''has_include_entries''),
        fd_offset = (''Geyser__SubscribeRequestFilterBlocks'', ''include_entries''),
        fd_descriptor = None, fd_default_value = None, fd_flags = []\<rparr>]"

definition geyser__subscribe_request_filter_blocks__field_indices_by_name :: "nat list" where
  "geyser__subscribe_request_filter_blocks__field_indices_by_name = [0, 2, 3, 1]"

definition geyser__subscribe_request_filter_blocks__number_ranges :: "int_range list" where
  "geyser__subscribe_request_filter_blocks__number_ranges = [(1, 0), (0, 4)]"

definition geyser__subscribe_request_filter_blocks__descriptor :: message_descriptor where
  "geyser__subscribe_request_filter_blocks__descriptor =
     \<lparr>md_magic = PROTOBUF_C__MESSAGE_DESCRIPTOR_MAGIC,
      md_name = ''geyser.SubscribeRequestFilterBlocks'', md_short_name = ''SubscribeRequestFilterBlocks'',
      md_c_name = ''Geyser__SubscribeRequestFilterBlocks'', md_package_name = ''geyser'',
      md_sizeof_message = ''Geyser__SubscribeRequestFilterBlocks'', md_n_fields = 4,
      md_fields = geyser__subscribe_request_filter_blocks__field_descriptors, md_fields_sorted_by_name = geyser__subscribe_request_filter_blocks__field_indices_by_name,
      md_n_field_ranges = 1, md_field_ranges = geyser__subscribe_request_filter_blocks__number_ranges,
      md_message_init = ''geyser__subscribe_request_filter_blocks__init''\<rparr>"

definition geyser__subscribe_request_filter_blocks_meta__field_descriptors :: "field_descriptor list" where
  "geyser__subscribe_request_filter_blocks_meta__field_descriptors = []"

definition geyser__subscribe_request_filter_blocks_meta__field_indices_by_name :: "nat list" where
  "geyser__subscribe_request_filter_blocks_meta__field_indices_by_name = []"

definition geyser__subscribe_request_filter_blocks_meta__number_ranges :: "int_range list" where
  "geyser__subscribe_request_filter_blocks_meta__number_ranges = []"

definition geyser__subscribe_request_filter_blocks_meta__descriptor :: message_descriptor where
  "geyser__subscribe_request_filter_blocks_meta__descriptor =
     \<lparr>md_magic = PROTOBUF_C__MESSAGE_DESCRIPTOR_MAGIC,
      md_name = ''geyser.SubscribeRequestFilterBlocksMeta'', md_short_name = ''SubscribeRequestFilterBlocksMeta'',
      md_c_name = ''Geyser__SubscribeRequestFilterBlocksMeta'', md_package_name = ''geyser'',
      md_sizeof_message = ''Geyser__SubscribeRequestFilterBlocksMeta'', md_n_fields = 0,
      md_fields = geyser__subscribe_request_filter_blocks_meta__field_descriptors, md_fields_sorted_by_name = geyser__subscribe_request_filter_blocks_meta__field_indices_by_name,
      md_n_field_ranges = 0, md_field_ranges = geyser__subscribe_request_filter_blocks_meta__number_ranges,
      md_message_init = ''geyser__subscribe_request_filter_blocks_meta__init''\<rparr>"

definition geyser__subscribe_request_filter_entry__field_descriptors :: "field_descriptor list" where
  "geyser__subscribe_request_filter_entry__field_descriptors = []"

definition geyser__subscribe_request_filter_entry__field_indices_by_name :: "nat list" where
  "geyser__subscribe_request_filter_entry__field_indices_by_name = []"

definition geyser__subscribe_request_filter_entry__number_ranges :: "int_range list" where
  "geyser__subscribe_request_filter_entry__number_ranges = []"

definition geyser__subscribe_request_filter_entry__descriptor :: message_descriptor where
  "geyser__subscribe_request_filter_entry__descriptor =
     \<lparr>md_magic = PROTOBUF_C__MESSAGE_DESCRIPTOR_MAGIC,
      md_name = ''geyser.SubscribeRequestFilterEntry'', md_short_name = ''SubscribeRequestFilterEntry'',
      md_c_name = ''Geyser__SubscribeRequestFilterEntry'', md_package_name = ''geyser'',
      md_sizeof_message = ''Geyser__SubscribeRequestFilterEntry'', md_n_fields = 0,
      md_fields = geyser__subscribe_request_filter_entry__field_descriptors, md_fields_sorted_by_name = geyser__subscribe_request_filter_entry__field_indices_by_name,
      md_n_field_ranges = 0, md_field_ranges = geyser__subscribe_request_filter_entry__number_ranges,
      md_message_init = ''geyser__subscribe_request_filter_entry__init''\<rparr>"

definition geyser__subscribe_request_accounts_data_slice__field_descriptors :: "field_descriptor list" where
  "geyser__subscribe_request_accounts_data_slice__field_descriptors =
     [\<lparr>fd_name = ''offset'', fd_id = 1, fd_label = PROTOBUF_C_LABEL_OPTIONAL, fd_type = PROTOBUF_C_TYPE_UINT64,
        fd_quantifier_offset = Some (''Geyser__SubscribeRequestAccountsDataSlice'', ''has_offset''),
        fd_offset = (''Geyser__SubscribeRequestAccountsDataSlice'', ''offset''),
        fd_descriptor = None, fd_default_value = None, fd_flags = []\<rparr>,
      \<lparr>fd_name = ''length'', fd_id = 2, fd_label = PROTOBUF_C_LABEL_OPTIONAL, fd_type = PROTOBUF_C_TYPE_UINT64,
        fd_quantifier_offset = Some (''Geyser__SubscribeRequestAccountsDataSlice'', ''has_length''),
        fd_offset = (''Geyser__SubscribeRequestAccountsDataSlice'', ''length''),
        fd_descriptor = None, fd_default_value = None, fd_flags = []\<rparr>]"

definition geyser__subscribe_request_accounts_data_slice__field_indices_by_name :: "nat list" where
  "geyser__subscribe_request_accounts_data_slice__field_indices_by_name = [1, 0]"

definition geyser__subscribe_request_accounts_data_slice__number_ranges :: "int_range list" where
  "geyser__subscribe_request_accounts_data_slice__number_ranges = [(1, 0), (0, 2)]"

definition geyser__subscribe_request_accounts_data_slice__descriptor :: message_descriptor where
  "geyser__subscribe_request_accounts_data_slice__descriptor =
     \<lparr>md_magic = PROTOBUF_C__MESSAGE_DESCRIPTOR_MAGIC,
      md_name = ''geyser.SubscribeRequestAccountsDataSlice'', md_short_name = ''SubscribeRequestAccountsDataSlice'',
      md_c_name = ''Geyser__SubscribeRequestAccountsDataSlice'', md_package_name = ''geyser'',
      md_sizeof_message = ''Geyser__SubscribeRequestAccountsDataSlice'', md_n_fields = 2,
      md_fields = geyser__subscribe_request_accounts_data_slice__field_descriptors, md_fields_sorted_by_name = geyser__subscribe_request_accounts_data_slice__field_indices_by_name,
      md_n_field_ranges = 1, md_field_ranges = geyser__subscribe_request_accounts_data_slice__number_ranges,
      md_message_init = ''geyser__subscribe_request_accounts_data_slice__init''\<rparr>"

definition geyser__subscribe_request_ping__field_descriptors :: "field_descriptor list" where
  "geyser__subscribe_request_ping__field_descriptors =
     [\<lparr>fd_name = ''id'', fd_id = 1, fd_label = PROTOBUF_C_LABEL_OPTIONAL, fd_type = PROTOBUF_C_TYPE_INT32,
        fd_quantifier_offset = Some (''Geyser__SubscribeRequestPing'', ''has_id''),
        fd_offset = (''Geyser__SubscribeRequestPing'', ''id''),
        fd_descriptor = None, fd_default_value = None, fd_flags = []\<rparr>]"

definition geyser__subscribe_request_ping__field_indices_by_name :: "nat list" where
  "geyser__subscribe_request_ping__field_indices_by_name = [0]"

definition geyser__subscribe_request_ping__number_ranges :: "int_range list" where
  "geyser__subscribe_request_ping__number_ranges = [(1, 0), (0, 1)]"

definition geyser__subscribe_request_ping__descriptor :: message_descriptor where
  "geyser__subscribe_request_ping__descriptor =
     \<lparr>md_magic = PROTOBUF_C__MESSAGE_DESCRIPTOR_MAGIC,
      md_name = ''geyser.SubscribeRequestPing'', md_short_name = ''SubscribeRequestPing'',
      md_c_name = ''Geyser__SubscribeRequestPing'', md_package_name = ''geyser'',
      md_sizeof_message = ''Geyser__SubscribeRequestPing'', md_n_fields = 1,
      md_fields = geyser__subscribe_request_ping__field_descriptors, md_fields_sorted_by_name = geyser__subscribe_request_ping__field_indices_by_name,
      md_n_field_ranges = 1, md_field_ranges = geyser__subscribe_request_ping__number_ranges,
      md_message_init = ''geyser__subscribe_request_ping__init''\<rparr>"

definition geyser__subscribe_update__field_descriptors :: "field_descriptor list" where
  "geyser__subscribe_update__field_descriptors =
     [\<lparr>fd_name = ''filters'', fd_id = 1, fd_label = PROTOBUF_C_LABEL_REPEATED, fd_type = PROTOBUF_C_TYPE_STRING,
        fd_quantifier_offset = Some (''Geyser__SubscribeUpdate'', ''n_filters''),
        fd_offset = (''Geyser__SubscribeUpdate'', ''filters''),
        fd_descriptor = None, fd_default_value = None, fd_flags = []\<rparr>,
      \<lparr>fd_name = ''account'', fd_id = 2, fd_label = PROTOBUF_C_LABEL_OPTIONAL, fd_type = PROTOBUF_C_TYPE_MESSAGE,
        fd_quantifier_offset = Some (''Geyser__SubscribeUpdate'', ''update_oneof_case''),
        fd_offset = (''Geyser__SubscribeUpdate'', ''account''),
        fd_descriptor = Some ''geyser__subscribe_update_account__descriptor'', fd_default_value = None, fd_flags = [PROTOBUF_C_FIELD_FLAG_ONEOF]\<rparr>,
      \<lparr>fd_name = ''slot'', fd_id = 3, fd_label = PROTOBUF_C_LABEL_OPTIONAL, fd_type = PROTOBUF_C_TYPE_MESSAGE,
        fd_quantifier_offset = Some (''Geyser__SubscribeUpdate'', ''update_oneof_case''),
        fd_offset = (''Geyser__SubscribeUpdate'', ''slot''),
        fd_descriptor = Some ''geyser__subscribe_update_slot__descriptor'', fd_default_value = None, fd_flags = [PROTOBUF_C_FIELD_FLAG_ONEOF]\<rparr>,
      \<lparr>fd_name = ''transaction'', fd_id = 4, fd_label = PROTOBUF_C_LABEL_OPTIONAL, fd_type = PROTOBUF_C_TYPE_MESSAGE,
        fd_quantifier_offset = Some (''Geyser__SubscribeUpdate'', ''update_oneof_case''),
        fd_offset = (''Geyser__SubscribeUpdate'', ''transaction''),
        fd_descriptor = Some ''geyser__subscribe_update_transaction__descriptor'', fd_default_value = None, fd_flags = [PROTOBUF_C_FIELD_FLAG_ONEOF]\<rparr>,
      \<lparr>fd_name = ''block'', fd_id = 5, fd_label = PROTOBUF_C_LABEL_OPTIONAL, fd_type = PROTOBUF_C_TYPE_MESSAGE,
        fd_quantifier_offset = Some (''Geyser__SubscribeUpdate'', ''update_oneof_case''),
        fd_offset = (''Geyser__SubscribeUpdate'', ''block''),
        fd_descriptor = Some ''geyser__subscribe_update_block__descriptor'', fd_default_value = None, fd_flags = [PROTOBUF_C_FIELD_FLAG_ONEOF]\<rparr>,
      \<lparr>fd_name = ''ping'', fd_id = 6, fd_label = PROTOBUF_C_LABEL_OPTIONAL, fd_type = PROTOBUF_C_TYPE_MESSAGE,
        fd_quantifier_offset = Some (''Geyser__SubscribeUpdate'', ''update_oneof_case''),
        fd_offset = (''Geyser__SubscribeUpdate'', ''ping''),
        fd_descriptor = Some ''geyser__subscribe_update_ping__descriptor'', fd_default_value = None, fd_flags = [PROTOBUF_C_FIELD_FLAG_ONEOF]\<rparr>,
      \<lparr>fd_name = ''block_meta'', fd_id = 7, fd_label = PROTOBUF_C_LABEL_OPTIONAL, fd_type = PROTOBUF_C_TYPE_MESSAGE,
        fd_quantifier_offset = Some (''Geyser__SubscribeUpdate'', ''update_oneof_case''),
        fd_offset = (''Geyser__SubscribeUpdate'', ''block_meta''),
        fd_descriptor = Some ''geyser__subscribe_update_block_meta__descriptor'', fd_default_value = None, fd_flags = [PROTOBUF_C_FIELD_FLAG_ONEOF]\<rparr>,
      \<lparr>fd_name = ''entry'', fd_id = 8, fd_label = PROTOBUF_C_LABEL_OPTIONAL, fd_type = PROTOBUF_C_TYPE_MESSAGE,
        fd_quantifier_offset = Some (''Geyser__SubscribeUpdate'', ''update_oneof_case''),
        fd_offset = (''Geyser__SubscribeUpdate'', ''entry''),
        fd_descriptor = Some ''geyser__subscribe_update_entry__descriptor'', fd_default_value = None, fd_flags = [PROTOBUF_C_FIELD_FLAG_ONEOF]\<rparr>,
      \<lparr>fd_name = ''pong'', fd_id = 9, fd_label = PROTOBUF_C_LABEL_OPTIONAL, fd_type = PROTOBUF_C_TYPE_MESSAGE,
        fd_quantifier_offset = Some (''Geyser__SubscribeUpdate'', ''update_oneof_case''),
        fd_offset = (''Geyser__SubscribeUpdate'', ''pong''),
        fd_descriptor = Some ''geyser__subscribe_update_pong__descriptor'', fd_default_value = None, fd_flags = [PROTOBUF_C_FIELD_FLAG_ONEOF]\<rparr>,
      \<lparr>fd_name = ''transaction_status'', fd_id = 10, fd_label = PROTOBUF_C_LABEL_OPTIONAL, fd_type = PROTOBUF_C_TYPE_MESSAGE,
        fd_quantifier_offset = Some (''Geyser__SubscribeUpdate'', ''update_oneof_case''),
        fd_offset = (''Geyser__SubscribeUpdate'', ''transaction_status''),
        fd_descriptor = Some ''geyser__subscribe_update_transaction_status__descriptor'', fd_default_value = None, fd_flags = [PROTOBUF_C_FIELD_FLAG_ONEOF]\<rparr>,
      \<lparr>fd_name = ''created_at'', fd_id = 11, fd_label = PROTOBUF_C_LABEL_OPTIONAL, fd_type = PROTOBUF_C_TYPE_MESSAGE,
        fd_quantifier_offset = None,
        fd_offset = (''Geyser__SubscribeUpdate'', ''created_at''),
        fd_descriptor = Some ''google__protobuf__timestamp__descriptor'', fd_default_value = None, fd_flags = []\<rparr>]"

definition geyser__subscribe_update__field_indices_by_name :: "nat list" where
  "geyser__subscribe_update__field_indices_by_name = [1, 4, 6, 10, 7, 0, 5, 8, 2, 3, 9]"

definition geyser__subscribe_update__number_ranges :: "int_range list" where
  "geyser__subscribe_update__number_ranges = [(1, 0), (0, 11)]"

definition geyser__subscribe_update__descriptor :: message_descriptor where
  "geyser__subscribe_update__descriptor =
     \<lparr>md_magic = PROTOBUF_C__MESSAGE_DESCRIPTOR_MAGIC,
      md_name = ''geyser.SubscribeUpdate'', md_short_name = ''SubscribeUpdate'',
      md_c_name = ''Geyser__SubscribeUpdate'', md_package_name = ''geyser'',
      md_sizeof_message = ''Geyser__SubscribeUpdate'', md_n_fields = 11,
      md_fields = geyser__subscribe_update__field_descriptors, md_fields_sorted_by_name = geyser__subscribe_update__field_indices_by_name,
      md_n_field_ranges = 1, md_field_ranges = geyser__subscribe_update__number_ranges,
      md_message_init = ''geyser__subscribe_update__init''\<rparr>"

definition geyser__subscribe_update_account__field_descriptors :: "field_descriptor list" where
  "geyser__subscribe_update_account__field_descriptors =
     [\<lparr>fd_name = ''account'', fd_id = 1, fd_label = PROTOBUF_C_LABEL_OPTIONAL, fd_type = PROTOBUF_C_TYPE_MESSAGE,
        fd_quantifier_offset = None,
        fd_offset = (''Geyser__SubscribeUpdateAccount'', ''account''),
        fd_descriptor = Some ''geyser__subscribe_update_account_info__descriptor'', fd_default_value = None, fd_flags = []\<rparr>,
      \<lparr>fd_name = ''slot'', fd_id = 2, fd_label = PROTOBUF_C_LABEL_OPTIONAL, fd_type = PROTOBUF_C_TYPE_UINT64,
        fd_quantifier_offset = Some (''Geyser__SubscribeUpdateAccount'', ''has_slot''),
        fd_offset = (''Geyser__SubscribeUpdateAccount'', ''slot''),
        fd_descriptor = None, fd_default_value = None, fd_flags = []\<rparr>,
      \<lparr>fd_name = ''is_startup'', fd_id = 3, fd_label = PROTOBUF_C_LABEL_OPTIONAL, fd_type = PROTOBUF_C_TYPE_BOOL,
        fd_quantifier_offset = Some (''Geyser__SubscribeUpdateAccount'', ''has_is_startup''),
        fd_offset = (''Geyser__SubscribeUpdateAccount'', ''is_startup''),
        fd_descriptor = None, fd_default_value = None, fd_flags = []\<rparr>]"

definition geyser__subscribe_update_account__field_indices_by_name :: "nat list" where
  "geyser__subscribe_update_account__field_indices_by_name = [0, 2, 1]"

definition geyser__subscribe_update_account__number_ranges :: "int_range list" where
  "geyser__subscribe_update_account__number_ranges = [(1, 0), (0, 3)]"

definition geyser__subscribe_update_account__descriptor :: message_descriptor where
  "geyser__subscribe_update_account__descriptor =
     \<lparr>md_magic = PROTOBUF_C__MESSAGE_DESCRIPTOR_MAGIC,
      md_name = ''geyser.SubscribeUpdateAccount'', md_short_name = ''SubscribeUpdateAccount'',
      md_c_name = ''Geyser__SubscribeUpdateAccount'', md_package_name = ''geyser'',
      md_sizeof_message = ''Geyser__SubscribeUpdateAccount'', md_n_fields = 3,
      md_fields = geyser__subscribe_update_account__field_descriptors, md_fields_sorted_by_name = geyser__subscribe_update_account__field_indices_by_name,
      md_n_field_ranges = 1, md_field_ranges = geyser__subscribe_update_account__number_ranges,
      md_message_init = ''geyser__subscribe_update_account__init''\<rparr>"

definition geyser__subscribe_update_account_info__field_descriptors :: "field_descriptor list" where
  "geyser__subscribe_update_account_info__field_descriptors =
     [\<lparr>fd_name = ''pubkey'', fd_id = 1, fd_label = PROTOBUF_C_LABEL_OPTIONAL, fd_type = PROTOBUF_C_TYPE_BYTES,
        fd_quantifier_offset = Some (''Geyser__SubscribeUpdateAccountInfo'', ''has_pubkey''),
        fd_offset = (''Geyser__SubscribeUpdateAccountInfo'', ''pubkey''),
        fd_descriptor = None, fd_default_value = None, fd_flags = []\<rparr>,
      \<lparr>fd_name = ''lamports'', fd_id = 2, fd_label = PROTOBUF_C_LABEL_OPTIONAL, fd_type = PROTOBUF_C_TYPE_UINT64,
        fd_quantifier_offset = Some (''Geyser__SubscribeUpdateAccountInfo'', ''has_lamports''),
        fd_offset = (''Geyser__SubscribeUpdateAccountInfo'', ''lamports''),
        fd_descriptor = None, fd_default_value = None, fd_flags = []\<rparr>,
      \<lparr>fd_name = ''owner'', fd_id = 3, fd_label = PROTOBUF_C_LABEL_OPTIONAL, fd_type = PROTOBUF_C_TYPE_BYTES,
        fd_quantifier_offset = Some (''Geyser__SubscribeUpdateAccountInfo'', ''has_owner''),
        fd_offset = (''Geyser__SubscribeUpdateAccountInfo'', ''owner''),
        fd_descriptor = None, fd_default_value = None, fd_flags = []\<rparr>,
      \<lparr>fd_name = ''executable'', fd_id = 4, fd_label = PROTOBUF_C_LABEL_OPTIONAL, fd_type = PROTOBUF_C_TYPE_BOOL,
        fd_quantifier_offset = Some (''Geyser__SubscribeUpdateAccountInfo'', ''has_executable''),
        fd_offset = (''Geyser__SubscribeUpdateAccountInfo'', ''executable''),
        fd_descriptor = None, fd_default_value = None, fd_flags = []\<rparr>,
      \<lparr>fd_name = ''rent_epoch'', fd_id = 5, fd_label = PROTOBUF_C_LABEL_OPTIONAL, fd_type = PROTOBUF_C_TYPE_UINT64,
        fd_quantifier_offset = Some (''Geyser__SubscribeUpdateAccountInfo'', ''has_rent_epoch''),
        fd_offset = (''Geyser__SubscribeUpdateAccountInfo'', ''rent_epoch''),
        fd_descriptor = None, fd_default_value = None, fd_flags = []\<rparr>,
      \<lparr>fd_name = ''data'', fd_id = 6, fd_label = PROTOBUF_C_LABEL_OPTIONAL, fd_type = PROTOBUF_C_TYPE_BYTES,
        fd_quantifier_offset = Some (''Geyser__SubscribeUpdateAccountInfo'', ''has_data''),
        fd_offset = (''Geyser__SubscribeUpdateAccountInfo'', ''data''),
        fd_descriptor = None, fd_default_value = None, fd_flags = []\<rparr>,
      \<lparr>fd_name = ''write_version'', fd_id = 7, fd_label = PROTOBUF_C_LABEL_OPTIONAL, fd_type = PROTOBUF_C_TYPE_UINT64,
        fd_quantifier_offset = Some (''Geyser__SubscribeUpdateAccountInfo'', ''has_write_version''),
        fd_offset = (''Geyser__SubscribeUpdateAccountInfo'', ''write_version''),
        fd_descriptor = None, fd_default_value = None, fd_flags = []\<rparr>,
      \<lparr>fd_name = ''txn_signature'', fd_id = 8, fd_label = PROTOBUF_C_LABEL_OPTIONAL, fd_type = PROTOBUF_C_TYPE_BYTES,
        fd_quantifier_offset = Some (''Geyser__SubscribeUpdateAccountInfo'', ''has_txn_signature''),
        fd_offset = (''Geyser__SubscribeUpdateAccountInfo'', ''txn_signature''),
        fd_descriptor = None, fd_default_value = None, fd_flags = []\<rparr>]"

definition geyser__subscribe_update_account_info__field_indices_by_name :: "nat list" where
  "geyser__subscribe_update_account_info__field_indices_by_name = [5, 3, 1, 2, 0, 4, 7, 6]"

definition geyser__subscribe_update_account_info__number_ranges :: "int_range list" where
  "geyser__subscribe_update_account_info__number_ranges = [(1, 0), (0, 8)]"

definition geyser__subscribe_update_account_info__descriptor :: message_descriptor where
  "geyser__subscribe_update_account_info__descriptor =
     \<lparr>md_magic = PROTOBUF_C__MESSAGE_DESCRIPTOR_MAGIC,
      md_name = ''geyser.SubscribeUpdateAccountInfo'', md_short_name = ''SubscribeUpdateAccountInfo'',
      md_c_name = ''Geyser__SubscribeUpdateAccountInfo'', md_package_name = ''geyser'',
      md_sizeof_message = ''Geyser__SubscribeUpdateAccountInfo'', md_n_fields = 8,
      md_fields = geyser__subscribe_update_account_info__field_descriptors, md_fields_sorted_by_name = geyser__subscribe_update_account_info__field_indices_by_name,
      md_n_field_ranges = 1, md_field_ranges = geyser__subscribe_update_account_info__number_ranges,
      md_message_init = ''geyser__subscribe_update_account_info__init''\<rparr>"

definition geyser__subscribe_update_slot__field_descriptors :: "field_descriptor list" where
  "geyser__subscribe_update_slot__field_descriptors =
     [\<lparr>fd_name = ''slot'', fd_id = 1, fd_label = PROTOBUF_C_LABEL_OPTIONAL, fd_type = PROTOBUF_C_TYPE_UINT64,
        fd_quantifier_offset = Some (''Geyser__SubscribeUpdateSlot'', ''has_slot''),
        fd_offset = (''Geyser__SubscribeUpdateSlot'', ''slot''),
        fd_descriptor = None, fd_default_value = None, fd_flags = []\<rparr>,
      \<lparr>fd_name = ''parent'', fd_id = 2, fd_label = PROTOBUF_C_LABEL_OPTIONAL, fd_type = PROTOBUF_C_TYPE_UINT64,
        fd_quantifier_offset = Some (''Geyser__SubscribeUpdateSlot'', ''has_parent''),
        fd_offset = (''Geyser__SubscribeUpdateSlot'', ''parent''),
        fd_descriptor = None, fd_default_value = None, fd_flags = []\<rparr>,
      \<lparr>fd_name = ''status'', fd_id = 3, fd_label = PROTOBUF_C_LABEL_OPTIONAL, fd_type = PROTOBUF_C_TYPE_ENUM,
        fd_quantifier_offset = Some (''Geyser__SubscribeUpdateSlot'', ''has_status''),
        fd_offset = (''Geyser__SubscribeUpdateSlot'', ''status''),
        fd_descriptor = Some ''geyser__slot_status__descriptor'', fd_default_value = None, fd_flags = []\<rparr>,
      \<lparr>fd_name = ''dead_error'', fd_id = 4, fd_label = PROTOBUF_C_LABEL_OPTIONAL, fd_type = PROTOBUF_C_TYPE_STRING,
        fd_quantifier_offset = None,
        fd_offset = (''Geyser__SubscribeUpdateSlot'', ''dead_error''),
        fd_descriptor = None, fd_default_value = None, fd_flags = []\<rparr>]"

definition geyser__subscribe_update_slot__field_indices_by_name :: "nat list" where
  "geyser__subscribe_update_slot__field_indices_by_name = [3, 1, 0, 2]"

definition geyser__subscribe_update_slot__number_ranges :: "int_range list" where
  "geyser__subscribe_update_slot__number_ranges = [(1, 0), (0, 4)]"

definition geyser__subscribe_update_slot__descriptor :: message_descriptor where
  "geyser__subscribe_update_slot__descriptor =
     \<lparr>md_magic = PROTOBUF_C__MESSAGE_DESCRIPTOR_MAGIC,
      md_name = ''geyser.SubscribeUpdateSlot'', md_short_name = ''SubscribeUpdateSlot'',
      md_c_name = ''Geyser__SubscribeUpdateSlot'', md_package_name = ''geyser'',
      md_sizeof_message = ''Geyser__SubscribeUpdateSlot'', md_n_fields = 4,
      md_fields = geyser__subscribe_update_slot__field_descriptors, md_fields_sorted_by_name = geyser__subscribe_update_slot__field_indices_by_name,
      md_n_field_ranges = 1, md_field_ranges = geyser__subscribe_update_slot__number_ranges,
      md_message_init = ''geyser__subscribe_update_slot__init''\<rparr>"

definition geyser__subscribe_update_transaction__field_descriptors :: "field_descriptor list" where
  "geyser__subscribe_update_transaction__field_descriptors =
     [\<lparr>fd_name = ''transaction'', fd_id = 1, fd_label = PROTOBUF_C_LABEL_OPTIONAL, fd_type = PROTOBUF_C_TYPE_MESSAGE,
        fd_quantifier_offset = None,
        fd_offset = (''Geyser__SubscribeUpdateTransaction'', ''transaction''),
        fd_descriptor = Some ''geyser__subscribe_update_transaction_info__descriptor'', fd_default_value = None, fd_flags = []\<rparr>,
      \<lparr>fd_name = ''slot'', fd_id = 2, fd_label = PROTOBUF_C_LABEL_OPTIONAL, fd_type = PROTOBUF_C_TYPE_UINT64,
        fd_quantifier_offset = Some (''Geyser__SubscribeUpdateTransaction'', ''has_slot''),
        fd_offset = (''Geyser__SubscribeUpdateTransaction'', ''slot''),
        fd_descriptor = None, fd_default_value = None, fd_flags = []\<rparr>]"

definition geyser__subscribe_update_transaction__field_indices_by_name :: "nat list" where
  "geyser__subscribe_update_transaction__field_indices_by_name = [1, 0]"

definition geyser__subscribe_update_transaction__number_ranges :: "int_range list" where
  "geyser__subscribe_update_transaction__number_ranges = [(1, 0), (0, 2)]"

definition geyser__subscribe_update_transaction__descriptor :: message_descriptor where
  "geyser__subscribe_update_transaction__descriptor =
     \<lparr>md_magic = PROTOBUF_C__MESSAGE_DESCRIPTOR_MAGIC,
      md_name = ''geyser.SubscribeUpdateTransaction'', md_short_name = ''SubscribeUpdateTransaction'',
      md_c_name = ''Geyser__SubscribeUpdateTransaction'', md_package_name = ''geyser'',
      md_sizeof_message = ''Geyser__SubscribeUpdateTransaction'', md_n_fields = 2,
      md_fields = geyser__subscribe_update_transaction__field_descriptors, md_fields_sorted_by_name = geyser__subscribe_update_transaction__field_indices_by_name,
      md_n_field_ranges = 1, md_field_ranges = geyser__subscribe_update_transaction__number_ranges,
      md_message_init = ''geyser__subscribe_update_transaction__init''\<rparr>"

definition geyser__subscribe_update_transaction_info__field_descriptors :: "field_descriptor list" where
  "geyser__subscribe_update_transaction_info__field_descriptors =
     [\<lparr>fd_name = ''signature'', fd_id = 1, fd_label = PROTOBUF_C_LABEL_OPTIONAL, fd_type = PROTOBUF_C_TYPE_BYTES,
        fd_quantifier_offset = Some (''Geyser__SubscribeUpdateTransactionInfo'', ''has_signature''),
        fd_offset = (''Geyser__SubscribeUpdateTransactionInfo'', ''signature''),
        fd_descriptor = None, fd_default_value = None, fd_flags = []\<rparr>,
      \<lparr>fd_name = ''is_vote'', fd_id = 2, fd_label = PROTOBUF_C_LABEL_OPTIONAL, fd_type = PROTOBUF_C_TYPE_BOOL,
        fd_quantifier_offset = Some (''Geyser__SubscribeUpdateTransactionInfo'', ''has_is_vote''),
        fd_offset = (''Geyser__SubscribeUpdateTransactionInfo'', ''is_vote''),
        fd_descriptor = None, fd_default_value = None, fd_flags = []\<rparr>,
      \<lparr>fd_name = ''transaction'', fd_id = 3, fd_label = PROTOBUF_C_LABEL_OPTIONAL, fd_type = PROTOBUF_C_TYPE_MESSAGE,
        fd_quantifier_offset = None,
        fd_offset = (''Geyser__SubscribeUpdateTransactionInfo'', ''transaction''),
        fd_descriptor = Some ''solana__storage__confirmed_block__transaction__descriptor'', fd_default_value = None, fd_flags = []\<rparr>,
      \<lparr>fd_name = ''meta'', fd_id = 4, fd_label = PROTOBUF_C_LABEL_OPTIONAL, fd_type = PROTOBUF_C_TYPE_MESSAGE,
        fd_quantifier_offset = None,
        fd_offset = (''Geyser__SubscribeUpdateTransactionInfo'', ''meta''),
        fd_descriptor = Some ''solana__storage__confirmed_block__transaction_status_meta__descriptor'', fd_default_value = None, fd_flags = []\<rparr>,
      \<lparr>fd_name = ''index'', fd_id = 5, fd_label = PROTOBUF_C_LABEL_OPTIONAL, fd_type = PROTOBUF_C_TYPE_UINT64,
        fd_quantifier_offset = Some (''Geyser__SubscribeUpdateTransactionInfo'', ''has_index''),
        fd_offset = (''Geyser__SubscribeUpdateTransactionInfo'', ''index''),
        fd_descriptor = None, fd_default_value = None, fd_flags = []\<rparr>]"

definition geyser__subscribe_update_transaction_info__field_indices_by_name :: "nat list" where
  "geyser__subscribe_update_transaction_info__field_indices_by_name = [4, 1, 3, 0, 2]"

definition geyser__subscribe_update_transaction_info__number_ranges :: "int_range list" where
  "geyser__subscribe_update_transaction_info__number_ranges = [(1, 0), (0, 5)]"

definition geyser__subscribe_update_transaction_info__descriptor :: message_descriptor where
  "geyser__subscribe_update_transaction_info__descriptor =
     \<lparr>md_magic = PROTOBUF_C__MESSAGE_DESCRIPTOR_MAGIC,
      md_name = ''geyser.SubscribeUpdateTransactionInfo'', md_short_name = ''SubscribeUpdateTransactionInfo'',
      md_c_name = ''Geyser__SubscribeUpdateTransactionInfo'', md_package_name = ''geyser'',
      md_sizeof_message = ''Geyser__SubscribeUpdateTransactionInfo'', md_n_fields = 5,
      md_fields = geyser__subscribe_update_transaction_info__field_descriptors, md_fields_sorted_by_name = geyser__subscribe_update_transaction_info__field_indices_by_name,
      md_n_field_ranges = 1, md_field_ranges = geyser__subscribe_update_transaction_info__number_ranges,
      md_message_init = ''geyser__subscribe_update_transaction_info__init''\<rparr>"

definition geyser__subscribe_update_transaction_status__field_descriptors :: "field_descriptor list" where
  "geyser__subscribe_update_transaction_status__field_descriptors =
     [\<lparr>fd_name = ''slot'', fd_id = 1, fd_label = PROTOBUF_C_LABEL_OPTIONAL, fd_type = PROTOBUF_C_TYPE_UINT64,
        fd_quantifier_offset = Some (''Geyser__SubscribeUpdateTransactionStatus'', ''has_slot''),
        fd_offset = (''Geyser__SubscribeUpdateTransactionStatus'', ''slot''),
        fd_descriptor = None, fd_default_value = None, fd_flags = []\<rparr>,
      \<lparr>fd_name = ''signature'', fd_id = 2, fd_label = PROTOBUF_C_LABEL_OPTIONAL, fd_type = PROTOBUF_C_TYPE_BYTES,
        fd_quantifier_offset = Some (''Geyser__SubscribeUpdateTransactionStatus'', ''has_signature''),
        fd_offset = (''Geyser__SubscribeUpdateTransactionStatus'', ''signature''),
        fd_descriptor = None, fd_default_value = None, fd_flags = []\<rparr>,
      \<lparr>fd_name = ''is_vote'', fd_id = 3, fd_label = PROTOBUF_C_LABEL_OPTIONAL, fd_type = PROTOBUF_C_TYPE_BOOL,
        fd_quantifier_offset = Some (''Geyser__SubscribeUpdateTransactionStatus'', ''has_is_vote''),
        fd_offset = (''Geyser__SubscribeUpdateTransactionStatus'', ''is_vote''),
        fd_descriptor = None, fd_default_value = None, fd_flags = []\<rparr>,
      \<lparr>fd_name = ''index'', fd_id = 4, fd_label = PROTOBUF_C_LABEL_OPTIONAL, fd_type = PROTOBUF_C_TYPE_UINT64,
        fd_quantifier_offset = Some (''Geyser__SubscribeUpdateTransactionStatus'', ''has_index''),
        fd_offset = (''Geyser__SubscribeUpdateTransactionStatus'', ''index''),
        fd_descriptor = None, fd_default_value = None, fd_flags = []\<rparr>,
      \<lparr>fd_name = ''err'', fd_id = 5, fd_label = PROTOBUF_C_LABEL_OPTIONAL, fd_type = PROTOBUF_C_TYPE_MESSAGE,
        fd_quantifier_offset = None,
        fd_offset = (''Geyser__SubscribeUpdateTransactionStatus'', ''err''),
        fd_descriptor = Some ''solana__storage__confirmed_block__transaction_error__descriptor'', fd_default_value = None, fd_flags = []\<rparr>]"

definition geyser__subscribe_update_transaction_status__field_indices_by_name :: "nat list" where
  "geyser__subscribe_update_transaction_status__field_indices_by_name = [4, 3, 2, 1, 0]"

definition geyser__subscribe_update_transaction_status__number_ranges :: "int_range list" where
  "geyser__subscribe_update_transaction_status__number_ranges = [(1, 0), (0, 5)]"

definition geyser__subscribe_update_transaction_status__descriptor :: message_descriptor where
  "geyser__subscribe_update_transaction_status__descriptor =
     \<lparr>md_magic = PROTOBUF_C__MESSAGE_DESCRIPTOR_MAGIC,
      md_name = ''geyser.SubscribeUpdateTransactionStatus'', md_short_name = ''SubscribeUpdateTransactionStatus'',
      md_c_name = ''Geyser__SubscribeUpdateTransactionStatus'', md_package_name = ''geyser'',
      md_sizeof_message = ''Geyser__SubscribeUpdateTransactionStatus'', md_n_fields = 5,
      md_fields = geyser__subscribe_update_transaction_status__field_descriptors, md_fields_sorted_by_name = geyser__subscribe_update_transaction_status__field_indices_by_name,
      md_n_field_ranges = 1, md_field_ranges = geyser__subscribe_update_transaction_status__number_ranges,
      md_message_init = ''geyser__subscribe_update_transaction_status__init''\<rparr>"

definition geyser__subscribe_update_block__field_descriptors :: "field_descriptor list" where
  "geyser__subscribe_update_block__field_descriptors =
     [\<lparr>fd_name = ''slot'', fd_id = 1, fd_label = PROTOBUF_C_LABEL_OPTIONAL, fd_type = PROTOBUF_C_TYPE_UINT64,
        fd_quantifier_offset = Some (''Geyser__SubscribeUpdateBlock'', ''has_slot''),
        fd_offset = (''Geyser__SubscribeUpdateBlock'', ''slot''),
        fd_descriptor = None, fd_default_value = None, fd_flags = []\<rparr>,
      \<lparr>fd_name = ''blockhash'', fd_id = 2, fd_label = PROTOBUF_C_LABEL_OPTIONAL, fd_type = PROTOBUF_C_TYPE_STRING,
        fd_quantifier_offset = None,
        fd_offset = (''Geyser__SubscribeUpdateBlock'', ''blockhash''),
        fd_descriptor = None, fd_default_value = None, fd_flags = []\<rparr>,
      \<lparr>fd_name = ''rewards'', fd_id = 3, fd_label = PROTOBUF_C_LABEL_OPTIONAL, fd_type = PROTOBUF_C_TYPE_MESSAGE,
        fd_quantifier_offset = None,
        fd_offset = (''Geyser__SubscribeUpdateBlock'', ''rewards''),
        fd_descriptor = Some ''solana__storage__confirmed_block__rewards__descriptor'', fd_default_value = None, fd_flags = []\<rparr>,
      \<lparr>fd_name = ''block_time'', fd_id = 4, fd_label = PROTOBUF_C_LABEL_OPTIONAL, fd_type = PROTOBUF_C_TYPE_MESSAGE,
        fd_quantifier_offset = None,
        fd_offset = (''Geyser__SubscribeUpdateBlock'', ''block_time''),
        fd_descriptor = Some ''solana__storage__confirmed_block__unix_timestamp__descriptor'', fd_default_value = None, fd_flags = []\<rparr>,
      \<lparr>fd_name = ''block_height'', fd_id = 5, fd_label = PROTOBUF_C_LABEL_OPTIONAL, fd_type = PROTOBUF_C_TYPE_MESSAGE,
        fd_quantifier_offset = None,
        fd_offset = (''Geyser__SubscribeUpdateBlock'', ''block_height''),
        fd_descriptor = Some ''solana__storage__confirmed_block__block_height__descriptor'', fd_default_value = None, fd_flags = []\<rparr>,
      \<lparr>fd_name = ''transactions'', fd_id = 6, fd_label = PROTOBUF_C_LABEL_REPEATED, fd_type = PROTOBUF_C_TYPE_MESSAGE,
        fd_quantifier_offset = Some (''Geyser__SubscribeUpdateBlock'', ''n_transactions''),
        fd_offset = (''Geyser__SubscribeUpdateBlock'', ''transactions''),
        fd_descriptor = Some ''geyser__subscribe_update_transaction_info__descriptor'', fd_default_value = None, fd_flags = []\<rparr>,
      \<lparr>fd_name = ''parent_slot'', fd_id = 7, fd_label = PROTOBUF_C_LABEL_OPTIONAL, fd_type = PROTOBUF_C_TYPE_UINT64,
        fd_quantifier_offset = Some (''Geyser__SubscribeUpdateBlock'', ''has_parent_slot''),
        fd_offset = (''Geyser__SubscribeUpdateBlock'', ''parent_slot''),
        fd_descriptor = None, fd_default_value = None, fd_flags = []\<rparr>,
      \<lparr>fd_name = ''parent_blockhash'', fd_id = 8, fd_label = PROTOBUF_C_LABEL_OPTIONAL, fd_type = PROTOBUF_C_TYPE_STRING,
        fd_quantifier_offset = None,
        fd_offset = (''Geyser__SubscribeUpdateBlock'', ''parent_blockhash''),
        fd_descriptor = None, fd_default_value = None, fd_flags = []\<rparr>,
      \<lparr>fd_name = ''executed_transaction_count'', fd_id = 9, fd_label = PROTOBUF_C_LABEL_OPTIONAL, fd_type = PROTOBUF_C_TYPE_UINT64,
        fd_quantifier_offset = Some (''Geyser__SubscribeUpdateBlock'', ''has_executed_transaction_count''),
        fd_offset = (''Geyser__SubscribeUpdateBlock'', ''executed_transaction_count''),
        fd_descriptor = None, fd_default_value = None, fd_flags = []\<rparr>,
      \<lparr>fd_name = ''updated_account_count'', fd_id = 10, fd_label = PROTOBUF_C_LABEL_OPTIONAL, fd_type = PROTOBUF_C_TYPE_UINT64,
        fd_quantifier_offset = Some (''Geyser__SubscribeUpdateBlock'', ''has_updated_account_count''),
        fd_offset = (''Geyser__SubscribeUpdateBlock'', ''updated_account_count''),
        fd_descriptor = None, fd_default_value = None, fd_flags = []\<rparr>,
      \<lparr>fd_name = ''accounts'', fd_id = 11, fd_label = PROTOBUF_C_LABEL_REPEATED, fd_type = PROTOBUF_C_TYPE_MESSAGE,
        fd_quantifier_offset = Some (''Geyser__SubscribeUpdateBlock'', ''n_accounts''),
        fd_offset = (''Geyser__SubscribeUpdateBlock'', ''accounts''),
        fd_descriptor = Some ''geyser__subscribe_update_account_info__descriptor'', fd_default_value = None, fd_flags = []\<rparr>,
      \<lparr>fd_name = ''entries_count'', fd_id = 12, fd_label = PROTOBUF_C_LABEL_OPTIONAL, fd_type = PROTOBUF_C_TYPE_UINT64,
        fd_quantifier_offset = Some (''Geyser__SubscribeUpdateBlock'', ''has_entries_count''),
        fd_offset = (''Geyser__SubscribeUpdateBlock'', ''entries_count''),
        fd_descriptor = None, fd_default_value = None, fd_flags = []\<rparr>,
      \<lparr>fd_name = ''entries'', fd_id = 13, fd_label = PROTOBUF_C_LABEL_REPEATED, fd_type = PROTOBUF_C_TYPE_MESSAGE,
        fd_quantifier_offset = Some (''Geyser__SubscribeUpdateBlock'', ''n_entries''),
        fd_offset = (''Geyser__SubscribeUpdateBlock'', ''entries''),
        fd_descriptor = Some ''geyser__subscribe_update_entry__descriptor'', fd_default_value = None, fd_flags = []\<rparr>]"

definition geyser__subscribe_update_block__field_indices_by_name :: "nat list" where
  "geyser__subscribe_update_block__field_indices_by_name = [10, 4, 3, 1, 12, 11, 8, 7, 6, 2, 0, 5, 9]"

definition geyser__subscribe_update_block__number_ranges :: "int_range list" where
  "geyser__subscribe_update_block__number_ranges = [(1, 0), (0, 13)]"

definition geyser__subscribe_update_block__descriptor :: message_descriptor where
  "geyser__subscribe_update_block__descriptor =
     \<lparr>md_magic = PROTOBUF_C__MESSAGE_DESCRIPTOR_MAGIC,
      md_name = ''geyser.SubscribeUpdateBlock'', md_short_name = ''SubscribeUpdateBlock'',
      md_c_name = ''Geyser__SubscribeUpdateBlock'', md_package_name = ''geyser'',
      md_sizeof_message = ''Geyser__SubscribeUpdateBlock'', md_n_fields = 13,
      md_fields = geyser__subscribe_update_block__field_descriptors, md_fields_sorted_by_name = geyser__subscribe_update_block__field_indices_by_name,
      md_n_field_ranges = 1, md_field_ranges = geyser__subscribe_update_block__number_ranges,
      md_message_init = ''geyser__subscribe_update_block__init''\<rparr>"

definition geyser__subscribe_update_block_meta__field_descriptors :: "field_descriptor list" where
  "geyser__subscribe_update_block_meta__field_descriptors =
     [\<lparr>fd_name = ''slot'', fd_id = 1, fd_label = PROTOBUF_C_LABEL_OPTIONAL, fd_type = PROTOBUF_C_TYPE_UINT64,
        fd_quantifier_offset = Some (''Geyser__SubscribeUpdateBlockMeta'', ''has_slot''),
        fd_offset = (''Geyser__SubscribeUpdateBlockMeta'', ''slot''),
        fd_descriptor = None, fd_default_value = None, fd_flags = []\<rparr>,
      \<lparr>fd_name = ''blockhash'', fd_id = 2, fd_label = PROTOBUF_C_LABEL_OPTIONAL, fd_type = PROTOBUF_C_TYPE_STRING,
        fd_quantifier_offset = None,
        fd_offset = (''Geyser__SubscribeUpdateBlockMeta'', ''blockhash''),
        fd_descriptor = None, fd_default_value = None, fd_flags = []\<rparr>,
      \<lparr>fd_name = ''rewards'', fd_id = 3, fd_label = PROTOBUF_C_LABEL_OPTIONAL, fd_type = PROTOBUF_C_TYPE_MESSAGE,
        fd_quantifier_offset = None,
        fd_offset = (''Geyser__SubscribeUpdateBlockMeta'', ''rewards''),
        fd_descriptor = Some ''solana__storage__confirmed_block__rewards__descriptor'', fd_default_value = None, fd_flags = []\<rparr>,
      \<lparr>fd_name = ''block_time'', fd_id = 4, fd_label = PROTOBUF_C_LABEL_OPTIONAL, fd_type = PROTOBUF_C_TYPE_MESSAGE,
        fd_quantifier_offset = None,
        fd_offset = (''Geyser__SubscribeUpdateBlockMeta'', ''block_time''),
        fd_descriptor = Some ''solana__storage__confirmed_block__unix_timestamp__descriptor'', fd_default_value = None, fd_flags = []\<rparr>,
      \<lparr>fd_name = ''block_height'', fd_id = 5, fd_label = PROTOBUF_C_LABEL_OPTIONAL, fd_type = PROTOBUF_C_TYPE_MESSAGE,
        fd_quantifier_offset = None,
        fd_offset = (''Geyser__SubscribeUpdateBlockMeta'', ''block_height''),
        fd_descriptor = Some ''solana__storage__confirmed_block__block_height__descriptor'', fd_default_value = None, fd_flags = []\<rparr>,
      \<lparr>fd_name = ''parent_slot'', fd_id = 6, fd_label = PROTOBUF_C_LABEL_OPTIONAL, fd_type = PROTOBUF_C_TYPE_UINT64,
        fd_quantifier_offset = Some (''Geyser__SubscribeUpdateBlockMeta'', ''has_parent_slot''),
        fd_offset = (''Geyser__SubscribeUpdateBlockMeta'', ''parent_slot''),
        fd_descriptor = None, fd_default_value = None, fd_flags = []\<rparr>,
      \<lparr>fd_name = ''parent_blockhash'', fd_id = 7, fd_label = PROTOBUF_C_LABEL_OPTIONAL, fd_type = PROTOBUF_C_TYPE_STRING,
        fd_quantifier_offset = None,
        fd_offset = (''Geyser__SubscribeUpdateBlockMeta'', ''parent_blockhash''),
        fd_descriptor = None, fd_default_value = None, fd_flags = []\<rparr>,
      \<lparr>fd_name = ''executed_transaction_count'', fd_id = 8, fd_label = PROTOBUF_C_LABEL_OPTIONAL, fd_type = PROTOBUF_C_TYPE_UINT64,
        fd_quantifier_offset = Some (''Geyser__SubscribeUpdateBlockMeta'', ''has_executed_transaction_count''),
        fd_offset = (''Geyser__SubscribeUpdateBlockMeta'', ''executed_transaction_count''),
        fd_descriptor = None, fd_default_value = None, fd_flags = []\<rparr>,
      \<lparr>fd_name = ''entries_count'', fd_id = 9, fd_label = PROTOBUF_C_LABEL_OPTIONAL, fd_type = PROTOBUF_C_TYPE_UINT64,
        fd_quantifier_offset = Some (''Geyser__SubscribeUpdateBlockMeta'', ''has_entries_count''),
        fd_offset = (''Geyser__SubscribeUpdateBlockMeta'', ''entries_count''),
        fd_descriptor = None, fd_default_value = None, fd_flags = []\<rparr>]"

definition geyser__subscribe_update_block_meta__field_indices_by_name :: "nat list" where
  "geyser__subscribe_update_block_meta__field_indices_by_name = [4, 3, 1, 8, 7, 6, 5, 2, 0]"

definition geyser__subscribe_update_block_meta__number_ranges :: "int_range list" where
  "geyser__subscribe_update_block_meta__number_ranges = [(1, 0), (0, 9)]"

definition geyser__subscribe_update_block_meta__descriptor :: message_descriptor where
  "geyser__subscribe_update_block_meta__descriptor =
     \<lparr>md_magic = PROTOBUF_C__MESSAGE_DESCRIPTOR_MAGIC,
      md_name = ''geyser.SubscribeUpdateBlockMeta'', md_short_name = ''SubscribeUpdateBlockMeta'',
      md_c_name = ''Geyser__SubscribeUpdateBlockMeta'', md_package_name = ''geyser'',
      md_sizeof_message = ''Geyser__SubscribeUpdateBlockMeta'', md_n_fields = 9,
      md_fields = geyser__subscribe_update_block_meta__field_descriptors, md_fields_sorted_by_name = geyser__subscribe_update_block_meta__field_indices_by_name,
      md_n_field_ranges = 1, md_field_ranges = geyser__subscribe_update_block_meta__number_ranges,
      md_message_init = ''geyser__subscribe_update_block_meta__init''\<rparr>"

definition geyser__subscribe_update_entry__field_descriptors :: "field_descriptor list" where
  "geyser__subscribe_update_entry__field_descriptors =
     [\<lparr>fd_name = ''slot'', fd_id = 1, fd_label = PROTOBUF_C_LABEL_OPTIONAL, fd_type = PROTOBUF_C_TYPE_UINT64,
        fd_quantifier_offset = Some (''Geyser__SubscribeUpdateEntry'', ''has_slot''),
        fd_offset = (''Geyser__SubscribeUpdateEntry'', ''slot''),
        fd_descriptor = None, fd_default_value = None, fd_flags = []\<rparr>,
      \<lparr>fd_name = ''index'', fd_id = 2, fd_label = PROTOBUF_C_LABEL_OPTIONAL, fd_type = PROTOBUF_C_TYPE_UINT64,
        fd_quantifier_offset = Some (''Geyser__SubscribeUpdateEntry'', ''has_index''),
        fd_offset = (''Geyser__SubscribeUpdateEntry'', ''index''),
        fd_descriptor = None, fd_default_value = None, fd_flags = []\<rparr>,
      \<lparr>fd_name = ''num_hashes'', fd_id = 3, fd_label = PROTOBUF_C_LABEL_OPTIONAL, fd_type = PROTOBUF_C_TYPE_UINT64,
        fd_quantifier_offset = Some (''Geyser__SubscribeUpdateEntry'', ''has_num_hashes''),
        fd_offset = (''Geyser__SubscribeUpdateEntry'', ''num_hashes''),
        fd_descriptor = None, fd_default_value = None, fd_flags = []\<rparr>,
      \<lparr>fd_name = ''hash'', fd_id = 4, fd_label = PROTOBUF_C_LABEL_OPTIONAL, fd_type = PROTOBUF_C_TYPE_BYTES,
        fd_quantifier_offset = Some (''Geyser__SubscribeUpdateEntry'', ''has_hash''),
        fd_offset = (''Geyser__SubscribeUpdateEntry'', ''hash''),
        fd_descriptor = None, fd_default_value = None, fd_flags = []\<rparr>,
      \<lparr>fd_name = ''executed_transaction_count'', fd_id = 5, fd_label = PROTOBUF_C_LABEL_OPTIONAL, fd_type = PROTOBUF_C_TYPE_UINT64,
        fd_quantifier_offset = Some (''Geyser__SubscribeUpdateEntry'', ''has_executed_transaction_count''),
        fd_offset = (''Geyser__SubscribeUpdateEntry'', ''executed_transaction_count''),
        fd_descriptor = None, fd_default_value = None, fd_flags = []\<rparr>,
      \<lparr>fd_name = ''starting_transaction_index'', fd_id = 6, fd_label = PROTOBUF_C_LABEL_OPTIONAL, fd_type = PROTOBUF_C_TYPE_UINT64,
        fd_quantifier_offset = Some (''Geyser__SubscribeUpdateEntry'', ''has_starting_transaction_index''),
        fd_offset = (''Geyser__SubscribeUpdateEntry'', ''starting_transaction_index''),
        fd_descriptor = None, fd_default_value = None, fd_flags = []\<rparr>]"

definition geyser__subscribe_update_entry__field_indices_by_name :: "nat list" where
  "geyser__subscribe_update_entry__field_indices_by_name = [4, 3, 1, 2, 0, 5]"

definition geyser__subscribe_update_entry__number_ranges :: "int_range list" where
  "geyser__subscribe_update_entry__number_ranges = [(1, 0), (0, 6)]"

definition geyser__subscribe_update_entry__descriptor :: message_descriptor where
  "geyser__subscribe_update_entry__descriptor =
     \<lparr>md_magic = PROTOBUF_C__MESSAGE_DESCRIPTOR_MAGIC,
      md_name = ''geyser.SubscribeUpdateEntry'', md_short_name = ''SubscribeUpdateEntry'',
      md_c_name = ''Geyser__SubscribeUpdateEntry'', md_package_name = ''geyser'',
      md_sizeof_message = ''Geyser__SubscribeUpdateEntry'', md_n_fields = 6,
      md_fields = geyser__subscribe_update_entry__field_descriptors, md_fields_sorted_by_name = geyser__subscribe_update_entry__field_indices_by_name,
      md_n_field_ranges = 1, md_field_ranges = geyser__subscribe_update_entry__number_ranges,
      md_message_init = ''geyser__subscribe_update_entry__init''\<rparr>"

definition geyser__subscribe_update_ping__field_descriptors :: "field_descriptor list" where
  "geyser__subscribe_update_ping__field_descriptors = []"

definition geyser__subscribe_update_ping__field_indices_by_name :: "nat list" where
  "geyser__subscribe_update_ping__field_indices_by_name = []"

definition geyser__subscribe_update_ping__number_ranges :: "int_range list" where
  "geyser__subscribe_update_ping__number_ranges = []"

definition geyser__subscribe_update_ping__descriptor :: message_descriptor where
  "geyser__subscribe_update_ping__descriptor =
     \<lparr>md_magic = PROTOBUF_C__MESSAGE_DESCRIPTOR_MAGIC,
      md_name = ''geyser.SubscribeUpdatePing'', md_short_name = ''SubscribeUpdatePing'',
      md_c_name = ''Geyser__SubscribeUpdatePing'', md_package_name = ''geyser'',
      md_sizeof_message = ''Geyser__SubscribeUpdatePing'', md_n_fields = 0,
      md_fields = geyser__subscribe_update_ping__field_descriptors, md_fields_sorted_by_name = geyser__subscribe_update_ping__field_indices_by_name,
      md_n_field_ranges = 0, md_field_ranges = geyser__subscribe_update_ping__number_ranges,
      md_message_init = ''geyser__subscribe_update_ping__init''\<rparr>"

definition geyser__subscribe_update_pong__field_descriptors :: "field_descriptor list" where
  "geyser__subscribe_update_pong__field_descriptors =
     [\<lparr>fd_name = ''id'', fd_id = 1, fd_label = PROTOBUF_C_LABEL_OPTIONAL, fd_type = PROTOBUF_C_TYPE_INT32,
        fd_quantifier_offset = Some (''Geyser__SubscribeUpdatePong'', ''has_id''),
        fd_offset = (''Geyser__SubscribeUpdatePong'', ''id''),
        fd_descriptor = None, fd_default_value = None, fd_flags = []\<rparr>]"

definition geyser__subscribe_update_pong__field_indices_by_name :: "nat list" where
  "geyser__subscribe_update_pong__field_indices_by_name = [0]"

definition geyser__subscribe_update_pong__number_ranges :: "int_range list" where
  "geyser__subscribe_update_pong__number_ranges = [(1, 0), (0, 1)]"

definition geyser__subscribe_update_pong__descriptor :: message_descriptor where
  "geyser__subscribe_update_pong__descriptor =
     \<lparr>md_magic = PROTOBUF_C__MESSAGE_DESCRIPTOR_MAGIC,
      md_name = ''geyser.SubscribeUpdatePong'', md_short_name = ''SubscribeUpdatePong'',
      md_c_name = ''Geyser__SubscribeUpdatePong'', md_package_name = ''geyser'',
      md_sizeof_message = ''Geyser__SubscribeUpdatePong'', md_n_fields = 1,
      md_fields = geyser__subscribe_update_pong__field_descriptors, md_fields_sorted_by_name = geyser__subscribe_update_pong__field_indices_by_name,
      md_n_field_ranges = 1, md_field_ranges = geyser__subscribe_update_pong__number_ranges,
      md_message_init = ''geyser__subscribe_update_pong__init''\<rparr>"

definition geyser__subscribe_replay_info_request__field_descriptors :: "field_descriptor list" where
  "geyser__subscribe_replay_info_request__field_descriptors = []"

definition geyser__subscribe_replay_info_request__field_indices_by_name :: "nat list" where
  "geyser__subscribe_replay_info_request__field_indices_by_name = []"

definition geyser__subscribe_replay_info_request__number_ranges :: "int_range list" where
  "geyser__subscribe_replay_info_request__number_ranges = []"

definition geyser__subscribe_replay_info_request__descriptor :: message_descriptor where
  "geyser__subscribe_replay_info_request__descriptor =
     \<lparr>md_magic = PROTOBUF_C__MESSAGE_DESCRIPTOR_MAGIC,
      md_name = ''geyser.SubscribeReplayInfoRequest'', md_short_name = ''SubscribeReplayInfoRequest'',
      md_c_name = ''Geyser__SubscribeReplayInfoRequest'', md_package_name = ''geyser'',
      md_sizeof_message = ''Geyser__SubscribeReplayInfoRequest'', md_n_fields = 0,
      md_fields = geyser__subscribe_replay_info_request__field_descriptors, md_fields_sorted_by_name = geyser__subscribe_replay_info_request__field_indices_by_name,
      md_n_field_ranges = 0, md_field_ranges = geyser__subscribe_replay_info_request__number_ranges,
      md_message_init = ''geyser__subscribe_replay_info_request__init''\<rparr>"

definition geyser__subscribe_replay_info_response__field_descriptors :: "field_descriptor list" where
  "geyser__subscribe_replay_info_response__field_descriptors =
     [\<lparr>fd_name = ''first_available'', fd_id = 1, fd_label = PROTOBUF_C_LABEL_OPTIONAL, fd_type = PROTOBUF_C_TYPE_UINT64,
        fd_quantifier_offset = Some (''Geyser__SubscribeReplayInfoResponse'', ''has_first_available''),
        fd_offset = (''Geyser__SubscribeReplayInfoResponse'', ''first_available''),
        fd_descriptor = None, fd_default_value = None, fd_flags = []\<rparr>]"

definition geyser__subscribe_replay_info_response__field_indices_by_name :: "nat list" where
  "geyser__subscribe_replay_info_response__field_indices_by_name = [0]"

definition geyser__subscribe_replay_info_response__number_ranges :: "int_range list" where
  "geyser__subscribe_replay_info_response__number_ranges = [(1, 0), (0, 1)]"

definition geyser__subscribe_replay_info_response__descriptor :: message_descriptor where
  "geyser__subscribe_replay_info_response__descriptor =
     \<lparr>md_magic = PROTOBUF_C__MESSAGE_DESCRIPTOR_MAGIC,
      md_name = ''geyser.SubscribeReplayInfoResponse'', md_short_name = ''SubscribeReplayInfoResponse'',
      md_c_name = ''Geyser__SubscribeReplayInfoResponse'', md_package_name = ''geyser'',
      md_sizeof_message = ''Geyser__SubscribeReplayInfoResponse'', md_n_fields = 1,
      md_fields = geyser__subscribe_replay_info_response__field_descriptors, md_fields_sorted_by_name = geyser__subscribe_replay_info_response__field_indices_by_name,
      md_n_field_ranges = 1, md_field_ranges = geyser__subscribe_replay_info_response__number_ranges,
      md_message_init = ''geyser__subscribe_replay_info_response__init''\<rparr>"

definition geyser__ping_request__field_descriptors :: "field_descriptor list" where
  "geyser__ping_request__field_descriptors =
     [\<lparr>fd_name = ''count'', fd_id = 1, fd_label = PROTOBUF_C_LABEL_OPTIONAL, fd_type = PROTOBUF_C_TYPE_INT32,
        fd_quantifier_offset = Some (''Geyser__PingRequest'', ''has_count''),
        fd_offset = (''Geyser__PingRequest'', ''count''),
        fd_descriptor = None, fd_default_value = None, fd_flags = []\<rparr>]"

definition geyser__ping_request__field_indices_by_name :: "nat list" where
  "geyser__ping_request__field_indices_by_name = [0]"

definition geyser__ping_request__number_ranges :: "int_range list" where
  "geyser__ping_request__number_ranges = [(1, 0), (0, 1)]"

definition geyser__ping_request__descriptor :: message_descriptor where
  "geyser__ping_request__descriptor =
     \<lparr>md_magic = PROTOBUF_C__MESSAGE_DESCRIPTOR_MAGIC,
      md_name = ''geyser.PingRequest'', md_short_name = ''PingRequest'',
      md_c_name = ''Geyser__PingRequest'', md_package_name = ''geyser'',
      md_sizeof_message = ''Geyser__PingRequest'', md_n_fields = 1,
      md_fields = geyser__ping_request__field_descriptors, md_fields_sorted_by_name = geyser__ping_request__field_indices_by_name,
      md_n_field_ranges = 1, md_field_ranges = geyser__ping_request__number_ranges,
      md_message_init = ''geyser__ping_request__init''\<rparr>"

definition geyser__pong_response__field_descriptors :: "field_descriptor list" where
  "geyser__pong_response__field_descriptors =
     [\<lparr>fd_name = ''count'', fd_id = 1, fd_label = PROTOBUF_C_LABEL_OPTIONAL, fd_type = PROTOBUF_C_TYPE_INT32,
        fd_quantifier_offset = Some (''Geyser__PongResponse'', ''has_count''),
        fd_offset = (''Geyser__PongResponse'', ''count''),
        fd_descriptor = None, fd_default_value = None, fd_flags = []\<rparr>]"

definition geyser__pong_response__field_indices_by_name :: "nat list" where
  "geyser__pong_response__field_indices_by_name = [0]"

definition geyser__pong_response__number_ranges :: "int_range list" where
  "geyser__pong_response__number_ranges = [(1, 0), (0, 1)]"

definition geyser__pong_response__descriptor :: message_descriptor where
  "geyser__pong_response__descriptor =
     \<lparr>md_magic = PROTOBUF_C__MESSAGE_DESCRIPTOR_MAGIC,
      md_name = ''geyser.PongResponse'', md_short_name = ''PongResponse'',
      md_c_name = ''Geyser__PongResponse'', md_package_name = ''geyser'',
      md_sizeof_message = ''Geyser__PongResponse'', md_n_fields = 1,
      md_fields = geyser__pong_response__field_descriptors, md_fields_sorted_by_name = geyser__pong_response__field_indices_by_name,
      md_n_field_ranges = 1, md_field_ranges = geyser__pong_response__number_ranges,
      md_message_init = ''geyser__pong_response__init''\<rparr>"

definition geyser__get_latest_blockhash_request__field_descriptors :: "field_descriptor list" where
  "geyser__get_latest_blockhash_request__field_descriptors =
     [\<lparr>fd_name = ''commitment'', fd_id = 1, fd_label = PROTOBUF_C_LABEL_OPTIONAL, fd_type = PROTOBUF_C_TYPE_ENUM,
        fd_quantifier_offset = Some (''Geyser__GetLatestBlockhashRequest'', ''has_commitment''),
        fd_offset = (''Geyser__GetLatestBlockhashRequest'', ''commitment''),
        fd_descriptor = Some ''geyser__commitment_level__descriptor'', fd_default_value = None, fd_flags = []\<rparr>]"

definition geyser__get_latest_blockhash_request__field_indices_by_name :: "nat list" where
  "geyser__get_latest_blockhash_request__field_indices_by_name = [0]"

definition geyser__get_latest_blockhash_request__number_ranges :: "int_range list" where
  "geyser__get_latest_blockhash_request__number_ranges = [(1, 0), (0, 1)]"

definition geyser__get_latest_blockhash_request__descriptor :: message_descriptor where
  "geyser__get_latest_blockhash_request__descriptor =
     \<lparr>md_magic = PROTOBUF_C__MESSAGE_DESCRIPTOR_MAGIC,
      md_name = ''geyser.GetLatestBlockhashRequest'', md_short_name = ''GetLatestBlockhashRequest'',
      md_c_name = ''Geyser__GetLatestBlockhashRequest'', md_package_name = ''geyser'',
      md_sizeof_message = ''Geyser__GetLatestBlockhashRequest'', md_n_fields = 1,
      md_fields = geyser__get_latest_blockhash_request__field_descriptors, md_fields_sorted_by_name = geyser__get_latest_blockhash_request__field_indices_by_name,
      md_n_field_ranges = 1, md_field_ranges = geyser__get_latest_blockhash_request__number_ranges,
      md_message_init = ''geyser__get_latest_blockhash_request__init''\<rparr>"

definition geyser__get_latest_blockhash_response__field_descriptors :: "field_descriptor list" where
  "geyser__get_latest_blockhash_response__field_descriptors =
     [\<lparr>fd_name = ''slot'', fd_id = 1, fd_label = PROTOBUF_C_LABEL_OPTIONAL, fd_type = PROTOBUF_C_TYPE_UINT64,
        fd_quantifier_offset = Some (''Geyser__GetLatestBlockhashResponse'', ''has_slot''),
        fd_offset = (''Geyser__GetLatestBlockhashResponse'', ''slot''),
        fd_descriptor = None, fd_default_value = None, fd_flags = []\<rparr>,
      \<lparr>fd_name = ''blockhash'', fd_id = 2, fd_label = PROTOBUF_C_LABEL_OPTIONAL, fd_type = PROTOBUF_C_TYPE_STRING,
        fd_quantifier_offset = None,
        fd_offset = (''Geyser__GetLatestBlockhashResponse'', ''blockhash''),
        fd_descriptor = None, fd_default_value = None, fd_flags = []\<rparr>,
      \<lparr>fd_name = ''last_valid_block_height'', fd_id = 3, fd_label = PROTOBUF_C_LABEL_OPTIONAL, fd_type = PROTOBUF_C_TYPE_UINT64,
        fd_quantifier_offset = Some (''Geyser__GetLatestBlockhashResponse'', ''has_last_valid_block_height''),
        fd_offset = (''Geyser__GetLatestBlockhashResponse'', ''last_valid_block_height''),
        fd_descriptor = None, fd_default_value = None, fd_flags = []\<rparr>]"

definition geyser__get_latest_blockhash_response__field_indices_by_name :: "nat list" where
  "geyser__get_latest_blockhash_response__field_indices_by_name = [1, 2, 0]"

definition geyser__get_latest_blockhash_response__number_ranges :: "int_range list" where
  "geyser__get_latest_blockhash_response__number_ranges = [(1, 0), (0, 3)]"

definition geyser__get_latest_blockhash_response__descriptor :: message_descriptor where
  "geyser__get_latest_blockhash_response__descriptor =
     \<lparr>md_magic = PROTOBUF_C__MESSAGE_DESCRIPTOR_MAGIC,
      md_name = ''geyser.GetLatestBlockhashResponse'', md_short_name = ''GetLatestBlockhashResponse'',
      md_c_name = ''Geyser__GetLatestBlockhashResponse'', md_package_name = ''geyser'',
      md_sizeof_message = ''Geyser__GetLatestBlockhashResponse'', md_n_fields = 3,
      md_fields = geyser__get_latest_blockhash_response__field_descriptors, md_fields_sorted_by_name = geyser__get_latest_blockhash_response__field_indices_by_name,
      md_n_field_ranges = 1, md_field_ranges = geyser__get_latest_blockhash_response__number_ranges,
      md_message_init = ''geyser__get_latest_blockhash_response__init''\<rparr>"

definition geyser__get_block_height_request__field_descriptors :: "field_descriptor list" where
  "geyser__get_block_height_request__field_descriptors =
     [\<lparr>fd_name = ''commitment'', fd_id = 1, fd_label = PROTOBUF_C_LABEL_OPTIONAL, fd_type = PROTOBUF_C_TYPE_ENUM,
        fd_quantifier_offset = Some (''Geyser__GetBlockHeightRequest'', ''has_commitment''),
        fd_offset = (''Geyser__GetBlockHeightRequest'', ''commitment''),
        fd_descriptor = Some ''geyser__commitment_level__descriptor'', fd_default_value = None, fd_flags = []\<rparr>]"

definition geyser__get_block_height_request__field_indices_by_name :: "nat list" where
  "geyser__get_block_height_request__field_indices_by_name = [0]"

definition geyser__get_block_height_request__number_ranges :: "int_range list" where
  "geyser__get_block_height_request__number_ranges = [(1, 0), (0, 1)]"

definition geyser__get_block_height_request__descriptor :: message_descriptor where
  "geyser__get_block_height_request__descriptor =
     \<lparr>md_magic = PROTOBUF_C__MESSAGE_DESCRIPTOR_MAGIC,
      md_name = ''geyser.GetBlockHeightRequest'', md_short_name = ''GetBlockHeightRequest'',
      md_c_name = ''Geyser__GetBlockHeightRequest'', md_package_name = ''geyser'',
      md_sizeof_message = ''Geyser__GetBlockHeightRequest'', md_n_fields = 1,
      md_fields = geyser__get_block_height_request__field_descriptors, md_fields_sorted_by_name = geyser__get_block_height_request__field_indices_by_name,
      md_n_field_ranges = 1, md_field_ranges = geyser__get_block_height_request__number_ranges,
      md_message_init = ''geyser__get_block_height_request__init''\<rparr>"

definition geyser__get_block_height_response__field_descriptors :: "field_descriptor list" where
  "geyser__get_block_height_response__field_descriptors =
     [\<lparr>fd_name = ''block_height'', fd_id = 1, fd_label = PROTOBUF_C_LABEL_OPTIONAL, fd_type = PROTOBUF_C_TYPE_UINT64,
        fd_quantifier_offset = Some (''Geyser__GetBlockHeightResponse'', ''has_block_height''),
        fd_offset = (''Geyser__GetBlockHeightResponse'', ''block_height''),
        fd_descriptor = None, fd_default_value = None, fd_flags = []\<rparr>]"

definition geyser__get_block_height_response__field_indices_by_name :: "nat list" where
  "geyser__get_block_height_response__field_indices_by_name = [0]"

definition geyser__get_block_height_response__number_ranges :: "int_range list" where
  "geyser__get_block_height_response__number_ranges = [(1, 0), (0, 1)]"

definition geyser__get_block_height_response__descriptor :: message_descriptor where
  "geyser__get_block_height_response__descriptor =
     \<lparr>md_magic = PROTOBUF_C__MESSAGE_DESCRIPTOR_MAGIC,
      md_name = ''geyser.GetBlockHeightResponse'', md_short_name = ''GetBlockHeightResponse'',
      md_c_name = ''Geyser__GetBlockHeightResponse'', md_package_name = ''geyser'',
      md_sizeof_message = ''Geyser__GetBlockHeightResponse'', md_n_fields = 1,
      md_fields = geyser__get_block_height_response__field_descriptors, md_fields_sorted_by_name = geyser__get_block_height_response__field_indices_by_name,
      md_n_field_ranges = 1, md_field_ranges = geyser__get_block_height_response__number_ranges,
      md_message_init = ''geyser__get_block_height_response__init''\<rparr>"

definition geyser__get_slot_request__field_descriptors :: "field_descriptor list" where
  "geyser__get_slot_request__field_descriptors =
     [\<lparr>fd_name = ''commitment'', fd_id = 1, fd_label = PROTOBUF_C_LABEL_OPTIONAL, fd_type = PROTOBUF_C_TYPE_ENUM,
        fd_quantifier_offset = Some (''Geyser__GetSlotRequest'', ''has_commitment''),
        fd_offset = (''Geyser__GetSlotRequest'', ''commitment''),
        fd_descriptor = Some ''geyser__commitment_level__descriptor'', fd_default_value = None, fd_flags = []\<rparr>]"

definition geyser__get_slot_request__field_indices_by_name :: "nat list" where
  "geyser__get_slot_request__field_indices_by_name = [0]"

definition geyser__get_slot_request__number_ranges :: "int_range list" where
  "geyser__get_slot_request__number_ranges = [(1, 0), (0, 1)]"

definition geyser__get_slot_request__descriptor :: message_descriptor where
  "geyser__get_slot_request__descriptor =
     \<lparr>md_magic = PROTOBUF_C__MESSAGE_DESCRIPTOR_MAGIC,
      md_name = ''geyser.GetSlotRequest'', md_short_name = ''GetSlotRequest'',
      md_c_name = ''Geyser__GetSlotRequest'', md_package_name = ''geyser'',
      md_sizeof_message = ''Geyser__GetSlotRequest'', md_n_fields = 1,
      md_fields = geyser__get_slot_request__field_descriptors, md_fields_sorted_by_name = geyser__get_slot_request__field_indices_by_name,
      md_n_field_ranges = 1, md_field_ranges = geyser__get_slot_request__number_ranges,
      md_message_init = ''geyser__get_slot_request__init''\<rparr>"

definition geyser__get_slot_response__field_descriptors :: "field_descriptor list" where
  "geyser__get_slot_response__field_descriptors =
     [\<lparr>fd_name = ''slot'', fd_id = 1, fd_label = PROTOBUF_C_LABEL_OPTIONAL, fd_type = PROTOBUF_C_TYPE_UINT64,
        fd_quantifier_offset = Some (''Geyser__GetSlotResponse'', ''has_slot''),
        fd_offset = (''Geyser__GetSlotResponse'', ''slot''),
        fd_descriptor = None, fd_default_value = None, fd_flags = []\<rparr>]"

definition geyser__get_slot_response__field_indices_by_name :: "nat list" where
  "geyser__get_slot_response__field_indices_by_name = [0]"

definition geyser__get_slot_response__number_ranges :: "int_range list" where
  "geyser__get_slot_response__number_ranges = [(1, 0), (0, 1)]"

definition geyser__get_slot_response__descriptor :: message_descriptor where
  "geyser__get_slot_response__descriptor =
     \<lparr>md_magic = PROTOBUF_C__MESSAGE_DESCRIPTOR_MAGIC,
      md_name = ''geyser.GetSlotResponse'', md_short_name = ''GetSlotResponse'',
      md_c_name = ''Geyser__GetSlotResponse'', md_package_name = ''geyser'',
      md_sizeof_message = ''Geyser__GetSlotResponse'', md_n_fields = 1,
      md_fields = geyser__get_slot_response__field_descriptors, md_fields_sorted_by_name = geyser__get_slot_response__field_indices_by_name,
      md_n_field_ranges = 1, md_field_ranges = geyser__get_slot_response__number_ranges,
      md_message_init = ''geyser__get_slot_response__init''\<rparr>"

definition geyser__get_version_request__field_descriptors :: "field_descriptor list" where
  "geyser__get_version_request__field_descriptors = []"

definition geyser__get_version_request__field_indices_by_name :: "nat list" where
  "geyser__get_version_request__field_indices_by_name = []"

definition geyser__get_version_request__number_ranges :: "int_range list" where
  "geyser__get_version_request__number_ranges = []"

definition geyser__get_version_request__descriptor :: message_descriptor where
  "geyser__get_version_request__descriptor =
     \<lparr>md_magic = PROTOBUF_C__MESSAGE_DESCRIPTOR_MAGIC,
      md_name = ''geyser.GetVersionRequest'', md_short_name = ''GetVersionRequest'',
      md_c_name = ''Geyser__GetVersionRequest'', md_package_name = ''geyser'',
      md_sizeof_message = ''Geyser__GetVersionRequest'', md_n_fields = 0,
      md_fields = geyser__get_version_request__field_descriptors, md_fields_sorted_by_name = geyser__get_version_request__field_indices_by_name,
      md_n_field_ranges = 0, md_field_ranges = geyser__get_version_request__number_ranges,
      md_message_init = ''geyser__get_version_request__init''\<rparr>"

definition geyser__get_version_response__field_descriptors :: "field_descriptor list" where
  "geyser__get_version_response__field_descriptors =
     [\<lparr>fd_name = ''version'', fd_id = 1, fd_label = PROTOBUF_C_LABEL_OPTIONAL, fd_type = PROTOBUF_C_TYPE_STRING,
        fd_quantifier_offset = None,
        fd_offset = (''Geyser__GetVersionResponse'', ''version''),
        fd_descriptor = None, fd_default_value = None, fd_flags = []\<rparr>]"

definition geyser__get_version_response__field_indices_by_name :: "nat list" where
  "geyser__get_version_response__field_indices_by_name = [0]"

definition geyser__get_version_response__number_ranges :: "int_range list" where
  "geyser__get_version_response__number_ranges = [(1, 0), (0, 1)]"

definition geyser__get_version_response__descriptor :: message_descriptor where
  "geyser__get_version_response__descriptor =
     \<lparr>md_magic = PROTOBUF_C__MESSAGE_DESCRIPTOR_MAGIC,
      md_name = ''geyser.GetVersionResponse'', md_short_name = ''GetVersionResponse'',
      md_c_name = ''Geyser__GetVersionResponse'', md_package_name = ''geyser'',
      md_sizeof_message = ''Geyser__GetVersionResponse'', md_n_fields = 1,
      md_fields = geyser__get_version_response__field_descriptors, md_fields_sorted_by_name = geyser__get_version_response__field_indices_by_name,
      md_n_field_ranges = 1, md_field_ranges = geyser__get_version_response__number_ranges,
      md_message_init = ''geyser__get_version_response__init''\<rparr>"

definition geyser__is_blockhash_valid_request__field_descriptors :: "field_descriptor list" where
  "geyser__is_blockhash_valid_request__field_descriptors =
     [\<lparr>fd_name = ''blockhash'', fd_id = 1, fd_label = PROTOBUF_C_LABEL_OPTIONAL, fd_type = PROTOBUF_C_TYPE_STRING,
        fd_quantifier_offset = None,
        fd_offset = (''Geyser__IsBlockhashValidRequest'', ''blockhash''),
        fd_descriptor = None, fd_default_value = None, fd_flags = []\<rparr>,
      \<lparr>fd_name = ''commitment'', fd_id = 2, fd_label = PROTOBUF_C_LABEL_OPTIONAL, fd_type = PROTOBUF_C_TYPE_ENUM,
        fd_quantifier_offset = Some (''Geyser__IsBlockhashValidRequest'', ''has_commitment''),
        fd_offset = (''Geyser__IsBlockhashValidRequest'', ''commitment''),
        fd_descriptor = Some ''geyser__commitment_level__descriptor'', fd_default_value = None, fd_flags = []\<rparr>]"

definition geyser__is_blockhash_valid_request__field_indices_by_name :: "nat list" where
  "geyser__is_blockhash_valid_request__field_indices_by_name = [0, 1]"

definition geyser__is_blockhash_valid_request__number_ranges :: "int_range list" where
  "geyser__is_blockhash_valid_request__number_ranges = [(1, 0), (0, 2)]"

definition geyser__is_blockhash_valid_request__descriptor :: message_descriptor where
  "geyser__is_blockhash_valid_request__descriptor =
     \<lparr>md_magic = PROTOBUF_C__MESSAGE_DESCRIPTOR_MAGIC,
      md_name = ''geyser.IsBlockhashValidRequest'', md_short_name = ''IsBlockhashValidRequest'',
      md_c_name = ''Geyser__IsBlockhashValidRequest'', md_package_name = ''geyser'',
      md_sizeof_message = ''Geyser__IsBlockhashValidRequest'', md_n_fields = 2,
      md_fields = geyser__is_blockhash_valid_request__field_descriptors, md_fields_sorted_by_name = geyser__is_blockhash_valid_request__field_indices_by_name,
      md_n_field_ranges = 1, md_field_ranges = geyser__is_blockhash_valid_request__number_ranges,
      md_message_init = ''geyser__is_blockhash_valid_request__init''\<rparr>"

definition geyser__is_blockhash_valid_response__field_descriptors :: "field_descriptor list" where
  "geyser__is_blockhash_valid_response__field_descriptors =
     [\<lparr>fd_name = ''slot'', fd_id = 1, fd_label = PROTOBUF_C_LABEL_OPTIONAL, fd_type = PROTOBUF_C_TYPE_UINT64,
        fd_quantifier_offset = Some (''Geyser__IsBlockhashValidResponse'', ''has_slot''),
        fd_offset = (''Geyser__IsBlockhashValidResponse'', ''slot''),
        fd_descriptor = None, fd_default_value = None, fd_flags = []\<rparr>,
      \<lparr>fd_name = ''valid'', fd_id = 2, fd_label = PROTOBUF_C_LABEL_OPTIONAL, fd_type = PROTOBUF_C_TYPE_BOOL,
        fd_quantifier_offset = Some (''Geyser__IsBlockhashValidResponse'', ''has_valid''),
        fd_offset = (''Geyser__IsBlockhashValidResponse'', ''valid''),
        fd_descriptor = None, fd_default_value = None, fd_flags = []\<rparr>]"

definition geyser__is_blockhash_valid_response__field_indices_by_name :: "nat list" where
  "geyser__is_blockhash_valid_response__field_indices_by_name = [0, 1]"

definition geyser__is_blockhash_valid_response__number_ranges :: "int_range list" where
  "geyser__is_blockhash_valid_response__number_ranges = [(1, 0), (0, 2)]"

definition geyser__is_blockhash_valid_response__descriptor :: message_descriptor where
  "geyser__is_blockhash_valid_response__descriptor =
     \<lparr>md_magic = PROTOBUF_C__MESSAGE_DESCRIPTOR_MAGIC,
      md_name = ''geyser.IsBlockhashValidResponse'', md_short_name = ''IsBlockhashValidResponse'',
      md_c_name = ''Geyser__IsBlockhashValidResponse'', md_package_name = ''geyser'',
      md_sizeof_message = ''Geyser__IsBlockhashValidResponse'', md_n_fields = 2,
      md_fields = geyser__is_blockhash_valid_response__field_descriptors, md_fields_sorted_by_name = geyser__is_blockhash_valid_response__field_indices_by_name,
      md_n_field_ranges = 1, md_field_ranges = geyser__is_blockhash_valid_response__number_ranges,
      md_message_init = ''geyser__is_blockhash_valid_response__init''\<rparr>"

definition geyser__commitment_level__enum_values_by_number :: "enum_value list" where
  "geyser__commitment_level__enum_values_by_number =
     [(''PROCESSED'', ''GEYSER__COMMITMENT_LEVEL__PROCESSED'', 0),
      (''CONFIRMED'', ''GEYSER__COMMITMENT_LEVEL__CONFIRMED'', 1),
      (''FINALIZED'', ''GEYSER__COMMITMENT_LEVEL__FINALIZED'', 2)]"

definition geyser__commitment_level__value_ranges :: "int_range list" where
  "geyser__commitment_level__value_ranges = [(0, 0), (0, 3)]"

definition geyser__commitment_level__enum_values_by_name :: "(string \<times> nat) list" where
  "geyser__commitment_level__enum_values_by_name =
     [(''CONFIRMED'', 1), (''FINALIZED'', 2), (''PROCESSED'', 0)]"

definition geyser__commitment_level__descriptor :: enum_descriptor where
  "geyser__commitment_level__descriptor =
     \<lparr>ed_magic = PROTOBUF_C__ENUM_DESCRIPTOR_MAGIC,
      ed_name = ''geyser.CommitmentLevel'', ed_short_name = ''CommitmentLevel'',
      ed_c_name = ''Geyser__CommitmentLevel'', ed_package_name = ''geyser'',
      ed_n_values = 3, ed_values = geyser__commitment_level__enum_values_by_number,
      ed_n_value_names = 3, ed_values_by_name = geyser__commitment_level__enum_values_by_name,
      ed_n_value_ranges = 1, ed_value_ranges = geyser__commitment_level__value_ranges\<rparr>"

definition geyser__slot_status__enum_values_by_number :: "enum_value list" where
  "geyser__slot_status__enum_values_by_number =
     [(''SLOT_PROCESSED'', ''GEYSER__SLOT_STATUS__SLOT_PROCESSED'', 0),
      (''SLOT_CONFIRMED'', ''GEYSER__SLOT_STATUS__SLOT_CONFIRMED'', 1),
      (''SLOT_FINALIZED'', ''GEYSER__SLOT_STATUS__SLOT_FINALIZED'', 2),
      (''SLOT_FIRST_SHRED_RECEIVED'', ''GEYSER__SLOT_STATUS__SLOT_FIRST_SHRED_RECEIVED'', 3),
      (''SLOT_COMPLETED'', ''GEYSER__SLOT_STATUS__SLOT_COMPLETED'', 4),
      (''SLOT_CREATED_BANK'', ''GEYSER__SLOT_STATUS__SLOT_CREATED_BANK'', 5),
      (''SLOT_DEAD'', ''GEYSER__SLOT_STATUS__SLOT_DEAD'', 6)]"

definition geyser__slot_status__value_ranges :: "int_range list" where
  "geyser__slot_status__value_ranges = [(0, 0), (0, 7)]"

definition geyser__slot_status__enum_values_by_name :: "(string \<times> nat) list" where
  "geyser__slot_status__enum_values_by_name =
     [(''SLOT_COMPLETED'', 4), (''SLOT_CONFIRMED'', 1), (''SLOT_CREATED_BANK'', 5), (''SLOT_DEAD'', 6), (''SLOT_FINALIZED'', 2), (''SLOT_FIRST_SHRED_RECEIVED'', 3), (''SLOT_PROCESSED'', 0)]"

definition geyser__slot_status__descriptor :: enum_descriptor where
  "geyser__slot_status__descriptor =
     \<lparr>ed_magic = PROTOBUF_C__ENUM_DESCRIPTOR_MAGIC,
      ed_name = ''geyser.SlotStatus'', ed_short_name = ''SlotStatus'',
      ed_c_name = ''Geyser__SlotStatus'', ed_package_name = ''geyser'',
      ed_n_values = 7, ed_values = geyser__slot_status__enum_values_by_number,
      ed_n_value_names = 7, ed_values_by_name = geyser__slot_status__enum_values_by_name,
      ed_n_value_ranges = 1, ed_value_ranges = geyser__slot_status__value_ranges\<rparr>"

section \<open>The service\<close>

text \<open>A call checks the service and invokes one of its methods by number. The structure of a
  service lists the methods with their message types; protobuf-c is a parameter of the
  initialiser.\<close>

definition geyser__geyser__method_descriptors :: "method_descriptor list" where
  "geyser__geyser__method_descriptors =
     [(''Subscribe'', ''geyser__subscribe_request__descriptor'', ''geyser__subscribe_update__descriptor''),
      (''SubscribeReplayInfo'', ''geyser__subscribe_replay_info_request__descriptor'', ''geyser__subscribe_replay_info_response__descriptor''),
      (''Ping'', ''geyser__ping_request__descriptor'', ''geyser__pong_response__descriptor''),
      (''GetLatestBlockhash'', ''geyser__get_latest_blockhash_request__descriptor'', ''geyser__get_latest_blockhash_response__descriptor''),
      (''GetBlockHeight'', ''geyser__get_block_height_request__descriptor'', ''geyser__get_block_height_response__descriptor''),
      (''GetSlot'', ''geyser__get_slot_request__descriptor'', ''geyser__get_slot_response__descriptor''),
      (''IsBlockhashValid'', ''geyser__is_blockhash_valid_request__descriptor'', ''geyser__is_blockhash_valid_response__descriptor''),
      (''GetVersion'', ''geyser__get_version_request__descriptor'', ''geyser__get_version_response__descriptor'')]"

definition geyser__geyser__method_indices_by_name :: "nat list" where
  "geyser__geyser__method_indices_by_name = [4, 3, 5, 7, 6, 2, 0, 1]"

definition geyser__geyser__descriptor :: service_descriptor where
  "geyser__geyser__descriptor =
     \<lparr>sd_magic = PROTOBUF_C__SERVICE_DESCRIPTOR_MAGIC,
      sd_name = ''geyser.Geyser'', sd_short_name = ''Geyser'',
      sd_c_name = ''Geyser__Geyser'', sd_package = ''geyser'',
      sd_n_methods = 8, sd_methods = geyser__geyser__method_descriptors,
      sd_method_indices_by_name = geyser__geyser__method_indices_by_name\<rparr>"

definition geyser__geyser__subscribe :: "string \<Rightarrow> (string \<times> nat \<times> string \<times> string) option" where
  "geyser__geyser__subscribe service = invoke_method ''geyser__geyser__descriptor'' service 0 ''Geyser__SubscribeRequest'' ''Geyser__SubscribeUpdate''"

definition geyser__geyser__subscribe_replay_info :: "string \<Rightarrow> (string \<times> nat \<times> string \<times> string) option" where
  "geyser__geyser__subscribe_replay_info service = invoke_method ''geyser__geyser__descriptor'' service 1 ''Geyser__SubscribeReplayInfoRequest'' ''Geyser__SubscribeReplayInfoResponse''"

definition geyser__geyser__ping :: "string \<Rightarrow> (string \<times> nat \<times> string \<times> string) option" where
  "geyser__geyser__ping service = invoke_method ''geyser__geyser__descriptor'' service 2 ''Geyser__PingRequest'' ''Geyser__PongResponse''"

definition geyser__geyser__get_latest_blockhash :: "string \<Rightarrow> (string \<times> nat \<times> string \<times> string) option" where
  "geyser__geyser__get_latest_blockhash service = invoke_method ''geyser__geyser__descriptor'' service 3 ''Geyser__GetLatestBlockhashRequest'' ''Geyser__GetLatestBlockhashResponse''"

definition geyser__geyser__get_block_height :: "string \<Rightarrow> (string \<times> nat \<times> string \<times> string) option" where
  "geyser__geyser__get_block_height service = invoke_method ''geyser__geyser__descriptor'' service 4 ''Geyser__GetBlockHeightRequest'' ''Geyser__GetBlockHeightResponse''"

definition geyser__geyser__get_slot :: "string \<Rightarrow> (string \<times> nat \<times> string \<times> string) option" where
  "geyser__geyser__get_slot service = invoke_method ''geyser__geyser__descriptor'' service 5 ''Geyser__GetSlotRequest'' ''Geyser__GetSlotResponse''"

definition geyser__geyser__is_blockhash_valid :: "string \<Rightarrow> (string \<times> nat \<times> string \<times> string) option" where
  "geyser__geyser__is_blockhash_valid service = invoke_method ''geyser__geyser__descriptor'' service 6 ''Geyser__IsBlockhashValidRequest'' ''Geyser__IsBlockhashValidResponse''"

definition geyser__geyser__get_version :: "string \<Rightarrow> (string \<times> nat \<times> string \<times> string) option" where
  "geyser__geyser__get_version service = invoke_method ''geyser__geyser__descriptor'' service 7 ''Geyser__GetVersionRequest'' ''Geyser__GetVersionResponse''"

definition geyser__geyser__init ::
  "('s \<Rightarrow> string \<Rightarrow> 'd \<Rightarrow> 's) \<Rightarrow> 's \<Rightarrow> 'd \<Rightarrow> 's" where
  "geyser__geyser__init protobuf_c_service_generated_init service destroy =
     protobuf_c_service_generated_init service ''geyser__geyser__descriptor'' destroy"

definition Geyser__Geyser_Service :: "(string \<times> string \<times> string) list" where
  "Geyser__Geyser_Service =
     [(''subscribe'', ''Geyser__SubscribeRequest'', ''Geyser__SubscribeUpdate''),
      (''subscribe_replay_info'', ''Geyser__SubscribeReplayInfoRequest'', ''Geyser__SubscribeReplayInfoResponse''),
      (''ping'', ''Geyser__PingRequest'', ''Geyser__PongResponse''),
      (''get_latest_blockhash'', ''Geyser__GetLatestBlockhashRequest'', ''Geyser__GetLatestBlockhashResponse''),
      (''get_block_height'', ''Geyser__GetBlockHeightRequest'', ''Geyser__GetBlockHeightResponse''),
      (''get_slot'', ''Geyser__GetSlotRequest'', ''Geyser__GetSlotResponse''),
      (''is_blockhash_valid'', ''Geyser__IsBlockhashValidRequest'', ''Geyser__IsBlockhashValidResponse''),
      (''get_version'', ''Geyser__GetVersionRequest'', ''Geyser__GetVersionResponse'')]"

section \<open>The generated messages\<close>

definition geyser_calls :: "(string \<Rightarrow> (string \<times> nat \<times> string \<times> string) option) list" where
  "geyser_calls =
     [geyser__geyser__subscribe,
      geyser__geyser__subscribe_replay_info,
      geyser__geyser__ping,
      geyser__geyser__get_latest_blockhash,
      geyser__geyser__get_block_height,
      geyser__geyser__get_slot,
      geyser__geyser__is_blockhash_valid,
      geyser__geyser__get_version]"

definition geyser_messages :: "generated_message list" where
  "geyser_messages =
     [(''geyser__subscribe_request__accounts_entry__descriptor'', geyser__subscribe_request__accounts_entry__descriptor, Geyser__SubscribeRequest__AccountsEntry, GEYSER__SUBSCRIBE_REQUEST__ACCOUNTS_ENTRY__INIT),
      (''geyser__subscribe_request__slots_entry__descriptor'', geyser__subscribe_request__slots_entry__descriptor, Geyser__SubscribeRequest__SlotsEntry, GEYSER__SUBSCRIBE_REQUEST__SLOTS_ENTRY__INIT),
      (''geyser__subscribe_request__transactions_entry__descriptor'', geyser__subscribe_request__transactions_entry__descriptor, Geyser__SubscribeRequest__TransactionsEntry, GEYSER__SUBSCRIBE_REQUEST__TRANSACTIONS_ENTRY__INIT),
      (''geyser__subscribe_request__transactions_status_entry__descriptor'', geyser__subscribe_request__transactions_status_entry__descriptor, Geyser__SubscribeRequest__TransactionsStatusEntry, GEYSER__SUBSCRIBE_REQUEST__TRANSACTIONS_STATUS_ENTRY__INIT),
      (''geyser__subscribe_request__blocks_entry__descriptor'', geyser__subscribe_request__blocks_entry__descriptor, Geyser__SubscribeRequest__BlocksEntry, GEYSER__SUBSCRIBE_REQUEST__BLOCKS_ENTRY__INIT),
      (''geyser__subscribe_request__blocks_meta_entry__descriptor'', geyser__subscribe_request__blocks_meta_entry__descriptor, Geyser__SubscribeRequest__BlocksMetaEntry, GEYSER__SUBSCRIBE_REQUEST__BLOCKS_META_ENTRY__INIT),
      (''geyser__subscribe_request__entry_entry__descriptor'', geyser__subscribe_request__entry_entry__descriptor, Geyser__SubscribeRequest__EntryEntry, GEYSER__SUBSCRIBE_REQUEST__ENTRY_ENTRY__INIT),
      (''geyser__subscribe_request__descriptor'', geyser__subscribe_request__descriptor, Geyser__SubscribeRequest, GEYSER__SUBSCRIBE_REQUEST__INIT),
      (''geyser__subscribe_request_filter_accounts__descriptor'', geyser__subscribe_request_filter_accounts__descriptor, Geyser__SubscribeRequestFilterAccounts, GEYSER__SUBSCRIBE_REQUEST_FILTER_ACCOUNTS__INIT),
      (''geyser__subscribe_request_filter_accounts_filter__descriptor'', geyser__subscribe_request_filter_accounts_filter__descriptor, Geyser__SubscribeRequestFilterAccountsFilter, GEYSER__SUBSCRIBE_REQUEST_FILTER_ACCOUNTS_FILTER__INIT),
      (''geyser__subscribe_request_filter_accounts_filter_memcmp__descriptor'', geyser__subscribe_request_filter_accounts_filter_memcmp__descriptor, Geyser__SubscribeRequestFilterAccountsFilterMemcmp, GEYSER__SUBSCRIBE_REQUEST_FILTER_ACCOUNTS_FILTER_MEMCMP__INIT),
      (''geyser__subscribe_request_filter_accounts_filter_lamports__descriptor'', geyser__subscribe_request_filter_accounts_filter_lamports__descriptor, Geyser__SubscribeRequestFilterAccountsFilterLamports, GEYSER__SUBSCRIBE_REQUEST_FILTER_ACCOUNTS_FILTER_LAMPORTS__INIT),
      (''geyser__subscribe_request_filter_slots__descriptor'', geyser__subscribe_request_filter_slots__descriptor, Geyser__SubscribeRequestFilterSlots, GEYSER__SUBSCRIBE_REQUEST_FILTER_SLOTS__INIT),
      (''geyser__subscribe_request_filter_transactions__descriptor'', geyser__subscribe_request_filter_transactions__descriptor, Geyser__SubscribeRequestFilterTransactions, GEYSER__SUBSCRIBE_REQUEST_FILTER_TRANSACTIONS__INIT),
      (''geyser__subscribe_request_filter_blocks__descriptor'', geyser__subscribe_request_filter_blocks__descriptor, Geyser__SubscribeRequestFilterBlocks, GEYSER__SUBSCRIBE_REQUEST_FILTER_BLOCKS__INIT),
      (''geyser__subscribe_request_filter_blocks_meta__descriptor'', geyser__subscribe_request_filter_blocks_meta__descriptor, Geyser__SubscribeRequestFilterBlocksMeta, GEYSER__SUBSCRIBE_REQUEST_FILTER_BLOCKS_META__INIT),
      (''geyser__subscribe_request_filter_entry__descriptor'', geyser__subscribe_request_filter_entry__descriptor, Geyser__SubscribeRequestFilterEntry, GEYSER__SUBSCRIBE_REQUEST_FILTER_ENTRY__INIT),
      (''geyser__subscribe_request_accounts_data_slice__descriptor'', geyser__subscribe_request_accounts_data_slice__descriptor, Geyser__SubscribeRequestAccountsDataSlice, GEYSER__SUBSCRIBE_REQUEST_ACCOUNTS_DATA_SLICE__INIT),
      (''geyser__subscribe_request_ping__descriptor'', geyser__subscribe_request_ping__descriptor, Geyser__SubscribeRequestPing, GEYSER__SUBSCRIBE_REQUEST_PING__INIT),
      (''geyser__subscribe_update__descriptor'', geyser__subscribe_update__descriptor, Geyser__SubscribeUpdate, GEYSER__SUBSCRIBE_UPDATE__INIT),
      (''geyser__subscribe_update_account__descriptor'', geyser__subscribe_update_account__descriptor, Geyser__SubscribeUpdateAccount, GEYSER__SUBSCRIBE_UPDATE_ACCOUNT__INIT),
      (''geyser__subscribe_update_account_info__descriptor'', geyser__subscribe_update_account_info__descriptor, Geyser__SubscribeUpdateAccountInfo, GEYSER__SUBSCRIBE_UPDATE_ACCOUNT_INFO__INIT),
      (''geyser__subscribe_update_slot__descriptor'', geyser__subscribe_update_slot__descriptor, Geyser__SubscribeUpdateSlot, GEYSER__SUBSCRIBE_UPDATE_SLOT__INIT),
      (''geyser__subscribe_update_transaction__descriptor'', geyser__subscribe_update_transaction__descriptor, Geyser__SubscribeUpdateTransaction, GEYSER__SUBSCRIBE_UPDATE_TRANSACTION__INIT),
      (''geyser__subscribe_update_transaction_info__descriptor'', geyser__subscribe_update_transaction_info__descriptor, Geyser__SubscribeUpdateTransactionInfo, GEYSER__SUBSCRIBE_UPDATE_TRANSACTION_INFO__INIT),
      (''geyser__subscribe_update_transaction_status__descriptor'', geyser__subscribe_update_transaction_status__descriptor, Geyser__SubscribeUpdateTransactionStatus, GEYSER__SUBSCRIBE_UPDATE_TRANSACTION_STATUS__INIT),
      (''geyser__subscribe_update_block__descriptor'', geyser__subscribe_update_block__descriptor, Geyser__SubscribeUpdateBlock, GEYSER__SUBSCRIBE_UPDATE_BLOCK__INIT),
      (''geyser__subscribe_update_block_meta__descriptor'', geyser__subscribe_update_block_meta__descriptor, Geyser__SubscribeUpdateBlockMeta, GEYSER__SUBSCRIBE_UPDATE_BLOCK_META__INIT),
      (''geyser__subscribe_update_entry__descriptor'', geyser__subscribe_update_entry__descriptor, Geyser__SubscribeUpdateEntry, GEYSER__SUBSCRIBE_UPDATE_ENTRY__INIT),
      (''geyser__subscribe_update_ping__descriptor'', geyser__subscribe_update_ping__descriptor, Geyser__SubscribeUpdatePing, GEYSER__SUBSCRIBE_UPDATE_PING__INIT),
      (''geyser__subscribe_update_pong__descriptor'', geyser__subscribe_update_pong__descriptor, Geyser__SubscribeUpdatePong, GEYSER__SUBSCRIBE_UPDATE_PONG__INIT),
      (''geyser__subscribe_replay_info_request__descriptor'', geyser__subscribe_replay_info_request__descriptor, Geyser__SubscribeReplayInfoRequest, GEYSER__SUBSCRIBE_REPLAY_INFO_REQUEST__INIT),
      (''geyser__subscribe_replay_info_response__descriptor'', geyser__subscribe_replay_info_response__descriptor, Geyser__SubscribeReplayInfoResponse, GEYSER__SUBSCRIBE_REPLAY_INFO_RESPONSE__INIT),
      (''geyser__ping_request__descriptor'', geyser__ping_request__descriptor, Geyser__PingRequest, GEYSER__PING_REQUEST__INIT),
      (''geyser__pong_response__descriptor'', geyser__pong_response__descriptor, Geyser__PongResponse, GEYSER__PONG_RESPONSE__INIT),
      (''geyser__get_latest_blockhash_request__descriptor'', geyser__get_latest_blockhash_request__descriptor, Geyser__GetLatestBlockhashRequest, GEYSER__GET_LATEST_BLOCKHASH_REQUEST__INIT),
      (''geyser__get_latest_blockhash_response__descriptor'', geyser__get_latest_blockhash_response__descriptor, Geyser__GetLatestBlockhashResponse, GEYSER__GET_LATEST_BLOCKHASH_RESPONSE__INIT),
      (''geyser__get_block_height_request__descriptor'', geyser__get_block_height_request__descriptor, Geyser__GetBlockHeightRequest, GEYSER__GET_BLOCK_HEIGHT_REQUEST__INIT),
      (''geyser__get_block_height_response__descriptor'', geyser__get_block_height_response__descriptor, Geyser__GetBlockHeightResponse, GEYSER__GET_BLOCK_HEIGHT_RESPONSE__INIT),
      (''geyser__get_slot_request__descriptor'', geyser__get_slot_request__descriptor, Geyser__GetSlotRequest, GEYSER__GET_SLOT_REQUEST__INIT),
      (''geyser__get_slot_response__descriptor'', geyser__get_slot_response__descriptor, Geyser__GetSlotResponse, GEYSER__GET_SLOT_RESPONSE__INIT),
      (''geyser__get_version_request__descriptor'', geyser__get_version_request__descriptor, Geyser__GetVersionRequest, GEYSER__GET_VERSION_REQUEST__INIT),
      (''geyser__get_version_response__descriptor'', geyser__get_version_response__descriptor, Geyser__GetVersionResponse, GEYSER__GET_VERSION_RESPONSE__INIT),
      (''geyser__is_blockhash_valid_request__descriptor'', geyser__is_blockhash_valid_request__descriptor, Geyser__IsBlockhashValidRequest, GEYSER__IS_BLOCKHASH_VALID_REQUEST__INIT),
      (''geyser__is_blockhash_valid_response__descriptor'', geyser__is_blockhash_valid_response__descriptor, Geyser__IsBlockhashValidResponse, GEYSER__IS_BLOCKHASH_VALID_RESPONSE__INIT)]"

definition geyser_functions :: "'m protobuf_c \<Rightarrow> (string \<times> 'm message_functions) list" where
  "geyser_functions protobuf =
     [(''geyser__subscribe_request__descriptor'', geyser__subscribe_request__functions protobuf),
      (''geyser__subscribe_request_filter_accounts__descriptor'', geyser__subscribe_request_filter_accounts__functions protobuf),
      (''geyser__subscribe_request_filter_accounts_filter__descriptor'', geyser__subscribe_request_filter_accounts_filter__functions protobuf),
      (''geyser__subscribe_request_filter_accounts_filter_memcmp__descriptor'', geyser__subscribe_request_filter_accounts_filter_memcmp__functions protobuf),
      (''geyser__subscribe_request_filter_accounts_filter_lamports__descriptor'', geyser__subscribe_request_filter_accounts_filter_lamports__functions protobuf),
      (''geyser__subscribe_request_filter_slots__descriptor'', geyser__subscribe_request_filter_slots__functions protobuf),
      (''geyser__subscribe_request_filter_transactions__descriptor'', geyser__subscribe_request_filter_transactions__functions protobuf),
      (''geyser__subscribe_request_filter_blocks__descriptor'', geyser__subscribe_request_filter_blocks__functions protobuf),
      (''geyser__subscribe_request_filter_blocks_meta__descriptor'', geyser__subscribe_request_filter_blocks_meta__functions protobuf),
      (''geyser__subscribe_request_filter_entry__descriptor'', geyser__subscribe_request_filter_entry__functions protobuf),
      (''geyser__subscribe_request_accounts_data_slice__descriptor'', geyser__subscribe_request_accounts_data_slice__functions protobuf),
      (''geyser__subscribe_request_ping__descriptor'', geyser__subscribe_request_ping__functions protobuf),
      (''geyser__subscribe_update__descriptor'', geyser__subscribe_update__functions protobuf),
      (''geyser__subscribe_update_account__descriptor'', geyser__subscribe_update_account__functions protobuf),
      (''geyser__subscribe_update_account_info__descriptor'', geyser__subscribe_update_account_info__functions protobuf),
      (''geyser__subscribe_update_slot__descriptor'', geyser__subscribe_update_slot__functions protobuf),
      (''geyser__subscribe_update_transaction__descriptor'', geyser__subscribe_update_transaction__functions protobuf),
      (''geyser__subscribe_update_transaction_info__descriptor'', geyser__subscribe_update_transaction_info__functions protobuf),
      (''geyser__subscribe_update_transaction_status__descriptor'', geyser__subscribe_update_transaction_status__functions protobuf),
      (''geyser__subscribe_update_block__descriptor'', geyser__subscribe_update_block__functions protobuf),
      (''geyser__subscribe_update_block_meta__descriptor'', geyser__subscribe_update_block_meta__functions protobuf),
      (''geyser__subscribe_update_entry__descriptor'', geyser__subscribe_update_entry__functions protobuf),
      (''geyser__subscribe_update_ping__descriptor'', geyser__subscribe_update_ping__functions protobuf),
      (''geyser__subscribe_update_pong__descriptor'', geyser__subscribe_update_pong__functions protobuf),
      (''geyser__subscribe_replay_info_request__descriptor'', geyser__subscribe_replay_info_request__functions protobuf),
      (''geyser__subscribe_replay_info_response__descriptor'', geyser__subscribe_replay_info_response__functions protobuf),
      (''geyser__ping_request__descriptor'', geyser__ping_request__functions protobuf),
      (''geyser__pong_response__descriptor'', geyser__pong_response__functions protobuf),
      (''geyser__get_latest_blockhash_request__descriptor'', geyser__get_latest_blockhash_request__functions protobuf),
      (''geyser__get_latest_blockhash_response__descriptor'', geyser__get_latest_blockhash_response__functions protobuf),
      (''geyser__get_block_height_request__descriptor'', geyser__get_block_height_request__functions protobuf),
      (''geyser__get_block_height_response__descriptor'', geyser__get_block_height_response__functions protobuf),
      (''geyser__get_slot_request__descriptor'', geyser__get_slot_request__functions protobuf),
      (''geyser__get_slot_response__descriptor'', geyser__get_slot_response__functions protobuf),
      (''geyser__get_version_request__descriptor'', geyser__get_version_request__functions protobuf),
      (''geyser__get_version_response__descriptor'', geyser__get_version_response__functions protobuf),
      (''geyser__is_blockhash_valid_request__descriptor'', geyser__is_blockhash_valid_request__functions protobuf),
      (''geyser__is_blockhash_valid_response__descriptor'', geyser__is_blockhash_valid_response__functions protobuf)]"

definition geyser_enums :: "(string \<times> enum_descriptor \<times> c_enum) list" where
  "geyser_enums =
     [(''geyser__commitment_level__descriptor'', geyser__commitment_level__descriptor, Geyser__CommitmentLevel),
      (''geyser__slot_status__descriptor'', geyser__slot_status__descriptor, Geyser__SlotStatus)]"

end
