(* ===== verification/Geyser_Stream.thy ===== *)
theory Geyser_Stream
  imports Geyser_Client Geyser_Proto
begin

text \<open>
  \<^verbatim>\<open>src/src/geyser_client.c\<close>: one subscription from its first gRPC call to its last, and the
  ingest thread around it. gRPC is a parameter: what the completion queue reports call after
  call, whether a batch is accepted, and the message, status and running flag that each step
  finds. The objects that are created and destroyed and the batches that are started are
  recorded in the order of the calls.
\<close>

section \<open>What is asked of gRPC\<close>

datatype grpc_object =
    Credentials
  | Channel
  | Completion_Queue
  | Method_Slice
  | Host_Slice
  | Call
  | Payload
  | Recv_Initial_Metadata
  | Trailing_Metadata
  | Status_Details
  | Recv_Buffer
  | Recv_Reader
  | Recv_Slice
  | Update

datatype grpc_op =
    SEND_INITIAL_METADATA "(string \<times> string) list"
  | SEND_MESSAGE "byte list"
  | SEND_CLOSE_FROM_CLIENT
  | RECV_INITIAL_METADATA
  | RECV_STATUS_ON_CLIENT
  | RECV_MESSAGE

datatype grpc_action =
    Acquire grpc_object
  | Release grpc_object
  | Create_Call string string
  | Start_Batch "grpc_op list" nat

text \<open>A call is created for a method and a host; a batch has its operations and its tag.\<close>

text \<open>
  The objects that are alive after some calls; \<open>None\<close> if one is created while it is alive, which
  loses it, or destroyed when it is not.
\<close>

fun alive :: "grpc_object list \<Rightarrow> grpc_action list \<Rightarrow> grpc_object list option" where
  "alive objects [] = Some objects"
| "alive objects (Acquire ob # actions) =
     (if ob \<in> set objects then None else alive (ob # objects) actions)"
| "alive objects (Release ob # actions) =
     (if ob \<in> set objects then alive (remove1 ob objects) actions else None)"
| "alive objects (Create_Call method host # actions) =
     (if Call \<in> set objects then None else alive (Call # objects) actions)"
| "alive objects (Start_Batch ops tag # actions) = alive objects actions"

section \<open>The payload\<close>

text \<open>The allocations of the encoder and of the payload, and the uninitialised arrays.\<close>

record payload_env =
  encode1_ok :: bool
  encode2_ok :: bool
  filter1 :: string
  filter2 :: string
  payload_malloc :: "nat \<Rightarrow> byte list option"

text \<open>The descriptor in the base of an initialised message.\<close>

definition init_descriptor :: "c_init list \<Rightarrow> string" where
  "init_descriptor init = (case init of PROTOBUF_C_MESSAGE_INIT descriptor # _ \<Rightarrow> descriptor | _ \<Rightarrow> [])"

definition request_message :: "payload_env \<Rightarrow> geyser_client \<Rightarrow> subscribe_request c_message" where
  "request_message env client =
     \<lparr>base_descriptor = init_descriptor GEYSER__SUBSCRIBE_REQUEST__INIT,
      message_body = build_subscribe_request (encode1_ok env) (encode2_ok env) (filter1 env) (filter2 env) client\<rparr>"

text \<open>The bytes of the byte buffer; \<open>Some None\<close> is the null pointer after a failed allocation.\<close>

definition build_subscribe_payload ::
  "subscribe_request protobuf_c \<Rightarrow> payload_env \<Rightarrow> geyser_client \<Rightarrow> byte list option checked" where
  "build_subscribe_payload protobuf env client =
     (let request = request_message env client;
          functions = geyser__subscribe_request__functions protobuf
      in case fn_get_packed_size functions request of
           None \<Rightarrow> None
         | Some packed \<Rightarrow>
             (case payload_malloc env packed of
                None \<Rightarrow> Some None
              | Some buf \<Rightarrow>
                  (case fn_pack functions request buf of
                     None \<Rightarrow> None
                   | Some (n, buf) \<Rightarrow> Some (Some (take packed buf)))))"

section \<open>Updates\<close>

text \<open>The members of \<open>Geyser__SubscribeUpdate\<close> the client reads; the transaction is the union's pointer.\<close>

record subscribe_update =
  update_oneof_case :: nat
  oneof_transaction :: "update_transaction option"

definition UPDATE_ONEOF_TRANSACTION :: nat where
  "UPDATE_ONEOF_TRANSACTION =
     the (map_of (snd Geyser__SubscribeUpdate__UpdateOneofCase) ''GEYSER__SUBSCRIBE_UPDATE__UPDATE_ONEOF_TRANSACTION'')"

text \<open>
  One pass of the receive loop: the running flag it reads, how many events the writer has taken
  from the queue by then, whether the batch is accepted, the message in the receive buffer when
  the operation succeeds, and the locals of the handlers.
\<close>

record receive =
  recv_running :: bool
  recv_taken :: nat
  recv_started :: bool
  recv_message :: "byte list option"
  recv_encode_ok :: bool
  recv_stack :: handler_stack

fun writer_takes :: "nat \<Rightarrow> geyser_client \<Rightarrow> geyser_client" where
  "writer_takes 0 client = client"
| "writer_takes (Suc n) client =
     (case event_queue_pop_section (client_queue client) (client_metrics client) True of
        Some (Return (Some event), q, m) \<Rightarrow> writer_takes n (client\<lparr>client_queue := q, client_metrics := m\<rparr>)
      | _ \<Rightarrow> client)"

definition handle_update ::
  "receive \<Rightarrow> geyser_client \<Rightarrow> subscribe_update \<Rightarrow> (bool section_end \<times> geyser_client) checked" where
  "handle_update r client update =
     (if update_oneof_case update = UPDATE_ONEOF_TRANSACTION
      then handle_transaction (recv_encode_ok r) (recv_stack r) client (oneof_transaction update)
      else Some (Return False, client))"

section \<open>The receive loop\<close>

text \<open>
  The message of one pass, once it is received. A push that finds the queue full, with no one to
  take from it any more, blocks.
\<close>

definition receive_update ::
  "subscribe_update protobuf_c \<Rightarrow> receive \<Rightarrow> geyser_client \<Rightarrow> byte list \<Rightarrow> (geyser_client \<times> grpc_action list) outcome" where
  "receive_update protobuf r client data =
     (let functions = geyser__subscribe_update__functions protobuf;
          client = writer_takes (recv_taken r) client;
          reading = [Acquire Recv_Buffer, Acquire Recv_Reader, Acquire Recv_Slice];
          read = [Release Recv_Slice, Release Recv_Reader, Release Recv_Buffer]
      in case fn_unpack functions data of
           None \<Rightarrow> Done (client, reading @ read)
         | Some update \<Rightarrow>
             (case handle_update r client (message_body update) of
                None \<Rightarrow> Undefined
              | Some (Wait, client) \<Rightarrow> Blocks
              | Some (Return dropped, client) \<Rightarrow>
                  (case fn_free_unpacked functions (Some update) of
                     None \<Rightarrow> Undefined
                   | Some freed \<Rightarrow> Done (client, reading @ [Acquire Update] @ read @ [Release Update]))))"

fun receive_loop ::
  "subscribe_update protobuf_c \<Rightarrow> receive list \<Rightarrow> geyser_client \<Rightarrow> cq_event_cache_entry list \<Rightarrow> grpc_event list \<Rightarrow>
   (geyser_client \<times> cq_event_cache_entry list \<times> grpc_event list \<times> grpc_action list) outcome" where
  "receive_loop protobuf [] client cache evs = Blocks"
| "receive_loop protobuf (r # rs) client cache evs =
     (if \<not> recv_running r then Done (client\<lparr>client_running := False\<rparr>, cache, evs, [])
      else if \<not> recv_started r then Done (client, cache, evs, [])
      else case cq_wait_for_tag evs 3 cache of
             None \<Rightarrow> Blocks
           | Some (found, ev, cache, evs) \<Rightarrow>
               if \<not> found \<or> \<not> ev_success ev \<or> recv_message r = None
               then Done (client, cache, evs, [Start_Batch [RECV_MESSAGE] 3])
               else (case receive_update protobuf r client (the (recv_message r)) of
                       Blocks \<Rightarrow> Blocks
                     | Undefined \<Rightarrow> Undefined
                     | Done (client, actions) \<Rightarrow>
                         (case receive_loop protobuf rs client cache evs of
                            Blocks \<Rightarrow> Blocks
                          | Undefined \<Rightarrow> Undefined
                          | Done (client, cache, evs, actions') \<Rightarrow>
                              Done (client, cache, evs, Start_Batch [RECV_MESSAGE] 3 # actions @ actions'))))"

section \<open>One subscription\<close>

record subscription =
  sub_payload :: payload_env
  sub_batch_ok :: bool
  sub_receives :: "receive list"
  sub_events :: "grpc_event list"
  sub_status_details :: string

text \<open>\<open>destroy_completion_queue\<close>, which waits for the shutdown, and what is destroyed after it.\<close>

definition close_channel :: "'a \<Rightarrow> grpc_event list \<Rightarrow> grpc_action list \<Rightarrow> ('a \<times> grpc_action list) outcome" where
  "close_channel result evs actions =
     (case drain_completion_queue evs of
        None \<Rightarrow> Blocks
      | Some evs \<Rightarrow> Done (result, actions @ [Release Completion_Queue, Release Channel, Release Credentials]))"

text \<open>The code behind the label \<open>cleanup\<close>.\<close>

definition cleanup_subscription :: "'a \<Rightarrow> grpc_event list \<Rightarrow> grpc_action list \<Rightarrow> ('a \<times> grpc_action list) outcome" where
  "cleanup_subscription result evs actions =
     close_channel result evs
       (actions @ [Release Status_Details, Release Recv_Initial_Metadata, Release Trailing_Metadata, Release Call])"

definition subscribe_method :: string where
  "subscribe_method = ''/geyser.Geyser/Subscribe''"

definition initial_metadata :: "geyser_client \<Rightarrow> (string \<times> string) list" where
  "initial_metadata client =
     (if auth_token (client_config client) ! 0 \<noteq> CHR 0x00
      then [(''authorization'', c_str (auth_token (client_config client)))] else [])"

definition run_subscription ::
  "subscribe_request protobuf_c \<Rightarrow> subscribe_update protobuf_c \<Rightarrow> subscription \<Rightarrow> geyser_client \<Rightarrow>
   ((bool \<times> geyser_client) \<times> grpc_action list) outcome" where
  "run_subscription protobuf1 protobuf2 sub client =
     (let opened = [Acquire Credentials, Acquire Channel, Acquire Completion_Queue, Acquire Method_Slice,
                    Acquire Host_Slice, Create_Call subscribe_method (c_str (authority (client_config client))),
                    Release Host_Slice, Release Method_Slice]
      in case build_subscribe_payload protobuf1 (sub_payload sub) client of
           None \<Rightarrow> Undefined
         | Some None \<Rightarrow> close_channel (False, client) (sub_events sub) (opened @ [Release Call])
         | Some (Some payload) \<Rightarrow>
             (let ready = opened @ [Acquire Payload, Acquire Recv_Initial_Metadata, Acquire Trailing_Metadata, Acquire Status_Details];
                  ops = [SEND_INITIAL_METADATA (initial_metadata client), SEND_MESSAGE payload,
                         SEND_CLOSE_FROM_CLIENT, RECV_INITIAL_METADATA]
              in if \<not> sub_batch_ok sub
                 then Done ((False, client),
                        ready @ [Release Payload, Release Call, Release Completion_Queue, Release Channel, Release Credentials])
                 else let started = ready @ [Start_Batch ops 1, Start_Batch [RECV_STATUS_ON_CLIENT] 2]
                      in case cq_wait_for_tag (sub_events sub) 1 empty_cache of
                           None \<Rightarrow> Blocks
                         | Some (found, ev, cache, evs) \<Rightarrow>
                             if \<not> found \<or> \<not> ev_success ev
                             then cleanup_subscription (False, client) evs (started @ [Release Payload])
                             else case receive_loop protobuf2 (sub_receives sub) client cache evs of
                                    Blocks \<Rightarrow> Blocks
                                  | Undefined \<Rightarrow> Undefined
                                  | Done (client, cache, evs, received) \<Rightarrow>
                                      (case cq_wait_for_tag evs 2 cache of
                                         None \<Rightarrow> Blocks
                                       | Some (found, ev, cache, evs) \<Rightarrow>
                                           cleanup_subscription
                                             (finish_subscription (found \<and> ev_success ev) (sub_status_details sub) client)
                                             evs (started @ [Release Payload] @ received))))"

section \<open>The thread\<close>

text \<open>
  Each entry is one pass of the loop of \<open>geyser_thread\<close>: the running flag at its head, the
  subscription, and the flag afterwards. The result has the seconds slept.
\<close>

fun geyser_thread ::
  "subscribe_request protobuf_c \<Rightarrow> subscribe_update protobuf_c \<Rightarrow> nat \<Rightarrow> (bool \<times> subscription \<times> bool) list \<Rightarrow>
   geyser_client \<Rightarrow> (geyser_client \<times> nat list) outcome" where
  "geyser_thread protobuf1 protobuf2 backoff [] client = Blocks"
| "geyser_thread protobuf1 protobuf2 backoff ((running, sub, still_running) # subs) client =
     (if \<not> running then Done (client, [])
      else case run_subscription protobuf1 protobuf2 sub client of
             Blocks \<Rightarrow> Blocks
           | Undefined \<Rightarrow> Undefined
           | Done ((ok, client), actions) \<Rightarrow>
               if \<not> still_running then Done (client, [])
               else let slept = backoff;
                        backoff = (if backoff < 32 then backoff * 2 else backoff);
                        backoff = (if ok then 1 else backoff)
                    in case geyser_thread protobuf1 protobuf2 backoff subs client of
                         Blocks \<Rightarrow> Blocks
                       | Undefined \<Rightarrow> Undefined
                       | Done (client, sleeps) \<Rightarrow> Done (client, slept # sleeps))"

section \<open>Everything is destroyed\<close>

lemma alive_append: "alive objects (xs @ ys) = Option.bind (alive objects xs) (\<lambda>objects. alive objects ys)"
  by (induction objects xs rule: alive.induct) auto

lemma receive_update_alive:
  assumes "receive_update protobuf r client data = Done (client', actions)"
    and "set objects \<inter> {Recv_Buffer, Recv_Reader, Recv_Slice, Update} = {}"
  shows "alive objects actions = Some objects"
  using assms
  by (auto simp: receive_update_def Let_def split: option.splits section_end.splits)

lemma receive_loop_alive:
  "receive_loop protobuf rs client cache evs = Done (client', cache', evs', actions) \<Longrightarrow>
    set objects \<inter> {Recv_Buffer, Recv_Reader, Recv_Slice, Update} = {} \<Longrightarrow>
    alive objects actions = Some objects"
proof (induction protobuf rs client cache evs arbitrary: actions rule: receive_loop.induct)
  case (2 protobuf r rs client cache evs)
  then show ?case
    using receive_update_alive [of protobuf r _ _ _ _ objects]
    by (auto simp: alive_append split: if_splits option.splits outcome.splits)
qed simp

section \<open>What is called\<close>

lemma receive_update_actions:
  "receive_update protobuf r client data = Done (client', actions) \<Longrightarrow> action \<in> set actions \<Longrightarrow>
    \<exists>ob. action = Acquire ob \<or> action = Release ob"
  by (auto simp: receive_update_def Let_def split: option.splits section_end.splits)

lemma receive_loop_actions:
  "receive_loop protobuf rs client cache evs = Done (client', cache', evs', actions) \<Longrightarrow> action \<in> set actions \<Longrightarrow>
    action = Start_Batch [RECV_MESSAGE] 3 \<or> (\<exists>ob. action = Acquire ob \<or> action = Release ob)"
proof (induction protobuf rs client cache evs arbitrary: actions rule: receive_loop.induct)
  case (2 protobuf r rs client cache evs)
  then show ?case
    using receive_update_actions [of protobuf r]
    by (auto split: if_splits option.splits outcome.splits) blast+
qed simp

lemma receive_loop_sends_nothing:
  "receive_loop protobuf rs client cache evs = Done (client', cache', evs', actions) \<Longrightarrow> Start_Batch ops tag \<in> set actions \<Longrightarrow>
    SEND_MESSAGE payload \<notin> set ops"
  using receive_loop_actions [of protobuf rs client cache evs client' cache' evs' actions "Start_Batch ops tag"] by auto

text \<open>A subscription creates one call, and the only message it sends is the payload.\<close>

lemma run_subscription_actions:
  assumes "run_subscription protobuf1 protobuf2 sub client = Done (result, actions)"
  shows "{method. \<exists>host. Create_Call method host \<in> set actions} = {subscribe_method}"
    and "Start_Batch ops tag \<in> set actions \<Longrightarrow> SEND_MESSAGE payload \<in> set ops \<Longrightarrow>
      build_subscribe_payload protobuf1 (sub_payload sub) client = Some (Some payload)"
proof -
  show "{method. \<exists>host. Create_Call method host \<in> set actions} = {subscribe_method}"
    using assms
    by (auto simp: run_subscription_def cleanup_subscription_def close_channel_def Let_def
        split: option.splits if_splits outcome.splits prod.splits dest: receive_loop_actions)
  show "Start_Batch ops tag \<in> set actions \<Longrightarrow> SEND_MESSAGE payload \<in> set ops \<Longrightarrow>
      build_subscribe_payload protobuf1 (sub_payload sub) client = Some (Some payload)"
    using assms
    by (auto simp: run_subscription_def cleanup_subscription_def close_channel_def Let_def
        split: option.splits if_splits outcome.splits prod.splits dest: receive_loop_sends_nothing)
qed

end
