(* ===== verification/Stream_Progress.thy ===== *)
theory Stream_Progress
  imports Geyser_Stream
begin

text \<open>
  What a subscription does over its whole length: the payload it sends, the events it adds to the
  queue for the messages it receives, when it returns and when it cannot, what it destroys, and how the thread around it
  pauses.
\<close>


section \<open>The payload\<close>

lemma init_descriptor_request [simp]:
  "init_descriptor GEYSER__SUBSCRIBE_REQUEST__INIT = ''geyser__subscribe_request__descriptor''"
  by (simp add: init_descriptor_def GEYSER__SUBSCRIBE_REQUEST__INIT_def)

text \<open>
  The payload is what protobuf-c packs of the request: if it stores the serialised message, of the
  size it announced, into the buffer, then exactly these bytes are sent, and no assertion fails.
\<close>

lemma payload_is_packed_request:
  assumes "\<And>m. protobuf_c_message_get_packed_size protobuf m = length (serialise m)"
    and "\<And>m out. length (serialise m) \<le> length out \<Longrightarrow>
      protobuf_c_message_pack protobuf m out = (length (serialise m), serialise m @ drop (length (serialise m)) out)"
    and "payload_malloc env (length (serialise (request_message env client))) = Some buf"
    and "length buf = length (serialise (request_message env client))"
  shows "build_subscribe_payload protobuf env client = Some (Some (serialise (request_message env client)))"
  using assms(3,4) assms(2) [of "request_message env client" buf]
  by (simp add: build_subscribe_payload_def geyser__subscribe_request__functions_def generated_functions_def
      assms(1) request_message_def Let_def)

section \<open>Updates\<close>

lemma UPDATE_ONEOF_TRANSACTION_eq: "UPDATE_ONEOF_TRANSACTION = 4"
  by (simp add: UPDATE_ONEOF_TRANSACTION_def Geyser__SubscribeUpdate__UpdateOneofCase_def)

text \<open>
  What a stream of messages stands for: each message that can be unpacked and holds a transaction
  has that transaction's event, if any. Before it is handled the writer may have taken events
  from the front; a closed queue drops the event.
\<close>

definition message_event :: "subscribe_update protobuf_c \<Rightarrow> yurei_protocol_detector_t \<Rightarrow> receive \<Rightarrow> yurei_event_t option" where
  "message_event protobuf detector r =
     (case Option.bind (recv_message r) (protobuf_c_message_unpack protobuf ''geyser__subscribe_update__descriptor'') of
        None \<Rightarrow> None
      | Some update \<Rightarrow>
          if update_oneof_case (message_body update) = 4
          then transaction_event (recv_encode_ok r) detector (oneof_transaction (message_body update)) else None)"

fun stream_contents ::
  "subscribe_update protobuf_c \<Rightarrow> yurei_protocol_detector_t \<Rightarrow> bool \<Rightarrow> receive list \<Rightarrow> yurei_event_t list \<Rightarrow> yurei_event_t list" where
  "stream_contents protobuf detector c [] es = es"
| "stream_contents protobuf detector c (r # rs) es =
     stream_contents protobuf detector c rs
       (drop (recv_taken r) es @ (if c then [] else case message_event protobuf detector r of None \<Rightarrow> [] | Some event \<Rightarrow> [event]))"

lemma stream_contents_append [simp]:
  "stream_contents protobuf detector c (rs @ rs') es =
    stream_contents protobuf detector c rs' (stream_contents protobuf detector c rs es)"
  by (induction rs arbitrary: es) simp_all

lemma length_stream_contents: "length (stream_contents protobuf detector c rs es) \<le> length es + length rs"
proof (induction rs arbitrary: es)
  case (Cons r rs)
  let ?es = "drop (recv_taken r) es @ (if c then [] else case message_event protobuf detector r of None \<Rightarrow> [] | Some event \<Rightarrow> [event])"
  have "length ?es \<le> Suc (length es)" by (auto split: option.split)
  with Cons.IH [of ?es] show ?case by simp
qed simp

definition streamed :: "subscribe_update protobuf_c \<Rightarrow> receive list \<Rightarrow> geyser_client \<Rightarrow> geyser_client \<Rightarrow> bool" where
  "streamed protobuf rs client client' \<longleftrightarrow>
     client_config client' = client_config client \<and> client_detector client' = client_detector client \<and>
     queue_wf (client_queue client') \<and> closed (client_queue client') = closed (client_queue client) \<and>
     capacity (client_queue client') = capacity (client_queue client) \<and>
     contents (client_queue client') =
       stream_contents protobuf (client_detector client) (closed (client_queue client)) rs (contents (client_queue client))"

lemma streamed_refl: "queue_wf (client_queue client) \<Longrightarrow> streamed protobuf [] client client"
  by (simp add: streamed_def)

lemma streamed_trans:
  "streamed protobuf rs client client' \<Longrightarrow> streamed protobuf rs' client' client'' \<Longrightarrow> streamed protobuf (rs @ rs') client client''"
  by (simp add: streamed_def)

lemma streamed_length:
  "streamed protobuf rs client client' \<Longrightarrow> qsize (client_queue client') \<le> qsize (client_queue client) + length rs"
  using length_stream_contents [of protobuf "client_detector client" "closed (client_queue client)" rs "contents (client_queue client)"]
  by (metis streamed_def length_contents)

text \<open>The writer takes what there is, from the front.\<close>

lemma writer_takes_eq:
  "queue_wf (client_queue client) \<Longrightarrow>
    \<exists>q m. writer_takes n client = client\<lparr>client_queue := q, client_metrics := m\<rparr> \<and> queue_wf q \<and>
      closed q = closed (client_queue client) \<and> capacity q = capacity (client_queue client) \<and>
      contents q = drop n (contents (client_queue client))"
proof (induction n client rule: writer_takes.induct)
  case (1 client)
  then show ?case by (intro exI [of _ "client_queue client"] exI [of _ "client_metrics client"]) simp
next
  case (2 n client)
  show ?case
  proof (cases "qsize (client_queue client) = 0")
    case True
    then have "writer_takes (Suc n) client = client" by (simp add: event_queue_pop_section_def)
    with 2(2) True show ?thesis
      by (intro exI [of _ "client_queue client"] exI [of _ "client_metrics client"]) (simp add: contents_Nil_iff [THEN iffD2])
  next
    case False
    then have pos: "0 < qsize (client_queue client)" by simp
    note pop = pop_delivers [OF 2(2) pos, of "client_metrics client" True]
    let ?next = "client\<lparr>client_queue := popped (client_queue client), client_metrics := metrics_inc_queue_pop (client_metrics client)\<rparr>"
    have wf: "queue_wf (client_queue ?next)" using popped_contents(1) [OF 2(2) pos] by simp
    have "drop (Suc n) (contents (client_queue client)) = drop n (contents (popped (client_queue client)))"
      using popped_tl [OF 2(2) pos] by (simp add: drop_Suc)
    moreover have "writer_takes (Suc n) client = writer_takes n ?next" using pop by simp
    moreover note 2(1) [OF pop _ _ _ _ wf]
    ultimately show ?thesis by auto
  qed
qed

text \<open>The locals have their sizes, and the message is no Raydium transaction that overflows its handler's buffer.\<close>

definition receive_safe :: "subscribe_update protobuf_c \<Rightarrow> yurei_protocol_detector_t \<Rightarrow> receive \<Rightarrow> bool" where
  "receive_safe protobuf detector r \<longleftrightarrow>
     length (pumpfun_buf (recv_stack r)) = 768 \<and> length (raydium_buf (recv_stack r)) = 512 \<and>
     (\<forall>update.
        Option.bind (recv_message r) (protobuf_c_message_unpack protobuf ''geyser__subscribe_update__descriptor'') = Some update \<longrightarrow>
        \<not> raydium_overflow detector (oneof_transaction (message_body update)))"

text \<open>What protobuf-c promises: a message it unpacks has the descriptor it was asked for.\<close>

definition unpack_typed :: "'m protobuf_c \<Rightarrow> bool" where
  "unpack_typed protobuf \<longleftrightarrow>
     (\<forall>descriptor data m. protobuf_c_message_unpack protobuf descriptor data = Some m \<longrightarrow> base_descriptor m = descriptor)"

text \<open>One message: its event is appended, and everything is as the stream says.\<close>

lemma handle_update_ok:
  assumes "receive_safe protobuf (client_detector client) r" and "recv_message r = Some data"
    and "protobuf_c_message_unpack protobuf ''geyser__subscribe_update__descriptor'' data = Some update"
    and "queue_wf (client_queue client)"
    and "closed (client_queue client) \<or> qsize (client_queue client) < capacity (client_queue client)"
  shows "\<exists>dropped. handle_update r client (message_body update) =
    Some (Return dropped, case message_event protobuf (client_detector client) r of
        None \<Rightarrow> client
      | Some event \<Rightarrow> if closed (client_queue client) then client else enqueued event client)"
proof -
  note safe = assms(1) [unfolded receive_safe_def]
  have "\<not> raydium_overflow (client_detector client) (oneof_transaction (message_body update))"
    using safe assms(2,3) by simp
  then show ?thesis
    using assms(2,3,5) handle_transaction_eq [OF safe [THEN conjunct1] safe [THEN conjunct2, THEN conjunct1], of "recv_encode_ok r" client]
    by (auto simp: handle_update_def message_event_def UPDATE_ONEOF_TRANSACTION_eq dispatch_event_eq [OF assms(4)] split: option.split)
qed

lemma receive_update_ok:
  assumes "unpack_typed protobuf" and "receive_safe protobuf (client_detector client) r" and "recv_message r = Some data"
    and "queue_wf (client_queue client)"
    and "closed (client_queue client) \<or> qsize (client_queue client) < capacity (client_queue client)"
  shows "\<exists>client' actions. receive_update protobuf r client data = Done (client', actions) \<and> streamed protobuf [r] client client'"
proof -
  define client0 where "client0 = writer_takes (recv_taken r) client"
  from writer_takes_eq [OF assms(4), of "recv_taken r"] have
    same: "client_config client0 = client_config client" "client_detector client0 = client_detector client"
      "closed (client_queue client0) = closed (client_queue client)" "capacity (client_queue client0) = capacity (client_queue client)"
    and wf: "queue_wf (client_queue client0)"
    and taken: "contents (client_queue client0) = drop (recv_taken r) (contents (client_queue client))"
    unfolding client0_def by auto
  have room: "closed (client_queue client0) \<or> qsize (client_queue client0) < capacity (client_queue client0)"
    using assms(5) same taken by (metis length_contents length_drop less_imp_diff_less)
  show ?thesis
  proof (cases "protobuf_c_message_unpack protobuf ''geyser__subscribe_update__descriptor'' data")
    case None
    then have "message_event protobuf (client_detector client) r = None" by (simp add: message_event_def assms(3))
    then have "streamed protobuf [r] client client0" using wf same taken by (simp add: streamed_def)
    with None show ?thesis
      by (simp add: receive_update_def geyser__subscribe_update__functions_def generated_functions_def client0_def [symmetric] Let_def)
  next
    case (Some update)
    have safe: "receive_safe protobuf (client_detector client0) r" using assms(2) by (simp add: same)
    from handle_update_ok [OF safe assms(3) Some wf room] obtain dropped client' where
      handled: "handle_update r client0 (message_body update) = Some (Return dropped, client')" and
      update': "client' = (case message_event protobuf (client_detector client0) r of None \<Rightarrow> client0
        | Some event \<Rightarrow> if closed (client_queue client0) then client0 else enqueued event client0)"
      by blast
    note client' = update' [unfolded same]
    have "streamed protobuf [r] client client'"
      using wf same taken room pushed_contents [OF wf] unfolding client' streamed_def
      by (auto split: option.split)
    moreover have "base_descriptor update = ''geyser__subscribe_update__descriptor''" using assms(1) Some by (simp add: unpack_typed_def)
    ultimately show ?thesis
      using Some handled
      by (simp add: receive_update_def geyser__subscribe_update__functions_def generated_functions_def client0_def [symmetric] Let_def)
  qed
qed

section \<open>The stream ends\<close>

lemma wait_at_once:
  "ev_type e = GRPC_OP_COMPLETE \<Longrightarrow> ev_tag e = tag \<Longrightarrow> \<forall>c \<in> set (cached cache). ev_tag c \<noteq> tag \<Longrightarrow>
    cq_wait_for_tag (e # evs) tag cache = Some (True, e, cache, evs)"
proof -
  assume "ev_type e = GRPC_OP_COMPLETE" and "ev_tag e = tag" and "\<forall>c \<in> set (cached cache). ev_tag c \<noteq> tag"
  then show ?thesis using take_absent [of cache tag] by (simp add: cq_wait_for_tag_def)
qed

definition completes :: "nat \<Rightarrow> grpc_event \<Rightarrow> bool" where
  "completes tag e \<longleftrightarrow> ev_type e = GRPC_OP_COMPLETE \<and> ev_tag e = tag \<and> ev_success e"

text \<open>
  How the loop ends: the client was stopped, the batch was refused, or the receive completed
  without a message; only the last of these takes an event from the queue.
\<close>

definition receive_ends :: "receive \<Rightarrow> grpc_event list \<Rightarrow> bool" where
  "receive_ends r evs \<longleftrightarrow>
     \<not> recv_running r \<and> evs = [] \<or> recv_running r \<and> \<not> recv_started r \<and> evs = [] \<or>
     recv_running r \<and> recv_started r \<and> recv_message r = None \<and> list_all (completes 3) evs \<and> length evs = 1"

definition receives_message :: "receive \<Rightarrow> bool" where
  "receives_message r \<longleftrightarrow> recv_running r \<and> recv_started r \<and> recv_message r \<noteq> None"

lemma receive_loop_ends:
  assumes "receive_ends r evs" and "\<forall>c \<in> set (cached cache). ev_tag c \<noteq> 3" and "queue_wf (client_queue client)"
  shows "\<exists>client' actions. receive_loop protobuf (r # others) client cache (evs @ rest) = Done (client', cache, rest, actions) \<and>
    streamed protobuf [] client client'"
proof -
  consider "\<not> recv_running r" "evs = []" | "recv_running r" "\<not> recv_started r" "evs = []"
    | e where "recv_running r" "recv_started r" "recv_message r = None" "completes 3 e" "evs = [e]"
    using assms(1) by (auto simp: receive_ends_def length_Suc_conv)
  then show ?thesis
  proof cases
    case 1
    have "streamed protobuf [] client (client\<lparr>client_running := False\<rparr>)"
      using streamed_refl [OF assms(3)] by (simp add: streamed_def)
    with 1 show ?thesis by simp
  next
    case 2
    then show ?thesis using streamed_refl [OF assms(3)] by simp
  next
    case 3
    then have "cq_wait_for_tag (evs @ rest) 3 cache = Some (True, e, cache, rest)"
      using assms(2) by (simp add: wait_at_once completes_def)
    then show ?thesis using 3 streamed_refl [OF assms(3)] by (simp del: append.simps)
  qed
qed

lemma receive_loop_returns:
  "unpack_typed protobuf \<Longrightarrow> list_all (receive_safe protobuf (client_detector client)) rs \<Longrightarrow> list_all receives_message rs \<Longrightarrow>
    list_all (completes 3) evs \<Longrightarrow> length evs = length rs \<Longrightarrow> receive_ends r ends \<Longrightarrow>
    \<forall>c \<in> set (cached cache). ev_tag c \<noteq> 3 \<Longrightarrow> queue_wf (client_queue client) \<Longrightarrow>
    closed (client_queue client) \<or> qsize (client_queue client) + length rs \<le> capacity (client_queue client) \<Longrightarrow>
    \<exists>client' actions. receive_loop protobuf (rs @ r # others) client cache (evs @ ends @ rest) = Done (client', cache, rest, actions) \<and>
      streamed protobuf rs client client'"
proof (induction rs arbitrary: client evs)
  case Nil
  then show ?case using receive_loop_ends by simp
next
  case (Cons r' rs)
  from Cons.prems(5) obtain e evs' where evs: "evs = e # evs'" by (cases evs) auto
  from Cons.prems(3) obtain data where message: "recv_message r' = Some data" and going: "recv_running r'" "recv_started r'"
    by (auto simp: receives_message_def)
  have "cq_wait_for_tag (evs @ ends @ rest) 3 cache = Some (True, e, cache, evs' @ ends @ rest)" and good: "ev_success e"
    using Cons.prems(4,7) by (simp_all add: evs completes_def wait_at_once)
  note wait = this(1)
  have room: "closed (client_queue client) \<or> qsize (client_queue client) < capacity (client_queue client)"
    using Cons.prems(9) by auto
  have safe: "receive_safe protobuf (client_detector client) r'" using Cons.prems(2) by simp
  from receive_update_ok [OF Cons.prems(1) safe message Cons.prems(8) room] obtain client1 actions1
    where update: "receive_update protobuf r' client data = Done (client1, actions1)" and one: "streamed protobuf [r'] client client1" by blast
  have "queue_wf (client_queue client1)" "client_detector client1 = client_detector client" and
    "closed (client_queue client1) \<or> qsize (client_queue client1) + length rs \<le> capacity (client_queue client1)"
    using one streamed_length [OF one] Cons.prems(9) by (auto simp: streamed_def)
  with Cons.IH [of client1 evs'] Cons.prems evs
  obtain client' actions where loop: "receive_loop protobuf (rs @ r # others) client1 cache (evs' @ ends @ rest) =
      Done (client', cache, rest, actions)" and later: "streamed protobuf rs client1 client'" by auto
  have "receive_loop protobuf ((r' # rs) @ r # others) client cache (evs @ ends @ rest) =
      Done (client', cache, rest, Start_Batch [RECV_MESSAGE] 3 # actions1 @ actions)"
    using going message good loop update by (simp add: wait del: append_assoc)
  moreover have "streamed protobuf (r' # rs) client client'" using streamed_trans [OF one later] by simp
  ultimately show ?case by blast
qed

lemma drain_ends: "\<exists>e \<in> set evs. ev_type e = GRPC_QUEUE_SHUTDOWN \<Longrightarrow> \<exists>rest. drain_completion_queue evs = Some rest"
  by (induction evs) auto

lemma cached_empty [simp]: "cached empty_cache = []"
  by (simp add: cached_def empty_cache_def)

lemma payload_defined:
  assumes "\<And>n. payload_malloc env n \<noteq> None"
  shows "\<exists>bytes. build_subscribe_payload protobuf env client = Some (Some bytes)"
proof -
  let ?request = "request_message env client"
  obtain buf where "payload_malloc env (protobuf_c_message_get_packed_size protobuf ?request) = Some buf"
    using assms by blast
  then show ?thesis
    by (simp add: build_subscribe_payload_def geyser__subscribe_request__functions_def generated_functions_def
        Let_def split: prod.split) (simp add: request_message_def)
qed

text \<open>
  A stream that ends, after the messages \<open>rs\<close>: the first batch is accepted and completes, each
  receive completes with its message until one ends the loop, the status arrives and the completion
  queue shuts down. No message overflows the Raydium buffer, and the queue has room for an event
  per message or is closed.
\<close>

definition stream_ends :: "subscribe_update protobuf_c \<Rightarrow> receive list \<Rightarrow> subscription \<Rightarrow> geyser_client \<Rightarrow> bool" where
  "stream_ends protobuf rs sub client \<longleftrightarrow>
     (\<forall>size. payload_malloc (sub_payload sub) size \<noteq> None) \<and> sub_batch_ok sub \<and>
     list_all (receive_safe protobuf (client_detector client)) rs \<and> list_all receives_message rs \<and>
     (\<exists>r others connected evs ends status rest.
        sub_receives sub = rs @ r # others \<and>
        sub_events sub = connected # evs @ ends @ status # rest \<and>
        completes 1 connected \<and> list_all (completes 3) evs \<and> length evs = length rs \<and> receive_ends r ends \<and>
        completes 2 status \<and> (\<exists>e \<in> set rest. ev_type e = GRPC_QUEUE_SHUTDOWN)) \<and>
     queue_wf (client_queue client) \<and>
     (closed (client_queue client) \<or> qsize (client_queue client) + length rs \<le> capacity (client_queue client))"

lemma stream_ends_returns:
  assumes "unpack_typed protobuf" and "stream_ends protobuf rs sub client"
  shows "\<exists>client1 actions.
    run_subscription protobuf1 protobuf sub client = Done (finish_subscription True (sub_status_details sub) client1, actions) \<and>
    streamed protobuf rs client client1"
proof -
  note shape = assms(2) [unfolded stream_ends_def]
  have malloc: "\<And>size. payload_malloc (sub_payload sub) size \<noteq> None" and batch: "sub_batch_ok sub"
    and safe: "list_all (receive_safe protobuf (client_detector client)) rs" "list_all receives_message rs"
    and queue: "queue_wf (client_queue client)"
      "closed (client_queue client) \<or> qsize (client_queue client) + length rs \<le> capacity (client_queue client)"
    using shape by simp_all
  from shape obtain r others connected evs ends status rest where
    receives: "sub_receives sub = rs @ r # others"
    and events: "sub_events sub = connected # evs @ ends @ status # rest"
    and complete: "completes 1 connected" "list_all (completes 3) evs" "completes 2 status"
    and n: "length evs = length rs"
    and ends: "receive_ends r ends" and shutdown: "\<exists>e \<in> set rest. ev_type e = GRPC_QUEUE_SHUTDOWN"
    by blast
  from payload_defined [OF malloc] obtain bytes where
    payload: "build_subscribe_payload protobuf1 (sub_payload sub) client = Some (Some bytes)" by blast
  have first: "cq_wait_for_tag (sub_events sub) 1 empty_cache = Some (True, connected, empty_cache, evs @ ends @ status # rest)"
    and ok: "ev_success connected" "ev_success status"
    using complete by (simp_all add: events completes_def wait_at_once)
  from receive_loop_returns [OF assms(1) safe complete(2) n ends _ queue, of empty_cache others "status # rest"]
  obtain client1 actions1 where loop: "receive_loop protobuf (sub_receives sub) client empty_cache (evs @ ends @ status # rest) =
      Done (client1, empty_cache, status # rest, actions1)" and stream: "streamed protobuf rs client client1"
    by (auto simp: receives)
  have last: "cq_wait_for_tag (status # rest) 2 empty_cache = Some (True, status, empty_cache, rest)"
    using complete(3) by (simp add: completes_def wait_at_once)
  from drain_ends [OF shutdown] obtain left where drain: "drain_completion_queue rest = Some left" by blast
  have "\<exists>actions. run_subscription protobuf1 protobuf sub client = Done (finish_subscription True (sub_status_details sub) client1, actions)"
    by (simp add: run_subscription_def payload batch first [unfolded One_nat_def] ok loop last cleanup_subscription_def
        close_channel_def drain Let_def)
  with stream show ?thesis by blast
qed

text \<open>
  C11. A subscription whose stream ends comes to its end: \<open>run_subscription\<close> returns, without leaving
  defined behaviour - no wait is left unanswered - and it has handled every message, in order:
  the queue holds exactly what it held and the event of each message that stands for one, in the
  order of the stream, less what the writer took from the front in between. Configuration and
  detector are as before, and the result is that of the check for a refused resume slot.
\<close>

theorem subscription_returns:
  assumes "unpack_typed protobuf" and "stream_ends protobuf rs sub client"
  shows "\<exists>client1 actions.
    run_subscription protobuf1 protobuf sub client = Done (finish_subscription True (sub_status_details sub) client1, actions) \<and>
    contents (client_queue client1) =
      stream_contents protobuf (client_detector client) (closed (client_queue client)) rs (contents (client_queue client)) \<and>
    queue_wf (client_queue client1) \<and> closed (client_queue client1) = closed (client_queue client) \<and>
    client_config client1 = client_config client \<and> client_detector client1 = client_detector client"
  using stream_ends_returns [OF assms, of protobuf1] by (auto simp: streamed_def)

text \<open>A runtime that knows one message, and a stream with it.\<close>

definition test_protobuf :: "subscribe_update protobuf_c" where
  "test_protobuf =
     \<lparr>protobuf_c_message_get_packed_size = \<lambda>m. 0,
      protobuf_c_message_pack = \<lambda>m out. (0, out),
      protobuf_c_message_pack_to_buffer = \<lambda>m buf. (0, buf),
      protobuf_c_message_unpack = \<lambda>descriptor data.
        if data = [1] then Some \<lparr>base_descriptor = descriptor,
          message_body = \<lparr>update_oneof_case = 4, oneof_transaction = Some test_update\<rparr>\<rparr> else None\<rparr>"

definition test_requests :: "subscribe_request protobuf_c" where
  "test_requests =
     \<lparr>protobuf_c_message_get_packed_size = \<lambda>m. 0,
      protobuf_c_message_pack = \<lambda>m out. (0, out),
      protobuf_c_message_pack_to_buffer = \<lambda>m buf. (0, buf),
      protobuf_c_message_unpack = \<lambda>descriptor data. None\<rparr>"

definition test_receive :: "bool \<Rightarrow> receive" where
  "test_receive running = \<lparr>recv_running = running, recv_taken = 0, recv_started = True, recv_message = Some [1],
     recv_encode_ok = True, recv_stack = test_stack\<rparr>"

definition op_complete :: "nat \<Rightarrow> grpc_event" where
  "op_complete tag = \<lparr>ev_type = GRPC_OP_COMPLETE, ev_tag = tag, ev_success = True\<rparr>"

definition queue_shutdown :: grpc_event where
  "queue_shutdown = \<lparr>ev_type = GRPC_QUEUE_SHUTDOWN, ev_tag = 0, ev_success = False\<rparr>"

definition test_subscription :: "string \<Rightarrow> subscription" where
  "test_subscription details =
     \<lparr>sub_payload = \<lparr>encode1_ok = True, encode2_ok = True, filter1 = [], filter2 = [],
        payload_malloc = \<lambda>n. Some (replicate n 0)\<rparr>,
      sub_batch_ok = True, sub_receives = [test_receive True, test_receive False],
      sub_events = [op_complete 1, op_complete 3, op_complete 2, queue_shutdown],
      sub_status_details = details\<rparr>"

lemma test_stream_ends: "stream_ends test_protobuf [test_receive True] (test_subscription details) test_client"
proof -
  have "receive_safe test_protobuf (client_detector test_client) (test_receive True)"
    using test_update_no_overflow by (auto simp: receive_safe_def test_receive_def test_stack_def test_protobuf_def)
  moreover have "\<exists>r others connected evs ends status rest.
        sub_receives (test_subscription details) = [test_receive True] @ r # others \<and>
        sub_events (test_subscription details) = connected # evs @ ends @ status # rest \<and>
        completes 1 connected \<and> list_all (completes 3) evs \<and> length evs = length [test_receive True] \<and> receive_ends r ends \<and>
        completes 2 status \<and> (\<exists>e \<in> set rest. ev_type e = GRPC_QUEUE_SHUTDOWN)"
    by (intro exI [of _ "test_receive False"] exI [of _ "[]"] exI [of _ "op_complete 1"]
        exI [of _ "[op_complete 3]"] exI [of _ "op_complete 2"] exI [of _ "[queue_shutdown]"])
      (simp add: test_subscription_def receive_ends_def completes_def op_complete_def queue_shutdown_def test_receive_def)
  moreover have "list_all receives_message [test_receive True]" by (simp add: receives_message_def test_receive_def)
  ultimately show ?thesis
    using test_client_queue length_contents [of "client_queue test_client"]
    by (simp add: stream_ends_def) (simp add: test_subscription_def)
qed

lemma test_unpack_typed: "unpack_typed test_protobuf"
  by (auto simp: unpack_typed_def test_protobuf_def split: if_splits)

theorem subscription_returns_witness:
  "\<exists>client1 actions event. run_subscription test_requests test_protobuf (test_subscription ''done'') test_client =
      Done (finish_subscription True (sub_status_details (test_subscription ''done'')) client1, actions) \<and>
    transaction_event True (client_detector test_client) (Some test_update) = Some event \<and>
    contents (client_queue client1) = [event]"
proof -
  obtain event where event: "transaction_event True (client_detector test_client) (Some test_update) = Some event"
    using test_update_event by blast
  then have "message_event test_protobuf (client_detector test_client) (test_receive True) = Some event"
    by (simp add: message_event_def test_receive_def test_protobuf_def)
  then have "stream_contents test_protobuf (client_detector test_client) (closed (client_queue test_client)) [test_receive True]
      (contents (client_queue test_client)) = [event]"
    by (simp add: test_client_queue)
  with subscription_returns [OF test_unpack_typed test_stream_ends, of test_requests "''done''"] event show ?thesis by auto
qed

text \<open>
  C14. An endpoint that cannot replay is asked once: if the stream ends with a status whose text
  holds the refusal while a resume slot is set, the subscription counts as failed, and the request
  of the next subscription has no resume slot.
\<close>

theorem refused_replay_retried_from_head:
  assumes "unpack_typed protobuf" and "stream_ends protobuf rs sub client"
    and "from_slot_set (client_config client)" and "sub_status_details sub = pre @ ''from_slot is not supported'' @ post"
  shows "\<exists>client' actions. run_subscription protobuf1 protobuf sub client = Done ((False, client'), actions) \<and>
    has_from_slot (message_body (request_message env client)) \<and>
    \<not> has_from_slot (message_body (request_message env client'))"
proof -
  from stream_ends_returns [OF assms(1,2), of protobuf1] obtain client1 actions where
    run: "run_subscription protobuf1 protobuf sub client = Done (finish_subscription True (sub_status_details sub) client1, actions)"
    and "streamed protobuf rs client client1" by blast
  then have "client_config client1 = client_config client" by (simp add: streamed_def)
  moreover have "slice_contains_string (sub_status_details sub) (Some ''from_slot is not supported'')"
    unfolding slice_contains_iff by (auto simp: assms(4))
  ultimately show ?thesis
    using run assms(3) by (simp add: finish_subscription_def request_message_def build_subscribe_request_def Let_def)
qed

definition resuming_client :: geyser_client where
  "resuming_client = test_client\<lparr>client_config := zero_config\<lparr>from_slot_set := True, from_slot := 7\<rparr>\<rparr>"

theorem refused_replay_retried_from_head_witness:
  "\<exists>client' actions. run_subscription test_requests test_protobuf (test_subscription ''from_slot is not supported'') resuming_client =
      Done ((False, client'), actions) \<and>
    has_from_slot (message_body (request_message (sub_payload (test_subscription [])) resuming_client)) \<and>
    \<not> has_from_slot (message_body (request_message (sub_payload (test_subscription [])) client'))"
proof -
  have "stream_ends test_protobuf [test_receive True] (test_subscription ''from_slot is not supported'') resuming_client"
    using test_stream_ends by (simp add: stream_ends_def resuming_client_def)
  moreover have "from_slot_set (client_config resuming_client)" by (simp add: resuming_client_def)
  moreover have "sub_status_details (test_subscription ''from_slot is not supported'') = [] @ ''from_slot is not supported'' @ []"
    by (simp add: test_subscription_def)
  ultimately show ?thesis
    using refused_replay_retried_from_head [OF test_unpack_typed,
        where env = "sub_payload (test_subscription [])" and ?protobuf1.0 = test_requests] by blast
qed

text \<open>A client that was stopped then leaves its thread.\<close>

lemma stopped_thread_returns:
  assumes "unpack_typed protobuf" and "stream_ends protobuf rs sub client"
  shows "\<exists>client'. geyser_thread protobuf1 protobuf backoff ((True, sub, False) # subs) client = Done (client', [])"
proof -
  from stream_ends_returns [OF assms, of protobuf1] obtain client1 actions where
    "run_subscription protobuf1 protobuf sub client = Done (finish_subscription True (sub_status_details sub) client1, actions)" by blast
  then show ?thesis by (simp split: prod.split)
qed

section \<open>Everything is destroyed\<close>

text \<open>
  C13. Whenever a subscription returns, whatever gRPC answered on the way, every object it created
  has been destroyed exactly once, none is used after that, and none is created twice. Only when
  the first batch is refused are the two metadata arrays and the status text left behind.
\<close>

theorem subscription_releases_objects:
  assumes "run_subscription protobuf1 protobuf2 sub client = Done (result, actions)"
  shows "alive [] actions =
    Some (if build_subscribe_payload protobuf1 (sub_payload sub) client = Some None \<or> sub_batch_ok sub then []
          else [Status_Details, Trailing_Metadata, Recv_Initial_Metadata])"
  using assms
  by (auto simp: run_subscription_def cleanup_subscription_def close_channel_def Let_def alive_append
      split: option.splits if_splits outcome.splits prod.splits
      dest!: receive_loop_alive [where objects = "[Status_Details, Trailing_Metadata, Recv_Initial_Metadata, Call,
        Completion_Queue, Channel, Credentials]"])

theorem subscription_releases_objects_witness:
  "\<exists>result actions. run_subscription test_requests test_protobuf (test_subscription []) test_client = Done (result, actions) \<and>
    alive [] actions = Some []"
proof -
  from stream_ends_returns [OF test_unpack_typed test_stream_ends, of test_requests "[]"] obtain result actions where
    run: "run_subscription test_requests test_protobuf (test_subscription []) test_client = Done (result, actions)" by blast
  moreover have "sub_batch_ok (test_subscription [])" by (simp add: test_subscription_def)
  ultimately show ?thesis using subscription_releases_objects [OF run] by auto
qed

section \<open>Waiting for the endpoint\<close>

lemma cached_Cons: "cached (entry # entries) = (if used entry then cached_event entry # cached entries else cached entries)"
  by (simp add: cached_def)

lemma cached_Nil: "cached [] = []"
  by (simp add: cached_def)

lemma cq_wait_loop_member:
  "cq_wait_loop evs tag cache = Some (found, ev, cache', evs') \<Longrightarrow>
    ev \<in> set evs \<and> set evs' \<subseteq> set evs \<and> set (cached cache') \<subseteq> set (cached cache) \<union> set evs"
proof (induction evs tag cache rule: cq_wait_loop.induct)
  case (2 e evs tag cache)
  have "set (cached (cq_cache_store c e)) \<subseteq> insert e (set (cached c))" for c
    by (induction c e rule: cq_cache_store.induct) (auto simp: cached_Cons cached_Nil)
  with 2 show ?case by (fastforce split: if_splits)
qed simp

lemma cq_wait_member:
  assumes "cq_wait_for_tag evs tag cache = Some (found, ev, cache', evs')"
  shows "set evs' \<subseteq> set evs \<and> set (cached cache') \<subseteq> set (cached cache) \<union> set evs \<and>
    ev \<in> set evs \<union> set (cached cache) \<and> (ev_tag ev = tag \<or> ev_type ev = GRPC_QUEUE_SHUTDOWN)"
proof -
  have taken: "cq_cache_take c t = (Some e, c') \<Longrightarrow> e \<in> set (cached c) \<and> ev_tag e = t \<and> set (cached c') \<subseteq> set (cached c)" for c t e c'
    by (induction c t arbitrary: c' rule: cq_cache_take.induct) (auto simp: cached_Cons cached_Nil split: if_splits prod.splits)
  have kept: "cq_cache_take c t = (None, c') \<Longrightarrow> c' = c" for c t c'
    by (induction c t arbitrary: c' rule: cq_cache_take.induct) (auto split: if_splits prod.splits)
  have found: "cq_wait_loop es t c = Some (b, e, c', es') \<Longrightarrow> ev_tag e = t \<or> ev_type e = GRPC_QUEUE_SHUTDOWN" for es t c b e c' es'
    by (induction es t c rule: cq_wait_loop.induct) (auto split: if_splits)
  obtain out c where take: "cq_cache_take cache tag = (out, c)" by fastforce
  show ?thesis
  proof (cases out)
    case None
    then show ?thesis
      using assms take kept [of cache tag c] cq_wait_loop_member found by (fastforce simp: cq_wait_for_tag_def)
  next
    case (Some e)
    then show ?thesis using assms take taken [of cache tag e c] by (auto simp: cq_wait_for_tag_def)
  qed
qed

text \<open>Events that do not end the stream.\<close>

definition stream_open :: "grpc_event list \<Rightarrow> bool" where
  "stream_open evs \<longleftrightarrow> (\<forall>e \<in> set evs. ev_type e \<noteq> GRPC_QUEUE_SHUTDOWN \<and> ev_tag e \<noteq> 2)"

lemma wait_stays_open:
  assumes "cq_wait_for_tag evs tag cache = Some (found, ev, cache', evs')"
    and "stream_open evs" and "stream_open (cached cache)"
  shows "stream_open evs' \<and> stream_open (cached cache')"
  using cq_wait_member [OF assms(1)] assms(2,3) by (auto simp: stream_open_def)

lemma no_status: "stream_open evs \<Longrightarrow> stream_open (cached cache) \<Longrightarrow> cq_wait_for_tag evs 2 cache = None"
proof (rule ccontr)
  assume evs: "stream_open evs" "stream_open (cached cache)" and "cq_wait_for_tag evs 2 cache \<noteq> None"
  then obtain found ev cache' evs' where "cq_wait_for_tag evs 2 cache = Some (found, ev, cache', evs')" by auto
  from cq_wait_member [OF this] evs show False by (auto simp: stream_open_def)
qed

lemma receive_loop_open:
  "receive_loop protobuf rs client cache evs = Done (client', cache', evs', actions) \<Longrightarrow>
    stream_open evs \<Longrightarrow> stream_open (cached cache) \<Longrightarrow> stream_open evs' \<and> stream_open (cached cache')"
proof (induction protobuf rs client cache evs arbitrary: actions rule: receive_loop.induct)
  case (2 protobuf r rs client cache evs)
  show ?case
  proof (cases "cq_wait_for_tag evs 3 cache")
    case None
    then show ?thesis using 2 by (auto split: if_splits)
  next
    case (Some wait)
    then obtain found ev cache1 evs1 where wait: "cq_wait_for_tag evs 3 cache = Some (found, ev, cache1, evs1)"
      by (metis prod.collapse)
    note still = wait_stays_open [OF wait 2(3,4)]
    show ?thesis using 2(1) 2(2) 2(3,4) still wait
      by (auto split: if_splits option.splits outcome.splits prod.splits)
  qed
qed simp

text \<open>
  C12. Stopping the client does not stop its thread. Once the handshake has succeeded, neither the
  subscription nor the thread returns as long as the endpoint does not end the stream: the status
  it waits for is reported only then, nothing cancels the call, and the waits have no deadline.
  So \<open>geyser_client_stop\<close>, which clears the flag and joins the thread, waits for the endpoint.
\<close>

theorem stop_waits_for_endpoint:
  assumes "build_subscribe_payload protobuf1 (sub_payload sub) client = Some (Some payload)" and "sub_batch_ok sub"
    and "cq_wait_for_tag (sub_events sub) 1 empty_cache = Some (True, ev, cache, evs)" and "ev_success ev"
    and "stream_open (sub_events sub)"
  shows "run_subscription protobuf1 protobuf2 sub client \<noteq> Done result \<and>
    geyser_thread protobuf1 protobuf2 backoff ((True, sub, still_running) # subs) client \<noteq> Done result'"
proof -
  have "stream_open evs \<and> stream_open (cached cache)"
    using wait_stays_open [OF assms(3,5)] by (simp add: stream_open_def)
  then have "run_subscription protobuf1 protobuf2 sub client \<noteq> Done result" for result
    using assms(1-4) no_status receive_loop_open [of protobuf2 "sub_receives sub" client cache evs]
    by (auto simp: run_subscription_def Let_def split: outcome.splits)
  then show ?thesis by (auto split: outcome.splits)
qed

theorem stop_waits_for_endpoint_witness:
  "\<forall>result. run_subscription test_requests test_protobuf
      ((test_subscription [])\<lparr>sub_receives := [test_receive False], sub_events := [op_complete 1]\<rparr>) test_client \<noteq> Done result"
proof -
  let ?sub = "(test_subscription [])\<lparr>sub_receives := [test_receive False], sub_events := [op_complete 1]\<rparr>"
  have "\<And>n. payload_malloc (sub_payload ?sub) n \<noteq> None" by (simp add: test_subscription_def)
  from payload_defined [OF this] obtain payload
    where payload: "build_subscribe_payload test_requests (sub_payload ?sub) test_client = Some (Some payload)" by blast
  have "cq_wait_for_tag (sub_events ?sub) 1 empty_cache = Some (True, op_complete 1, empty_cache, [])"
    by (simp add: wait_at_once op_complete_def del: One_nat_def)
  moreover have "sub_batch_ok ?sub" "ev_success (op_complete 1)" "stream_open (sub_events ?sub)"
    by (simp_all add: test_subscription_def op_complete_def stream_open_def)
  ultimately show ?thesis using stop_waits_for_endpoint [OF payload] by blast
qed

section \<open>The pauses of the thread\<close>

lemma geyser_thread_sleeps_eq:
  "geyser_thread protobuf1 protobuf2 backoff subs client = Done (client', sleeps) \<Longrightarrow>
    \<exists>oks. length oks = length sleeps \<and> sleeps = geyser_thread_sleeps backoff (map (\<lambda>ok. (ok, True)) oks)"
proof (induction protobuf1 protobuf2 backoff subs client arbitrary: sleeps rule: geyser_thread.induct)
  case (2 protobuf1 protobuf2 backoff running sub still_running subs client)
  show ?case
  proof (cases "running \<and> still_running")
    case False
    then have "sleeps = []" using 2(2) by (auto split: if_splits outcome.splits)
    then show ?thesis by simp
  next
    case True
    with 2(2) obtain ok client1 actions where run: "run_subscription protobuf1 protobuf2 sub client = Done ((ok, client1), actions)"
      by (auto split: outcome.splits)
    define next_b where "next_b = (if ok then 1 else if backoff < 32 then backoff * 2 else backoff)"
    from 2(2) True run obtain sleeps' where loop: "geyser_thread protobuf1 protobuf2 next_b subs client1 = Done (client', sleeps')"
      and sleeps: "sleeps = backoff # sleeps'"
      by (auto simp: next_b_def Let_def split: outcome.splits)
    have "\<exists>oks. length oks = length sleeps' \<and> sleeps' = geyser_thread_sleeps next_b (map (\<lambda>ok. (ok, True)) oks)"
      using 2(1) True run loop unfolding next_b_def by (simp add: Let_def)
    then obtain oks where "length oks = length sleeps'" "sleeps' = geyser_thread_sleeps next_b (map (\<lambda>ok. (ok, True)) oks)" by blast
    then show ?thesis
      by (intro exI [of _ "ok # oks"]) (simp add: sleeps next_b_def Let_def)
  qed
qed simp

text \<open>
  The thread's pauses. Between two subscriptions the thread sleeps a power of two between one
  second and 32; the pauses double with every failed subscription, up to 32, and start again at
  one after a subscription that worked (whose own pause is still the old one).
\<close>

theorem thread_backs_off:
  assumes "geyser_thread protobuf1 protobuf2 1 subs client = Done (client', sleeps)"
  shows "set sleeps \<subseteq> {1, 2, 4, 8, 16, 32} \<and>
    (\<exists>oks. length oks = length sleeps \<and> (\<forall>i. Suc i < length sleeps \<longrightarrow>
       sleeps ! Suc i = (if oks ! i then 1 else min (2 * sleeps ! i) 32)) \<and> (sleeps \<noteq> [] \<longrightarrow> sleeps ! 0 = 1))"
proof -
  have step: "b \<in> {1, 2, 4, 8, 16, 32} \<Longrightarrow>
    (\<forall>i. Suc i < length oks \<longrightarrow> geyser_thread_sleeps b (map (\<lambda>ok. (ok, True)) oks) ! Suc i =
      (if oks ! i then 1 else min (2 * geyser_thread_sleeps b (map (\<lambda>ok. (ok, True)) oks) ! i) 32)) \<and>
    (oks \<noteq> [] \<longrightarrow> geyser_thread_sleeps b (map (\<lambda>ok. (ok, True)) oks) ! 0 = b)" for b oks
  proof (induction oks arbitrary: b)
    case (Cons ok oks)
    let ?next = "if ok then 1 else next_backoff b"
    have next_in: "?next \<in> {1, 2, 4, 8, 16, 32}" and double: "next_backoff b = min (2 * b) 32"
      using Cons.prems by (auto simp: next_backoff_def)
    note IH = Cons.IH [OF next_in]
    have tail: "geyser_thread_sleeps b (map (\<lambda>ok. (ok, True)) (ok # oks)) =
        b # geyser_thread_sleeps ?next (map (\<lambda>ok. (ok, True)) oks)"
      by (simp only: list.map sleeps_Cons)
    show ?case
    proof (intro conjI allI impI)
      fix i assume i: "Suc i < length (ok # oks)"
      show "geyser_thread_sleeps b (map (\<lambda>ok. (ok, True)) (ok # oks)) ! Suc i =
        (if (ok # oks) ! i then 1 else min (2 * geyser_thread_sleeps b (map (\<lambda>ok. (ok, True)) (ok # oks)) ! i) 32)"
        using i IH double unfolding tail by (cases i) auto
    qed (simp add: tail del: list.map)
  qed simp
  from geyser_thread_sleeps_eq [OF assms] obtain oks where "length oks = length sleeps"
    and "sleeps = geyser_thread_sleeps 1 (map (\<lambda>ok. (ok, True)) oks)" by blast
  with step [of 1 oks] sleeps_range [of 1 "map (\<lambda>ok. (ok, True)) oks"] show ?thesis
    by (intro conjI exI [of _ oks]) auto
qed

theorem thread_backs_off_witness:
  "\<exists>client' sleeps. geyser_thread test_requests test_protobuf 1
      [(True, test_subscription [], True), (False, test_subscription [], False)] test_client = Done (client', sleeps) \<and>
    set sleeps \<subseteq> {1, 2, 4, 8, 16, 32}"
proof -
  from stream_ends_returns [OF test_unpack_typed test_stream_ends, of test_requests "[]"] obtain client1 actions where
    "run_subscription test_requests test_protobuf (test_subscription []) test_client =
      Done (finish_subscription True (sub_status_details (test_subscription [])) client1, actions)" by blast
  then have "\<exists>client' sleeps. geyser_thread test_requests test_protobuf 1
      [(True, test_subscription [], True), (False, test_subscription [], False)] test_client = Done (client', sleeps)"
    by (simp add: Let_def split: prod.split)
  then show ?thesis using thread_backs_off by blast
qed

end
