(* ===== verification/Db_Writer.thy ===== *)
theory Db_Writer
  imports Base58 Event_Queue "HOL-Library.Signed_Division"
begin

text \<open>
  \<^verbatim>\<open>src/src/db_writer.c\<close>: the database thread. It takes events from the queue, collects them in
  two batches and writes each batch with one multi-row \<open>INSERT\<close>. libpq is not part of the
  repository: what it answers, the outcomes of the allocations and the clock are the
  parameters of each flush and each loop iteration. \<open>None\<close> is a store outside a batch array
  or an \<open>snprintf\<close> past the end of the query buffer. What the thread does over its whole life is
  in \<open>Writer_Runs\<close>.
\<close>

definition BATCH_SIZE :: nat where "BATCH_SIZE = 100"
definition FLUSH_INTERVAL_MS :: nat where "FLUSH_INTERVAL_MS = 50"

record timeval =
  tv_sec :: int
  tv_usec :: int

record db_writer =
  connected :: bool
  db_running :: bool
  pumpfun_batch :: "yurei_event_t list"
  pumpfun_count :: nat
  raydium_batch :: "yurei_event_t list"
  raydium_count :: nat
  last_flush :: timeval

text \<open>
  What the surroundings answer during one flush: the status of a fresh connection and of an
  existing one, \<open>malloc\<close>, the encoder's allocations (row and field), \<open>PQexec\<close>, and the
  milliseconds that pass.
\<close>

record db_env =
  connect_ok :: bool
  status_ok :: bool
  malloc_ok :: bool
  encode_ok :: "nat \<Rightarrow> nat \<Rightarrow> bool"
  exec_ok :: bool
  latency_ms :: u64

section \<open>The connection\<close>

text \<open>A connection object that is not usable is finished and forgotten.\<close>

definition ensure_connection ::
  "db_env \<Rightarrow> db_writer \<Rightarrow> yurei_metrics_t \<Rightarrow> bool \<times> db_writer \<times> yurei_metrics_t" where
  "ensure_connection env writer m =
     (let fresh = \<not> connected writer;
          writer = writer\<lparr>connected := True\<rparr>;
          m = (if fresh \<and> connect_ok env then metrics_inc_db_reconnect m else m);
          ok = (if fresh then connect_ok env else status_ok env)
      in if \<not> ok then (False, writer\<lparr>connected := False\<rparr>, m)
         else (True, writer, m))"

section \<open>Building a query\<close>

text \<open>\<open>%lu\<close>\<close>

definition print_lu :: "u64 \<Rightarrow> string" where
  "print_lu n = (if n = 0 then ''0'' else map (\<lambda>d. char_of (48 + d)) (to_digits 10 (unat n)))"

text \<open>
  \<open>offset += snprintf(query + offset, buf_size - offset, ...)\<close>: the buffer's text, cut to what
  fits with its terminator, and the offset, which counts what would have been printed.
\<close>

definition snprintf_at :: "nat \<Rightarrow> string \<Rightarrow> string \<times> nat \<Rightarrow> (string \<times> nat) checked" where
  "snprintf_at buf_size s query =
     (case query of (printed, offset) \<Rightarrow>
        if buf_size < offset then None
        else Some (printed @ take (buf_size - offset - 1) s, offset + length s))"

text \<open>A key as text in a \<open>char[64]\<close>, \<open>None\<close> if the encoder fails.\<close>

definition key_text :: "bool \<Rightarrow> byte list \<Rightarrow> string option" where
  "key_text ok key =
     (case base58_encode ok key (replicate 64 CHR 0x00) 64 of
        (n, arr) \<Rightarrow> if n < 0 then None else Some (c_str arr))"

text \<open>The union's members; the loops only see events of their own type.\<close>

definition event_trade :: "yurei_event_t \<Rightarrow> yurei_pumpfun_trade_t" where
  "event_trade event = (case event_data event of Pumpfun_Trade t \<Rightarrow> t | Raydium_Swap _ \<Rightarrow> zero_trade)"

definition event_swap :: "yurei_event_t \<Rightarrow> yurei_raydium_swap_t" where
  "event_swap event = (case event_data event of Raydium_Swap s \<Rightarrow> s | Pumpfun_Trade _ \<Rightarrow> zero_swap)"

text \<open>One row, without the comma; \<open>None\<close> is the \<open>continue\<close>.\<close>

definition pumpfun_row :: "(nat \<Rightarrow> bool) \<Rightarrow> yurei_event_t \<Rightarrow> string option" where
  "pumpfun_row ok event =
     (let t = event_trade event in
      case (key_text (ok 0) (mint t), key_text (ok 1) (trader t), key_text (ok 2) (creator t)) of
        (Some mint_b58, Some trader_b58, Some creator_b58) \<Rightarrow>
          Some (''('' @ print_lu (trade_slot t) @ '','' @
            CHR 0x27 # c_str (event_signature event) @ [CHR 0x27, CHR '','', CHR 0x27] @
            mint_b58 @ [CHR 0x27, CHR '','', CHR 0x27] @ trader_b58 @ [CHR 0x27, CHR '','', CHR 0x27] @
            creator_b58 @ [CHR 0x27, CHR '','', CHR 0x27] @ (if is_buy t then ''BUY'' else ''SELL'') @ [CHR 0x27] @ '','' @
            print_lu (sol_amount t) @ '','' @ print_lu (token_amount t) @ '','' @
            print_lu (fee_basis_points t) @ '','' @ print_lu (fee_lamports t) @ '','' @
            print_lu (creator_fee_basis_points t) @ '','' @ print_lu (creator_fee_lamports t) @ '','' @
            print_lu (virtual_sol_reserves t) @ '','' @ print_lu (virtual_token_reserves t) @ '','' @
            print_lu (real_sol_reserves t) @ '','' @ print_lu (real_token_reserves t) @ '')'')
      | _ \<Rightarrow> None)"

definition raydium_row :: "(nat \<Rightarrow> bool) \<Rightarrow> yurei_event_t \<Rightarrow> string option" where
  "raydium_row ok event =
     (let s = event_swap event in
      case (key_text (ok 0) (amm s), key_text (ok 1) (user_source_owner s)) of
        (Some amm_b58, Some owner_b58) \<Rightarrow>
          Some (''('' @ print_lu (swap_slot s) @ '','' @
            CHR 0x27 # c_str (event_signature event) @ [CHR 0x27, CHR '','', CHR 0x27] @
            amm_b58 @ [CHR 0x27, CHR '','', CHR 0x27] @ owner_b58 @ [CHR 0x27] @ '','' @
            print_lu (amount_in s) @ '','' @ print_lu (amount_out s) @ '')'')
      | _ \<Rightarrow> None)"

text \<open>The loop over the batch from index \<open>i\<close>, the same in both flushes.\<close>

fun append_rows ::
  "(nat \<Rightarrow> yurei_event_t \<Rightarrow> string option) \<Rightarrow> nat \<Rightarrow> nat \<Rightarrow> yurei_event_t list \<Rightarrow> string \<times> nat \<Rightarrow> (string \<times> nat) checked" where
  "append_rows row buf_size i [] query = Some query"
| "append_rows row buf_size i (event # events) query =
     (case row i event of
        None \<Rightarrow> append_rows row buf_size (Suc i) events query
      | Some values \<Rightarrow>
          (case (if i > 0 then snprintf_at buf_size '','' query else Some query) of
             None \<Rightarrow> None
           | Some query \<Rightarrow>
               (case snprintf_at buf_size values query of
                  None \<Rightarrow> None
                | Some query \<Rightarrow> append_rows row buf_size (Suc i) events query)))"

definition pumpfun_insert :: string where
  "pumpfun_insert =
     ''INSERT INTO pumpfun_trades (slot, tx_signature, mint, trader, creator, side, '' @
     ''sol_amount, token_amount, fee_bps, fee_lamports, creator_fee_bps, creator_fee_lamports, '' @
     ''virtual_sol_reserves, virtual_token_reserves, real_sol_reserves, real_token_reserves) VALUES ''"

definition raydium_insert :: string where
  "raydium_insert =
     ''INSERT INTO raydium_swaps (slot, tx_signature, pool, user_owner, amount_in, amount_out) VALUES ''"

text \<open>\<open>strcpy\<close> of the head, then the rows.\<close>

definition build_query ::
  "(nat \<Rightarrow> yurei_event_t \<Rightarrow> string option) \<Rightarrow> string \<Rightarrow> nat \<Rightarrow> yurei_event_t list \<Rightarrow> string checked" where
  "build_query row stmt buf_size events =
     (if buf_size \<le> length stmt then None
      else map_option fst (append_rows row buf_size 0 events (stmt, length stmt)))"

section \<open>Flushing\<close>

text \<open>The result, the state, and the query that was sent, if any.\<close>

definition flush_pumpfun_batch ::
  "db_env \<Rightarrow> db_writer \<Rightarrow> yurei_metrics_t \<Rightarrow> (bool \<times> db_writer \<times> yurei_metrics_t \<times> string option) checked" where
  "flush_pumpfun_batch env writer m =
     (if pumpfun_count writer = 0 then Some (True, writer, m, None)
      else case ensure_connection env writer m of
        (False, writer, m) \<Rightarrow> Some (False, writer, m, None)
      | (True, writer, m) \<Rightarrow>
          if \<not> malloc_ok env then Some (False, writer, m, None)
          else (case build_query (\<lambda>i. pumpfun_row (encode_ok env i)) pumpfun_insert (512 + pumpfun_count writer * 600)
                       (take (pumpfun_count writer) (pumpfun_batch writer)) of
                  None \<Rightarrow> None
                | Some query \<Rightarrow>
                    (let m = metrics_add_db_latency (latency_ms env * 1000) m in
                     if \<not> exec_ok env then Some (False, writer, metrics_inc_db_failed m, Some query)
                     else let m = ((metrics_inc_pumpfun \<circ> metrics_inc_db_success) ^^ pumpfun_count writer) m;
                              m = metrics_inc_db_batch m
                          in Some (True, writer\<lparr>pumpfun_count := 0\<rparr>, m, Some query))))"

definition flush_raydium_batch ::
  "db_env \<Rightarrow> db_writer \<Rightarrow> yurei_metrics_t \<Rightarrow> (bool \<times> db_writer \<times> yurei_metrics_t \<times> string option) checked" where
  "flush_raydium_batch env writer m =
     (if raydium_count writer = 0 then Some (True, writer, m, None)
      else case ensure_connection env writer m of
        (False, writer, m) \<Rightarrow> Some (False, writer, m, None)
      | (True, writer, m) \<Rightarrow>
          if \<not> malloc_ok env then Some (False, writer, m, None)
          else (case build_query (\<lambda>i. raydium_row (encode_ok env i)) raydium_insert (256 + raydium_count writer * 300)
                       (take (raydium_count writer) (raydium_batch writer)) of
                  None \<Rightarrow> None
                | Some query \<Rightarrow>
                    (let m = metrics_add_db_latency (latency_ms env * 1000) m in
                     if \<not> exec_ok env then Some (False, writer, metrics_inc_db_failed m, Some query)
                     else let m = ((metrics_inc_raydium \<circ> metrics_inc_db_success) ^^ raydium_count writer) m;
                              m = metrics_inc_db_batch m
                          in Some (True, writer\<lparr>raydium_count := 0\<rparr>, m, Some query))))"

text \<open>The results of the two flushes are ignored; the pair is the two queries.\<close>

definition flush_all_batches ::
  "db_env \<Rightarrow> db_env \<Rightarrow> timeval \<Rightarrow> db_writer \<Rightarrow> yurei_metrics_t \<Rightarrow>
   (db_writer \<times> yurei_metrics_t \<times> string option \<times> string option) checked" where
  "flush_all_batches env1 env2 now writer m =
     (case flush_pumpfun_batch env1 writer m of
        None \<Rightarrow> None
      | Some (_, writer, m, query1) \<Rightarrow>
          (case flush_raydium_batch env2 writer m of
             None \<Rightarrow> None
           | Some (_, writer, m, query2) \<Rightarrow> Some (writer\<lparr>last_flush := now\<rparr>, m, query1, query2)))"

text \<open>\<open>/\<close> truncates towards zero; the sum is converted to \<open>uint64_t\<close>.\<close>

definition should_flush_timer :: "timeval \<Rightarrow> db_writer \<Rightarrow> bool" where
  "should_flush_timer now writer \<longleftrightarrow>
     (let elapsed_ms = word_of_int ((tv_sec now - tv_sec (last_flush writer)) * 1000 +
            (tv_usec now - tv_usec (last_flush writer)) sdiv 1000) :: u64
      in word_of_nat FLUSH_INTERVAL_MS \<le> elapsed_ms)"

section \<open>The main loop\<close>

text \<open>
  The surroundings of one iteration: the flush after a full batch, the two flushes of the
  timer, and the clock when the timer is checked and when it is restarted.
\<close>

record loop_env =
  full_env :: db_env
  timer_env1 :: db_env
  timer_env2 :: db_env
  check_time :: timeval
  flush_time :: timeval

text \<open>An iteration's state is the writer, the counters and the queue; the queries it sent.\<close>

definition timer_flush ::
  "loop_env \<Rightarrow> db_writer \<Rightarrow> yurei_metrics_t \<Rightarrow> (db_writer \<times> yurei_metrics_t \<times> string option list) checked" where
  "timer_flush env writer m =
     (if should_flush_timer (check_time env) writer
      then map_option (\<lambda>(writer, m, query1, query2). (writer, m, [query1, query2]))
             (flush_all_batches (timer_env1 env) (timer_env2 env) (flush_time env) writer m)
      else Some (writer, m, []))"

definition store_event ::
  "db_env \<Rightarrow> yurei_event_t \<Rightarrow> db_writer \<Rightarrow> yurei_metrics_t \<Rightarrow>
   (db_writer \<times> yurei_metrics_t \<times> string option list) checked" where
  "store_event env event writer m =
     (case event_type event of
        YUREI_EVENT_PUMPFUN_TRADE \<Rightarrow>
          if length (pumpfun_batch writer) \<le> pumpfun_count writer then None
          else let writer = writer\<lparr>pumpfun_batch := (pumpfun_batch writer)[pumpfun_count writer := event],
                                   pumpfun_count := pumpfun_count writer + 1\<rparr>
               in if BATCH_SIZE \<le> pumpfun_count writer
                  then map_option (\<lambda>(_, writer, m, query). (writer, m, [query])) (flush_pumpfun_batch env writer m)
                  else Some (writer, m, [])
      | YUREI_EVENT_RAYDIUM_SWAP \<Rightarrow>
          if length (raydium_batch writer) \<le> raydium_count writer then None
          else let writer = writer\<lparr>raydium_batch := (raydium_batch writer)[raydium_count writer := event],
                                   raydium_count := raydium_count writer + 1\<rparr>
               in if BATCH_SIZE \<le> raydium_count writer
                  then map_option (\<lambda>(_, writer, m, query). (writer, m, [query])) (flush_raydium_batch env writer m)
                  else Some (writer, m, [])
      | YUREI_EVENT_NONE \<Rightarrow> Some (writer, m, []))"

definition db_writer_iteration ::
  "loop_env \<Rightarrow> db_writer \<Rightarrow> yurei_metrics_t \<Rightarrow> yurei_event_queue \<Rightarrow>
   (db_writer \<times> yurei_metrics_t \<times> yurei_event_queue \<times> string option list) checked" where
  "db_writer_iteration env writer m q =
     (case event_queue_pop_section q m False of
        Some (Return (Some event), q, m) \<Rightarrow>
          (case store_event (full_env env) event writer (metrics_inc_events_total m) of
             None \<Rightarrow> None
           | Some (writer, m, queries) \<Rightarrow>
               map_option (\<lambda>(writer, m, queries'). (writer, m, q, queries @ queries')) (timer_flush env writer m))
      | Some (Return None, q, m) \<Rightarrow>
          map_option (\<lambda>(writer, m, queries). (writer, m, q, queries)) (timer_flush env writer m)
      | _ \<Rightarrow> None)"

text \<open>\<open>params\<close> is a null pointer or not; the allocation and the thread's creation may fail.\<close>

definition db_writer_start :: "bool \<Rightarrow> bool \<Rightarrow> bool \<Rightarrow> db_writer option" where
  "db_writer_start params_ok calloc_ok thread_ok =
     (if \<not> params_ok then None
      else if \<not> calloc_ok then None
      else let writer = \<lparr>connected = False, db_running = True,
             pumpfun_batch = replicate BATCH_SIZE zero_event, pumpfun_count = 0,
             raydium_batch = replicate BATCH_SIZE zero_event, raydium_count = 0,
             last_flush = \<lparr>tv_sec = 0, tv_usec = 0\<rparr>\<rparr>
           in if \<not> thread_ok then None else Some writer)"

definition db_writer_stop :: "db_writer \<Rightarrow> yurei_event_queue \<Rightarrow> db_writer \<times> yurei_event_queue" where
  "db_writer_stop writer q = (writer\<lparr>db_running := False\<rparr>, event_queue_close q)"

text \<open>
  What the other threads do between two iterations, in their order: the ingest thread pushes an
  event (a push that finds the queue full changes nothing yet and is tried again later), the
  main thread stops the writer.
\<close>

datatype other_action = Push_Event yurei_event_t | Stop_Writer

fun others_act ::
  "other_action list \<Rightarrow> db_writer \<Rightarrow> yurei_metrics_t \<Rightarrow> yurei_event_queue \<Rightarrow>
   (db_writer \<times> yurei_metrics_t \<times> yurei_event_queue) checked" where
  "others_act [] writer m q = Some (writer, m, q)"
| "others_act (Push_Event event # actions) writer m q =
     (case event_queue_push_section q m event of
        None \<Rightarrow> None
      | Some (r, q, m) \<Rightarrow> others_act actions writer m q)"
| "others_act (Stop_Writer # actions) writer m q =
     (case db_writer_stop writer q of (writer, q) \<Rightarrow> others_act actions writer m q)"

text \<open>
  An entry is one pass: its surroundings, and what the others have done when \<open>running\<close> is read at
  the head of the loop. The loop ends when it is false; where the entries end it is still running.
  Then come the final flush and the end of the connection.
\<close>

fun db_writer_loop ::
  "(loop_env \<times> other_action list) list \<Rightarrow> db_writer \<Rightarrow> yurei_metrics_t \<Rightarrow> yurei_event_queue \<Rightarrow>
   (db_writer \<times> yurei_metrics_t \<times> yurei_event_queue \<times> string option list) outcome" where
  "db_writer_loop [] writer m q = Blocks"
| "db_writer_loop ((env, others) # passes) writer m q =
     (case others_act others writer m q of
        None \<Rightarrow> Undefined
      | Some (writer, m, q) \<Rightarrow>
          if \<not> db_running writer then Done (writer, m, q, [])
          else (case db_writer_iteration env writer m q of
                  None \<Rightarrow> Undefined
                | Some (writer, m, q, queries) \<Rightarrow>
                    (case db_writer_loop passes writer m q of
                       Blocks \<Rightarrow> Blocks
                     | Undefined \<Rightarrow> Undefined
                     | Done (writer, m, q, queries') \<Rightarrow> Done (writer, m, q, queries @ queries'))))"

definition db_writer_main ::
  "timeval \<Rightarrow> (loop_env \<times> other_action list) list \<Rightarrow> loop_env \<Rightarrow>
   db_writer \<Rightarrow> yurei_metrics_t \<Rightarrow> yurei_event_queue \<Rightarrow>
   (db_writer \<times> yurei_metrics_t \<times> yurei_event_queue \<times> string option list) outcome" where
  "db_writer_main start passes final writer m q =
     (case db_writer_loop passes (writer\<lparr>last_flush := start\<rparr>) m q of
        Blocks \<Rightarrow> Blocks
      | Undefined \<Rightarrow> Undefined
      | Done (writer, m, q, queries) \<Rightarrow>
          (case flush_all_batches (timer_env1 final) (timer_env2 final) (flush_time final) writer m of
             None \<Rightarrow> Undefined
           | Some (writer, m, query1, query2) \<Rightarrow>
               Done (writer\<lparr>connected := False\<rparr>, m, q, queries @ [query1, query2])))"

section \<open>The text of a query\<close>

lemma length_print_lu: "length (print_lu n) \<le> 20"
proof -
  have "unat n < 2 ^ LENGTH(64)" by (rule unsigned_less)
  then have "unat n < 10 ^ 20" by simp
  then have "length (to_digits 10 (unat n)) \<le> 20" by (intro length_to_digits_le) simp_all
  then show ?thesis by (simp add: print_lu_def)
qed

lemma key_text_eq:
  assumes "length key = 32"
  shows "key_text ok key = (if ok then Some (base58_text key) else None)"
proof (cases ok)
  case True
  have "CHR 0x00 \<notin> set (base58_text key)" using base58_text_alphabet [of key] ALPHABET_ascii by blast
  then show ?thesis
    using length_base58_text_32 [OF assms] True
    by (simp add: key_text_def base58_encode_correct size_to_int_id mem_write_0 c_str_append)
qed (simp add: key_text_def base58_encode_def Let_def)

fun comma_join :: "string list \<Rightarrow> string" where
  "comma_join [] = []"
| "comma_join (s # ss) = s @ concat (map (\<lambda>s. CHR '','' # s) ss)"

text \<open>What every printf of a batch relies on.\<close>

locale insert_rows =
  fixes row :: "(nat \<Rightarrow> bool) \<Rightarrow> yurei_event_t \<Rightarrow> string option"
    and stmt :: string and head_room row_room :: nat
    and good :: "yurei_event_t \<Rightarrow> bool"
  assumes row_fits: "good event \<Longrightarrow> row ok event = Some s \<Longrightarrow> Suc (length s) \<le> row_room"
    and row_there: "good event \<Longrightarrow> \<forall>k. ok k \<Longrightarrow> row ok event \<noteq> None"
    and stmt_fits: "length stmt < head_room"
begin

lemma rows_fit:
  "\<forall>event \<in> set events. good event \<Longrightarrow> offset + length events * row_room < buf_size \<Longrightarrow> length printed = offset \<Longrightarrow>
    \<exists>more. append_rows (\<lambda>i. row (ok i)) buf_size i events (printed, offset) =
      Some (printed @ more, offset + length more) \<and> length more \<le> length events * row_room"
proof (induction events arbitrary: i offset printed)
  case Nil
  then show ?case by simp
next
  case (Cons event events)
  then have good: "\<forall>event \<in> set events. good event" by simp
  show ?case
  proof (cases "row (ok i) event")
    case None
    have "offset + length events * row_room < buf_size" using Cons.prems(2) by simp
    from Cons.IH [OF good this Cons.prems(3), of "Suc i"] show ?thesis
      by (auto simp: None intro: trans_le_add2)
  next
    case (Some s)
    then have fits: "Suc (length s) \<le> row_room" using row_fits Cons.prems(1) by auto
    define sep where "sep = (if i > 0 then '','' else [])"
    have sep: "length sep \<le> 1" by (simp add: sep_def)
    have room: "offset + Suc (length s) + length events * row_room < buf_size"
      using Cons.prems(2) fits by simp
    have first: "(if i > 0 then snprintf_at buf_size '','' (printed, offset) else Some (printed, offset)) =
        Some (printed @ sep, offset + length sep)"
      using room by (simp add: snprintf_at_def sep_def)
    have second: "snprintf_at buf_size s (printed @ sep, offset + length sep) =
        Some (printed @ sep @ s, offset + length (sep @ s))"
      using room sep by (simp add: snprintf_at_def)
    have "offset + length (sep @ s) + length events * row_room < buf_size"
      using room sep by simp
    from Cons.IH [OF good this, of "printed @ sep @ s" "Suc i"] Cons.prems(3)
    obtain more where "append_rows (\<lambda>i. row (ok i)) buf_size (Suc i) events (printed @ sep @ s, offset + length (sep @ s)) =
        Some ((printed @ sep @ s) @ more, offset + length (sep @ s) + length more)"
      and "length more \<le> length events * row_room" by auto
    then show ?thesis
      using first second Some sep fits by (intro exI [of _ "sep @ s @ more"]) simp
  qed
qed

lemma query_fits:
  assumes "\<forall>event \<in> set events. good event"
  shows "\<exists>text. build_query (\<lambda>i. row (ok i)) stmt (head_room + length events * row_room) events = Some (stmt @ text) \<and>
    length (stmt @ text) < head_room + length events * row_room"
proof -
  have room: "length stmt + length events * row_room < head_room + length events * row_room" using stmt_fits by simp
  obtain more where "append_rows (\<lambda>i. row (ok i)) (head_room + length events * row_room) 0 events (stmt, length stmt) =
      Some (stmt @ more, length stmt + length more)" "length more \<le> length events * row_room"
    using rows_fit [OF assms room refl, of ok 0] by blast
  with room show ?thesis by (simp add: build_query_def)
qed

lemma rows_exact:
  "\<forall>event \<in> set events. good event \<Longrightarrow> offset + length events * row_room < buf_size \<Longrightarrow> length printed = offset \<Longrightarrow>
    append_rows (\<lambda>i. row (\<lambda>_. True)) buf_size i events (printed, offset) =
      (let more = (if i = 0 then comma_join (map (\<lambda>e. the (row (\<lambda>_. True) e)) events)
                   else concat (map (\<lambda>e. CHR '','' # the (row (\<lambda>_. True) e)) events))
       in Some (printed @ more, offset + length more))"
proof (induction events arbitrary: i offset printed)
  case Nil
  then show ?case by simp
next
  case (Cons event events)
  then have good: "\<forall>event \<in> set events. good event" "good event" by simp_all
  obtain s where s: "row (\<lambda>_. True) event = Some s" using row_there [OF good(2), of "\<lambda>_. True"] by auto
  with good(2) have fits: "Suc (length s) \<le> row_room" by (rule row_fits)
  define sep where "sep = (if i > 0 then '','' else [])"
  have sep: "length sep \<le> 1" by (simp add: sep_def)
  have room: "offset + Suc (length s) + length events * row_room < buf_size"
    using Cons.prems(2) fits by simp
  have first: "(if i > 0 then snprintf_at buf_size '','' (printed, offset) else Some (printed, offset)) =
      Some (printed @ sep, offset + length sep)"
    using room by (simp add: snprintf_at_def sep_def)
  have second: "snprintf_at buf_size s (printed @ sep, offset + length sep) =
      Some (printed @ sep @ s, offset + length (sep @ s))"
    using room sep by (simp add: snprintf_at_def)
  have "offset + length (sep @ s) + length events * row_room < buf_size"
    using room sep by simp
  from Cons.IH [OF good(1) this, of "printed @ sep @ s" "Suc i"] Cons.prems(3)
  show ?case using first second s by (auto simp: sep_def Let_def o_def)
qed

lemma query_exact:
  assumes "\<forall>event \<in> set events. good event"
  shows "build_query (\<lambda>i. row (\<lambda>_. True)) stmt (head_room + length events * row_room) events =
    Some (stmt @ comma_join (map (\<lambda>e. the (row (\<lambda>_. True) e)) events))"
proof -
  have "length stmt + length events * row_room < head_room + length events * row_room" using stmt_fits by simp
  from rows_exact [OF assms this refl, of 0] stmt_fits show ?thesis by (simp add: build_query_def Let_def)
qed

end

definition good_trade :: "yurei_event_t \<Rightarrow> bool" where
  "good_trade event \<longleftrightarrow> event_wf event \<and> event_type event = YUREI_EVENT_PUMPFUN_TRADE"

definition good_swap :: "yurei_event_t \<Rightarrow> bool" where
  "good_swap event \<longleftrightarrow> event_wf event \<and> event_type event = YUREI_EVENT_RAYDIUM_SWAP"

lemma good_trade_keys:
  "good_trade event \<Longrightarrow> length (mint (event_trade event)) = 32 \<and> length (trader (event_trade event)) = 32 \<and>
    length (creator (event_trade event)) = 32"
  by (auto simp: good_trade_def event_wf_def event_trade_def trade_wf_def split: yurei_event_data.splits)

lemma good_swap_keys:
  "good_swap event \<Longrightarrow> length (amm (event_swap event)) = 32 \<and> length (user_source_owner (event_swap event)) = 32"
  by (auto simp: good_swap_def event_wf_def event_swap_def swap_wf_def split: yurei_event_data.splits)

lemma length_c_str_signature: "event_wf event \<Longrightarrow> length (c_str (event_signature event)) \<le> 87"
proof -
  assume wf: "event_wf event"
  then have "takeWhile (\<lambda>c. c \<noteq> CHR 0x00) (event_signature event) \<noteq> event_signature event"
    by (auto simp: event_wf_def takeWhile_eq_all_conv)
  then have "length (takeWhile (\<lambda>c. c \<noteq> CHR 0x00) (event_signature event)) \<noteq> length (event_signature event)"
    by (metis takeWhile_eq_take take_all order_refl)
  with length_takeWhile_le [of "\<lambda>c. c \<noteq> CHR 0x00" "event_signature event"] wf show ?thesis
    by (simp add: c_str_def event_wf_def YUREI_MAX_SIGNATURE_LEN_def)
qed

lemma pumpfun_row_fits:
  assumes "good_trade event" and "pumpfun_row ok event = Some s"
  shows "length s \<le> 470"
proof -
  note keys = good_trade_keys [OF assms(1)]
  have sig: "length (c_str (event_signature event)) \<le> 87"
    using assms(1) length_c_str_signature by (simp add: good_trade_def)
  have k: "length (base58_text (mint (event_trade event))) \<le> 44" "length (base58_text (trader (event_trade event))) \<le> 44"
    "length (base58_text (creator (event_trade event))) \<le> 44"
    using keys length_base58_text_32 by simp_all
  note n = length_print_lu
  show ?thesis
    using assms(2) keys sig k n [of "trade_slot (event_trade event)"] n [of "sol_amount (event_trade event)"]
      n [of "token_amount (event_trade event)"] n [of "fee_basis_points (event_trade event)"]
      n [of "fee_lamports (event_trade event)"] n [of "creator_fee_basis_points (event_trade event)"]
      n [of "creator_fee_lamports (event_trade event)"] n [of "virtual_sol_reserves (event_trade event)"]
      n [of "virtual_token_reserves (event_trade event)"] n [of "real_sol_reserves (event_trade event)"]
      n [of "real_token_reserves (event_trade event)"]
    by (auto simp: pumpfun_row_def Let_def key_text_eq split: if_splits)
qed

lemma raydium_row_fits:
  assumes "good_swap event" and "raydium_row ok event = Some s"
  shows "length s \<le> 250"
proof -
  note keys = good_swap_keys [OF assms(1)]
  have sig: "length (c_str (event_signature event)) \<le> 87"
    using assms(1) length_c_str_signature by (simp add: good_swap_def)
  have k: "length (base58_text (amm (event_swap event))) \<le> 44" "length (base58_text (user_source_owner (event_swap event))) \<le> 44"
    using keys length_base58_text_32 by simp_all
  note n = length_print_lu
  show ?thesis
    using assms(2) keys sig k n [of "swap_slot (event_swap event)"] n [of "amount_in (event_swap event)"]
      n [of "amount_out (event_swap event)"]
    by (auto simp: raydium_row_def Let_def key_text_eq split: if_splits)
qed

interpretation pumpfun_rows: insert_rows pumpfun_row pumpfun_insert 512 600 good_trade
proof unfold_locales
  show "length pumpfun_insert < 512" by (simp add: pumpfun_insert_def)
  show "good_trade event \<Longrightarrow> pumpfun_row ok event = Some s \<Longrightarrow> Suc (length s) \<le> 600" for event ok s
    using pumpfun_row_fits by fastforce
  show "good_trade event \<Longrightarrow> \<forall>k. ok k \<Longrightarrow> pumpfun_row ok event \<noteq> None" for event ok
    using good_trade_keys [of event] by (simp add: pumpfun_row_def Let_def key_text_eq)
qed

interpretation raydium_rows: insert_rows raydium_row raydium_insert 256 300 good_swap
proof unfold_locales
  show "length raydium_insert < 256" by (simp add: raydium_insert_def)
  show "good_swap event \<Longrightarrow> raydium_row ok event = Some s \<Longrightarrow> Suc (length s) \<le> 300" for event ok s
    using raydium_row_fits by fastforce
  show "good_swap event \<Longrightarrow> \<forall>k. ok k \<Longrightarrow> raydium_row ok event \<noteq> None" for event ok
    using good_swap_keys [of event] by (simp add: raydium_row_def Let_def key_text_eq)
qed

section \<open>The batches\<close>

definition pending_trades :: "db_writer \<Rightarrow> yurei_event_t list" where
  "pending_trades writer = take (pumpfun_count writer) (pumpfun_batch writer)"

definition pending_swaps :: "db_writer \<Rightarrow> yurei_event_t list" where
  "pending_swaps writer = take (raydium_count writer) (raydium_batch writer)"

text \<open>The arrays have their size and hold events of their own kind up to the count.\<close>

definition writer_wf :: "db_writer \<Rightarrow> bool" where
  "writer_wf writer \<longleftrightarrow>
     length (pumpfun_batch writer) = BATCH_SIZE \<and> length (raydium_batch writer) = BATCH_SIZE \<and>
     pumpfun_count writer \<le> BATCH_SIZE \<and> raydium_count writer \<le> BATCH_SIZE \<and>
     (\<forall>event \<in> set (pending_trades writer). good_trade event) \<and> (\<forall>event \<in> set (pending_swaps writer). good_swap event)"

text \<open>The flush goes through when there is a usable connection, memory and a good answer.\<close>

definition flush_goes_through :: "db_env \<Rightarrow> db_writer \<Rightarrow> bool" where
  "flush_goes_through env writer \<longleftrightarrow>
     (if connected writer then status_ok env else connect_ok env) \<and> malloc_ok env \<and> exec_ok env"

definition all_ok :: "db_env \<Rightarrow> bool" where
  "all_ok env \<longleftrightarrow> connect_ok env \<and> status_ok env \<and> malloc_ok env \<and> exec_ok env \<and> encode_ok env = (\<lambda>_ _. True)"

lemma all_ok_goes_through: "all_ok env \<Longrightarrow> flush_goes_through env writer"
  by (simp add: all_ok_def flush_goes_through_def)

lemma ensure_connection_eq:
  "ensure_connection env writer m =
    (let ok = (if connected writer then status_ok env else connect_ok env)
     in (ok, writer\<lparr>connected := ok\<rparr>, if \<not> connected writer \<and> connect_ok env then metrics_inc_db_reconnect m else m))"
  by (simp add: ensure_connection_def Let_def)

lemma count_pumpfun_inserts:
  "((metrics_inc_pumpfun \<circ> metrics_inc_db_success) ^^ n) m =
    m\<lparr>events_pumpfun := events_pumpfun m + word_of_nat n, db_inserts_success := db_inserts_success m + word_of_nat n\<rparr>"
  by (induction n) (simp_all add: metrics_inc_pumpfun_def metrics_inc_db_success_def)

lemma count_raydium_inserts:
  "((metrics_inc_raydium \<circ> metrics_inc_db_success) ^^ n) m =
    m\<lparr>events_raydium := events_raydium m + word_of_nat n, db_inserts_success := db_inserts_success m + word_of_nat n\<rparr>"
  by (induction n) (simp_all add: metrics_inc_raydium_def metrics_inc_db_success_def)

lemmas metrics_defs = metrics_inc_db_reconnect_def metrics_add_db_latency_def metrics_inc_db_failed_def
  metrics_inc_db_batch_def metrics_inc_events_total_def metrics_inc_queue_pop_def

text \<open>
  What a flush does: all or nothing, and the query holds every pending event when the encoder
  gets its memory.
\<close>

lemma flush_pumpfun_result:
  assumes "writer_wf writer"
  shows "\<exists>writer' m' query. flush_pumpfun_batch env writer m =
      Some (pumpfun_count writer = 0 \<or> flush_goes_through env writer, writer', m', query) \<and>
    writer' = writer\<lparr>connected := connected writer', pumpfun_count := pumpfun_count writer'\<rparr> \<and>
    (if pumpfun_count writer = 0 \<or> flush_goes_through env writer
     then pumpfun_count writer' = 0 \<and> db_inserts_success m' = db_inserts_success m + word_of_nat (pumpfun_count writer) \<and>
       db_inserts_failed m' = db_inserts_failed m
     else pumpfun_count writer' = pumpfun_count writer \<and> db_inserts_success m' = db_inserts_success m) \<and>
    events_total m' = events_total m \<and>
    (pumpfun_count writer \<noteq> 0 \<longrightarrow> flush_goes_through env writer \<longrightarrow> encode_ok env = (\<lambda>_ _. True) \<longrightarrow>
      query = Some (pumpfun_insert @ comma_join (map (\<lambda>e. the (pumpfun_row (\<lambda>_. True) e)) (pending_trades writer))))"
proof -
  let ?events = "take (pumpfun_count writer) (pumpfun_batch writer)"
  have good: "\<forall>event \<in> set ?events. good_trade event"
    using assms by (simp add: writer_wf_def pending_trades_def)
  have len: "length ?events = pumpfun_count writer" using assms by (simp add: writer_wf_def)
  obtain body where query: "build_query (\<lambda>i. pumpfun_row (encode_ok env i)) pumpfun_insert
      (512 + pumpfun_count writer * 600) ?events = Some (pumpfun_insert @ body)"
    using pumpfun_rows.query_fits [OF good, of "encode_ok env"] len by auto
  have exact: "encode_ok env = (\<lambda>_ _. True) \<Longrightarrow>
      pumpfun_insert @ body = pumpfun_insert @ comma_join (map (\<lambda>e. the (pumpfun_row (\<lambda>_. True) e)) ?events)"
    using pumpfun_rows.query_exact [OF good] len query by simp
  show ?thesis
    using query exact
    by (cases "connected writer"; cases "status_ok env"; cases "connect_ok env")
      (auto simp: flush_pumpfun_batch_def ensure_connection_eq flush_goes_through_def Let_def count_pumpfun_inserts
        metrics_defs pending_trades_def)
qed

lemma flush_raydium_result:
  assumes "writer_wf writer"
  shows "\<exists>writer' m' query. flush_raydium_batch env writer m =
      Some (raydium_count writer = 0 \<or> flush_goes_through env writer, writer', m', query) \<and>
    writer' = writer\<lparr>connected := connected writer', raydium_count := raydium_count writer'\<rparr> \<and>
    (if raydium_count writer = 0 \<or> flush_goes_through env writer
     then raydium_count writer' = 0 \<and> db_inserts_success m' = db_inserts_success m + word_of_nat (raydium_count writer) \<and>
       db_inserts_failed m' = db_inserts_failed m
     else raydium_count writer' = raydium_count writer \<and> db_inserts_success m' = db_inserts_success m) \<and>
    events_total m' = events_total m \<and>
    (raydium_count writer \<noteq> 0 \<longrightarrow> flush_goes_through env writer \<longrightarrow> encode_ok env = (\<lambda>_ _. True) \<longrightarrow>
      query = Some (raydium_insert @ comma_join (map (\<lambda>e. the (raydium_row (\<lambda>_. True) e)) (pending_swaps writer))))"
proof -
  let ?events = "take (raydium_count writer) (raydium_batch writer)"
  have good: "\<forall>event \<in> set ?events. good_swap event"
    using assms by (simp add: writer_wf_def pending_swaps_def)
  have len: "length ?events = raydium_count writer" using assms by (simp add: writer_wf_def)
  obtain body where query: "build_query (\<lambda>i. raydium_row (encode_ok env i)) raydium_insert
      (256 + raydium_count writer * 300) ?events = Some (raydium_insert @ body)"
    using raydium_rows.query_fits [OF good, of "encode_ok env"] len by auto
  have exact: "encode_ok env = (\<lambda>_ _. True) \<Longrightarrow>
      raydium_insert @ body = raydium_insert @ comma_join (map (\<lambda>e. the (raydium_row (\<lambda>_. True) e)) ?events)"
    using raydium_rows.query_exact [OF good] len query by simp
  show ?thesis
    using query exact
    by (cases "connected writer"; cases "status_ok env"; cases "connect_ok env")
      (auto simp: flush_raydium_batch_def ensure_connection_eq flush_goes_through_def Let_def count_raydium_inserts
        metrics_defs pending_swaps_def)
qed

section \<open>Properties\<close>

text \<open>
  C34. The text of a Pump.fun batch. For well-formed events the query buffer is large enough for
  any number of rows, whatever fails on the way: nothing is cut and no write leaves the
  buffer. When the encoder gets its memory the query is the head of the statement followed by
  the rows of the events, in order and separated by commas.
\<close>

theorem pumpfun_query_exact:
  assumes "\<forall>event \<in> set events. good_trade event"
  shows "(\<exists>text. build_query (\<lambda>i. pumpfun_row (ok i)) pumpfun_insert (512 + length events * 600) events =
      Some (pumpfun_insert @ text) \<and> length (pumpfun_insert @ text) < 512 + length events * 600) \<and>
    build_query (\<lambda>i. pumpfun_row (\<lambda>_. True)) pumpfun_insert (512 + length events * 600) events =
      Some (pumpfun_insert @ comma_join (map (\<lambda>e. the (pumpfun_row (\<lambda>_. True) e)) events))"
  using pumpfun_rows.query_fits [OF assms] pumpfun_rows.query_exact [OF assms] by blast

definition trade_event_example :: yurei_event_t where
  "trade_event_example = zero_event\<lparr>event_type := YUREI_EVENT_PUMPFUN_TRADE\<rparr>"

definition swap_event_example :: yurei_event_t where
  "swap_event_example = zero_event\<lparr>event_type := YUREI_EVENT_RAYDIUM_SWAP, event_data := Raydium_Swap zero_swap\<rparr>"

lemma examples_good: "good_trade trade_event_example" "good_swap swap_event_example"
  by (simp_all add: good_trade_def good_swap_def event_wf_def trade_event_example_def swap_event_example_def
      zero_event_def zero_trade_def zero_swap_def trade_wf_def swap_wf_def YUREI_MAX_SIGNATURE_LEN_def)

theorem pumpfun_query_exact_witness:
  "build_query (\<lambda>i. pumpfun_row (\<lambda>_. True)) pumpfun_insert (512 + length [trade_event_example, trade_event_example] * 600)
     [trade_event_example, trade_event_example] =
   Some (pumpfun_insert @ the (pumpfun_row (\<lambda>_. True) trade_event_example) @ CHR '','' #
     the (pumpfun_row (\<lambda>_. True) trade_event_example))"
  using pumpfun_query_exact [of "[trade_event_example, trade_event_example]"] examples_good by simp

text \<open>
  The text of a Raydium batch, with the same guarantee for its smaller buffer.
\<close>

theorem raydium_query_exact:
  assumes "\<forall>event \<in> set events. good_swap event"
  shows "(\<exists>text. build_query (\<lambda>i. raydium_row (ok i)) raydium_insert (256 + length events * 300) events =
      Some (raydium_insert @ text) \<and> length (raydium_insert @ text) < 256 + length events * 300) \<and>
    build_query (\<lambda>i. raydium_row (\<lambda>_. True)) raydium_insert (256 + length events * 300) events =
      Some (raydium_insert @ comma_join (map (\<lambda>e. the (raydium_row (\<lambda>_. True) e)) events))"
  using raydium_rows.query_fits [OF assms] raydium_rows.query_exact [OF assms] by blast

theorem raydium_query_exact_witness:
  "build_query (\<lambda>i. raydium_row (\<lambda>_. True)) raydium_insert (256 + length [swap_event_example] * 300) [swap_event_example] =
   Some (raydium_insert @ the (raydium_row (\<lambda>_. True) swap_event_example))"
  using raydium_query_exact [of "[swap_event_example]"] examples_good by simp

text \<open>
  A flush is all or nothing. It never fails half way: if the connection, the memory and the
  statement are good, the batch is empty afterwards and the success counter has grown by
  exactly its length; otherwise the batch and the counter are as before, so that the events
  stay for the next attempt. It reports which of the two happened.
\<close>

theorem pumpfun_flush_all_or_nothing:
  assumes "writer_wf writer"
  shows "\<exists>ok writer' m' query. flush_pumpfun_batch env writer m = Some (ok, writer', m', query) \<and>
    (ok \<longleftrightarrow> pumpfun_count writer = 0 \<or> flush_goes_through env writer) \<and>
    pending_trades writer' = (if ok then [] else pending_trades writer) \<and> pending_swaps writer' = pending_swaps writer \<and>
    db_inserts_success m' = db_inserts_success m + (if ok then word_of_nat (pumpfun_count writer) else 0)"
proof -
  from flush_pumpfun_result [OF assms, of env m] obtain writer' m' query
    where flush: "flush_pumpfun_batch env writer m = Some (pumpfun_count writer = 0 \<or> flush_goes_through env writer, writer', m', query)"
      and writer': "writer' = writer\<lparr>connected := connected writer', pumpfun_count := pumpfun_count writer'\<rparr>"
      and result: "if pumpfun_count writer = 0 \<or> flush_goes_through env writer
        then pumpfun_count writer' = 0 \<and> db_inserts_success m' = db_inserts_success m + word_of_nat (pumpfun_count writer) \<and>
          db_inserts_failed m' = db_inserts_failed m
        else pumpfun_count writer' = pumpfun_count writer \<and> db_inserts_success m' = db_inserts_success m"
    by blast
  from writer' have "pumpfun_batch writer' = pumpfun_batch writer" "raydium_batch writer' = raydium_batch writer"
    "raydium_count writer' = raydium_count writer"
    by (metis db_writer.select_convs db_writer.surjective db_writer.update_convs)+
  with flush result show ?thesis
    by (auto simp: pending_trades_def pending_swaps_def split: if_splits)
qed

definition good_env :: db_env where
  "good_env = \<lparr>connect_ok = True, status_ok = True, malloc_ok = True, encode_ok = (\<lambda>_ _. True), exec_ok = True, latency_ms = 3\<rparr>"

definition down_env :: db_env where
  "down_env = good_env\<lparr>connect_ok := False\<rparr>"

definition writer_with :: "nat \<Rightarrow> db_writer" where
  "writer_with n = (the (db_writer_start True True True))\<lparr>pumpfun_batch := replicate BATCH_SIZE trade_event_example, pumpfun_count := n\<rparr>"

lemma writer_with_wf: "n \<le> BATCH_SIZE \<Longrightarrow> writer_wf (writer_with n)"
  using examples_good by (simp add: writer_with_def writer_wf_def pending_trades_def pending_swaps_def db_writer_start_def)

theorem pumpfun_flush_all_or_nothing_witness:
  "\<exists>writer' m' query. flush_pumpfun_batch good_env (writer_with 2) metrics_init = Some (True, writer', m', query) \<and>
    pending_trades writer' = [] \<and> db_inserts_success m' = 2"
proof -
  have "writer_wf (writer_with 2)" by (rule writer_with_wf) (simp add: BATCH_SIZE_def)
  from pumpfun_flush_all_or_nothing [OF this, of good_env metrics_init]
  show ?thesis
    by (auto simp: flush_goes_through_def good_env_def writer_with_def db_writer_start_def metrics_init_def)
qed

section \<open>The flush timer\<close>

text \<open>Microseconds since the epoch.\<close>

definition micros :: "timeval \<Rightarrow> int" where
  "micros t = tv_sec t * 1000000 + tv_usec t"

text \<open>
  The flush timer. With a clock that runs forwards it fires at the latest 50 milliseconds
  after the last flush and never before 49 (the difference of the microseconds is truncated
  towards zero, which may round up); a clock that is set back by a millisecond or more makes
  it fire at once.
\<close>

theorem flush_timer_interval:
  assumes "0 \<le> tv_usec now" "tv_usec now < 1000000" "0 \<le> tv_usec (last_flush writer)" "tv_usec (last_flush writer) < 1000000"
    and "\<bar>tv_sec now - tv_sec (last_flush writer)\<bar> < 2 ^ 40"
  shows "(micros (last_flush writer) + 50000 \<le> micros now \<longrightarrow> should_flush_timer now writer) \<and>
    (should_flush_timer now writer \<longrightarrow> micros (last_flush writer) \<le> micros now \<longrightarrow> micros (last_flush writer) + 49000 < micros now) \<and>
    (micros now + 1000 \<le> micros (last_flush writer) \<longrightarrow> should_flush_timer now writer)"
proof -
  define s where "s = tv_sec now - tv_sec (last_flush writer)"
  define u where "u = tv_usec now - tv_usec (last_flush writer)"
  define e where "e = s * 1000 + u sdiv 1000"
  have s: "- (2 ^ 40) < s" "s < 2 ^ 40" using assms(5) by (simp_all add: s_def)
  have u: "- 1000000 < u" "u < 1000000" using assms(1-4) by (simp_all add: u_def)
  have trunc: "u sdiv 1000 = (if 0 \<le> u then u div 1000 else - ((- u) div 1000))"
    by (simp add: signed_divide_int_def sgn_if)
  have e: "(0 \<le> u \<longrightarrow> e * 1000 \<le> s * 1000000 + u \<and> s * 1000000 + u < e * 1000 + 1000) \<and>
      (u < 0 \<longrightarrow> s * 1000000 + u \<le> e * 1000 \<and> e * 1000 - 1000 < s * 1000000 + u)"
    unfolding e_def trunc by (auto; presburger)
  have near: "e * 1000 < s * 1000000 + u + 1000" "s * 1000000 + u - 1000 < e * 1000"
    using e by (cases "0 \<le> u"; linarith)+
  have range: "- (2 ^ 63) < e" "e < 2 ^ 63" using s u near by simp_all
  have word: "(word_of_nat FLUSH_INTERVAL_MS :: u64) \<le> word_of_int e \<longleftrightarrow> 50 \<le> e \<or> e < 0"
  proof (cases "0 \<le> e")
    case True
    then have "uint (word_of_int e :: u64) = e"
      using range by (simp add: uint_word_of_int)
    then show ?thesis using True by (simp add: FLUSH_INTERVAL_MS_def word_le_def)
  next
    case False
    then have "(e + 2 ^ 64) mod 2 ^ 64 = e + 2 ^ 64"
      using range by (intro mod_pos_pos_trivial) simp_all
    then have "e mod 2 ^ 64 = e + 2 ^ 64" by simp
    then have "uint (word_of_int e :: u64) = e + 2 ^ 64" by (simp add: uint_word_of_int)
    then show ?thesis using False range by (simp add: FLUSH_INTERVAL_MS_def word_le_def)
  qed
  have fires: "should_flush_timer now writer \<longleftrightarrow> 50 \<le> e \<or> e < 0"
    using word unfolding should_flush_timer_def Let_def e_def s_def u_def .
  have diff: "micros now - micros (last_flush writer) = s * 1000000 + u"
    by (simp add: micros_def s_def u_def algebra_simps)
  show ?thesis unfolding fires using e diff by linarith
qed

theorem flush_timer_interval_witness:
  "should_flush_timer \<lparr>tv_sec = 5, tv_usec = 40000\<rparr> ((writer_with 0)\<lparr>last_flush := \<lparr>tv_sec = 4, tv_usec = 990000\<rparr>\<rparr>) \<and>
   \<not> should_flush_timer \<lparr>tv_sec = 5, tv_usec = 30000\<rparr> ((writer_with 0)\<lparr>last_flush := \<lparr>tv_sec = 4, tv_usec = 990000\<rparr>\<rparr>)"
  using flush_timer_interval [of "\<lparr>tv_sec = 5, tv_usec = 40000\<rparr>" "(writer_with 0)\<lparr>last_flush := \<lparr>tv_sec = 4, tv_usec = 990000\<rparr>\<rparr>"]
    flush_timer_interval [of "\<lparr>tv_sec = 5, tv_usec = 30000\<rparr>" "(writer_with 0)\<lparr>last_flush := \<lparr>tv_sec = 4, tv_usec = 990000\<rparr>\<rparr>"]
  by (simp add: micros_def)

end
