(* ===== verification/Writer_Runs.thy ===== *)
theory Writer_Runs
  imports Db_Writer
begin

text \<open>
  \<^verbatim>\<open>src/src/db_writer.c\<close>: the database thread over its whole life, between the ingest thread that
  pushes events and the main thread that stops it. With a database that answers it writes every
  event it takes, and the theory says with which statements; when it is stopped it leaves the
  rest of the queue behind; with a database that is down it leaves its batch arrays.
\<close>

section \<open>What the other threads do to the queue\<close>

fun action_op :: "other_action \<Rightarrow> queue_op" where
  "action_op (Push_Event event) = Push event"
| "action_op Stop_Writer = Close"

definition spec_others :: "nat \<Rightarrow> other_action list \<Rightarrow> bool \<times> yurei_event_t list \<Rightarrow> bool \<times> yurei_event_t list" where
  "spec_others n others s = snd (spec_calls (fifo_call n) (map action_op others) s)"

lemma spec_others_simps [simp]:
  "spec_others n [] s = s"
  "spec_others n (action # others) s = spec_others n others (snd (fifo_call n (action_op action) s))"
  by (simp_all add: spec_others_def split_beta)

lemma others_act_ok:
  "queue_wf q \<Longrightarrow>
    \<exists>m' q'. others_act others writer m q =
        Some (writer\<lparr>db_running := db_running writer \<and> Stop_Writer \<notin> set others\<rparr>, m', q') \<and>
      queue_wf q' \<and> capacity q' = capacity q \<and> queue_abs q' = spec_others (capacity q) others (queue_abs q) \<and>
      events_total m' = events_total m \<and> db_inserts_success m' = db_inserts_success m \<and> db_inserts_failed m' = db_inserts_failed m"
proof (induction others arbitrary: writer m q)
  case (Cons action others)
  show ?case
  proof (cases action)
    case (Push_Event event)
    from queue_call_refines [OF Cons.prems, of "Push event" m] obtain r q1 m1 where
      push: "event_queue_push_section q m event = Some (r, q1, m1)" "queue_wf q1" "capacity q1 = capacity q"
        "queue_abs q1 = snd (fifo_call (capacity q) (Push event) (queue_abs q))"
        "events_total m1 = events_total m" "db_inserts_success m1 = db_inserts_success m" "db_inserts_failed m1 = db_inserts_failed m"
      by auto
    from Cons.IH [OF push(2), of writer m1] push Push_Event show ?thesis by auto
  next
    case Stop_Writer
    have "queue_wf (event_queue_close q)" using Cons.prems by simp
    from Cons.IH [OF this, of "writer\<lparr>db_running := False\<rparr>" m] Stop_Writer show ?thesis
      by (auto simp: db_writer_stop_def queue_abs_def)
  qed
qed (simp add: queue_abs_def)

text \<open>Nothing is taken away, what is new was pushed, and a stopped writer's queue is closed.\<close>

lemma spec_others_keep:
  "\<exists>more. snd (spec_others n others (c, es)) = es @ more \<and> (\<forall>event \<in> set more. Push_Event event \<in> set others)"
proof (induction others arbitrary: c es)
  case (Cons action others)
  show ?case
  proof (cases action)
    case (Push_Event event)
    with Cons.IH [of c es] Cons.IH [of c "es @ [event]"] show ?thesis by auto
  next
    case Stop_Writer
    with Cons.IH [of True es] show ?thesis by auto
  qed
qed simp

lemma spec_others_closed: "fst (spec_others n others (c, es)) \<longleftrightarrow> c \<or> Stop_Writer \<in> set others"
proof (induction others arbitrary: c es)
  case (Cons action others)
  then show ?case by (cases action) (simp_all split: if_split)
qed simp

section \<open>The specification of a run\<close>

text \<open>
  The writer as a client of a bounded list: before each pass the others act on the list, then the
  writer takes its first event, if any, until it has been stopped. The result is what it has taken
  and what it has left.
\<close>

fun spec_run :: "nat \<Rightarrow> other_action list list \<Rightarrow> bool \<times> yurei_event_t list \<Rightarrow> yurei_event_t list \<times> yurei_event_t list" where
  "spec_run n [] s = ([], snd s)"
| "spec_run n (others # passes) s =
     (case spec_others n others s of
        (c, es) \<Rightarrow>
          if Stop_Writer \<in> set others then ([], es)
          else case es of
                 [] \<Rightarrow> spec_run n passes (c, [])
               | e # es \<Rightarrow> (case spec_run n passes (c, es) of (taken, left) \<Rightarrow> (e # taken, left)))"

text \<open>With a pass for each of the first \<open>k\<close> events, these are taken, before anything else.\<close>

lemma spec_run_takes:
  "k \<le> length passes \<Longrightarrow> k \<le> length es \<Longrightarrow> \<forall>others \<in> set passes. Stop_Writer \<notin> set others \<Longrightarrow>
    \<exists>more. fst (spec_run n (passes @ later) (c, es)) = take k es @ more"
proof (induction passes arbitrary: c es k)
  case (Cons others passes)
  obtain c1 es1 where others: "spec_others n others (c, es) = (c1, es1)" by fastforce
  with spec_others_keep [of n others c es] obtain more where es1: "es1 = es @ more" by auto
  show ?case
  proof (cases k)
    case (Suc k')
    with Cons.prems obtain e es' where es: "es = e # es'" by (cases es) auto
    from Cons.IH [of k' "es' @ more" c1] Cons.prems Suc es obtain more'
      where "fst (spec_run n (passes @ later) (c1, es' @ more)) = take k' es' @ more'" by auto
    then show ?thesis using others es1 es Suc Cons.prems by (simp add: split_beta)
  qed simp
qed simp

section \<open>The statements that are sent\<close>

fun sent :: "string option list \<Rightarrow> string list" where
  "sent [] = []"
| "sent (None # queries) = sent queries"
| "sent (Some query # queries) = query # sent queries"

lemma sent_append [simp]: "sent (queries @ queries') = sent queries @ sent queries'"
  by (induction queries rule: sent.induct) simp_all

text \<open>A batch is its kind and its events; its statement has one row for each of them, in order.\<close>

fun insert_statement :: "yurei_event_type_t \<times> yurei_event_t list \<Rightarrow> string" where
  "insert_statement (YUREI_EVENT_PUMPFUN_TRADE, es) = pumpfun_insert @ comma_join (map (\<lambda>e. the (pumpfun_row (\<lambda>_. True) e)) es)"
| "insert_statement (YUREI_EVENT_RAYDIUM_SWAP, es) = raydium_insert @ comma_join (map (\<lambda>e. the (raydium_row (\<lambda>_. True) e)) es)"
| "insert_statement (YUREI_EVENT_NONE, es) = []"

definition of_kind :: "yurei_event_type_t \<Rightarrow> yurei_event_t list \<Rightarrow> yurei_event_t list" where
  "of_kind k es = filter (\<lambda>e. event_type e = k) es"

definition inserted :: "yurei_event_type_t \<Rightarrow> (yurei_event_type_t \<times> yurei_event_t list) list \<Rightarrow> yurei_event_t list" where
  "inserted k batches = concat (map snd (filter (\<lambda>batch. fst batch = k) batches))"

lemma of_kind_simps [simp]: "of_kind k [] = []" "of_kind k (es @ es') = of_kind k es @ of_kind k es'"
    "of_kind k (e # es) = (if event_type e = k then e # of_kind k es else of_kind k es)"
  by (simp_all add: of_kind_def)

lemma inserted_simps [simp]: "inserted k [] = []" "inserted k (bs @ bs') = inserted k bs @ inserted k bs'"
    "inserted k (b # bs) = (if fst b = k then snd b @ inserted k bs else inserted k bs)"
  by (simp_all add: inserted_def)

definition batch_ok :: "yurei_event_type_t \<times> yurei_event_t list \<Rightarrow> bool" where
  "batch_ok batch \<longleftrightarrow> snd batch \<noteq> [] \<and> length (snd batch) \<le> BATCH_SIZE"

text \<open>
  A stretch of the writer's life in which it takes \<open>events\<close> and sends \<open>queries\<close>: the statements
  hold, kind by kind, what was pending and what was taken, in order and each once, but for what
  is pending afterwards; and the counter of inserted rows says how many.
\<close>

definition writes ::
  "string option list \<Rightarrow> yurei_event_t list \<Rightarrow> db_writer \<Rightarrow> yurei_metrics_t \<Rightarrow> db_writer \<Rightarrow> yurei_metrics_t \<Rightarrow> bool" where
  "writes queries events writer m writer' m' \<longleftrightarrow>
     db_running writer' = db_running writer \<and> db_inserts_failed m' = db_inserts_failed m \<and>
     db_inserts_success m' + word_of_nat (pumpfun_count writer' + raydium_count writer') =
       db_inserts_success m + word_of_nat (pumpfun_count writer + raydium_count writer + length events) \<and>
     (\<exists>batches. sent queries = map insert_statement batches \<and> list_all batch_ok batches \<and>
        inserted YUREI_EVENT_PUMPFUN_TRADE batches @ pending_trades writer' =
          pending_trades writer @ of_kind YUREI_EVENT_PUMPFUN_TRADE events \<and>
        inserted YUREI_EVENT_RAYDIUM_SWAP batches @ pending_swaps writer' =
          pending_swaps writer @ of_kind YUREI_EVENT_RAYDIUM_SWAP events)"

lemma writes_nothing:
  "db_inserts_success m' = db_inserts_success m \<Longrightarrow> db_inserts_failed m' = db_inserts_failed m \<Longrightarrow> writes [] [] writer m writer m'"
  by (simp add: writes_def)

lemmas writes_refl = writes_nothing [OF refl refl]

lemma writes_trans:
  assumes "writes queries events writer m writer1 m1" and "writes queries' events' writer1 m1 writer' m'"
  shows "writes (queries @ queries') (events @ events') writer m writer' m'"
proof -
  from assms obtain b b' where
    one: "sent queries = map insert_statement b" "list_all batch_ok b"
      "inserted YUREI_EVENT_PUMPFUN_TRADE b @ pending_trades writer1 = pending_trades writer @ of_kind YUREI_EVENT_PUMPFUN_TRADE events"
      "inserted YUREI_EVENT_RAYDIUM_SWAP b @ pending_swaps writer1 = pending_swaps writer @ of_kind YUREI_EVENT_RAYDIUM_SWAP events" and
    two: "sent queries' = map insert_statement b'" "list_all batch_ok b'"
      "inserted YUREI_EVENT_PUMPFUN_TRADE b' @ pending_trades writer' = pending_trades writer1 @ of_kind YUREI_EVENT_PUMPFUN_TRADE events'"
      "inserted YUREI_EVENT_RAYDIUM_SWAP b' @ pending_swaps writer' = pending_swaps writer1 @ of_kind YUREI_EVENT_RAYDIUM_SWAP events'"
    unfolding writes_def by blast
  have "inserted YUREI_EVENT_PUMPFUN_TRADE (b @ b') @ pending_trades writer' =
      pending_trades writer @ of_kind YUREI_EVENT_PUMPFUN_TRADE (events @ events')"
    using one(3) two(3) by (metis append.assoc inserted_simps(2) of_kind_simps(2))
  moreover have "inserted YUREI_EVENT_RAYDIUM_SWAP (b @ b') @ pending_swaps writer' =
      pending_swaps writer @ of_kind YUREI_EVENT_RAYDIUM_SWAP (events @ events')"
    using one(4) two(4) by (metis append.assoc inserted_simps(2) of_kind_simps(2))
  moreover have "sent (queries @ queries') = map insert_statement (b @ b')" "list_all batch_ok (b @ b')"
    using one(1,2) two(1,2) by simp_all
  ultimately have "\<exists>batches. sent (queries @ queries') = map insert_statement batches \<and> list_all batch_ok batches \<and>
      inserted YUREI_EVENT_PUMPFUN_TRADE batches @ pending_trades writer' =
        pending_trades writer @ of_kind YUREI_EVENT_PUMPFUN_TRADE (events @ events') \<and>
      inserted YUREI_EVENT_RAYDIUM_SWAP batches @ pending_swaps writer' =
        pending_swaps writer @ of_kind YUREI_EVENT_RAYDIUM_SWAP (events @ events')" by blast
  then show ?thesis using assms by (simp add: writes_def algebra_simps)
qed

text \<open>Other threads, the clock and the connection do not matter to it.\<close>

lemma writes_cong:
  "writes queries events writer m writer' m' \<Longrightarrow>
    db_inserts_success m0 = db_inserts_success m \<Longrightarrow> db_inserts_failed m0 = db_inserts_failed m \<Longrightarrow>
    writes queries events writer m0 writer' m'"
  by (simp add: writes_def)

lemma writes_last_flush [simp]:
  "writes queries events writer m (writer'\<lparr>last_flush := time\<rparr>) m' = writes queries events writer m writer' m'"
  "writes queries events (writer\<lparr>last_flush := time\<rparr>) m writer' m' = writes queries events writer m writer' m'"
  "writes queries events writer m (writer'\<lparr>connected := c\<rparr>) m' = writes queries events writer m writer' m'"
  by (simp_all add: writes_def pending_trades_def pending_swaps_def)

section \<open>The loop with a database that answers\<close>

text \<open>What a flush sends, if the database answers: one statement with the whole batch, or none.\<close>

definition batch_statements :: "yurei_event_type_t \<Rightarrow> yurei_event_t list \<Rightarrow> string list" where
  "batch_statements k es = (if es = [] then [] else [insert_statement (k, es)])"

definition below_full :: "db_writer \<Rightarrow> bool" where
  "below_full writer \<longleftrightarrow> writer_wf writer \<and> pumpfun_count writer < BATCH_SIZE \<and> raydium_count writer < BATCH_SIZE"

lemma flush_pumpfun_ok:
  assumes "writer_wf writer" and "all_ok env"
  shows "\<exists>writer' m' query. flush_pumpfun_batch env writer m = Some (True, writer', m', query) \<and>
    writer_wf writer' \<and> pumpfun_count writer' = 0 \<and> raydium_count writer' = raydium_count writer \<and>
    writes [query] [] writer m writer' m' \<and> events_total m' = events_total m \<and>
    sent [query] = batch_statements YUREI_EVENT_PUMPFUN_TRADE (pending_trades writer) \<and> pending_swaps writer' = pending_swaps writer"
proof (cases "pumpfun_count writer = 0")
  case True
  have "writes [None] [] writer m writer m" using writes_refl [of writer m] by (simp add: writes_def)
  with True assms(1) show ?thesis by (simp add: batch_statements_def pending_trades_def pending_swaps_def flush_pumpfun_batch_def)
next
  case False
  have "flush_goes_through env writer" "encode_ok env = (\<lambda>_ _. True)"
    using assms(2) all_ok_goes_through by (simp_all add: all_ok_def)
  with flush_pumpfun_result [OF assms(1), of env m] False obtain writer' m'
    where flush: "flush_pumpfun_batch env writer m =
        Some (True, writer', m', Some (insert_statement (YUREI_EVENT_PUMPFUN_TRADE, pending_trades writer)))"
      and writer': "writer' = writer\<lparr>connected := connected writer', pumpfun_count := pumpfun_count writer'\<rparr>"
      and zero: "pumpfun_count writer' = 0"
      and m': "db_inserts_success m' = db_inserts_success m + word_of_nat (pumpfun_count writer)"
        "db_inserts_failed m' = db_inserts_failed m" "events_total m' = events_total m"
    by auto
  from writer' have fields: "pumpfun_batch writer' = pumpfun_batch writer" "raydium_batch writer' = raydium_batch writer"
    "raydium_count writer' = raydium_count writer" "db_running writer' = db_running writer"
    by (metis db_writer.select_convs db_writer.surjective db_writer.update_convs)+
  have wf: "writer_wf writer'"
    using assms(1) zero fields by (simp add: writer_wf_def pending_trades_def pending_swaps_def)
  have "batch_ok (YUREI_EVENT_PUMPFUN_TRADE, pending_trades writer)"
    using assms(1) False by (auto simp: batch_ok_def pending_trades_def writer_wf_def BATCH_SIZE_def)
  then have "writes [Some (insert_statement (YUREI_EVENT_PUMPFUN_TRADE, pending_trades writer))] [] writer m writer' m'"
    using zero fields m'
    by (simp add: writes_def pending_trades_def pending_swaps_def)
      (rule exI [of _ "[(YUREI_EVENT_PUMPFUN_TRADE, take (pumpfun_count writer) (pumpfun_batch writer))]"], simp)
  moreover have "batch_statements YUREI_EVENT_PUMPFUN_TRADE (pending_trades writer) = [insert_statement (YUREI_EVENT_PUMPFUN_TRADE, pending_trades writer)]"
    using assms(1) False by (simp add: batch_statements_def pending_trades_def pending_swaps_def writer_wf_def BATCH_SIZE_def)
      (metis BATCH_SIZE_def gr_implies_not_zero length_0_conv zero_less_numeral)
  ultimately show ?thesis using flush zero fields m' wf by (simp add: pending_trades_def pending_swaps_def)
qed

lemma flush_raydium_ok:
  assumes "writer_wf writer" and "all_ok env"
  shows "\<exists>writer' m' query. flush_raydium_batch env writer m = Some (True, writer', m', query) \<and>
    writer_wf writer' \<and> raydium_count writer' = 0 \<and> pumpfun_count writer' = pumpfun_count writer \<and>
    writes [query] [] writer m writer' m' \<and> events_total m' = events_total m \<and>
    sent [query] = batch_statements YUREI_EVENT_RAYDIUM_SWAP (pending_swaps writer) \<and> pending_trades writer' = pending_trades writer"
proof (cases "raydium_count writer = 0")
  case True
  have "writes [None] [] writer m writer m" using writes_refl [of writer m] by (simp add: writes_def)
  with True assms(1) show ?thesis by (simp add: batch_statements_def pending_trades_def pending_swaps_def flush_raydium_batch_def)
next
  case False
  have "flush_goes_through env writer" "encode_ok env = (\<lambda>_ _. True)"
    using assms(2) all_ok_goes_through by (simp_all add: all_ok_def)
  with flush_raydium_result [OF assms(1), of env m] False obtain writer' m'
    where flush: "flush_raydium_batch env writer m =
        Some (True, writer', m', Some (insert_statement (YUREI_EVENT_RAYDIUM_SWAP, pending_swaps writer)))"
      and writer': "writer' = writer\<lparr>connected := connected writer', raydium_count := raydium_count writer'\<rparr>"
      and zero: "raydium_count writer' = 0"
      and m': "db_inserts_success m' = db_inserts_success m + word_of_nat (raydium_count writer)"
        "db_inserts_failed m' = db_inserts_failed m" "events_total m' = events_total m"
    by auto
  from writer' have fields: "pumpfun_batch writer' = pumpfun_batch writer" "raydium_batch writer' = raydium_batch writer"
    "pumpfun_count writer' = pumpfun_count writer" "db_running writer' = db_running writer"
    by (metis db_writer.select_convs db_writer.surjective db_writer.update_convs)+
  have wf: "writer_wf writer'"
    using assms(1) zero fields by (simp add: writer_wf_def pending_trades_def pending_swaps_def)
  have "batch_ok (YUREI_EVENT_RAYDIUM_SWAP, pending_swaps writer)"
    using assms(1) False by (auto simp: batch_ok_def pending_swaps_def writer_wf_def BATCH_SIZE_def)
  then have "writes [Some (insert_statement (YUREI_EVENT_RAYDIUM_SWAP, pending_swaps writer))] [] writer m writer' m'"
    using zero fields m'
    by (simp add: writes_def pending_trades_def pending_swaps_def)
      (rule exI [of _ "[(YUREI_EVENT_RAYDIUM_SWAP, take (raydium_count writer) (raydium_batch writer))]"], simp)
  moreover have "batch_statements YUREI_EVENT_RAYDIUM_SWAP (pending_swaps writer) = [insert_statement (YUREI_EVENT_RAYDIUM_SWAP, pending_swaps writer)]"
    using assms(1) False by (simp add: batch_statements_def pending_trades_def pending_swaps_def writer_wf_def BATCH_SIZE_def)
      (metis BATCH_SIZE_def gr_implies_not_zero length_0_conv zero_less_numeral)
  ultimately show ?thesis using flush zero fields m' wf by (simp add: pending_trades_def pending_swaps_def)
qed

lemma flush_all_ok:
  assumes "writer_wf writer" and "all_ok env1" and "all_ok env2"
  shows "\<exists>writer' m' query1 query2. flush_all_batches env1 env2 now writer m = Some (writer', m', query1, query2) \<and>
    below_full writer' \<and> pumpfun_count writer' = 0 \<and> raydium_count writer' = 0 \<and>
    writes [query1, query2] [] writer m writer' m' \<and> events_total m' = events_total m \<and>
    sent [query1, query2] = batch_statements YUREI_EVENT_PUMPFUN_TRADE (pending_trades writer) @
      batch_statements YUREI_EVENT_RAYDIUM_SWAP (pending_swaps writer)"
proof -
  obtain w1 m1 query1 where first: "flush_pumpfun_batch env1 writer m = Some (True, w1, m1, query1)"
    "writer_wf w1" "pumpfun_count w1 = 0" "writes [query1] [] writer m w1 m1" "events_total m1 = events_total m"
    "sent [query1] = batch_statements YUREI_EVENT_PUMPFUN_TRADE (pending_trades writer)" "pending_swaps w1 = pending_swaps writer"
    using flush_pumpfun_ok [OF assms(1,2)] by blast
  obtain w2 m2 query2 where second: "flush_raydium_batch env2 w1 m1 = Some (True, w2, m2, query2)"
    "writer_wf w2" "raydium_count w2 = 0" "pumpfun_count w2 = pumpfun_count w1" "writes [query2] [] w1 m1 w2 m2"
    "events_total m2 = events_total m1" "sent [query2] = batch_statements YUREI_EVENT_RAYDIUM_SWAP (pending_swaps w1)"
    using flush_raydium_ok [OF first(2) assms(3)] by blast
  have "writes [query1, query2] [] writer m w2 m2" using writes_trans [OF first(4) second(5)] by simp
  moreover have "sent [query1, query2] = sent [query1] @ sent [query2]" by (metis append_Cons append_Nil sent_append)
  ultimately show ?thesis using first second
    by (simp add: flush_all_batches_def below_full_def writer_wf_def BATCH_SIZE_def pending_trades_def pending_swaps_def)
qed

definition storable :: "yurei_event_t \<Rightarrow> bool" where
  "storable event \<longleftrightarrow> good_trade event \<or> good_swap event"

lemma take_stored: "k < length xs \<Longrightarrow> take (Suc k) (xs[k := x]) = take k xs @ [x]"
  by (simp add: take_Suc_conv_app_nth)

lemma store_trade_wf:
  assumes "below_full writer" and "good_trade event"
  defines "stored \<equiv> writer\<lparr>pumpfun_batch := (pumpfun_batch writer)[pumpfun_count writer := event],
      pumpfun_count := pumpfun_count writer + 1\<rparr>"
  shows "writer_wf stored" and "pumpfun_count writer < length (pumpfun_batch writer)" and "writes [] [event] writer m stored m"
proof -
  show "writer_wf stored" and room: "pumpfun_count writer < length (pumpfun_batch writer)"
    using assms by (auto simp: below_full_def writer_wf_def pending_trades_def pending_swaps_def take_stored)
  have "event_type event = YUREI_EVENT_PUMPFUN_TRADE" using assms(2) by (simp add: good_trade_def)
  with room show "writes [] [event] writer m stored m"
    by (simp add: writes_def stored_def pending_trades_def pending_swaps_def take_stored)
qed

lemma store_swap_wf:
  assumes "below_full writer" and "good_swap event"
  defines "stored \<equiv> writer\<lparr>raydium_batch := (raydium_batch writer)[raydium_count writer := event],
      raydium_count := raydium_count writer + 1\<rparr>"
  shows "writer_wf stored" and "raydium_count writer < length (raydium_batch writer)" and "writes [] [event] writer m stored m"
proof -
  show "writer_wf stored" and room: "raydium_count writer < length (raydium_batch writer)"
    using assms by (auto simp: below_full_def writer_wf_def pending_trades_def pending_swaps_def take_stored)
  have "event_type event = YUREI_EVENT_RAYDIUM_SWAP" using assms(2) by (simp add: good_swap_def)
  with room show "writes [] [event] writer m stored m"
    by (simp add: writes_def stored_def pending_trades_def pending_swaps_def take_stored)
qed

lemma store_event_ok:
  assumes full: "below_full writer" and env: "all_ok env" and event: "storable event"
  shows "\<exists>writer' m' queries. store_event env event writer m = Some (writer', m', queries) \<and>
    below_full writer' \<and> writes queries [event] writer m writer' m' \<and> events_total m' = events_total m"
proof (cases "good_trade event")
  case True
  define stored where "stored = writer\<lparr>pumpfun_batch := (pumpfun_batch writer)[pumpfun_count writer := event],
      pumpfun_count := pumpfun_count writer + 1\<rparr>"
  note wf = store_trade_wf [OF full True, folded stored_def]
  have step: "store_event env event writer m =
      (if BATCH_SIZE \<le> pumpfun_count stored
       then map_option (\<lambda>(_, writer, m, query). (writer, m, [query])) (flush_pumpfun_batch env stored m)
       else Some (stored, m, []))"
    using True wf(2) by (simp add: store_event_def good_trade_def stored_def Let_def)
  have counts: "raydium_count stored < BATCH_SIZE" using full by (simp add: stored_def below_full_def)
  show ?thesis
  proof (cases "BATCH_SIZE \<le> pumpfun_count stored")
    case False
    then show ?thesis using step wf(1,3) counts by (auto simp: below_full_def)
  next
    case True
    from flush_pumpfun_ok [OF wf(1) env, of m] obtain w m' query
      where flush: "flush_pumpfun_batch env stored m = Some (True, w, m', query)" "writer_wf w" "pumpfun_count w = 0"
        "raydium_count w = raydium_count stored" "writes [query] [] stored m w m'" "events_total m' = events_total m" by blast
    moreover have "writes [query] [event] writer m w m'" using writes_trans [OF wf(3) flush(5)] by simp
    ultimately show ?thesis using step True counts by (auto simp: below_full_def BATCH_SIZE_def)
  qed
next
  case False
  with event have swap: "good_swap event" by (simp add: storable_def)
  define stored where "stored = writer\<lparr>raydium_batch := (raydium_batch writer)[raydium_count writer := event],
      raydium_count := raydium_count writer + 1\<rparr>"
  note wf = store_swap_wf [OF full swap, folded stored_def]
  have step: "store_event env event writer m =
      (if BATCH_SIZE \<le> raydium_count stored
       then map_option (\<lambda>(_, writer, m, query). (writer, m, [query])) (flush_raydium_batch env stored m)
       else Some (stored, m, []))"
    using swap wf(2) by (simp add: store_event_def good_swap_def stored_def Let_def)
  have counts: "pumpfun_count stored < BATCH_SIZE" using full by (simp add: stored_def below_full_def)
  show ?thesis
  proof (cases "BATCH_SIZE \<le> raydium_count stored")
    case False
    then show ?thesis using step wf(1,3) counts by (auto simp: below_full_def)
  next
    case True
    from flush_raydium_ok [OF wf(1) env, of m] obtain w m' query
      where flush: "flush_raydium_batch env stored m = Some (True, w, m', query)" "writer_wf w" "raydium_count w = 0"
        "pumpfun_count w = pumpfun_count stored" "writes [query] [] stored m w m'" "events_total m' = events_total m" by blast
    moreover have "writes [query] [event] writer m w m'" using writes_trans [OF wf(3) flush(5)] by simp
    ultimately show ?thesis using step True counts by (auto simp: below_full_def BATCH_SIZE_def)
  qed
qed

definition loop_env_ok :: "loop_env \<Rightarrow> bool" where
  "loop_env_ok env \<longleftrightarrow> all_ok (full_env env) \<and> all_ok (timer_env1 env) \<and> all_ok (timer_env2 env)"

lemma timer_flush_ok:
  assumes "below_full writer" and "loop_env_ok env"
  shows "\<exists>writer' m' queries. timer_flush env writer m = Some (writer', m', queries) \<and>
    below_full writer' \<and> writes queries [] writer m writer' m' \<and> events_total m' = events_total m"
proof (cases "should_flush_timer (check_time env) writer")
  case True
  have "writer_wf writer" "all_ok (timer_env1 env)" "all_ok (timer_env2 env)"
    using assms by (simp_all add: below_full_def loop_env_ok_def)
  from flush_all_ok [OF this, of "flush_time env" m] True show ?thesis by (auto simp: timer_flush_def)
next
  case False
  with assms(1) writes_refl show ?thesis by (simp add: timer_flush_def)
qed

text \<open>One iteration takes the first event, if there is one.\<close>

lemma iteration_ok:
  assumes "below_full writer" and "loop_env_ok env" and "queue_wf q" and "\<forall>event \<in> set (contents q). storable event"
  shows "\<exists>writer' m' q' queries. db_writer_iteration env writer m q = Some (writer', m', q', queries) \<and>
    below_full writer' \<and> queue_wf q' \<and> capacity q' = capacity q \<and> closed q' = closed q \<and> contents q' = drop 1 (contents q) \<and>
    writes queries (take 1 (contents q)) writer m writer' m' \<and>
    events_total m' = events_total m + word_of_nat (length (take 1 (contents q)))"
proof (cases "contents q")
  case Nil
  then have "qsize q = 0" by (simp add: contents_Nil_iff)
  then have pop: "event_queue_pop_section q m False = Some (Return None, q, m)"
    by (intro pop_refuses) simp_all
  from timer_flush_ok [OF assms(1,2), of m] assms(3) Nil show ?thesis
    by (auto simp: db_writer_iteration_def pop)
next
  case (Cons event rest)
  then have "0 < qsize q" using contents_Nil_iff [of q] by auto
  note pop = pop_delivers [OF assms(3) this, of m False] and popped = popped_contents [OF assms(3) this]
  let ?m = "metrics_inc_events_total (metrics_inc_queue_pop m)"
  have "storable event" using assms(4) Cons by simp
  moreover have "all_ok (full_env env)" using assms(2) by (simp add: loop_env_ok_def)
  ultimately obtain w1 m1 queries1 where store: "store_event (full_env env) event writer ?m = Some (w1, m1, queries1)"
    "below_full w1" "writes queries1 [event] writer ?m w1 m1" "events_total m1 = events_total ?m"
    using store_event_ok [OF assms(1)] by blast
  obtain w2 m2 queries2 where timer: "timer_flush env w1 m1 = Some (w2, m2, queries2)"
    "below_full w2" "writes queries2 [] w1 m1 w2 m2" "events_total m2 = events_total m1"
    using timer_flush_ok [OF store(2) assms(2)] by blast
  have "db_writer_iteration env writer m q = Some (w2, m2, popped q, queries1 @ queries2)"
    using store timer by (simp add: db_writer_iteration_def pop Cons)
  moreover have "writes (queries1 @ queries2) [event] writer ?m w2 m2"
    using writes_trans [OF store(3) timer(3)] by simp
  then have "writes (queries1 @ queries2) [event] writer m w2 m2"
    by (rule writes_cong) (simp_all add: metrics_defs)
  moreover have "events_total m2 = events_total m + 1"
    using timer(4) store(4) by (simp add: metrics_defs)
  moreover have "contents (popped q) = rest" using popped(2) Cons by simp
  ultimately show ?thesis using timer(2) popped(1) Cons by simp
qed

text \<open>The passes before the writer is stopped, and the one in which it is.\<close>

definition pass_ok :: "loop_env \<times> other_action list \<Rightarrow> bool" where
  "pass_ok pass \<longleftrightarrow> loop_env_ok (fst pass) \<and> Stop_Writer \<notin> set (snd pass) \<and>
     (\<forall>event. Push_Event event \<in> set (snd pass) \<longrightarrow> storable event)"

lemma loop_ok:
  "below_full writer \<Longrightarrow> db_running writer \<Longrightarrow> list_all pass_ok passes \<Longrightarrow> Stop_Writer \<in> set stopping \<Longrightarrow>
    queue_wf q \<Longrightarrow> \<forall>event \<in> set (contents q). storable event \<Longrightarrow>
    spec_run (capacity q) (map snd passes @ [stopping]) (queue_abs q) = (taken, left) \<Longrightarrow>
    \<exists>writer' m' q' queries.
      db_writer_loop (passes @ (env, stopping) # rest) writer m q = Done (writer'\<lparr>db_running := False\<rparr>, m', q', queries) \<and>
      below_full writer' \<and> contents q' = left \<and> closed q' \<and> writes queries taken writer m writer' m' \<and>
      events_total m' = events_total m + word_of_nat (length taken)"
proof (induction passes arbitrary: writer m q taken left)
  case Nil
  from others_act_ok [OF Nil.prems(5), of stopping writer m] Nil.prems(4) obtain m1 q1 where
    act: "others_act stopping writer m q = Some (writer\<lparr>db_running := False\<rparr>, m1, q1)"
      "queue_abs q1 = spec_others (capacity q) stopping (queue_abs q)"
      "events_total m1 = events_total m" "db_inserts_success m1 = db_inserts_success m" "db_inserts_failed m1 = db_inserts_failed m"
    by auto
  from Nil.prems(7) have "taken = []" "contents q1 = left"
    using act(2) Nil.prems(4) by (simp_all add: queue_abs_def split: prod.splits)
  moreover have "closed q1"
    using act(2) spec_others_closed [of "capacity q" stopping "closed q" "contents q"] Nil.prems(4) by (simp add: queue_abs_def) (metis fst_conv)
  moreover have "writes [] [] writer m writer m1" using act(4,5) by (rule writes_nothing)
  ultimately show ?case using act(1,3) Nil.prems(1) by auto
next
  case (Cons pass passes)
  obtain e others where pass: "pass = (e, others)" by fastforce
  with Cons.prems(3) have ok: "loop_env_ok e" "Stop_Writer \<notin> set others" "\<forall>event. Push_Event event \<in> set others \<longrightarrow> storable event"
    by (simp_all add: pass_ok_def)
  have later: "list_all pass_ok passes" using Cons.prems(3) by simp
  from others_act_ok [OF Cons.prems(5), of others writer m] ok(2) Cons.prems(2) obtain m1 q1 where
    act: "others_act others writer m q = Some (writer, m1, q1)" "queue_wf q1" "capacity q1 = capacity q"
      "queue_abs q1 = spec_others (capacity q) others (queue_abs q)"
      "events_total m1 = events_total m" "db_inserts_success m1 = db_inserts_success m" "db_inserts_failed m1 = db_inserts_failed m"
    by auto
  from spec_others_keep [of "capacity q" others "closed q" "contents q"] act(4) obtain more where
    "contents q1 = contents q @ more" "\<forall>event \<in> set more. Push_Event event \<in> set others"
    by (auto simp: queue_abs_def) (metis snd_conv)
  then have good: "\<forall>event \<in> set (contents q1). storable event" using Cons.prems(6) ok(3) by auto
  from iteration_ok [OF Cons.prems(1) ok(1) act(2) good, of m1] obtain w2 m2 q2 queries1 where
    one: "db_writer_iteration e writer m1 q1 = Some (w2, m2, q2, queries1)" "below_full w2" "queue_wf q2" "capacity q2 = capacity q1"
      "closed q2 = closed q1" "contents q2 = drop 1 (contents q1)" "writes queries1 (take 1 (contents q1)) writer m1 w2 m2"
      "events_total m2 = events_total m1 + word_of_nat (length (take 1 (contents q1)))" by blast
  obtain taken2 left2 where spec: "spec_run (capacity q2) (map snd passes @ [stopping]) (queue_abs q2) = (taken2, left2)" by fastforce
  have run: "taken = take 1 (contents q1) @ taken2" "left = left2"
    using Cons.prems(7) spec one(4-6) ok(2) act(3,4)
    by (auto simp: pass queue_abs_def split: prod.splits list.splits)
  have running: "db_running w2" using one(7) Cons.prems(2) by (simp add: writes_def)
  have good2: "\<forall>event \<in> set (contents q2). storable event" using good one(6) by (auto dest: in_set_dropD)
  from Cons.IH [OF one(2) running later Cons.prems(4) one(3) good2 spec, of m2] obtain w3 m3 q3 queries2 where
    two: "db_writer_loop (passes @ (env, stopping) # rest) w2 m2 q2 = Done (w3\<lparr>db_running := False\<rparr>, m3, q3, queries2)"
      "below_full w3" "contents q3 = left2" "closed q3" "writes queries2 taken2 w2 m2 w3 m3"
      "events_total m3 = events_total m2 + word_of_nat (length taken2)" by blast
  have "writes (queries1 @ queries2) taken writer m1 w3 m3" using writes_trans [OF one(7) two(5)] run(1) by simp
  then have "writes (queries1 @ queries2) taken writer m w3 m3" by (rule writes_cong) (simp_all add: act(6,7))
  moreover have "db_writer_loop ((pass # passes) @ (env, stopping) # rest) writer m q =
      Done (w3\<lparr>db_running := False\<rparr>, m3, q3, queries1 @ queries2)"
    using act(1) one(1) two(1) Cons.prems(2) by (simp add: pass)
  moreover have "events_total m3 = events_total m + word_of_nat (length taken)"
    using two(6) one(8) act(5) run(1) by simp
  ultimately show ?case using two(2-4) run(2) by blast
qed


lemma writer_main_ok:
  assumes "below_full writer" and "db_running writer" and "list_all pass_ok passes" and "Stop_Writer \<in> set stopping" and "loop_env_ok final"
    and "queue_wf q" and "\<forall>event \<in> set (contents q). storable event"
    and "spec_run (capacity q) (map snd passes @ [stopping]) (closed q, contents q) = (taken, left)"
  shows "\<exists>writer' m' q' queries.
    db_writer_main start (passes @ (env, stopping) # rest) final writer m q = Done (writer'\<lparr>db_running := False\<rparr>, m', q', queries) \<and>
    pumpfun_count writer' = 0 \<and> raydium_count writer' = 0 \<and> contents q' = left \<and> closed q' \<and>
    writes queries taken writer m writer' m' \<and> events_total m' = events_total m + word_of_nat (length taken)"
proof -
  let ?writer = "writer\<lparr>last_flush := start\<rparr>"
  have full: "below_full ?writer" and running: "db_running ?writer"
    using assms(1,2) by (simp_all add: below_full_def writer_wf_def pending_trades_def pending_swaps_def)
  from loop_ok [OF full running assms(3,4,6,7) assms(8) [folded queue_abs_def], of env rest m] obtain w1 m1 q1 queries1 where
    run: "db_writer_loop (passes @ (env, stopping) # rest) ?writer m q = Done (w1\<lparr>db_running := False\<rparr>, m1, q1, queries1)"
      "below_full w1" "contents q1 = left" "closed q1" "writes queries1 taken writer m w1 m1"
      "events_total m1 = events_total m + word_of_nat (length taken)" by auto
  have "writer_wf (w1\<lparr>db_running := False\<rparr>)" "all_ok (timer_env1 final)" "all_ok (timer_env2 final)"
    using run(2) assms(5) by (simp_all add: below_full_def loop_env_ok_def writer_wf_def pending_trades_def pending_swaps_def)
  from flush_all_ok [OF this, of "flush_time final" m1] obtain w2 m2 query1 query2 where
    flush: "flush_all_batches (timer_env1 final) (timer_env2 final) (flush_time final) (w1\<lparr>db_running := False\<rparr>) m1 =
        Some (w2, m2, query1, query2)"
      "pumpfun_count w2 = 0" "raydium_count w2 = 0" "writes [query1, query2] [] (w1\<lparr>db_running := False\<rparr>) m1 w2 m2"
      "events_total m2 = events_total m1" by blast
  let ?w = "w2\<lparr>connected := False, db_running := db_running w1\<rparr>"
  have "writes [query1, query2] [] w1 m1 ?w m2"
    using flush(4) by (simp add: writes_def pending_trades_def pending_swaps_def)
  with run(5) have "writes (queries1 @ [query1, query2]) taken writer m ?w m2"
    using writes_trans by fastforce
  moreover have "?w\<lparr>db_running := False\<rparr> = w2\<lparr>connected := False\<rparr>"
    using flush(4) by (simp add: writes_def)
  then have "db_writer_main start (passes @ (env, stopping) # rest) final writer m q =
      Done (?w\<lparr>db_running := False\<rparr>, m2, q1, queries1 @ [query1, query2])"
    by (simp add: db_writer_main_def run(1) flush(1))
  moreover have "events_total m2 = events_total m + word_of_nat (length taken)" using run(6) flush(5) by simp
  ultimately show ?thesis using run(3,4) flush(2,3)
    by (intro exI [of _ ?w] exI [of _ m2] exI [of _ q1] exI [of _ "queries1 @ [query1, query2]"]) simp
qed

text \<open>
  C5. With a database that answers, the writer writes every event it takes, once and in order.
  While other threads push events and until one of them stops it, the writer takes from the
  queue what its specification takes: the first event in each pass that finds one. It returns,
  never leaves its batch arrays, and the statements it has sent are those of batches of one kind
  each, of one to a hundred events, that hold together, kind by kind and in order, the events that
  were pending and those that were taken, each exactly once, with the row of each event. The
  counters say how many; nothing stays pending; and the queue holds what the specification leaves.
\<close>

theorem db_writer_main_inserts_all:
  assumes "below_full writer" and "db_running writer" and "list_all pass_ok passes" and "Stop_Writer \<in> set stopping" and "loop_env_ok final"
    and "queue_wf q" and "\<forall>event \<in> set (contents q). storable event"
    and "spec_run (capacity q) (map snd passes @ [stopping]) (closed q, contents q) = (taken, left)"
  shows "\<exists>writer' m' q' queries batches.
    db_writer_main start (passes @ (env, stopping) # rest) final writer m q = Done (writer', m', q', queries) \<and>
    sent queries = map insert_statement batches \<and> (\<forall>(k, es) \<in> set batches. es \<noteq> [] \<and> length es \<le> BATCH_SIZE) \<and>
    inserted YUREI_EVENT_PUMPFUN_TRADE batches = pending_trades writer @ of_kind YUREI_EVENT_PUMPFUN_TRADE taken \<and>
    inserted YUREI_EVENT_RAYDIUM_SWAP batches = pending_swaps writer @ of_kind YUREI_EVENT_RAYDIUM_SWAP taken \<and>
    contents q' = left \<and> pumpfun_count writer' = 0 \<and> raydium_count writer' = 0 \<and>
    events_total m' = events_total m + word_of_nat (length taken) \<and>
    db_inserts_success m' = db_inserts_success m +
      word_of_nat (pumpfun_count writer + raydium_count writer + length taken) \<and>
    db_inserts_failed m' = db_inserts_failed m"
proof -
  from writer_main_ok [OF assms, of start env rest m] obtain writer' m' q' queries where
    run: "db_writer_main start (passes @ (env, stopping) # rest) final writer m q = Done (writer'\<lparr>db_running := False\<rparr>, m', q', queries)"
      "pumpfun_count writer' = 0" "raydium_count writer' = 0" "contents q' = left"
      "events_total m' = events_total m + word_of_nat (length taken)"
    and writes: "writes queries taken writer m writer' m'" by blast
  from writes run(2,3) obtain batches where "sent queries = map insert_statement batches" "list_all batch_ok batches"
    "inserted YUREI_EVENT_PUMPFUN_TRADE batches = pending_trades writer @ of_kind YUREI_EVENT_PUMPFUN_TRADE taken"
    "inserted YUREI_EVENT_RAYDIUM_SWAP batches = pending_swaps writer @ of_kind YUREI_EVENT_RAYDIUM_SWAP taken"
    by (auto simp: writes_def pending_trades_def pending_swaps_def)
  moreover from this(2) have "\<forall>(k, es) \<in> set batches. es \<noteq> [] \<and> length es \<le> BATCH_SIZE"
    by (auto simp: list_all_iff batch_ok_def)
  ultimately show ?thesis
    using run writes
    by (intro exI [of _ "writer'\<lparr>db_running := False\<rparr>"] exI [of _ m'] exI [of _ q'] exI [of _ queries] exI [of _ batches])
      (simp add: writes_def)
qed

definition good_loop_env :: loop_env where
  "good_loop_env = \<lparr>full_env = good_env, timer_env1 = good_env, timer_env2 = good_env,
     check_time = \<lparr>tv_sec = 10, tv_usec = 0\<rparr>, flush_time = \<lparr>tv_sec = 10, tv_usec = 0\<rparr>\<rparr>"

lemma good_loop_env_ok: "loop_env_ok good_loop_env"
  by (simp add: loop_env_ok_def good_loop_env_def all_ok_def good_env_def)

definition example_queue :: yurei_event_queue where
  "example_queue = pushed trade_event_example (the (event_queue_create True True 4))"

lemma example_queue_wf: "queue_wf example_queue" "contents example_queue = [trade_event_example]" "capacity example_queue = 4"
    "\<not> closed example_queue"
proof -
  have "event_queue_create True True 4 = Some (the (event_queue_create True True 4))" by (simp add: event_queue_create_def)
  note created = event_queue_create_wf [OF this]
  then show "queue_wf example_queue" "contents example_queue = [trade_event_example]" "capacity example_queue = 4"
    "\<not> closed example_queue"
    using pushed_contents [of "the (event_queue_create True True 4)" trade_event_example] by (simp_all add: example_queue_def)
qed

lemma writer_with_below_full: "n < BATCH_SIZE \<Longrightarrow> below_full (writer_with n)"
  using writer_with_wf [of n] by (simp add: below_full_def) (simp add: writer_with_def db_writer_start_def BATCH_SIZE_def)

lemma example_kinds [simp]: "event_type trade_event_example = YUREI_EVENT_PUMPFUN_TRADE" "event_type swap_event_example = YUREI_EVENT_RAYDIUM_SWAP"
  by (simp_all add: trade_event_example_def swap_event_example_def)

text \<open>The trade in the queue and a swap that is pushed meanwhile are written; a later trade is not taken any more.\<close>

theorem db_writer_main_inserts_all_witness:
  "\<exists>writer' m' q' queries batches. db_writer_main \<lparr>tv_sec = 10, tv_usec = 0\<rparr>
      ([(good_loop_env, []), (good_loop_env, [Push_Event swap_event_example])] @
       (good_loop_env, [Push_Event trade_event_example, Stop_Writer]) # []) good_loop_env
      (writer_with 3) metrics_init example_queue = Done (writer', m', q', queries) \<and>
    sent queries = map insert_statement batches \<and>
    inserted YUREI_EVENT_PUMPFUN_TRADE batches = replicate 4 trade_event_example \<and>
    inserted YUREI_EVENT_RAYDIUM_SWAP batches = [swap_event_example] \<and>
    contents q' = [trade_event_example] \<and> db_inserts_success m' = 5"
proof -
  let ?passes = "[(good_loop_env, []), (good_loop_env, [Push_Event swap_event_example])]"
  let ?stopping = "[Push_Event trade_event_example, Stop_Writer]"
  have full: "below_full (writer_with 3)" by (rule writer_with_below_full) (simp add: BATCH_SIZE_def)
  have running: "db_running (writer_with 3)" by (simp add: writer_with_def db_writer_start_def)
  have passes: "list_all pass_ok ?passes" using examples_good by (simp add: pass_ok_def good_loop_env_ok storable_def)
  have events: "\<forall>event \<in> set (contents example_queue). storable event" using examples_good by (simp add: example_queue_wf storable_def)
  have spec: "spec_run (capacity example_queue) (map snd ?passes @ [?stopping]) (closed example_queue, contents example_queue) =
      ([trade_event_example, swap_event_example], [trade_event_example])"
    by (simp add: example_queue_wf)
  have pending: "pending_trades (writer_with 3) = replicate 3 trade_event_example" "pending_swaps (writer_with 3) = []"
      "pumpfun_count (writer_with 3) = 3" "raydium_count (writer_with 3) = 0"
    by (simp_all add: pending_trades_def pending_swaps_def writer_with_def db_writer_start_def BATCH_SIZE_def)
  have stop: "Stop_Writer \<in> set ?stopping" by simp
  from db_writer_main_inserts_all [OF full running passes stop good_loop_env_ok example_queue_wf(1) events spec,
      of "\<lparr>tv_sec = 10, tv_usec = 0\<rparr>" good_loop_env "[]" metrics_init]
  obtain writer' m' q' queries batches where
    "db_writer_main \<lparr>tv_sec = 10, tv_usec = 0\<rparr> (?passes @ (good_loop_env, ?stopping) # []) good_loop_env
      (writer_with 3) metrics_init example_queue = Done (writer', m', q', queries)"
    "sent queries = map insert_statement batches"
    "inserted YUREI_EVENT_PUMPFUN_TRADE batches = replicate 3 trade_event_example @ [trade_event_example]"
    "inserted YUREI_EVENT_RAYDIUM_SWAP batches = [swap_event_example]"
    "contents q' = [trade_event_example]"
    "db_inserts_success m' = db_inserts_success metrics_init + word_of_nat (3 + 0 + 2)"
    unfolding pending by auto
  moreover have "replicate 3 trade_event_example @ [trade_event_example] = replicate 4 trade_event_example"
    by (simp add: numeral_eq_Suc)
  moreover have "db_inserts_success metrics_init + word_of_nat (3 + 0 + 2) = 5" by (simp add: metrics_init_def)
  ultimately show ?thesis by metis
qed

section \<open>A writer that is stopped\<close>



section \<open>A database that is down\<close>

definition env_down :: "db_env \<Rightarrow> bool" where
  "env_down env \<longleftrightarrow> \<not> connect_ok env"

definition loop_env_down :: "loop_env \<Rightarrow> bool" where
  "loop_env_down env \<longleftrightarrow> env_down (full_env env) \<and> env_down (timer_env1 env) \<and> env_down (timer_env2 env)"

lemma flush_down:
  assumes "\<not> connected writer" and "env_down env"
  shows "\<exists>ok. flush_pumpfun_batch env writer m = Some (ok, writer, m, None)"
    and "\<exists>ok. flush_raydium_batch env writer m = Some (ok, writer, m, None)"
proof -
  have "writer\<lparr>connected := False\<rparr> = writer" using assms(1) by simp
  then show "\<exists>ok. flush_pumpfun_batch env writer m = Some (ok, writer, m, None)"
    "\<exists>ok. flush_raydium_batch env writer m = Some (ok, writer, m, None)"
    using assms by (auto simp: flush_pumpfun_batch_def flush_raydium_batch_def ensure_connection_eq env_down_def)
qed

lemma timer_flush_down:
  assumes "\<not> connected writer" and "loop_env_down env"
  shows "\<exists>queries time. timer_flush env writer m = Some (writer\<lparr>last_flush := time\<rparr>, m, queries)"
proof (cases "should_flush_timer (check_time env) writer")
  case True
  from assms(2) have "env_down (timer_env1 env)" "env_down (timer_env2 env)" by (simp_all add: loop_env_down_def)
  from flush_down(1) [OF assms(1) this(1), of m] flush_down(2) [OF assms(1) this(2), of m] True show ?thesis
    by (auto simp: timer_flush_def flush_all_batches_def)
next
  case False
  then show ?thesis by (auto simp: timer_flush_def intro: exI [of _ "last_flush writer"])
qed

lemma store_trade_down:
  assumes "writer_wf writer" and "\<not> connected writer" and "env_down env" and "good_trade event"
  shows "store_event env event writer m =
    (if pumpfun_count writer = BATCH_SIZE then None
     else Some (writer\<lparr>pumpfun_batch := (pumpfun_batch writer)[pumpfun_count writer := event],
            pumpfun_count := pumpfun_count writer + 1\<rparr>, m,
          if pumpfun_count writer + 1 = BATCH_SIZE then [None] else []))"
proof -
  let ?stored = "writer\<lparr>pumpfun_batch := (pumpfun_batch writer)[pumpfun_count writer := event],
      pumpfun_count := pumpfun_count writer + 1\<rparr>"
  have bounds: "length (pumpfun_batch writer) = BATCH_SIZE" "pumpfun_count writer \<le> BATCH_SIZE"
    using assms(1) by (simp_all add: writer_wf_def)
  have "\<not> connected ?stored" using assms(2) by simp
  from flush_down(1) [OF this assms(3), of m] obtain ok where "flush_pumpfun_batch env ?stored m = Some (ok, ?stored, m, None)" ..
  then show ?thesis
    using assms(4) bounds by (auto simp: store_event_def good_trade_def Let_def)
qed

lemma store_trade_wf_down:
  assumes "writer_wf writer" and "pumpfun_count writer < BATCH_SIZE" and "good_trade event"
  shows "writer_wf (writer\<lparr>pumpfun_batch := (pumpfun_batch writer)[pumpfun_count writer := event],
      pumpfun_count := pumpfun_count writer + 1, last_flush := time\<rparr>)"
  using assms by (auto simp: writer_wf_def pending_trades_def pending_swaps_def take_stored)

lemma loop_overflows:
  "writer_wf writer \<Longrightarrow> \<not> connected writer \<Longrightarrow> \<forall>env \<in> set envs. loop_env_down env \<Longrightarrow> queue_wf q \<Longrightarrow>
    BATCH_SIZE - pumpfun_count writer < length envs \<Longrightarrow>
    contents q = trades @ rest \<Longrightarrow> BATCH_SIZE - pumpfun_count writer < length trades \<Longrightarrow> \<forall>event \<in> set trades. good_trade event \<Longrightarrow> db_running writer \<Longrightarrow>
    db_writer_loop (map (\<lambda>env. (env, [])) envs) writer m q = Undefined"
proof (induction "BATCH_SIZE - pumpfun_count writer" arbitrary: writer envs q trades m)
  case 0
  then have full: "pumpfun_count writer = BATCH_SIZE" by (simp add: writer_wf_def)
  from 0 obtain env envs' where envs: "envs = env # envs'" by (cases envs) auto
  from 0 obtain event trades' where trades: "trades = event # trades'" by (cases trades) auto
  with 0 have cont: "contents q = event # trades' @ rest" and "good_trade event" by simp_all
  from cont have "0 < qsize q" by (metis length_contents length_greater_0_conv list.distinct(1))
  from pop_delivers [OF \<open>queue_wf q\<close> this, of m False] cont
  have pop: "event_queue_pop_section q m False = Some (Return (Some event), popped q, metrics_inc_queue_pop m)" by simp
  have "env_down (full_env env)" using 0 envs by (simp add: loop_env_down_def)
  from store_trade_down [OF \<open>writer_wf writer\<close> \<open>\<not> connected writer\<close> this \<open>good_trade event\<close>] full pop show ?case
    by (simp add: envs db_writer_iteration_def \<open>db_running writer\<close>)
next
  case (Suc n)
  then obtain env envs' where envs: "envs = env # envs'" by (cases envs) auto
  from Suc obtain event trades' where trades: "trades = event # trades'" by (cases trades) auto
  with Suc have cont: "contents q = event # trades' @ rest" and good: "good_trade event" by simp_all
  from cont have pos: "0 < qsize q" by (metis length_contents length_greater_0_conv list.distinct(1))
  from pop_delivers [OF \<open>queue_wf q\<close> pos, of m False] cont
  have pop: "event_queue_pop_section q m False = Some (Return (Some event), popped q, metrics_inc_queue_pop m)" by simp
  have down: "env_down (full_env env)" "loop_env_down env" using Suc.prems envs by (simp_all add: loop_env_down_def)
  have room: "pumpfun_count writer < BATCH_SIZE" using Suc.hyps(2) by simp
  let ?stored = "writer\<lparr>pumpfun_batch := (pumpfun_batch writer)[pumpfun_count writer := event],
      pumpfun_count := pumpfun_count writer + 1\<rparr>"
  let ?m = "metrics_inc_events_total (metrics_inc_queue_pop m)"
  from store_trade_down [OF Suc.prems(1,2) down(1) good, of ?m] room
  obtain queries1 where store: "store_event (full_env env) event writer ?m = Some (?stored, ?m, queries1)" by auto
  have "\<not> connected ?stored" using Suc.prems(2) by simp
  from timer_flush_down [OF this down(2), of ?m] obtain queries2 time
    where timer: "timer_flush env ?stored ?m = Some (?stored\<lparr>last_flush := time\<rparr>, ?m, queries2)" by blast
  have step: "db_writer_iteration env writer m q = Some (?stored\<lparr>last_flush := time\<rparr>, ?m, popped q, queries1 @ queries2)"
    unfolding db_writer_iteration_def pop option.case section_end.case prod.case store timer by simp
  have wf: "writer_wf (?stored\<lparr>last_flush := time\<rparr>)" using store_trade_wf_down [OF Suc.prems(1) room good] by simp
  have less: "n = BATCH_SIZE - pumpfun_count (?stored\<lparr>last_flush := time\<rparr>)" using Suc.hyps(2) by simp
  have "db_writer_loop (map (\<lambda>env. (env, [])) envs') (?stored\<lparr>last_flush := time\<rparr>) ?m (popped q) = Undefined"
  proof (rule Suc.hyps(1) [OF less wf])
    show "\<not> connected (?stored\<lparr>last_flush := time\<rparr>)" using Suc.prems(2) by simp
    show "\<forall>env \<in> set envs'. loop_env_down env" using Suc.prems(3) envs by simp
    show "queue_wf (popped q)" using popped_contents(1) [OF Suc.prems(4) pos] .
    show "BATCH_SIZE - pumpfun_count (?stored\<lparr>last_flush := time\<rparr>) < length envs'"
      using Suc.prems(5) envs Suc.hyps(2) by simp
    show "contents (popped q) = trades' @ rest" using popped_tl [OF Suc.prems(4) pos] cont by simp
    show "BATCH_SIZE - pumpfun_count (?stored\<lparr>last_flush := time\<rparr>) < length trades'"
      using Suc.prems(7) trades Suc.hyps(2) by simp
    show "\<forall>event \<in> set trades'. good_trade event" using Suc.prems(8) trades by simp
    show "db_running (?stored\<lparr>last_flush := time\<rparr>)" using Suc.prems(9) by simp
  qed
  then show ?case using Suc.prems(9) by (simp add: envs step)
qed

text \<open>
  C6. With the database down the batch array overflows. A flush that fails leaves the batch full,
  and nothing stops the loop from taking more events: if the connection cannot be made while
  one trade more than the batch has room for is taken from the queue, the loop stores it
  behind the end of the array.
\<close>

theorem db_writer_batch_overflows:
  assumes "writer_wf writer" and "db_running writer" and "\<not> connected writer" and "\<forall>env \<in> set envs. loop_env_down env"
    and "BATCH_SIZE - pumpfun_count writer < length envs"
    and "queue_wf q" and "contents q = trades @ rest" and "\<forall>event \<in> set trades. good_trade event"
    and "BATCH_SIZE - pumpfun_count writer < length trades"
  shows "db_writer_main start (map (\<lambda>env. (env, [])) envs) final writer m q = Undefined"
proof -
  have "writer_wf (writer\<lparr>last_flush := start\<rparr>)" "\<not> connected (writer\<lparr>last_flush := start\<rparr>)"
    using assms(1-3) by (simp_all add: writer_wf_def pending_trades_def pending_swaps_def)
  from loop_overflows [OF this assms(4,6) _ assms(7) _ assms(8), of m] assms(2,5,9) show ?thesis
    by (simp add: db_writer_main_def)
qed

definition down_loop_env :: loop_env where
  "down_loop_env = good_loop_env\<lparr>full_env := down_env, timer_env1 := down_env, timer_env2 := down_env\<rparr>"

theorem db_writer_batch_overflows_witness:
  "db_writer_main \<lparr>tv_sec = 10, tv_usec = 0\<rparr> (map (\<lambda>env. (env, [])) [down_loop_env]) down_loop_env (writer_with 100) metrics_init
     example_queue = Undefined"
proof -
  have cont: "contents example_queue = [trade_event_example] @ []" by (simp add: example_queue_wf)
  show ?thesis
  proof (rule db_writer_batch_overflows [OF _ _ _ _ _ example_queue_wf(1) cont])
    show "writer_wf (writer_with 100)" by (rule writer_with_wf) (simp add: BATCH_SIZE_def)
    show "db_running (writer_with 100)" "\<not> connected (writer_with 100)" by (simp_all add: writer_with_def db_writer_start_def)
    show "\<forall>env \<in> set [down_loop_env]. loop_env_down env"
      by (simp add: loop_env_down_def env_down_def down_loop_env_def down_env_def)
    show "\<forall>event \<in> set [trade_event_example]. good_trade event" using examples_good by simp
  qed (simp_all add: BATCH_SIZE_def writer_with_def)
qed

end
