(* ===== verification/Yurei_Main.thy ===== *)
theory Yurei_Main
  imports Yurei_Config Geyser_Client Writer_Runs
begin

text \<open>
  \<^verbatim>\<open>src/src/main.c\<close>: how the program puts its parts together and takes them apart again. The
  outcomes of the allocations and thread creations are parameters, and so are the flag that a
  signal sets and the clock as the main loop reads them; the log lines are not modelled.
\<close>

section \<open>Start\<close>

record start_outcomes =
  decode1_ok :: bool
  decode2_ok :: bool
  queue_alloc_ok :: bool
  buffer_alloc_ok :: bool
  writer_alloc_ok :: bool
  writer_thread_ok :: bool
  client_alloc_ok :: bool
  client_thread_ok :: bool

text \<open>
  The program is running, with the writer and the client (which share the queue and the
  counters), or it has returned \<open>EXIT_FAILURE\<close>; on the way out a writer that was already
  started is stopped.
\<close>

datatype main_state =
    Exit_Failure "db_writer option"
  | Running db_writer geyser_client

definition main_start ::
  "(string \<Rightarrow> string option) \<Rightarrow> yurei_config_t \<Rightarrow> start_outcomes \<Rightarrow> main_state" where
  "main_start getenv config_local outcomes =
     (let m = metrics_init in
      case yurei_config_load (decode1_ok outcomes) (decode2_ok outcomes) getenv (Some config_local) of
        (True, Some config) \<Rightarrow>
          (case event_queue_create (queue_alloc_ok outcomes) (buffer_alloc_ok outcomes) (queue_capacity config) of
             None \<Rightarrow> Exit_Failure None
           | Some q \<Rightarrow>
               (let detector = protocol_detector_init (pumpfun_program config) (pumpfun_enabled config)
                                 (raydium_program config) (raydium_enabled config) in
                case db_writer_start True (writer_alloc_ok outcomes) (writer_thread_ok outcomes) of
                  None \<Rightarrow> Exit_Failure None
                | Some writer \<Rightarrow>
                    (case geyser_client_start (client_alloc_ok outcomes) (client_thread_ok outcomes) config detector q m of
                       None \<Rightarrow> Exit_Failure (Some (fst (db_writer_stop writer q)))
                     | Some client \<Rightarrow> Running writer client)))
      | _ \<Rightarrow> Exit_Failure None)"

section \<open>Shutdown\<close>

text \<open>The client is stopped before the writer; the queue is closed by the writer's stop.\<close>

definition main_stop :: "db_writer \<Rightarrow> geyser_client \<Rightarrow> db_writer \<times> geyser_client" where
  "main_stop writer client =
     (let client = geyser_client_stop client;
          (writer, q) = db_writer_stop writer (client_queue client)
      in (writer, client\<lparr>client_queue := q\<rparr>))"

section \<open>What the start establishes\<close>

lemma db_writer_start_full:
  "db_writer_start params_ok calloc_ok thread_ok = Some writer \<Longrightarrow> below_full writer \<and> \<not> connected writer \<and> db_running writer"
  by (auto simp: db_writer_start_def below_full_def writer_wf_def pending_trades_def pending_swaps_def BATCH_SIZE_def
      split: if_splits)

lemma yurei_config_load_cases:
  "yurei_config_load ok1 ok2 getenv (Some c) = (True, Some config) \<Longrightarrow>
    config = loaded_config getenv \<and> program_loads ok1 getenv ''YUREI_PUMPFUN_PROGRAM'' \<and>
    program_loads ok2 getenv ''YUREI_RAYDIUM_PROGRAM''"
  using yurei_config_load_succeeds yurei_config_load_fails by (metis fst_conv option.inject prod.inject)

lemma loaded_programs:
  assumes "program_loads ok1 getenv ''YUREI_PUMPFUN_PROGRAM''" and "program_loads ok2 getenv ''YUREI_RAYDIUM_PROGRAM''"
  shows "length (pumpfun_program (loaded_config getenv)) = 32" and "length (raydium_program (loaded_config getenv)) = 32"
  using assms
  by (auto simp: loaded_config_def program_setting_def program_loads_def program_valid_def split: option.splits)

lemma detector_ids:
  "length p = 32 \<Longrightarrow> length r = 32 \<Longrightarrow>
    length (program_id (pumpfun (protocol_detector_init p pe r re))) = 32 \<and>
    length (program_id (raydium (protocol_detector_init p pe r re))) = 32"
  by (simp add: protocol_detector_init_def zero_pattern_def PROGRAM_ID_LEN_def Let_def)

text \<open>
  C32. When the program is running, every part's assumptions about the others hold, whatever the
  environment: the queue is well-formed, empty, open and has room for at least 1024 events (so
  its index arithmetic never divides by zero and its threads cannot deadlock), both batches
  have room, the program ids have their length, and the detector watches exactly the programs
  the configuration enables.
\<close>

theorem main_establishes_invariants:
  assumes "main_start getenv config_local outcomes = Running writer client"
  shows "queue_wf (client_queue client) \<and> contents (client_queue client) = [] \<and> \<not> closed (client_queue client) \<and>
    1024 \<le> capacity (client_queue client) \<and> capacity (client_queue client) = queue_capacity (client_config client) \<and>
    below_full writer \<and> db_running writer \<and> client_running client \<and>
    length (program_id (pumpfun (client_detector client))) = PROGRAM_ID_LEN \<and>
    length (program_id (raydium (client_detector client))) = PROGRAM_ID_LEN \<and>
    (enabled (pumpfun (client_detector client)) \<longleftrightarrow> env_value getenv ''YUREI_PUMPFUN_PROGRAM'' \<noteq> None) \<and>
    (enabled (raydium (client_detector client)) \<longleftrightarrow> env_value getenv ''YUREI_RAYDIUM_PROGRAM'' \<noteq> None)"
proof -
  from assms obtain config where load: "yurei_config_load (decode1_ok outcomes) (decode2_ok outcomes) getenv (Some config_local) = (True, Some config)"
    by (auto simp: main_start_def Let_def split: prod.splits bool.splits option.splits)
  note config = yurei_config_load_cases [OF load]
  from assms load obtain q where q: "event_queue_create (queue_alloc_ok outcomes) (buffer_alloc_ok outcomes) (queue_capacity config) = Some q"
    by (auto simp: main_start_def Let_def split: option.splits)
  from assms load q have writer: "db_writer_start True (writer_alloc_ok outcomes) (writer_thread_ok outcomes) = Some writer"
    and client: "client = \<lparr>client_config = config, client_detector = protocol_detector_init (pumpfun_program config)
        (pumpfun_enabled config) (raydium_program config) (raydium_enabled config), client_queue = q,
        client_metrics = metrics_init, client_running = True\<rparr>"
    by (auto simp: main_start_def geyser_client_start_def Let_def split: option.splits if_splits)
  have "1024 \<le> queue_capacity config" using config by (simp add: loaded_config_def)
  moreover note event_queue_create_wf [OF q] db_writer_start_full [OF writer]
    detector_ids [OF loaded_programs [OF conjunct1 [OF conjunct2 [OF config]] conjunct2 [OF conjunct2 [OF config]]]]
  ultimately show ?thesis
    using config by (auto simp: client protocol_detector_init_fields PROGRAM_ID_LEN_def) (auto simp: loaded_config_def)
qed

definition good_outcomes :: start_outcomes where
  "good_outcomes = \<lparr>decode1_ok = True, decode2_ok = True, queue_alloc_ok = True, buffer_alloc_ok = True,
     writer_alloc_ok = True, writer_thread_ok = True, client_alloc_ok = True, client_thread_ok = True\<rparr>"

theorem main_establishes_invariants_witness:
  "\<exists>writer client. main_start (env_of [(''YUREI_QUEUE_CAPACITY'', ''0'')]) zero_config good_outcomes = Running writer client \<and>
    1024 \<le> capacity (client_queue client)"
proof -
  let ?env = "env_of [(''YUREI_QUEUE_CAPACITY'', ''0'')]"
  have "yurei_config_load True True ?env (Some zero_config) = (True, Some (loaded_config ?env))"
    by (rule yurei_config_load_succeeds) (simp_all add: program_loads_def env_value_def env_of_def)
  then have "\<exists>writer client. main_start ?env zero_config good_outcomes = Running writer client"
    by (simp add: main_start_def good_outcomes_def event_queue_create_def db_writer_start_def geyser_client_start_def Let_def)
  then obtain writer client where "main_start ?env zero_config good_outcomes = Running writer client" by blast
  with main_establishes_invariants [OF this] show ?thesis by blast
qed

section \<open>The main loop\<close>

definition METRICS_LOG_INTERVAL :: int where
  "METRICS_LOG_INTERVAL = 60"

text \<open>Either signal only sets the flag.\<close>

definition handle_signal :: "int \<Rightarrow> int \<Rightarrow> int" where
  "handle_signal signo g_stop = 1"

text \<open>
  The loop waits for the flag. Each entry is one pass: the flag it reads and, if it goes on, the
  time after its sleep of a second; the result is the times at which a summary is logged, \<open>None\<close>
  if the passes end before the loop does.
\<close>

fun main_loop :: "int \<Rightarrow> (int \<times> int) list \<Rightarrow> int list option" where
  "main_loop last_metrics_log [] = None"
| "main_loop last_metrics_log ((g_stop, now) # passes) =
     (if g_stop \<noteq> 0 then Some []
      else if METRICS_LOG_INTERVAL \<le> now - last_metrics_log
      then (case main_loop now passes of None \<Rightarrow> None | Some logs \<Rightarrow> Some (now # logs))
      else main_loop last_metrics_log passes)"

text \<open>
  C40. The loop ends exactly when a signal has set the flag, whatever the clock does, and it logs a
  summary at most once a minute: each at least 60 seconds after the one before it.
\<close>

theorem main_loop_stops_on_signal:
  "(main_loop start passes \<noteq> None \<longleftrightarrow> list_ex (\<lambda>(g_stop, now). g_stop \<noteq> 0) passes) \<and>
   (case main_loop start passes of
      None \<Rightarrow> True
    | Some logs \<Rightarrow> sorted_wrt (\<lambda>s t. s + 60 \<le> t) (start # logs))"
proof (induction start passes rule: main_loop.induct)
  case (2 start g_stop now passes)
  show ?case
  proof (cases "g_stop \<noteq> 0 \<or> \<not> METRICS_LOG_INTERVAL \<le> now - start")
    case True
    then show ?thesis using 2 by (auto split: option.splits)
  next
    case False
    then have "main_loop start ((g_stop, now) # passes) = (case main_loop now passes of None \<Rightarrow> None | Some logs \<Rightarrow> Some (now # logs))"
      and later: "start + 60 \<le> now" by (simp_all add: METRICS_LOG_INTERVAL_def)
    then show ?thesis using 2(1) False by (fastforce split: option.splits)
  qed
qed simp

end
