(* ===== verification/Timestamp_Proto.thy ===== *)
theory Timestamp_Proto
  imports Protobuf_Tables
begin

text \<open>
  \<^verbatim>\<open>src/src/proto/google/protobuf/timestamp.pb-c.h\<close> and
  \<^verbatim>\<open>src/src/proto/google/protobuf/timestamp.pb-c.c\<close>: the imported timestamp message, which the
  updates carry as \<open>created_at\<close>.
\<close>

section \<open>Structure\<close>

definition Google__Protobuf__Timestamp :: c_struct where
  "Google__Protobuf__Timestamp =
     (''Google__Protobuf__Timestamp'',
      [Member C_message ''base'',
       Member C_int64 ''seconds'',
       Member C_int32 ''nanos''])"

definition GOOGLE__PROTOBUF__TIMESTAMP__INIT :: "c_init list" where
  "GOOGLE__PROTOBUF__TIMESTAMP__INIT =
     [PROTOBUF_C_MESSAGE_INIT ''google__protobuf__timestamp__descriptor'', Init_zero, Init_zero]"

section \<open>Functions\<close>

definition google__protobuf__timestamp__functions :: "'m protobuf_c \<Rightarrow> 'm message_functions" where
  "google__protobuf__timestamp__functions protobuf =
     generated_functions protobuf ''google__protobuf__timestamp__descriptor'' GOOGLE__PROTOBUF__TIMESTAMP__INIT"

section \<open>Tables\<close>

definition google__protobuf__timestamp__field_descriptors :: "field_descriptor list" where
  "google__protobuf__timestamp__field_descriptors =
     [\<lparr>fd_name = ''seconds'', fd_id = 1, fd_label = PROTOBUF_C_LABEL_NONE, fd_type = PROTOBUF_C_TYPE_INT64,
        fd_quantifier_offset = None,
        fd_offset = (''Google__Protobuf__Timestamp'', ''seconds''),
        fd_descriptor = None, fd_default_value = None, fd_flags = []\<rparr>,
      \<lparr>fd_name = ''nanos'', fd_id = 2, fd_label = PROTOBUF_C_LABEL_NONE, fd_type = PROTOBUF_C_TYPE_INT32,
        fd_quantifier_offset = None,
        fd_offset = (''Google__Protobuf__Timestamp'', ''nanos''),
        fd_descriptor = None, fd_default_value = None, fd_flags = []\<rparr>]"

definition google__protobuf__timestamp__field_indices_by_name :: "nat list" where
  "google__protobuf__timestamp__field_indices_by_name = [1, 0]"

definition google__protobuf__timestamp__number_ranges :: "int_range list" where
  "google__protobuf__timestamp__number_ranges = [(1, 0), (0, 2)]"

definition google__protobuf__timestamp__descriptor :: message_descriptor where
  "google__protobuf__timestamp__descriptor =
     \<lparr>md_magic = PROTOBUF_C__MESSAGE_DESCRIPTOR_MAGIC,
      md_name = ''google.protobuf.Timestamp'', md_short_name = ''Timestamp'',
      md_c_name = ''Google__Protobuf__Timestamp'', md_package_name = ''google.protobuf'',
      md_sizeof_message = ''Google__Protobuf__Timestamp'', md_n_fields = 2,
      md_fields = google__protobuf__timestamp__field_descriptors, md_fields_sorted_by_name = google__protobuf__timestamp__field_indices_by_name,
      md_n_field_ranges = 1, md_field_ranges = google__protobuf__timestamp__number_ranges,
      md_message_init = ''google__protobuf__timestamp__init''\<rparr>"

section \<open>The generated messages\<close>

definition timestamp_messages :: "generated_message list" where
  "timestamp_messages =
     [(''google__protobuf__timestamp__descriptor'', google__protobuf__timestamp__descriptor, Google__Protobuf__Timestamp, GOOGLE__PROTOBUF__TIMESTAMP__INIT)]"

definition timestamp_functions :: "'m protobuf_c \<Rightarrow> (string \<times> 'm message_functions) list" where
  "timestamp_functions protobuf =
     [(''google__protobuf__timestamp__descriptor'', google__protobuf__timestamp__functions protobuf)]"

end
