(* ===== verification/Storage_Structs.thy ===== *)
theory Storage_Structs
  imports Protobuf_Tables
begin

text \<open>
  \<^verbatim>\<open>src/src/proto/solana-storage.pb-c.h\<close>: the structures of the Solana transaction messages, member
  by member, with their initialisers.
\<close>

section \<open>Structures and initialisers\<close>

definition Solana__Storage__ConfirmedBlock__RewardType :: c_enum where
  "Solana__Storage__ConfirmedBlock__RewardType =
     (''Solana__Storage__ConfirmedBlock__RewardType'',
      [(''SOLANA__STORAGE__CONFIRMED_BLOCK__REWARD_TYPE__Unspecified'', 0),
       (''SOLANA__STORAGE__CONFIRMED_BLOCK__REWARD_TYPE__Fee'', 1),
       (''SOLANA__STORAGE__CONFIRMED_BLOCK__REWARD_TYPE__Rent'', 2),
       (''SOLANA__STORAGE__CONFIRMED_BLOCK__REWARD_TYPE__Staking'', 3),
       (''SOLANA__STORAGE__CONFIRMED_BLOCK__REWARD_TYPE__Voting'', 4)])"

definition Solana__Storage__ConfirmedBlock__ConfirmedBlock :: c_struct where
  "Solana__Storage__ConfirmedBlock__ConfirmedBlock =
     (''Solana__Storage__ConfirmedBlock__ConfirmedBlock'',
      [Member C_message ''base'',
       Member (C_ptr C_char) ''previous_blockhash'',
       Member (C_ptr C_char) ''blockhash'',
       Member C_boolean ''has_parent_slot'',
       Member C_uint64 ''parent_slot'',
       Member C_size_t ''n_transactions'',
       Member (C_ptr (C_ptr (C_struct ''Solana__Storage__ConfirmedBlock__ConfirmedTransaction''))) ''transactions'',
       Member C_size_t ''n_rewards'',
       Member (C_ptr (C_ptr (C_struct ''Solana__Storage__ConfirmedBlock__Reward''))) ''rewards'',
       Member (C_ptr (C_struct ''Solana__Storage__ConfirmedBlock__UnixTimestamp'')) ''block_time'',
       Member (C_ptr (C_struct ''Solana__Storage__ConfirmedBlock__BlockHeight'')) ''block_height'',
       Member (C_ptr (C_struct ''Solana__Storage__ConfirmedBlock__NumPartitions'')) ''num_partitions''])"

definition SOLANA__STORAGE__CONFIRMED_BLOCK__CONFIRMED_BLOCK__INIT :: "c_init list" where
  "SOLANA__STORAGE__CONFIRMED_BLOCK__CONFIRMED_BLOCK__INIT =
     [PROTOBUF_C_MESSAGE_INIT ''solana__storage__confirmed_block__confirmed_block__descriptor'', Init_null, Init_null, Init_zero, Init_zero, Init_zero, Init_null, Init_zero, Init_null, Init_null, Init_null, Init_null]"

definition Solana__Storage__ConfirmedBlock__ConfirmedTransaction :: c_struct where
  "Solana__Storage__ConfirmedBlock__ConfirmedTransaction =
     (''Solana__Storage__ConfirmedBlock__ConfirmedTransaction'',
      [Member C_message ''base'',
       Member (C_ptr (C_struct ''Solana__Storage__ConfirmedBlock__Transaction'')) ''transaction'',
       Member (C_ptr (C_struct ''Solana__Storage__ConfirmedBlock__TransactionStatusMeta'')) ''meta''])"

definition SOLANA__STORAGE__CONFIRMED_BLOCK__CONFIRMED_TRANSACTION__INIT :: "c_init list" where
  "SOLANA__STORAGE__CONFIRMED_BLOCK__CONFIRMED_TRANSACTION__INIT =
     [PROTOBUF_C_MESSAGE_INIT ''solana__storage__confirmed_block__confirmed_transaction__descriptor'', Init_null, Init_null]"

definition Solana__Storage__ConfirmedBlock__Transaction :: c_struct where
  "Solana__Storage__ConfirmedBlock__Transaction =
     (''Solana__Storage__ConfirmedBlock__Transaction'',
      [Member C_message ''base'',
       Member C_size_t ''n_signatures'',
       Member (C_ptr C_binary) ''signatures'',
       Member (C_ptr (C_struct ''Solana__Storage__ConfirmedBlock__Message'')) ''message''])"

definition SOLANA__STORAGE__CONFIRMED_BLOCK__TRANSACTION__INIT :: "c_init list" where
  "SOLANA__STORAGE__CONFIRMED_BLOCK__TRANSACTION__INIT =
     [PROTOBUF_C_MESSAGE_INIT ''solana__storage__confirmed_block__transaction__descriptor'', Init_zero, Init_null, Init_null]"

definition Solana__Storage__ConfirmedBlock__Message :: c_struct where
  "Solana__Storage__ConfirmedBlock__Message =
     (''Solana__Storage__ConfirmedBlock__Message'',
      [Member C_message ''base'',
       Member (C_ptr (C_struct ''Solana__Storage__ConfirmedBlock__MessageHeader'')) ''header'',
       Member C_size_t ''n_account_keys'',
       Member (C_ptr C_binary) ''account_keys'',
       Member C_boolean ''has_recent_blockhash'',
       Member C_binary ''recent_blockhash'',
       Member C_size_t ''n_instructions'',
       Member (C_ptr (C_ptr (C_struct ''Solana__Storage__ConfirmedBlock__CompiledInstruction''))) ''instructions'',
       Member C_boolean ''has_versioned'',
       Member C_boolean ''versioned'',
       Member C_size_t ''n_address_table_lookups'',
       Member (C_ptr (C_ptr (C_struct ''Solana__Storage__ConfirmedBlock__MessageAddressTableLookup''))) ''address_table_lookups''])"

definition SOLANA__STORAGE__CONFIRMED_BLOCK__MESSAGE__INIT :: "c_init list" where
  "SOLANA__STORAGE__CONFIRMED_BLOCK__MESSAGE__INIT =
     [PROTOBUF_C_MESSAGE_INIT ''solana__storage__confirmed_block__message__descriptor'', Init_null, Init_zero, Init_null, Init_zero, Init_binary, Init_zero, Init_null, Init_zero, Init_zero, Init_zero, Init_null]"

definition Solana__Storage__ConfirmedBlock__MessageHeader :: c_struct where
  "Solana__Storage__ConfirmedBlock__MessageHeader =
     (''Solana__Storage__ConfirmedBlock__MessageHeader'',
      [Member C_message ''base'',
       Member C_boolean ''has_num_required_signatures'',
       Member C_uint32 ''num_required_signatures'',
       Member C_boolean ''has_num_readonly_signed_accounts'',
       Member C_uint32 ''num_readonly_signed_accounts'',
       Member C_boolean ''has_num_readonly_unsigned_accounts'',
       Member C_uint32 ''num_readonly_unsigned_accounts''])"

definition SOLANA__STORAGE__CONFIRMED_BLOCK__MESSAGE_HEADER__INIT :: "c_init list" where
  "SOLANA__STORAGE__CONFIRMED_BLOCK__MESSAGE_HEADER__INIT =
     [PROTOBUF_C_MESSAGE_INIT ''solana__storage__confirmed_block__message_header__descriptor'', Init_zero, Init_zero, Init_zero, Init_zero, Init_zero, Init_zero]"

definition Solana__Storage__ConfirmedBlock__MessageAddressTableLookup :: c_struct where
  "Solana__Storage__ConfirmedBlock__MessageAddressTableLookup =
     (''Solana__Storage__ConfirmedBlock__MessageAddressTableLookup'',
      [Member C_message ''base'',
       Member C_boolean ''has_account_key'',
       Member C_binary ''account_key'',
       Member C_boolean ''has_writable_indexes'',
       Member C_binary ''writable_indexes'',
       Member C_boolean ''has_readonly_indexes'',
       Member C_binary ''readonly_indexes''])"

definition SOLANA__STORAGE__CONFIRMED_BLOCK__MESSAGE_ADDRESS_TABLE_LOOKUP__INIT :: "c_init list" where
  "SOLANA__STORAGE__CONFIRMED_BLOCK__MESSAGE_ADDRESS_TABLE_LOOKUP__INIT =
     [PROTOBUF_C_MESSAGE_INIT ''solana__storage__confirmed_block__message_address_table_lookup__descriptor'', Init_zero, Init_binary, Init_zero, Init_binary, Init_zero, Init_binary]"

definition Solana__Storage__ConfirmedBlock__TransactionStatusMeta :: c_struct where
  "Solana__Storage__ConfirmedBlock__TransactionStatusMeta =
     (''Solana__Storage__ConfirmedBlock__TransactionStatusMeta'',
      [Member C_message ''base'',
       Member (C_ptr (C_struct ''Solana__Storage__ConfirmedBlock__TransactionError'')) ''err'',
       Member C_boolean ''has_fee'',
       Member C_uint64 ''fee'',
       Member C_size_t ''n_pre_balances'',
       Member (C_ptr C_uint64) ''pre_balances'',
       Member C_size_t ''n_post_balances'',
       Member (C_ptr C_uint64) ''post_balances'',
       Member C_size_t ''n_inner_instructions'',
       Member (C_ptr (C_ptr (C_struct ''Solana__Storage__ConfirmedBlock__InnerInstructions''))) ''inner_instructions'',
       Member C_boolean ''has_inner_instructions_none'',
       Member C_boolean ''inner_instructions_none'',
       Member C_size_t ''n_log_messages'',
       Member (C_ptr (C_ptr C_char)) ''log_messages'',
       Member C_boolean ''has_log_messages_none'',
       Member C_boolean ''log_messages_none'',
       Member C_size_t ''n_pre_token_balances'',
       Member (C_ptr (C_ptr (C_struct ''Solana__Storage__ConfirmedBlock__TokenBalance''))) ''pre_token_balances'',
       Member C_size_t ''n_post_token_balances'',
       Member (C_ptr (C_ptr (C_struct ''Solana__Storage__ConfirmedBlock__TokenBalance''))) ''post_token_balances'',
       Member C_size_t ''n_rewards'',
       Member (C_ptr (C_ptr (C_struct ''Solana__Storage__ConfirmedBlock__Reward''))) ''rewards'',
       Member C_size_t ''n_loaded_writable_addresses'',
       Member (C_ptr C_binary) ''loaded_writable_addresses'',
       Member C_size_t ''n_loaded_readonly_addresses'',
       Member (C_ptr C_binary) ''loaded_readonly_addresses'',
       Member (C_ptr (C_struct ''Solana__Storage__ConfirmedBlock__ReturnData'')) ''return_data'',
       Member C_boolean ''has_return_data_none'',
       Member C_boolean ''return_data_none'',
       Member C_boolean ''has_compute_units_consumed'',
       Member C_uint64 ''compute_units_consumed'',
       Member C_boolean ''has_cost_units'',
       Member C_uint64 ''cost_units''])"

definition SOLANA__STORAGE__CONFIRMED_BLOCK__TRANSACTION_STATUS_META__INIT :: "c_init list" where
  "SOLANA__STORAGE__CONFIRMED_BLOCK__TRANSACTION_STATUS_META__INIT =
     [PROTOBUF_C_MESSAGE_INIT ''solana__storage__confirmed_block__transaction_status_meta__descriptor'', Init_null, Init_zero, Init_zero, Init_zero, Init_null, Init_zero, Init_null, Init_zero, Init_null, Init_zero, Init_zero, Init_zero, Init_null, Init_zero, Init_zero, Init_zero, Init_null, Init_zero, Init_null, Init_zero, Init_null, Init_zero, Init_null, Init_zero, Init_null, Init_null, Init_zero, Init_zero, Init_zero, Init_zero, Init_zero, Init_zero]"

definition Solana__Storage__ConfirmedBlock__TransactionError :: c_struct where
  "Solana__Storage__ConfirmedBlock__TransactionError =
     (''Solana__Storage__ConfirmedBlock__TransactionError'',
      [Member C_message ''base'',
       Member C_boolean ''has_err'',
       Member C_binary ''err''])"

definition SOLANA__STORAGE__CONFIRMED_BLOCK__TRANSACTION_ERROR__INIT :: "c_init list" where
  "SOLANA__STORAGE__CONFIRMED_BLOCK__TRANSACTION_ERROR__INIT =
     [PROTOBUF_C_MESSAGE_INIT ''solana__storage__confirmed_block__transaction_error__descriptor'', Init_zero, Init_binary]"

definition Solana__Storage__ConfirmedBlock__InnerInstructions :: c_struct where
  "Solana__Storage__ConfirmedBlock__InnerInstructions =
     (''Solana__Storage__ConfirmedBlock__InnerInstructions'',
      [Member C_message ''base'',
       Member C_boolean ''has_index'',
       Member C_uint32 ''index'',
       Member C_size_t ''n_instructions'',
       Member (C_ptr (C_ptr (C_struct ''Solana__Storage__ConfirmedBlock__InnerInstruction''))) ''instructions''])"

definition SOLANA__STORAGE__CONFIRMED_BLOCK__INNER_INSTRUCTIONS__INIT :: "c_init list" where
  "SOLANA__STORAGE__CONFIRMED_BLOCK__INNER_INSTRUCTIONS__INIT =
     [PROTOBUF_C_MESSAGE_INIT ''solana__storage__confirmed_block__inner_instructions__descriptor'', Init_zero, Init_zero, Init_zero, Init_null]"

definition Solana__Storage__ConfirmedBlock__InnerInstruction :: c_struct where
  "Solana__Storage__ConfirmedBlock__InnerInstruction =
     (''Solana__Storage__ConfirmedBlock__InnerInstruction'',
      [Member C_message ''base'',
       Member C_boolean ''has_program_id_index'',
       Member C_uint32 ''program_id_index'',
       Member C_boolean ''has_accounts'',
       Member C_binary ''accounts'',
       Member C_boolean ''has_data'',
       Member C_binary ''data'',
       Member C_boolean ''has_stack_height'',
       Member C_uint32 ''stack_height''])"

definition SOLANA__STORAGE__CONFIRMED_BLOCK__INNER_INSTRUCTION__INIT :: "c_init list" where
  "SOLANA__STORAGE__CONFIRMED_BLOCK__INNER_INSTRUCTION__INIT =
     [PROTOBUF_C_MESSAGE_INIT ''solana__storage__confirmed_block__inner_instruction__descriptor'', Init_zero, Init_zero, Init_zero, Init_binary, Init_zero, Init_binary, Init_zero, Init_zero]"

definition Solana__Storage__ConfirmedBlock__CompiledInstruction :: c_struct where
  "Solana__Storage__ConfirmedBlock__CompiledInstruction =
     (''Solana__Storage__ConfirmedBlock__CompiledInstruction'',
      [Member C_message ''base'',
       Member C_boolean ''has_program_id_index'',
       Member C_uint32 ''program_id_index'',
       Member C_boolean ''has_accounts'',
       Member C_binary ''accounts'',
       Member C_boolean ''has_data'',
       Member C_binary ''data''])"

definition SOLANA__STORAGE__CONFIRMED_BLOCK__COMPILED_INSTRUCTION__INIT :: "c_init list" where
  "SOLANA__STORAGE__CONFIRMED_BLOCK__COMPILED_INSTRUCTION__INIT =
     [PROTOBUF_C_MESSAGE_INIT ''solana__storage__confirmed_block__compiled_instruction__descriptor'', Init_zero, Init_zero, Init_zero, Init_binary, Init_zero, Init_binary]"

definition Solana__Storage__ConfirmedBlock__TokenBalance :: c_struct where
  "Solana__Storage__ConfirmedBlock__TokenBalance =
     (''Solana__Storage__ConfirmedBlock__TokenBalance'',
      [Member C_message ''base'',
       Member C_boolean ''has_account_index'',
       Member C_uint32 ''account_index'',
       Member (C_ptr C_char) ''mint'',
       Member (C_ptr (C_struct ''Solana__Storage__ConfirmedBlock__UiTokenAmount'')) ''ui_token_amount'',
       Member (C_ptr C_char) ''owner'',
       Member (C_ptr C_char) ''program_id''])"

definition SOLANA__STORAGE__CONFIRMED_BLOCK__TOKEN_BALANCE__INIT :: "c_init list" where
  "SOLANA__STORAGE__CONFIRMED_BLOCK__TOKEN_BALANCE__INIT =
     [PROTOBUF_C_MESSAGE_INIT ''solana__storage__confirmed_block__token_balance__descriptor'', Init_zero, Init_zero, Init_null, Init_null, Init_null, Init_null]"

definition Solana__Storage__ConfirmedBlock__UiTokenAmount :: c_struct where
  "Solana__Storage__ConfirmedBlock__UiTokenAmount =
     (''Solana__Storage__ConfirmedBlock__UiTokenAmount'',
      [Member C_message ''base'',
       Member C_boolean ''has_ui_amount'',
       Member C_double ''ui_amount'',
       Member C_boolean ''has_decimals'',
       Member C_uint32 ''decimals'',
       Member (C_ptr C_char) ''amount'',
       Member (C_ptr C_char) ''ui_amount_string''])"

definition SOLANA__STORAGE__CONFIRMED_BLOCK__UI_TOKEN_AMOUNT__INIT :: "c_init list" where
  "SOLANA__STORAGE__CONFIRMED_BLOCK__UI_TOKEN_AMOUNT__INIT =
     [PROTOBUF_C_MESSAGE_INIT ''solana__storage__confirmed_block__ui_token_amount__descriptor'', Init_zero, Init_zero, Init_zero, Init_zero, Init_null, Init_null]"

definition Solana__Storage__ConfirmedBlock__ReturnData :: c_struct where
  "Solana__Storage__ConfirmedBlock__ReturnData =
     (''Solana__Storage__ConfirmedBlock__ReturnData'',
      [Member C_message ''base'',
       Member C_boolean ''has_program_id'',
       Member C_binary ''program_id'',
       Member C_boolean ''has_data'',
       Member C_binary ''data''])"

definition SOLANA__STORAGE__CONFIRMED_BLOCK__RETURN_DATA__INIT :: "c_init list" where
  "SOLANA__STORAGE__CONFIRMED_BLOCK__RETURN_DATA__INIT =
     [PROTOBUF_C_MESSAGE_INIT ''solana__storage__confirmed_block__return_data__descriptor'', Init_zero, Init_binary, Init_zero, Init_binary]"

definition Solana__Storage__ConfirmedBlock__Reward :: c_struct where
  "Solana__Storage__ConfirmedBlock__Reward =
     (''Solana__Storage__ConfirmedBlock__Reward'',
      [Member C_message ''base'',
       Member (C_ptr C_char) ''pubkey'',
       Member C_boolean ''has_lamports'',
       Member C_int64 ''lamports'',
       Member C_boolean ''has_post_balance'',
       Member C_uint64 ''post_balance'',
       Member C_boolean ''has_reward_type'',
       Member (C_enum ''Solana__Storage__ConfirmedBlock__RewardType'') ''reward_type'',
       Member (C_ptr C_char) ''commission''])"

definition SOLANA__STORAGE__CONFIRMED_BLOCK__REWARD__INIT :: "c_init list" where
  "SOLANA__STORAGE__CONFIRMED_BLOCK__REWARD__INIT =
     [PROTOBUF_C_MESSAGE_INIT ''solana__storage__confirmed_block__reward__descriptor'', Init_null, Init_zero, Init_zero, Init_zero, Init_zero, Init_zero, Init_enum ''SOLANA__STORAGE__CONFIRMED_BLOCK__REWARD_TYPE__Unspecified'', Init_null]"

definition Solana__Storage__ConfirmedBlock__Rewards :: c_struct where
  "Solana__Storage__ConfirmedBlock__Rewards =
     (''Solana__Storage__ConfirmedBlock__Rewards'',
      [Member C_message ''base'',
       Member C_size_t ''n_rewards'',
       Member (C_ptr (C_ptr (C_struct ''Solana__Storage__ConfirmedBlock__Reward''))) ''rewards'',
       Member (C_ptr (C_struct ''Solana__Storage__ConfirmedBlock__NumPartitions'')) ''num_partitions''])"

definition SOLANA__STORAGE__CONFIRMED_BLOCK__REWARDS__INIT :: "c_init list" where
  "SOLANA__STORAGE__CONFIRMED_BLOCK__REWARDS__INIT =
     [PROTOBUF_C_MESSAGE_INIT ''solana__storage__confirmed_block__rewards__descriptor'', Init_zero, Init_null, Init_null]"

definition Solana__Storage__ConfirmedBlock__UnixTimestamp :: c_struct where
  "Solana__Storage__ConfirmedBlock__UnixTimestamp =
     (''Solana__Storage__ConfirmedBlock__UnixTimestamp'',
      [Member C_message ''base'',
       Member C_boolean ''has_timestamp'',
       Member C_int64 ''timestamp''])"

definition SOLANA__STORAGE__CONFIRMED_BLOCK__UNIX_TIMESTAMP__INIT :: "c_init list" where
  "SOLANA__STORAGE__CONFIRMED_BLOCK__UNIX_TIMESTAMP__INIT =
     [PROTOBUF_C_MESSAGE_INIT ''solana__storage__confirmed_block__unix_timestamp__descriptor'', Init_zero, Init_zero]"

definition Solana__Storage__ConfirmedBlock__BlockHeight :: c_struct where
  "Solana__Storage__ConfirmedBlock__BlockHeight =
     (''Solana__Storage__ConfirmedBlock__BlockHeight'',
      [Member C_message ''base'',
       Member C_boolean ''has_block_height'',
       Member C_uint64 ''block_height''])"

definition SOLANA__STORAGE__CONFIRMED_BLOCK__BLOCK_HEIGHT__INIT :: "c_init list" where
  "SOLANA__STORAGE__CONFIRMED_BLOCK__BLOCK_HEIGHT__INIT =
     [PROTOBUF_C_MESSAGE_INIT ''solana__storage__confirmed_block__block_height__descriptor'', Init_zero, Init_zero]"

definition Solana__Storage__ConfirmedBlock__NumPartitions :: c_struct where
  "Solana__Storage__ConfirmedBlock__NumPartitions =
     (''Solana__Storage__ConfirmedBlock__NumPartitions'',
      [Member C_message ''base'',
       Member C_boolean ''has_num_partitions'',
       Member C_uint64 ''num_partitions''])"

definition SOLANA__STORAGE__CONFIRMED_BLOCK__NUM_PARTITIONS__INIT :: "c_init list" where
  "SOLANA__STORAGE__CONFIRMED_BLOCK__NUM_PARTITIONS__INIT =
     [PROTOBUF_C_MESSAGE_INIT ''solana__storage__confirmed_block__num_partitions__descriptor'', Init_zero, Init_zero]"

end
