(* ===== verification/Storage_Proto.thy ===== *)
theory Storage_Proto
  imports Storage_Structs
begin

text \<open>
  \<^verbatim>\<open>src/src/proto/solana-storage.pb-c.c\<close>: the functions and the descriptor tables of the Solana
  transaction messages.
\<close>

section \<open>Functions\<close>

text \<open>The functions of a message are its initialiser, the five that call protobuf-c with its
  descriptor, and for a map entry the initialiser alone.\<close>

definition solana__storage__confirmed_block__confirmed_block__functions :: "'m protobuf_c \<Rightarrow> 'm message_functions" where
  "solana__storage__confirmed_block__confirmed_block__functions protobuf =
     generated_functions protobuf ''solana__storage__confirmed_block__confirmed_block__descriptor'' SOLANA__STORAGE__CONFIRMED_BLOCK__CONFIRMED_BLOCK__INIT"

definition solana__storage__confirmed_block__confirmed_transaction__functions :: "'m protobuf_c \<Rightarrow> 'm message_functions" where
  "solana__storage__confirmed_block__confirmed_transaction__functions protobuf =
     generated_functions protobuf ''solana__storage__confirmed_block__confirmed_transaction__descriptor'' SOLANA__STORAGE__CONFIRMED_BLOCK__CONFIRMED_TRANSACTION__INIT"

definition solana__storage__confirmed_block__transaction__functions :: "'m protobuf_c \<Rightarrow> 'm message_functions" where
  "solana__storage__confirmed_block__transaction__functions protobuf =
     generated_functions protobuf ''solana__storage__confirmed_block__transaction__descriptor'' SOLANA__STORAGE__CONFIRMED_BLOCK__TRANSACTION__INIT"

definition solana__storage__confirmed_block__message__functions :: "'m protobuf_c \<Rightarrow> 'm message_functions" where
  "solana__storage__confirmed_block__message__functions protobuf =
     generated_functions protobuf ''solana__storage__confirmed_block__message__descriptor'' SOLANA__STORAGE__CONFIRMED_BLOCK__MESSAGE__INIT"

definition solana__storage__confirmed_block__message_header__functions :: "'m protobuf_c \<Rightarrow> 'm message_functions" where
  "solana__storage__confirmed_block__message_header__functions protobuf =
     generated_functions protobuf ''solana__storage__confirmed_block__message_header__descriptor'' SOLANA__STORAGE__CONFIRMED_BLOCK__MESSAGE_HEADER__INIT"

definition solana__storage__confirmed_block__message_address_table_lookup__functions :: "'m protobuf_c \<Rightarrow> 'm message_functions" where
  "solana__storage__confirmed_block__message_address_table_lookup__functions protobuf =
     generated_functions protobuf ''solana__storage__confirmed_block__message_address_table_lookup__descriptor'' SOLANA__STORAGE__CONFIRMED_BLOCK__MESSAGE_ADDRESS_TABLE_LOOKUP__INIT"

definition solana__storage__confirmed_block__transaction_status_meta__functions :: "'m protobuf_c \<Rightarrow> 'm message_functions" where
  "solana__storage__confirmed_block__transaction_status_meta__functions protobuf =
     generated_functions protobuf ''solana__storage__confirmed_block__transaction_status_meta__descriptor'' SOLANA__STORAGE__CONFIRMED_BLOCK__TRANSACTION_STATUS_META__INIT"

definition solana__storage__confirmed_block__transaction_error__functions :: "'m protobuf_c \<Rightarrow> 'm message_functions" where
  "solana__storage__confirmed_block__transaction_error__functions protobuf =
     generated_functions protobuf ''solana__storage__confirmed_block__transaction_error__descriptor'' SOLANA__STORAGE__CONFIRMED_BLOCK__TRANSACTION_ERROR__INIT"

definition solana__storage__confirmed_block__inner_instructions__functions :: "'m protobuf_c \<Rightarrow> 'm message_functions" where
  "solana__storage__confirmed_block__inner_instructions__functions protobuf =
     generated_functions protobuf ''solana__storage__confirmed_block__inner_instructions__descriptor'' SOLANA__STORAGE__CONFIRMED_BLOCK__INNER_INSTRUCTIONS__INIT"

definition solana__storage__confirmed_block__inner_instruction__functions :: "'m protobuf_c \<Rightarrow> 'm message_functions" where
  "solana__storage__confirmed_block__inner_instruction__functions protobuf =
     generated_functions protobuf ''solana__storage__confirmed_block__inner_instruction__descriptor'' SOLANA__STORAGE__CONFIRMED_BLOCK__INNER_INSTRUCTION__INIT"

definition solana__storage__confirmed_block__compiled_instruction__functions :: "'m protobuf_c \<Rightarrow> 'm message_functions" where
  "solana__storage__confirmed_block__compiled_instruction__functions protobuf =
     generated_functions protobuf ''solana__storage__confirmed_block__compiled_instruction__descriptor'' SOLANA__STORAGE__CONFIRMED_BLOCK__COMPILED_INSTRUCTION__INIT"

definition solana__storage__confirmed_block__token_balance__functions :: "'m protobuf_c \<Rightarrow> 'm message_functions" where
  "solana__storage__confirmed_block__token_balance__functions protobuf =
     generated_functions protobuf ''solana__storage__confirmed_block__token_balance__descriptor'' SOLANA__STORAGE__CONFIRMED_BLOCK__TOKEN_BALANCE__INIT"

definition solana__storage__confirmed_block__ui_token_amount__functions :: "'m protobuf_c \<Rightarrow> 'm message_functions" where
  "solana__storage__confirmed_block__ui_token_amount__functions protobuf =
     generated_functions protobuf ''solana__storage__confirmed_block__ui_token_amount__descriptor'' SOLANA__STORAGE__CONFIRMED_BLOCK__UI_TOKEN_AMOUNT__INIT"

definition solana__storage__confirmed_block__return_data__functions :: "'m protobuf_c \<Rightarrow> 'm message_functions" where
  "solana__storage__confirmed_block__return_data__functions protobuf =
     generated_functions protobuf ''solana__storage__confirmed_block__return_data__descriptor'' SOLANA__STORAGE__CONFIRMED_BLOCK__RETURN_DATA__INIT"

definition solana__storage__confirmed_block__reward__functions :: "'m protobuf_c \<Rightarrow> 'm message_functions" where
  "solana__storage__confirmed_block__reward__functions protobuf =
     generated_functions protobuf ''solana__storage__confirmed_block__reward__descriptor'' SOLANA__STORAGE__CONFIRMED_BLOCK__REWARD__INIT"

definition solana__storage__confirmed_block__rewards__functions :: "'m protobuf_c \<Rightarrow> 'm message_functions" where
  "solana__storage__confirmed_block__rewards__functions protobuf =
     generated_functions protobuf ''solana__storage__confirmed_block__rewards__descriptor'' SOLANA__STORAGE__CONFIRMED_BLOCK__REWARDS__INIT"

definition solana__storage__confirmed_block__unix_timestamp__functions :: "'m protobuf_c \<Rightarrow> 'm message_functions" where
  "solana__storage__confirmed_block__unix_timestamp__functions protobuf =
     generated_functions protobuf ''solana__storage__confirmed_block__unix_timestamp__descriptor'' SOLANA__STORAGE__CONFIRMED_BLOCK__UNIX_TIMESTAMP__INIT"

definition solana__storage__confirmed_block__block_height__functions :: "'m protobuf_c \<Rightarrow> 'm message_functions" where
  "solana__storage__confirmed_block__block_height__functions protobuf =
     generated_functions protobuf ''solana__storage__confirmed_block__block_height__descriptor'' SOLANA__STORAGE__CONFIRMED_BLOCK__BLOCK_HEIGHT__INIT"

definition solana__storage__confirmed_block__num_partitions__functions :: "'m protobuf_c \<Rightarrow> 'm message_functions" where
  "solana__storage__confirmed_block__num_partitions__functions protobuf =
     generated_functions protobuf ''solana__storage__confirmed_block__num_partitions__descriptor'' SOLANA__STORAGE__CONFIRMED_BLOCK__NUM_PARTITIONS__INIT"

section \<open>Tables\<close>

definition solana__storage__confirmed_block__confirmed_block__field_descriptors :: "field_descriptor list" where
  "solana__storage__confirmed_block__confirmed_block__field_descriptors =
     [\<lparr>fd_name = ''previous_blockhash'', fd_id = 1, fd_label = PROTOBUF_C_LABEL_OPTIONAL, fd_type = PROTOBUF_C_TYPE_STRING,
        fd_quantifier_offset = None,
        fd_offset = (''Solana__Storage__ConfirmedBlock__ConfirmedBlock'', ''previous_blockhash''),
        fd_descriptor = None, fd_default_value = None, fd_flags = []\<rparr>,
      \<lparr>fd_name = ''blockhash'', fd_id = 2, fd_label = PROTOBUF_C_LABEL_OPTIONAL, fd_type = PROTOBUF_C_TYPE_STRING,
        fd_quantifier_offset = None,
        fd_offset = (''Solana__Storage__ConfirmedBlock__ConfirmedBlock'', ''blockhash''),
        fd_descriptor = None, fd_default_value = None, fd_flags = []\<rparr>,
      \<lparr>fd_name = ''parent_slot'', fd_id = 3, fd_label = PROTOBUF_C_LABEL_OPTIONAL, fd_type = PROTOBUF_C_TYPE_UINT64,
        fd_quantifier_offset = Some (''Solana__Storage__ConfirmedBlock__ConfirmedBlock'', ''has_parent_slot''),
        fd_offset = (''Solana__Storage__ConfirmedBlock__ConfirmedBlock'', ''parent_slot''),
        fd_descriptor = None, fd_default_value = None, fd_flags = []\<rparr>,
      \<lparr>fd_name = ''transactions'', fd_id = 4, fd_label = PROTOBUF_C_LABEL_REPEATED, fd_type = PROTOBUF_C_TYPE_MESSAGE,
        fd_quantifier_offset = Some (''Solana__Storage__ConfirmedBlock__ConfirmedBlock'', ''n_transactions''),
        fd_offset = (''Solana__Storage__ConfirmedBlock__ConfirmedBlock'', ''transactions''),
        fd_descriptor = Some ''solana__storage__confirmed_block__confirmed_transaction__descriptor'', fd_default_value = None, fd_flags = []\<rparr>,
      \<lparr>fd_name = ''rewards'', fd_id = 5, fd_label = PROTOBUF_C_LABEL_REPEATED, fd_type = PROTOBUF_C_TYPE_MESSAGE,
        fd_quantifier_offset = Some (''Solana__Storage__ConfirmedBlock__ConfirmedBlock'', ''n_rewards''),
        fd_offset = (''Solana__Storage__ConfirmedBlock__ConfirmedBlock'', ''rewards''),
        fd_descriptor = Some ''solana__storage__confirmed_block__reward__descriptor'', fd_default_value = None, fd_flags = []\<rparr>,
      \<lparr>fd_name = ''block_time'', fd_id = 6, fd_label = PROTOBUF_C_LABEL_OPTIONAL, fd_type = PROTOBUF_C_TYPE_MESSAGE,
        fd_quantifier_offset = None,
        fd_offset = (''Solana__Storage__ConfirmedBlock__ConfirmedBlock'', ''block_time''),
        fd_descriptor = Some ''solana__storage__confirmed_block__unix_timestamp__descriptor'', fd_default_value = None, fd_flags = []\<rparr>,
      \<lparr>fd_name = ''block_height'', fd_id = 7, fd_label = PROTOBUF_C_LABEL_OPTIONAL, fd_type = PROTOBUF_C_TYPE_MESSAGE,
        fd_quantifier_offset = None,
        fd_offset = (''Solana__Storage__ConfirmedBlock__ConfirmedBlock'', ''block_height''),
        fd_descriptor = Some ''solana__storage__confirmed_block__block_height__descriptor'', fd_default_value = None, fd_flags = []\<rparr>,
      \<lparr>fd_name = ''num_partitions'', fd_id = 8, fd_label = PROTOBUF_C_LABEL_OPTIONAL, fd_type = PROTOBUF_C_TYPE_MESSAGE,
        fd_quantifier_offset = None,
        fd_offset = (''Solana__Storage__ConfirmedBlock__ConfirmedBlock'', ''num_partitions''),
        fd_descriptor = Some ''solana__storage__confirmed_block__num_partitions__descriptor'', fd_default_value = None, fd_flags = []\<rparr>]"

definition solana__storage__confirmed_block__confirmed_block__field_indices_by_name :: "nat list" where
  "solana__storage__confirmed_block__confirmed_block__field_indices_by_name = [6, 5, 1, 7, 2, 0, 4, 3]"

definition solana__storage__confirmed_block__confirmed_block__number_ranges :: "int_range list" where
  "solana__storage__confirmed_block__confirmed_block__number_ranges = [(1, 0), (0, 8)]"

definition solana__storage__confirmed_block__confirmed_block__descriptor :: message_descriptor where
  "solana__storage__confirmed_block__confirmed_block__descriptor =
     \<lparr>md_magic = PROTOBUF_C__MESSAGE_DESCRIPTOR_MAGIC,
      md_name = ''solana.storage.ConfirmedBlock.ConfirmedBlock'', md_short_name = ''ConfirmedBlock'',
      md_c_name = ''Solana__Storage__ConfirmedBlock__ConfirmedBlock'', md_package_name = ''solana.storage.ConfirmedBlock'',
      md_sizeof_message = ''Solana__Storage__ConfirmedBlock__ConfirmedBlock'', md_n_fields = 8,
      md_fields = solana__storage__confirmed_block__confirmed_block__field_descriptors, md_fields_sorted_by_name = solana__storage__confirmed_block__confirmed_block__field_indices_by_name,
      md_n_field_ranges = 1, md_field_ranges = solana__storage__confirmed_block__confirmed_block__number_ranges,
      md_message_init = ''solana__storage__confirmed_block__confirmed_block__init''\<rparr>"

definition solana__storage__confirmed_block__confirmed_transaction__field_descriptors :: "field_descriptor list" where
  "solana__storage__confirmed_block__confirmed_transaction__field_descriptors =
     [\<lparr>fd_name = ''transaction'', fd_id = 1, fd_label = PROTOBUF_C_LABEL_OPTIONAL, fd_type = PROTOBUF_C_TYPE_MESSAGE,
        fd_quantifier_offset = None,
        fd_offset = (''Solana__Storage__ConfirmedBlock__ConfirmedTransaction'', ''transaction''),
        fd_descriptor = Some ''solana__storage__confirmed_block__transaction__descriptor'', fd_default_value = None, fd_flags = []\<rparr>,
      \<lparr>fd_name = ''meta'', fd_id = 2, fd_label = PROTOBUF_C_LABEL_OPTIONAL, fd_type = PROTOBUF_C_TYPE_MESSAGE,
        fd_quantifier_offset = None,
        fd_offset = (''Solana__Storage__ConfirmedBlock__ConfirmedTransaction'', ''meta''),
        fd_descriptor = Some ''solana__storage__confirmed_block__transaction_status_meta__descriptor'', fd_default_value = None, fd_flags = []\<rparr>]"

definition solana__storage__confirmed_block__confirmed_transaction__field_indices_by_name :: "nat list" where
  "solana__storage__confirmed_block__confirmed_transaction__field_indices_by_name = [1, 0]"

definition solana__storage__confirmed_block__confirmed_transaction__number_ranges :: "int_range list" where
  "solana__storage__confirmed_block__confirmed_transaction__number_ranges = [(1, 0), (0, 2)]"

definition solana__storage__confirmed_block__confirmed_transaction__descriptor :: message_descriptor where
  "solana__storage__confirmed_block__confirmed_transaction__descriptor =
     \<lparr>md_magic = PROTOBUF_C__MESSAGE_DESCRIPTOR_MAGIC,
      md_name = ''solana.storage.ConfirmedBlock.ConfirmedTransaction'', md_short_name = ''ConfirmedTransaction'',
      md_c_name = ''Solana__Storage__ConfirmedBlock__ConfirmedTransaction'', md_package_name = ''solana.storage.ConfirmedBlock'',
      md_sizeof_message = ''Solana__Storage__ConfirmedBlock__ConfirmedTransaction'', md_n_fields = 2,
      md_fields = solana__storage__confirmed_block__confirmed_transaction__field_descriptors, md_fields_sorted_by_name = solana__storage__confirmed_block__confirmed_transaction__field_indices_by_name,
      md_n_field_ranges = 1, md_field_ranges = solana__storage__confirmed_block__confirmed_transaction__number_ranges,
      md_message_init = ''solana__storage__confirmed_block__confirmed_transaction__init''\<rparr>"

definition solana__storage__confirmed_block__transaction__field_descriptors :: "field_descriptor list" where
  "solana__storage__confirmed_block__transaction__field_descriptors =
     [\<lparr>fd_name = ''signatures'', fd_id = 1, fd_label = PROTOBUF_C_LABEL_REPEATED, fd_type = PROTOBUF_C_TYPE_BYTES,
        fd_quantifier_offset = Some (''Solana__Storage__ConfirmedBlock__Transaction'', ''n_signatures''),
        fd_offset = (''Solana__Storage__ConfirmedBlock__Transaction'', ''signatures''),
        fd_descriptor = None, fd_default_value = None, fd_flags = []\<rparr>,
      \<lparr>fd_name = ''message'', fd_id = 2, fd_label = PROTOBUF_C_LABEL_OPTIONAL, fd_type = PROTOBUF_C_TYPE_MESSAGE,
        fd_quantifier_offset = None,
        fd_offset = (''Solana__Storage__ConfirmedBlock__Transaction'', ''message''),
        fd_descriptor = Some ''solana__storage__confirmed_block__message__descriptor'', fd_default_value = None, fd_flags = []\<rparr>]"

definition solana__storage__confirmed_block__transaction__field_indices_by_name :: "nat list" where
  "solana__storage__confirmed_block__transaction__field_indices_by_name = [1, 0]"

definition solana__storage__confirmed_block__transaction__number_ranges :: "int_range list" where
  "solana__storage__confirmed_block__transaction__number_ranges = [(1, 0), (0, 2)]"

definition solana__storage__confirmed_block__transaction__descriptor :: message_descriptor where
  "solana__storage__confirmed_block__transaction__descriptor =
     \<lparr>md_magic = PROTOBUF_C__MESSAGE_DESCRIPTOR_MAGIC,
      md_name = ''solana.storage.ConfirmedBlock.Transaction'', md_short_name = ''Transaction'',
      md_c_name = ''Solana__Storage__ConfirmedBlock__Transaction'', md_package_name = ''solana.storage.ConfirmedBlock'',
      md_sizeof_message = ''Solana__Storage__ConfirmedBlock__Transaction'', md_n_fields = 2,
      md_fields = solana__storage__confirmed_block__transaction__field_descriptors, md_fields_sorted_by_name = solana__storage__confirmed_block__transaction__field_indices_by_name,
      md_n_field_ranges = 1, md_field_ranges = solana__storage__confirmed_block__transaction__number_ranges,
      md_message_init = ''solana__storage__confirmed_block__transaction__init''\<rparr>"

definition solana__storage__confirmed_block__message__field_descriptors :: "field_descriptor list" where
  "solana__storage__confirmed_block__message__field_descriptors =
     [\<lparr>fd_name = ''header'', fd_id = 1, fd_label = PROTOBUF_C_LABEL_OPTIONAL, fd_type = PROTOBUF_C_TYPE_MESSAGE,
        fd_quantifier_offset = None,
        fd_offset = (''Solana__Storage__ConfirmedBlock__Message'', ''header''),
        fd_descriptor = Some ''solana__storage__confirmed_block__message_header__descriptor'', fd_default_value = None, fd_flags = []\<rparr>,
      \<lparr>fd_name = ''account_keys'', fd_id = 2, fd_label = PROTOBUF_C_LABEL_REPEATED, fd_type = PROTOBUF_C_TYPE_BYTES,
        fd_quantifier_offset = Some (''Solana__Storage__ConfirmedBlock__Message'', ''n_account_keys''),
        fd_offset = (''Solana__Storage__ConfirmedBlock__Message'', ''account_keys''),
        fd_descriptor = None, fd_default_value = None, fd_flags = []\<rparr>,
      \<lparr>fd_name = ''recent_blockhash'', fd_id = 3, fd_label = PROTOBUF_C_LABEL_OPTIONAL, fd_type = PROTOBUF_C_TYPE_BYTES,
        fd_quantifier_offset = Some (''Solana__Storage__ConfirmedBlock__Message'', ''has_recent_blockhash''),
        fd_offset = (''Solana__Storage__ConfirmedBlock__Message'', ''recent_blockhash''),
        fd_descriptor = None, fd_default_value = None, fd_flags = []\<rparr>,
      \<lparr>fd_name = ''instructions'', fd_id = 4, fd_label = PROTOBUF_C_LABEL_REPEATED, fd_type = PROTOBUF_C_TYPE_MESSAGE,
        fd_quantifier_offset = Some (''Solana__Storage__ConfirmedBlock__Message'', ''n_instructions''),
        fd_offset = (''Solana__Storage__ConfirmedBlock__Message'', ''instructions''),
        fd_descriptor = Some ''solana__storage__confirmed_block__compiled_instruction__descriptor'', fd_default_value = None, fd_flags = []\<rparr>,
      \<lparr>fd_name = ''versioned'', fd_id = 5, fd_label = PROTOBUF_C_LABEL_OPTIONAL, fd_type = PROTOBUF_C_TYPE_BOOL,
        fd_quantifier_offset = Some (''Solana__Storage__ConfirmedBlock__Message'', ''has_versioned''),
        fd_offset = (''Solana__Storage__ConfirmedBlock__Message'', ''versioned''),
        fd_descriptor = None, fd_default_value = None, fd_flags = []\<rparr>,
      \<lparr>fd_name = ''address_table_lookups'', fd_id = 6, fd_label = PROTOBUF_C_LABEL_REPEATED, fd_type = PROTOBUF_C_TYPE_MESSAGE,
        fd_quantifier_offset = Some (''Solana__Storage__ConfirmedBlock__Message'', ''n_address_table_lookups''),
        fd_offset = (''Solana__Storage__ConfirmedBlock__Message'', ''address_table_lookups''),
        fd_descriptor = Some ''solana__storage__confirmed_block__message_address_table_lookup__descriptor'', fd_default_value = None, fd_flags = []\<rparr>]"

definition solana__storage__confirmed_block__message__field_indices_by_name :: "nat list" where
  "solana__storage__confirmed_block__message__field_indices_by_name = [1, 5, 0, 3, 2, 4]"

definition solana__storage__confirmed_block__message__number_ranges :: "int_range list" where
  "solana__storage__confirmed_block__message__number_ranges = [(1, 0), (0, 6)]"

definition solana__storage__confirmed_block__message__descriptor :: message_descriptor where
  "solana__storage__confirmed_block__message__descriptor =
     \<lparr>md_magic = PROTOBUF_C__MESSAGE_DESCRIPTOR_MAGIC,
      md_name = ''solana.storage.ConfirmedBlock.Message'', md_short_name = ''Message'',
      md_c_name = ''Solana__Storage__ConfirmedBlock__Message'', md_package_name = ''solana.storage.ConfirmedBlock'',
      md_sizeof_message = ''Solana__Storage__ConfirmedBlock__Message'', md_n_fields = 6,
      md_fields = solana__storage__confirmed_block__message__field_descriptors, md_fields_sorted_by_name = solana__storage__confirmed_block__message__field_indices_by_name,
      md_n_field_ranges = 1, md_field_ranges = solana__storage__confirmed_block__message__number_ranges,
      md_message_init = ''solana__storage__confirmed_block__message__init''\<rparr>"

definition solana__storage__confirmed_block__message_header__field_descriptors :: "field_descriptor list" where
  "solana__storage__confirmed_block__message_header__field_descriptors =
     [\<lparr>fd_name = ''num_required_signatures'', fd_id = 1, fd_label = PROTOBUF_C_LABEL_OPTIONAL, fd_type = PROTOBUF_C_TYPE_UINT32,
        fd_quantifier_offset = Some (''Solana__Storage__ConfirmedBlock__MessageHeader'', ''has_num_required_signatures''),
        fd_offset = (''Solana__Storage__ConfirmedBlock__MessageHeader'', ''num_required_signatures''),
        fd_descriptor = None, fd_default_value = None, fd_flags = []\<rparr>,
      \<lparr>fd_name = ''num_readonly_signed_accounts'', fd_id = 2, fd_label = PROTOBUF_C_LABEL_OPTIONAL, fd_type = PROTOBUF_C_TYPE_UINT32,
        fd_quantifier_offset = Some (''Solana__Storage__ConfirmedBlock__MessageHeader'', ''has_num_readonly_signed_accounts''),
        fd_offset = (''Solana__Storage__ConfirmedBlock__MessageHeader'', ''num_readonly_signed_accounts''),
        fd_descriptor = None, fd_default_value = None, fd_flags = []\<rparr>,
      \<lparr>fd_name = ''num_readonly_unsigned_accounts'', fd_id = 3, fd_label = PROTOBUF_C_LABEL_OPTIONAL, fd_type = PROTOBUF_C_TYPE_UINT32,
        fd_quantifier_offset = Some (''Solana__Storage__ConfirmedBlock__MessageHeader'', ''has_num_readonly_unsigned_accounts''),
        fd_offset = (''Solana__Storage__ConfirmedBlock__MessageHeader'', ''num_readonly_unsigned_accounts''),
        fd_descriptor = None, fd_default_value = None, fd_flags = []\<rparr>]"

definition solana__storage__confirmed_block__message_header__field_indices_by_name :: "nat list" where
  "solana__storage__confirmed_block__message_header__field_indices_by_name = [1, 2, 0]"

definition solana__storage__confirmed_block__message_header__number_ranges :: "int_range list" where
  "solana__storage__confirmed_block__message_header__number_ranges = [(1, 0), (0, 3)]"

definition solana__storage__confirmed_block__message_header__descriptor :: message_descriptor where
  "solana__storage__confirmed_block__message_header__descriptor =
     \<lparr>md_magic = PROTOBUF_C__MESSAGE_DESCRIPTOR_MAGIC,
      md_name = ''solana.storage.ConfirmedBlock.MessageHeader'', md_short_name = ''MessageHeader'',
      md_c_name = ''Solana__Storage__ConfirmedBlock__MessageHeader'', md_package_name = ''solana.storage.ConfirmedBlock'',
      md_sizeof_message = ''Solana__Storage__ConfirmedBlock__MessageHeader'', md_n_fields = 3,
      md_fields = solana__storage__confirmed_block__message_header__field_descriptors, md_fields_sorted_by_name = solana__storage__confirmed_block__message_header__field_indices_by_name,
      md_n_field_ranges = 1, md_field_ranges = solana__storage__confirmed_block__message_header__number_ranges,
      md_message_init = ''solana__storage__confirmed_block__message_header__init''\<rparr>"

definition solana__storage__confirmed_block__message_address_table_lookup__field_descriptors :: "field_descriptor list" where
  "solana__storage__confirmed_block__message_address_table_lookup__field_descriptors =
     [\<lparr>fd_name = ''account_key'', fd_id = 1, fd_label = PROTOBUF_C_LABEL_OPTIONAL, fd_type = PROTOBUF_C_TYPE_BYTES,
        fd_quantifier_offset = Some (''Solana__Storage__ConfirmedBlock__MessageAddressTableLookup'', ''has_account_key''),
        fd_offset = (''Solana__Storage__ConfirmedBlock__MessageAddressTableLookup'', ''account_key''),
        fd_descriptor = None, fd_default_value = None, fd_flags = []\<rparr>,
      \<lparr>fd_name = ''writable_indexes'', fd_id = 2, fd_label = PROTOBUF_C_LABEL_OPTIONAL, fd_type = PROTOBUF_C_TYPE_BYTES,
        fd_quantifier_offset = Some (''Solana__Storage__ConfirmedBlock__MessageAddressTableLookup'', ''has_writable_indexes''),
        fd_offset = (''Solana__Storage__ConfirmedBlock__MessageAddressTableLookup'', ''writable_indexes''),
        fd_descriptor = None, fd_default_value = None, fd_flags = []\<rparr>,
      \<lparr>fd_name = ''readonly_indexes'', fd_id = 3, fd_label = PROTOBUF_C_LABEL_OPTIONAL, fd_type = PROTOBUF_C_TYPE_BYTES,
        fd_quantifier_offset = Some (''Solana__Storage__ConfirmedBlock__MessageAddressTableLookup'', ''has_readonly_indexes''),
        fd_offset = (''Solana__Storage__ConfirmedBlock__MessageAddressTableLookup'', ''readonly_indexes''),
        fd_descriptor = None, fd_default_value = None, fd_flags = []\<rparr>]"

definition solana__storage__confirmed_block__message_address_table_lookup__field_indices_by_name :: "nat list" where
  "solana__storage__confirmed_block__message_address_table_lookup__field_indices_by_name = [0, 2, 1]"

definition solana__storage__confirmed_block__message_address_table_lookup__number_ranges :: "int_range list" where
  "solana__storage__confirmed_block__message_address_table_lookup__number_ranges = [(1, 0), (0, 3)]"

definition solana__storage__confirmed_block__message_address_table_lookup__descriptor :: message_descriptor where
  "solana__storage__confirmed_block__message_address_table_lookup__descriptor =
     \<lparr>md_magic = PROTOBUF_C__MESSAGE_DESCRIPTOR_MAGIC,
      md_name = ''solana.storage.ConfirmedBlock.MessageAddressTableLookup'', md_short_name = ''MessageAddressTableLookup'',
      md_c_name = ''Solana__Storage__ConfirmedBlock__MessageAddressTableLookup'', md_package_name = ''solana.storage.ConfirmedBlock'',
      md_sizeof_message = ''Solana__Storage__ConfirmedBlock__MessageAddressTableLookup'', md_n_fields = 3,
      md_fields = solana__storage__confirmed_block__message_address_table_lookup__field_descriptors, md_fields_sorted_by_name = solana__storage__confirmed_block__message_address_table_lookup__field_indices_by_name,
      md_n_field_ranges = 1, md_field_ranges = solana__storage__confirmed_block__message_address_table_lookup__number_ranges,
      md_message_init = ''solana__storage__confirmed_block__message_address_table_lookup__init''\<rparr>"

definition solana__storage__confirmed_block__transaction_status_meta__field_descriptors :: "field_descriptor list" where
  "solana__storage__confirmed_block__transaction_status_meta__field_descriptors =
     [\<lparr>fd_name = ''err'', fd_id = 1, fd_label = PROTOBUF_C_LABEL_OPTIONAL, fd_type = PROTOBUF_C_TYPE_MESSAGE,
        fd_quantifier_offset = None,
        fd_offset = (''Solana__Storage__ConfirmedBlock__TransactionStatusMeta'', ''err''),
        fd_descriptor = Some ''solana__storage__confirmed_block__transaction_error__descriptor'', fd_default_value = None, fd_flags = []\<rparr>,
      \<lparr>fd_name = ''fee'', fd_id = 2, fd_label = PROTOBUF_C_LABEL_OPTIONAL, fd_type = PROTOBUF_C_TYPE_UINT64,
        fd_quantifier_offset = Some (''Solana__Storage__ConfirmedBlock__TransactionStatusMeta'', ''has_fee''),
        fd_offset = (''Solana__Storage__ConfirmedBlock__TransactionStatusMeta'', ''fee''),
        fd_descriptor = None, fd_default_value = None, fd_flags = []\<rparr>,
      \<lparr>fd_name = ''pre_balances'', fd_id = 3, fd_label = PROTOBUF_C_LABEL_REPEATED, fd_type = PROTOBUF_C_TYPE_UINT64,
        fd_quantifier_offset = Some (''Solana__Storage__ConfirmedBlock__TransactionStatusMeta'', ''n_pre_balances''),
        fd_offset = (''Solana__Storage__ConfirmedBlock__TransactionStatusMeta'', ''pre_balances''),
        fd_descriptor = None, fd_default_value = None, fd_flags = []\<rparr>,
      \<lparr>fd_name = ''post_balances'', fd_id = 4, fd_label = PROTOBUF_C_LABEL_REPEATED, fd_type = PROTOBUF_C_TYPE_UINT64,
        fd_quantifier_offset = Some (''Solana__Storage__ConfirmedBlock__TransactionStatusMeta'', ''n_post_balances''),
        fd_offset = (''Solana__Storage__ConfirmedBlock__TransactionStatusMeta'', ''post_balances''),
        fd_descriptor = None, fd_default_value = None, fd_flags = []\<rparr>,
      \<lparr>fd_name = ''inner_instructions'', fd_id = 5, fd_label = PROTOBUF_C_LABEL_REPEATED, fd_type = PROTOBUF_C_TYPE_MESSAGE,
        fd_quantifier_offset = Some (''Solana__Storage__ConfirmedBlock__TransactionStatusMeta'', ''n_inner_instructions''),
        fd_offset = (''Solana__Storage__ConfirmedBlock__TransactionStatusMeta'', ''inner_instructions''),
        fd_descriptor = Some ''solana__storage__confirmed_block__inner_instructions__descriptor'', fd_default_value = None, fd_flags = []\<rparr>,
      \<lparr>fd_name = ''log_messages'', fd_id = 6, fd_label = PROTOBUF_C_LABEL_REPEATED, fd_type = PROTOBUF_C_TYPE_STRING,
        fd_quantifier_offset = Some (''Solana__Storage__ConfirmedBlock__TransactionStatusMeta'', ''n_log_messages''),
        fd_offset = (''Solana__Storage__ConfirmedBlock__TransactionStatusMeta'', ''log_messages''),
        fd_descriptor = None, fd_default_value = None, fd_flags = []\<rparr>,
      \<lparr>fd_name = ''pre_token_balances'', fd_id = 7, fd_label = PROTOBUF_C_LABEL_REPEATED, fd_type = PROTOBUF_C_TYPE_MESSAGE,
        fd_quantifier_offset = Some (''Solana__Storage__ConfirmedBlock__TransactionStatusMeta'', ''n_pre_token_balances''),
        fd_offset = (''Solana__Storage__ConfirmedBlock__TransactionStatusMeta'', ''pre_token_balances''),
        fd_descriptor = Some ''solana__storage__confirmed_block__token_balance__descriptor'', fd_default_value = None, fd_flags = []\<rparr>,
      \<lparr>fd_name = ''post_token_balances'', fd_id = 8, fd_label = PROTOBUF_C_LABEL_REPEATED, fd_type = PROTOBUF_C_TYPE_MESSAGE,
        fd_quantifier_offset = Some (''Solana__Storage__ConfirmedBlock__TransactionStatusMeta'', ''n_post_token_balances''),
        fd_offset = (''Solana__Storage__ConfirmedBlock__TransactionStatusMeta'', ''post_token_balances''),
        fd_descriptor = Some ''solana__storage__confirmed_block__token_balance__descriptor'', fd_default_value = None, fd_flags = []\<rparr>,
      \<lparr>fd_name = ''rewards'', fd_id = 9, fd_label = PROTOBUF_C_LABEL_REPEATED, fd_type = PROTOBUF_C_TYPE_MESSAGE,
        fd_quantifier_offset = Some (''Solana__Storage__ConfirmedBlock__TransactionStatusMeta'', ''n_rewards''),
        fd_offset = (''Solana__Storage__ConfirmedBlock__TransactionStatusMeta'', ''rewards''),
        fd_descriptor = Some ''solana__storage__confirmed_block__reward__descriptor'', fd_default_value = None, fd_flags = []\<rparr>,
      \<lparr>fd_name = ''inner_instructions_none'', fd_id = 10, fd_label = PROTOBUF_C_LABEL_OPTIONAL, fd_type = PROTOBUF_C_TYPE_BOOL,
        fd_quantifier_offset = Some (''Solana__Storage__ConfirmedBlock__TransactionStatusMeta'', ''has_inner_instructions_none''),
        fd_offset = (''Solana__Storage__ConfirmedBlock__TransactionStatusMeta'', ''inner_instructions_none''),
        fd_descriptor = None, fd_default_value = None, fd_flags = []\<rparr>,
      \<lparr>fd_name = ''log_messages_none'', fd_id = 11, fd_label = PROTOBUF_C_LABEL_OPTIONAL, fd_type = PROTOBUF_C_TYPE_BOOL,
        fd_quantifier_offset = Some (''Solana__Storage__ConfirmedBlock__TransactionStatusMeta'', ''has_log_messages_none''),
        fd_offset = (''Solana__Storage__ConfirmedBlock__TransactionStatusMeta'', ''log_messages_none''),
        fd_descriptor = None, fd_default_value = None, fd_flags = []\<rparr>,
      \<lparr>fd_name = ''loaded_writable_addresses'', fd_id = 12, fd_label = PROTOBUF_C_LABEL_REPEATED, fd_type = PROTOBUF_C_TYPE_BYTES,
        fd_quantifier_offset = Some (''Solana__Storage__ConfirmedBlock__TransactionStatusMeta'', ''n_loaded_writable_addresses''),
        fd_offset = (''Solana__Storage__ConfirmedBlock__TransactionStatusMeta'', ''loaded_writable_addresses''),
        fd_descriptor = None, fd_default_value = None, fd_flags = []\<rparr>,
      \<lparr>fd_name = ''loaded_readonly_addresses'', fd_id = 13, fd_label = PROTOBUF_C_LABEL_REPEATED, fd_type = PROTOBUF_C_TYPE_BYTES,
        fd_quantifier_offset = Some (''Solana__Storage__ConfirmedBlock__TransactionStatusMeta'', ''n_loaded_readonly_addresses''),
        fd_offset = (''Solana__Storage__ConfirmedBlock__TransactionStatusMeta'', ''loaded_readonly_addresses''),
        fd_descriptor = None, fd_default_value = None, fd_flags = []\<rparr>,
      \<lparr>fd_name = ''return_data'', fd_id = 14, fd_label = PROTOBUF_C_LABEL_OPTIONAL, fd_type = PROTOBUF_C_TYPE_MESSAGE,
        fd_quantifier_offset = None,
        fd_offset = (''Solana__Storage__ConfirmedBlock__TransactionStatusMeta'', ''return_data''),
        fd_descriptor = Some ''solana__storage__confirmed_block__return_data__descriptor'', fd_default_value = None, fd_flags = []\<rparr>,
      \<lparr>fd_name = ''return_data_none'', fd_id = 15, fd_label = PROTOBUF_C_LABEL_OPTIONAL, fd_type = PROTOBUF_C_TYPE_BOOL,
        fd_quantifier_offset = Some (''Solana__Storage__ConfirmedBlock__TransactionStatusMeta'', ''has_return_data_none''),
        fd_offset = (''Solana__Storage__ConfirmedBlock__TransactionStatusMeta'', ''return_data_none''),
        fd_descriptor = None, fd_default_value = None, fd_flags = []\<rparr>,
      \<lparr>fd_name = ''compute_units_consumed'', fd_id = 16, fd_label = PROTOBUF_C_LABEL_OPTIONAL, fd_type = PROTOBUF_C_TYPE_UINT64,
        fd_quantifier_offset = Some (''Solana__Storage__ConfirmedBlock__TransactionStatusMeta'', ''has_compute_units_consumed''),
        fd_offset = (''Solana__Storage__ConfirmedBlock__TransactionStatusMeta'', ''compute_units_consumed''),
        fd_descriptor = None, fd_default_value = None, fd_flags = []\<rparr>,
      \<lparr>fd_name = ''cost_units'', fd_id = 17, fd_label = PROTOBUF_C_LABEL_OPTIONAL, fd_type = PROTOBUF_C_TYPE_UINT64,
        fd_quantifier_offset = Some (''Solana__Storage__ConfirmedBlock__TransactionStatusMeta'', ''has_cost_units''),
        fd_offset = (''Solana__Storage__ConfirmedBlock__TransactionStatusMeta'', ''cost_units''),
        fd_descriptor = None, fd_default_value = None, fd_flags = []\<rparr>]"

definition solana__storage__confirmed_block__transaction_status_meta__field_indices_by_name :: "nat list" where
  "solana__storage__confirmed_block__transaction_status_meta__field_indices_by_name = [15, 16, 0, 1, 4, 9, 12, 11, 5, 10, 3, 7, 2, 6, 13, 14, 8]"

definition solana__storage__confirmed_block__transaction_status_meta__number_ranges :: "int_range list" where
  "solana__storage__confirmed_block__transaction_status_meta__number_ranges = [(1, 0), (0, 17)]"

definition solana__storage__confirmed_block__transaction_status_meta__descriptor :: message_descriptor where
  "solana__storage__confirmed_block__transaction_status_meta__descriptor =
     \<lparr>md_magic = PROTOBUF_C__MESSAGE_DESCRIPTOR_MAGIC,
      md_name = ''solana.storage.ConfirmedBlock.TransactionStatusMeta'', md_short_name = ''TransactionStatusMeta'',
      md_c_name = ''Solana__Storage__ConfirmedBlock__TransactionStatusMeta'', md_package_name = ''solana.storage.ConfirmedBlock'',
      md_sizeof_message = ''Solana__Storage__ConfirmedBlock__TransactionStatusMeta'', md_n_fields = 17,
      md_fields = solana__storage__confirmed_block__transaction_status_meta__field_descriptors, md_fields_sorted_by_name = solana__storage__confirmed_block__transaction_status_meta__field_indices_by_name,
      md_n_field_ranges = 1, md_field_ranges = solana__storage__confirmed_block__transaction_status_meta__number_ranges,
      md_message_init = ''solana__storage__confirmed_block__transaction_status_meta__init''\<rparr>"

definition solana__storage__confirmed_block__transaction_error__field_descriptors :: "field_descriptor list" where
  "solana__storage__confirmed_block__transaction_error__field_descriptors =
     [\<lparr>fd_name = ''err'', fd_id = 1, fd_label = PROTOBUF_C_LABEL_OPTIONAL, fd_type = PROTOBUF_C_TYPE_BYTES,
        fd_quantifier_offset = Some (''Solana__Storage__ConfirmedBlock__TransactionError'', ''has_err''),
        fd_offset = (''Solana__Storage__ConfirmedBlock__TransactionError'', ''err''),
        fd_descriptor = None, fd_default_value = None, fd_flags = []\<rparr>]"

definition solana__storage__confirmed_block__transaction_error__field_indices_by_name :: "nat list" where
  "solana__storage__confirmed_block__transaction_error__field_indices_by_name = [0]"

definition solana__storage__confirmed_block__transaction_error__number_ranges :: "int_range list" where
  "solana__storage__confirmed_block__transaction_error__number_ranges = [(1, 0), (0, 1)]"

definition solana__storage__confirmed_block__transaction_error__descriptor :: message_descriptor where
  "solana__storage__confirmed_block__transaction_error__descriptor =
     \<lparr>md_magic = PROTOBUF_C__MESSAGE_DESCRIPTOR_MAGIC,
      md_name = ''solana.storage.ConfirmedBlock.TransactionError'', md_short_name = ''TransactionError'',
      md_c_name = ''Solana__Storage__ConfirmedBlock__TransactionError'', md_package_name = ''solana.storage.ConfirmedBlock'',
      md_sizeof_message = ''Solana__Storage__ConfirmedBlock__TransactionError'', md_n_fields = 1,
      md_fields = solana__storage__confirmed_block__transaction_error__field_descriptors, md_fields_sorted_by_name = solana__storage__confirmed_block__transaction_error__field_indices_by_name,
      md_n_field_ranges = 1, md_field_ranges = solana__storage__confirmed_block__transaction_error__number_ranges,
      md_message_init = ''solana__storage__confirmed_block__transaction_error__init''\<rparr>"

definition solana__storage__confirmed_block__inner_instructions__field_descriptors :: "field_descriptor list" where
  "solana__storage__confirmed_block__inner_instructions__field_descriptors =
     [\<lparr>fd_name = ''index'', fd_id = 1, fd_label = PROTOBUF_C_LABEL_OPTIONAL, fd_type = PROTOBUF_C_TYPE_UINT32,
        fd_quantifier_offset = Some (''Solana__Storage__ConfirmedBlock__InnerInstructions'', ''has_index''),
        fd_offset = (''Solana__Storage__ConfirmedBlock__InnerInstructions'', ''index''),
        fd_descriptor = None, fd_default_value = None, fd_flags = []\<rparr>,
      \<lparr>fd_name = ''instructions'', fd_id = 2, fd_label = PROTOBUF_C_LABEL_REPEATED, fd_type = PROTOBUF_C_TYPE_MESSAGE,
        fd_quantifier_offset = Some (''Solana__Storage__ConfirmedBlock__InnerInstructions'', ''n_instructions''),
        fd_offset = (''Solana__Storage__ConfirmedBlock__InnerInstructions'', ''instructions''),
        fd_descriptor = Some ''solana__storage__confirmed_block__inner_instruction__descriptor'', fd_default_value = None, fd_flags = []\<rparr>]"

definition solana__storage__confirmed_block__inner_instructions__field_indices_by_name :: "nat list" where
  "solana__storage__confirmed_block__inner_instructions__field_indices_by_name = [0, 1]"

definition solana__storage__confirmed_block__inner_instructions__number_ranges :: "int_range list" where
  "solana__storage__confirmed_block__inner_instructions__number_ranges = [(1, 0), (0, 2)]"

definition solana__storage__confirmed_block__inner_instructions__descriptor :: message_descriptor where
  "solana__storage__confirmed_block__inner_instructions__descriptor =
     \<lparr>md_magic = PROTOBUF_C__MESSAGE_DESCRIPTOR_MAGIC,
      md_name = ''solana.storage.ConfirmedBlock.InnerInstructions'', md_short_name = ''InnerInstructions'',
      md_c_name = ''Solana__Storage__ConfirmedBlock__InnerInstructions'', md_package_name = ''solana.storage.ConfirmedBlock'',
      md_sizeof_message = ''Solana__Storage__ConfirmedBlock__InnerInstructions'', md_n_fields = 2,
      md_fields = solana__storage__confirmed_block__inner_instructions__field_descriptors, md_fields_sorted_by_name = solana__storage__confirmed_block__inner_instructions__field_indices_by_name,
      md_n_field_ranges = 1, md_field_ranges = solana__storage__confirmed_block__inner_instructions__number_ranges,
      md_message_init = ''solana__storage__confirmed_block__inner_instructions__init''\<rparr>"

definition solana__storage__confirmed_block__inner_instruction__field_descriptors :: "field_descriptor list" where
  "solana__storage__confirmed_block__inner_instruction__field_descriptors =
     [\<lparr>fd_name = ''program_id_index'', fd_id = 1, fd_label = PROTOBUF_C_LABEL_OPTIONAL, fd_type = PROTOBUF_C_TYPE_UINT32,
        fd_quantifier_offset = Some (''Solana__Storage__ConfirmedBlock__InnerInstruction'', ''has_program_id_index''),
        fd_offset = (''Solana__Storage__ConfirmedBlock__InnerInstruction'', ''program_id_index''),
        fd_descriptor = None, fd_default_value = None, fd_flags = []\<rparr>,
      \<lparr>fd_name = ''accounts'', fd_id = 2, fd_label = PROTOBUF_C_LABEL_OPTIONAL, fd_type = PROTOBUF_C_TYPE_BYTES,
        fd_quantifier_offset = Some (''Solana__Storage__ConfirmedBlock__InnerInstruction'', ''has_accounts''),
        fd_offset = (''Solana__Storage__ConfirmedBlock__InnerInstruction'', ''accounts''),
        fd_descriptor = None, fd_default_value = None, fd_flags = []\<rparr>,
      \<lparr>fd_name = ''data'', fd_id = 3, fd_label = PROTOBUF_C_LABEL_OPTIONAL, fd_type = PROTOBUF_C_TYPE_BYTES,
        fd_quantifier_offset = Some (''Solana__Storage__ConfirmedBlock__InnerInstruction'', ''has_data''),
        fd_offset = (''Solana__Storage__ConfirmedBlock__InnerInstruction'', ''data''),
        fd_descriptor = None, fd_default_value = None, fd_flags = []\<rparr>,
      \<lparr>fd_name = ''stack_height'', fd_id = 4, fd_label = PROTOBUF_C_LABEL_OPTIONAL, fd_type = PROTOBUF_C_TYPE_UINT32,
        fd_quantifier_offset = Some (''Solana__Storage__ConfirmedBlock__InnerInstruction'', ''has_stack_height''),
        fd_offset = (''Solana__Storage__ConfirmedBlock__InnerInstruction'', ''stack_height''),
        fd_descriptor = None, fd_default_value = None, fd_flags = []\<rparr>]"

definition solana__storage__confirmed_block__inner_instruction__field_indices_by_name :: "nat list" where
  "solana__storage__confirmed_block__inner_instruction__field_indices_by_name = [1, 2, 0, 3]"

definition solana__storage__confirmed_block__inner_instruction__number_ranges :: "int_range list" where
  "solana__storage__confirmed_block__inner_instruction__number_ranges = [(1, 0), (0, 4)]"

definition solana__storage__confirmed_block__inner_instruction__descriptor :: message_descriptor where
  "solana__storage__confirmed_block__inner_instruction__descriptor =
     \<lparr>md_magic = PROTOBUF_C__MESSAGE_DESCRIPTOR_MAGIC,
      md_name = ''solana.storage.ConfirmedBlock.InnerInstruction'', md_short_name = ''InnerInstruction'',
      md_c_name = ''Solana__Storage__ConfirmedBlock__InnerInstruction'', md_package_name = ''solana.storage.ConfirmedBlock'',
      md_sizeof_message = ''Solana__Storage__ConfirmedBlock__InnerInstruction'', md_n_fields = 4,
      md_fields = solana__storage__confirmed_block__inner_instruction__field_descriptors, md_fields_sorted_by_name = solana__storage__confirmed_block__inner_instruction__field_indices_by_name,
      md_n_field_ranges = 1, md_field_ranges = solana__storage__confirmed_block__inner_instruction__number_ranges,
      md_message_init = ''solana__storage__confirmed_block__inner_instruction__init''\<rparr>"

definition solana__storage__confirmed_block__compiled_instruction__field_descriptors :: "field_descriptor list" where
  "solana__storage__confirmed_block__compiled_instruction__field_descriptors =
     [\<lparr>fd_name = ''program_id_index'', fd_id = 1, fd_label = PROTOBUF_C_LABEL_OPTIONAL, fd_type = PROTOBUF_C_TYPE_UINT32,
        fd_quantifier_offset = Some (''Solana__Storage__ConfirmedBlock__CompiledInstruction'', ''has_program_id_index''),
        fd_offset = (''Solana__Storage__ConfirmedBlock__CompiledInstruction'', ''program_id_index''),
        fd_descriptor = None, fd_default_value = None, fd_flags = []\<rparr>,
      \<lparr>fd_name = ''accounts'', fd_id = 2, fd_label = PROTOBUF_C_LABEL_OPTIONAL, fd_type = PROTOBUF_C_TYPE_BYTES,
        fd_quantifier_offset = Some (''Solana__Storage__ConfirmedBlock__CompiledInstruction'', ''has_accounts''),
        fd_offset = (''Solana__Storage__ConfirmedBlock__CompiledInstruction'', ''accounts''),
        fd_descriptor = None, fd_default_value = None, fd_flags = []\<rparr>,
      \<lparr>fd_name = ''data'', fd_id = 3, fd_label = PROTOBUF_C_LABEL_OPTIONAL, fd_type = PROTOBUF_C_TYPE_BYTES,
        fd_quantifier_offset = Some (''Solana__Storage__ConfirmedBlock__CompiledInstruction'', ''has_data''),
        fd_offset = (''Solana__Storage__ConfirmedBlock__CompiledInstruction'', ''data''),
        fd_descriptor = None, fd_default_value = None, fd_flags = []\<rparr>]"

definition solana__storage__confirmed_block__compiled_instruction__field_indices_by_name :: "nat list" where
  "solana__storage__confirmed_block__compiled_instruction__field_indices_by_name = [1, 2, 0]"

definition solana__storage__confirmed_block__compiled_instruction__number_ranges :: "int_range list" where
  "solana__storage__confirmed_block__compiled_instruction__number_ranges = [(1, 0), (0, 3)]"

definition solana__storage__confirmed_block__compiled_instruction__descriptor :: message_descriptor where
  "solana__storage__confirmed_block__compiled_instruction__descriptor =
     \<lparr>md_magic = PROTOBUF_C__MESSAGE_DESCRIPTOR_MAGIC,
      md_name = ''solana.storage.ConfirmedBlock.CompiledInstruction'', md_short_name = ''CompiledInstruction'',
      md_c_name = ''Solana__Storage__ConfirmedBlock__CompiledInstruction'', md_package_name = ''solana.storage.ConfirmedBlock'',
      md_sizeof_message = ''Solana__Storage__ConfirmedBlock__CompiledInstruction'', md_n_fields = 3,
      md_fields = solana__storage__confirmed_block__compiled_instruction__field_descriptors, md_fields_sorted_by_name = solana__storage__confirmed_block__compiled_instruction__field_indices_by_name,
      md_n_field_ranges = 1, md_field_ranges = solana__storage__confirmed_block__compiled_instruction__number_ranges,
      md_message_init = ''solana__storage__confirmed_block__compiled_instruction__init''\<rparr>"

definition solana__storage__confirmed_block__token_balance__field_descriptors :: "field_descriptor list" where
  "solana__storage__confirmed_block__token_balance__field_descriptors =
     [\<lparr>fd_name = ''account_index'', fd_id = 1, fd_label = PROTOBUF_C_LABEL_OPTIONAL, fd_type = PROTOBUF_C_TYPE_UINT32,
        fd_quantifier_offset = Some (''Solana__Storage__ConfirmedBlock__TokenBalance'', ''has_account_index''),
        fd_offset = (''Solana__Storage__ConfirmedBlock__TokenBalance'', ''account_index''),
        fd_descriptor = None, fd_default_value = None, fd_flags = []\<rparr>,
      \<lparr>fd_name = ''mint'', fd_id = 2, fd_label = PROTOBUF_C_LABEL_OPTIONAL, fd_type = PROTOBUF_C_TYPE_STRING,
        fd_quantifier_offset = None,
        fd_offset = (''Solana__Storage__ConfirmedBlock__TokenBalance'', ''mint''),
        fd_descriptor = None, fd_default_value = None, fd_flags = []\<rparr>,
      \<lparr>fd_name = ''ui_token_amount'', fd_id = 3, fd_label = PROTOBUF_C_LABEL_OPTIONAL, fd_type = PROTOBUF_C_TYPE_MESSAGE,
        fd_quantifier_offset = None,
        fd_offset = (''Solana__Storage__ConfirmedBlock__TokenBalance'', ''ui_token_amount''),
        fd_descriptor = Some ''solana__storage__confirmed_block__ui_token_amount__descriptor'', fd_default_value = None, fd_flags = []\<rparr>,
      \<lparr>fd_name = ''owner'', fd_id = 4, fd_label = PROTOBUF_C_LABEL_OPTIONAL, fd_type = PROTOBUF_C_TYPE_STRING,
        fd_quantifier_offset = None,
        fd_offset = (''Solana__Storage__ConfirmedBlock__TokenBalance'', ''owner''),
        fd_descriptor = None, fd_default_value = None, fd_flags = []\<rparr>,
      \<lparr>fd_name = ''program_id'', fd_id = 5, fd_label = PROTOBUF_C_LABEL_OPTIONAL, fd_type = PROTOBUF_C_TYPE_STRING,
        fd_quantifier_offset = None,
        fd_offset = (''Solana__Storage__ConfirmedBlock__TokenBalance'', ''program_id''),
        fd_descriptor = None, fd_default_value = None, fd_flags = []\<rparr>]"

definition solana__storage__confirmed_block__token_balance__field_indices_by_name :: "nat list" where
  "solana__storage__confirmed_block__token_balance__field_indices_by_name = [0, 1, 3, 4, 2]"

definition solana__storage__confirmed_block__token_balance__number_ranges :: "int_range list" where
  "solana__storage__confirmed_block__token_balance__number_ranges = [(1, 0), (0, 5)]"

definition solana__storage__confirmed_block__token_balance__descriptor :: message_descriptor where
  "solana__storage__confirmed_block__token_balance__descriptor =
     \<lparr>md_magic = PROTOBUF_C__MESSAGE_DESCRIPTOR_MAGIC,
      md_name = ''solana.storage.ConfirmedBlock.TokenBalance'', md_short_name = ''TokenBalance'',
      md_c_name = ''Solana__Storage__ConfirmedBlock__TokenBalance'', md_package_name = ''solana.storage.ConfirmedBlock'',
      md_sizeof_message = ''Solana__Storage__ConfirmedBlock__TokenBalance'', md_n_fields = 5,
      md_fields = solana__storage__confirmed_block__token_balance__field_descriptors, md_fields_sorted_by_name = solana__storage__confirmed_block__token_balance__field_indices_by_name,
      md_n_field_ranges = 1, md_field_ranges = solana__storage__confirmed_block__token_balance__number_ranges,
      md_message_init = ''solana__storage__confirmed_block__token_balance__init''\<rparr>"

definition solana__storage__confirmed_block__ui_token_amount__field_descriptors :: "field_descriptor list" where
  "solana__storage__confirmed_block__ui_token_amount__field_descriptors =
     [\<lparr>fd_name = ''ui_amount'', fd_id = 1, fd_label = PROTOBUF_C_LABEL_OPTIONAL, fd_type = PROTOBUF_C_TYPE_DOUBLE,
        fd_quantifier_offset = Some (''Solana__Storage__ConfirmedBlock__UiTokenAmount'', ''has_ui_amount''),
        fd_offset = (''Solana__Storage__ConfirmedBlock__UiTokenAmount'', ''ui_amount''),
        fd_descriptor = None, fd_default_value = None, fd_flags = []\<rparr>,
      \<lparr>fd_name = ''decimals'', fd_id = 2, fd_label = PROTOBUF_C_LABEL_OPTIONAL, fd_type = PROTOBUF_C_TYPE_UINT32,
        fd_quantifier_offset = Some (''Solana__Storage__ConfirmedBlock__UiTokenAmount'', ''has_decimals''),
        fd_offset = (''Solana__Storage__ConfirmedBlock__UiTokenAmount'', ''decimals''),
        fd_descriptor = None, fd_default_value = None, fd_flags = []\<rparr>,
      \<lparr>fd_name = ''amount'', fd_id = 3, fd_label = PROTOBUF_C_LABEL_OPTIONAL, fd_type = PROTOBUF_C_TYPE_STRING,
        fd_quantifier_offset = None,
        fd_offset = (''Solana__Storage__ConfirmedBlock__UiTokenAmount'', ''amount''),
        fd_descriptor = None, fd_default_value = None, fd_flags = []\<rparr>,
      \<lparr>fd_name = ''ui_amount_string'', fd_id = 4, fd_label = PROTOBUF_C_LABEL_OPTIONAL, fd_type = PROTOBUF_C_TYPE_STRING,
        fd_quantifier_offset = None,
        fd_offset = (''Solana__Storage__ConfirmedBlock__UiTokenAmount'', ''ui_amount_string''),
        fd_descriptor = None, fd_default_value = None, fd_flags = []\<rparr>]"

definition solana__storage__confirmed_block__ui_token_amount__field_indices_by_name :: "nat list" where
  "solana__storage__confirmed_block__ui_token_amount__field_indices_by_name = [2, 1, 0, 3]"

definition solana__storage__confirmed_block__ui_token_amount__number_ranges :: "int_range list" where
  "solana__storage__confirmed_block__ui_token_amount__number_ranges = [(1, 0), (0, 4)]"

definition solana__storage__confirmed_block__ui_token_amount__descriptor :: message_descriptor where
  "solana__storage__confirmed_block__ui_token_amount__descriptor =
     \<lparr>md_magic = PROTOBUF_C__MESSAGE_DESCRIPTOR_MAGIC,
      md_name = ''solana.storage.ConfirmedBlock.UiTokenAmount'', md_short_name = ''UiTokenAmount'',
      md_c_name = ''Solana__Storage__ConfirmedBlock__UiTokenAmount'', md_package_name = ''solana.storage.ConfirmedBlock'',
      md_sizeof_message = ''Solana__Storage__ConfirmedBlock__UiTokenAmount'', md_n_fields = 4,
      md_fields = solana__storage__confirmed_block__ui_token_amount__field_descriptors, md_fields_sorted_by_name = solana__storage__confirmed_block__ui_token_amount__field_indices_by_name,
      md_n_field_ranges = 1, md_field_ranges = solana__storage__confirmed_block__ui_token_amount__number_ranges,
      md_message_init = ''solana__storage__confirmed_block__ui_token_amount__init''\<rparr>"

definition solana__storage__confirmed_block__return_data__field_descriptors :: "field_descriptor list" where
  "solana__storage__confirmed_block__return_data__field_descriptors =
     [\<lparr>fd_name = ''program_id'', fd_id = 1, fd_label = PROTOBUF_C_LABEL_OPTIONAL, fd_type = PROTOBUF_C_TYPE_BYTES,
        fd_quantifier_offset = Some (''Solana__Storage__ConfirmedBlock__ReturnData'', ''has_program_id''),
        fd_offset = (''Solana__Storage__ConfirmedBlock__ReturnData'', ''program_id''),
        fd_descriptor = None, fd_default_value = None, fd_flags = []\<rparr>,
      \<lparr>fd_name = ''data'', fd_id = 2, fd_label = PROTOBUF_C_LABEL_OPTIONAL, fd_type = PROTOBUF_C_TYPE_BYTES,
        fd_quantifier_offset = Some (''Solana__Storage__ConfirmedBlock__ReturnData'', ''has_data''),
        fd_offset = (''Solana__Storage__ConfirmedBlock__ReturnData'', ''data''),
        fd_descriptor = None, fd_default_value = None, fd_flags = []\<rparr>]"

definition solana__storage__confirmed_block__return_data__field_indices_by_name :: "nat list" where
  "solana__storage__confirmed_block__return_data__field_indices_by_name = [1, 0]"

definition solana__storage__confirmed_block__return_data__number_ranges :: "int_range list" where
  "solana__storage__confirmed_block__return_data__number_ranges = [(1, 0), (0, 2)]"

definition solana__storage__confirmed_block__return_data__descriptor :: message_descriptor where
  "solana__storage__confirmed_block__return_data__descriptor =
     \<lparr>md_magic = PROTOBUF_C__MESSAGE_DESCRIPTOR_MAGIC,
      md_name = ''solana.storage.ConfirmedBlock.ReturnData'', md_short_name = ''ReturnData'',
      md_c_name = ''Solana__Storage__ConfirmedBlock__ReturnData'', md_package_name = ''solana.storage.ConfirmedBlock'',
      md_sizeof_message = ''Solana__Storage__ConfirmedBlock__ReturnData'', md_n_fields = 2,
      md_fields = solana__storage__confirmed_block__return_data__field_descriptors, md_fields_sorted_by_name = solana__storage__confirmed_block__return_data__field_indices_by_name,
      md_n_field_ranges = 1, md_field_ranges = solana__storage__confirmed_block__return_data__number_ranges,
      md_message_init = ''solana__storage__confirmed_block__return_data__init''\<rparr>"

definition solana__storage__confirmed_block__reward__field_descriptors :: "field_descriptor list" where
  "solana__storage__confirmed_block__reward__field_descriptors =
     [\<lparr>fd_name = ''pubkey'', fd_id = 1, fd_label = PROTOBUF_C_LABEL_OPTIONAL, fd_type = PROTOBUF_C_TYPE_STRING,
        fd_quantifier_offset = None,
        fd_offset = (''Solana__Storage__ConfirmedBlock__Reward'', ''pubkey''),
        fd_descriptor = None, fd_default_value = None, fd_flags = []\<rparr>,
      \<lparr>fd_name = ''lamports'', fd_id = 2, fd_label = PROTOBUF_C_LABEL_OPTIONAL, fd_type = PROTOBUF_C_TYPE_INT64,
        fd_quantifier_offset = Some (''Solana__Storage__ConfirmedBlock__Reward'', ''has_lamports''),
        fd_offset = (''Solana__Storage__ConfirmedBlock__Reward'', ''lamports''),
        fd_descriptor = None, fd_default_value = None, fd_flags = []\<rparr>,
      \<lparr>fd_name = ''post_balance'', fd_id = 3, fd_label = PROTOBUF_C_LABEL_OPTIONAL, fd_type = PROTOBUF_C_TYPE_UINT64,
        fd_quantifier_offset = Some (''Solana__Storage__ConfirmedBlock__Reward'', ''has_post_balance''),
        fd_offset = (''Solana__Storage__ConfirmedBlock__Reward'', ''post_balance''),
        fd_descriptor = None, fd_default_value = None, fd_flags = []\<rparr>,
      \<lparr>fd_name = ''reward_type'', fd_id = 4, fd_label = PROTOBUF_C_LABEL_OPTIONAL, fd_type = PROTOBUF_C_TYPE_ENUM,
        fd_quantifier_offset = Some (''Solana__Storage__ConfirmedBlock__Reward'', ''has_reward_type''),
        fd_offset = (''Solana__Storage__ConfirmedBlock__Reward'', ''reward_type''),
        fd_descriptor = Some ''solana__storage__confirmed_block__reward_type__descriptor'', fd_default_value = None, fd_flags = []\<rparr>,
      \<lparr>fd_name = ''commission'', fd_id = 5, fd_label = PROTOBUF_C_LABEL_OPTIONAL, fd_type = PROTOBUF_C_TYPE_STRING,
        fd_quantifier_offset = None,
        fd_offset = (''Solana__Storage__ConfirmedBlock__Reward'', ''commission''),
        fd_descriptor = None, fd_default_value = None, fd_flags = []\<rparr>]"

definition solana__storage__confirmed_block__reward__field_indices_by_name :: "nat list" where
  "solana__storage__confirmed_block__reward__field_indices_by_name = [4, 1, 2, 0, 3]"

definition solana__storage__confirmed_block__reward__number_ranges :: "int_range list" where
  "solana__storage__confirmed_block__reward__number_ranges = [(1, 0), (0, 5)]"

definition solana__storage__confirmed_block__reward__descriptor :: message_descriptor where
  "solana__storage__confirmed_block__reward__descriptor =
     \<lparr>md_magic = PROTOBUF_C__MESSAGE_DESCRIPTOR_MAGIC,
      md_name = ''solana.storage.ConfirmedBlock.Reward'', md_short_name = ''Reward'',
      md_c_name = ''Solana__Storage__ConfirmedBlock__Reward'', md_package_name = ''solana.storage.ConfirmedBlock'',
      md_sizeof_message = ''Solana__Storage__ConfirmedBlock__Reward'', md_n_fields = 5,
      md_fields = solana__storage__confirmed_block__reward__field_descriptors, md_fields_sorted_by_name = solana__storage__confirmed_block__reward__field_indices_by_name,
      md_n_field_ranges = 1, md_field_ranges = solana__storage__confirmed_block__reward__number_ranges,
      md_message_init = ''solana__storage__confirmed_block__reward__init''\<rparr>"

definition solana__storage__confirmed_block__rewards__field_descriptors :: "field_descriptor list" where
  "solana__storage__confirmed_block__rewards__field_descriptors =
     [\<lparr>fd_name = ''rewards'', fd_id = 1, fd_label = PROTOBUF_C_LABEL_REPEATED, fd_type = PROTOBUF_C_TYPE_MESSAGE,
        fd_quantifier_offset = Some (''Solana__Storage__ConfirmedBlock__Rewards'', ''n_rewards''),
        fd_offset = (''Solana__Storage__ConfirmedBlock__Rewards'', ''rewards''),
        fd_descriptor = Some ''solana__storage__confirmed_block__reward__descriptor'', fd_default_value = None, fd_flags = []\<rparr>,
      \<lparr>fd_name = ''num_partitions'', fd_id = 2, fd_label = PROTOBUF_C_LABEL_OPTIONAL, fd_type = PROTOBUF_C_TYPE_MESSAGE,
        fd_quantifier_offset = None,
        fd_offset = (''Solana__Storage__ConfirmedBlock__Rewards'', ''num_partitions''),
        fd_descriptor = Some ''solana__storage__confirmed_block__num_partitions__descriptor'', fd_default_value = None, fd_flags = []\<rparr>]"

definition solana__storage__confirmed_block__rewards__field_indices_by_name :: "nat list" where
  "solana__storage__confirmed_block__rewards__field_indices_by_name = [1, 0]"

definition solana__storage__confirmed_block__rewards__number_ranges :: "int_range list" where
  "solana__storage__confirmed_block__rewards__number_ranges = [(1, 0), (0, 2)]"

definition solana__storage__confirmed_block__rewards__descriptor :: message_descriptor where
  "solana__storage__confirmed_block__rewards__descriptor =
     \<lparr>md_magic = PROTOBUF_C__MESSAGE_DESCRIPTOR_MAGIC,
      md_name = ''solana.storage.ConfirmedBlock.Rewards'', md_short_name = ''Rewards'',
      md_c_name = ''Solana__Storage__ConfirmedBlock__Rewards'', md_package_name = ''solana.storage.ConfirmedBlock'',
      md_sizeof_message = ''Solana__Storage__ConfirmedBlock__Rewards'', md_n_fields = 2,
      md_fields = solana__storage__confirmed_block__rewards__field_descriptors, md_fields_sorted_by_name = solana__storage__confirmed_block__rewards__field_indices_by_name,
      md_n_field_ranges = 1, md_field_ranges = solana__storage__confirmed_block__rewards__number_ranges,
      md_message_init = ''solana__storage__confirmed_block__rewards__init''\<rparr>"

definition solana__storage__confirmed_block__unix_timestamp__field_descriptors :: "field_descriptor list" where
  "solana__storage__confirmed_block__unix_timestamp__field_descriptors =
     [\<lparr>fd_name = ''timestamp'', fd_id = 1, fd_label = PROTOBUF_C_LABEL_OPTIONAL, fd_type = PROTOBUF_C_TYPE_INT64,
        fd_quantifier_offset = Some (''Solana__Storage__ConfirmedBlock__UnixTimestamp'', ''has_timestamp''),
        fd_offset = (''Solana__Storage__ConfirmedBlock__UnixTimestamp'', ''timestamp''),
        fd_descriptor = None, fd_default_value = None, fd_flags = []\<rparr>]"

definition solana__storage__confirmed_block__unix_timestamp__field_indices_by_name :: "nat list" where
  "solana__storage__confirmed_block__unix_timestamp__field_indices_by_name = [0]"

definition solana__storage__confirmed_block__unix_timestamp__number_ranges :: "int_range list" where
  "solana__storage__confirmed_block__unix_timestamp__number_ranges = [(1, 0), (0, 1)]"

definition solana__storage__confirmed_block__unix_timestamp__descriptor :: message_descriptor where
  "solana__storage__confirmed_block__unix_timestamp__descriptor =
     \<lparr>md_magic = PROTOBUF_C__MESSAGE_DESCRIPTOR_MAGIC,
      md_name = ''solana.storage.ConfirmedBlock.UnixTimestamp'', md_short_name = ''UnixTimestamp'',
      md_c_name = ''Solana__Storage__ConfirmedBlock__UnixTimestamp'', md_package_name = ''solana.storage.ConfirmedBlock'',
      md_sizeof_message = ''Solana__Storage__ConfirmedBlock__UnixTimestamp'', md_n_fields = 1,
      md_fields = solana__storage__confirmed_block__unix_timestamp__field_descriptors, md_fields_sorted_by_name = solana__storage__confirmed_block__unix_timestamp__field_indices_by_name,
      md_n_field_ranges = 1, md_field_ranges = solana__storage__confirmed_block__unix_timestamp__number_ranges,
      md_message_init = ''solana__storage__confirmed_block__unix_timestamp__init''\<rparr>"

definition solana__storage__confirmed_block__block_height__field_descriptors :: "field_descriptor list" where
  "solana__storage__confirmed_block__block_height__field_descriptors =
     [\<lparr>fd_name = ''block_height'', fd_id = 1, fd_label = PROTOBUF_C_LABEL_OPTIONAL, fd_type = PROTOBUF_C_TYPE_UINT64,
        fd_quantifier_offset = Some (''Solana__Storage__ConfirmedBlock__BlockHeight'', ''has_block_height''),
        fd_offset = (''Solana__Storage__ConfirmedBlock__BlockHeight'', ''block_height''),
        fd_descriptor = None, fd_default_value = None, fd_flags = []\<rparr>]"

definition solana__storage__confirmed_block__block_height__field_indices_by_name :: "nat list" where
  "solana__storage__confirmed_block__block_height__field_indices_by_name = [0]"

definition solana__storage__confirmed_block__block_height__number_ranges :: "int_range list" where
  "solana__storage__confirmed_block__block_height__number_ranges = [(1, 0), (0, 1)]"

definition solana__storage__confirmed_block__block_height__descriptor :: message_descriptor where
  "solana__storage__confirmed_block__block_height__descriptor =
     \<lparr>md_magic = PROTOBUF_C__MESSAGE_DESCRIPTOR_MAGIC,
      md_name = ''solana.storage.ConfirmedBlock.BlockHeight'', md_short_name = ''BlockHeight'',
      md_c_name = ''Solana__Storage__ConfirmedBlock__BlockHeight'', md_package_name = ''solana.storage.ConfirmedBlock'',
      md_sizeof_message = ''Solana__Storage__ConfirmedBlock__BlockHeight'', md_n_fields = 1,
      md_fields = solana__storage__confirmed_block__block_height__field_descriptors, md_fields_sorted_by_name = solana__storage__confirmed_block__block_height__field_indices_by_name,
      md_n_field_ranges = 1, md_field_ranges = solana__storage__confirmed_block__block_height__number_ranges,
      md_message_init = ''solana__storage__confirmed_block__block_height__init''\<rparr>"

definition solana__storage__confirmed_block__num_partitions__field_descriptors :: "field_descriptor list" where
  "solana__storage__confirmed_block__num_partitions__field_descriptors =
     [\<lparr>fd_name = ''num_partitions'', fd_id = 1, fd_label = PROTOBUF_C_LABEL_OPTIONAL, fd_type = PROTOBUF_C_TYPE_UINT64,
        fd_quantifier_offset = Some (''Solana__Storage__ConfirmedBlock__NumPartitions'', ''has_num_partitions''),
        fd_offset = (''Solana__Storage__ConfirmedBlock__NumPartitions'', ''num_partitions''),
        fd_descriptor = None, fd_default_value = None, fd_flags = []\<rparr>]"

definition solana__storage__confirmed_block__num_partitions__field_indices_by_name :: "nat list" where
  "solana__storage__confirmed_block__num_partitions__field_indices_by_name = [0]"

definition solana__storage__confirmed_block__num_partitions__number_ranges :: "int_range list" where
  "solana__storage__confirmed_block__num_partitions__number_ranges = [(1, 0), (0, 1)]"

definition solana__storage__confirmed_block__num_partitions__descriptor :: message_descriptor where
  "solana__storage__confirmed_block__num_partitions__descriptor =
     \<lparr>md_magic = PROTOBUF_C__MESSAGE_DESCRIPTOR_MAGIC,
      md_name = ''solana.storage.ConfirmedBlock.NumPartitions'', md_short_name = ''NumPartitions'',
      md_c_name = ''Solana__Storage__ConfirmedBlock__NumPartitions'', md_package_name = ''solana.storage.ConfirmedBlock'',
      md_sizeof_message = ''Solana__Storage__ConfirmedBlock__NumPartitions'', md_n_fields = 1,
      md_fields = solana__storage__confirmed_block__num_partitions__field_descriptors, md_fields_sorted_by_name = solana__storage__confirmed_block__num_partitions__field_indices_by_name,
      md_n_field_ranges = 1, md_field_ranges = solana__storage__confirmed_block__num_partitions__number_ranges,
      md_message_init = ''solana__storage__confirmed_block__num_partitions__init''\<rparr>"

definition solana__storage__confirmed_block__reward_type__enum_values_by_number :: "enum_value list" where
  "solana__storage__confirmed_block__reward_type__enum_values_by_number =
     [(''Unspecified'', ''SOLANA__STORAGE__CONFIRMED_BLOCK__REWARD_TYPE__Unspecified'', 0),
      (''Fee'', ''SOLANA__STORAGE__CONFIRMED_BLOCK__REWARD_TYPE__Fee'', 1),
      (''Rent'', ''SOLANA__STORAGE__CONFIRMED_BLOCK__REWARD_TYPE__Rent'', 2),
      (''Staking'', ''SOLANA__STORAGE__CONFIRMED_BLOCK__REWARD_TYPE__Staking'', 3),
      (''Voting'', ''SOLANA__STORAGE__CONFIRMED_BLOCK__REWARD_TYPE__Voting'', 4)]"

definition solana__storage__confirmed_block__reward_type__value_ranges :: "int_range list" where
  "solana__storage__confirmed_block__reward_type__value_ranges = [(0, 0), (0, 5)]"

definition solana__storage__confirmed_block__reward_type__enum_values_by_name :: "(string \<times> nat) list" where
  "solana__storage__confirmed_block__reward_type__enum_values_by_name =
     [(''Fee'', 1), (''Rent'', 2), (''Staking'', 3), (''Unspecified'', 0), (''Voting'', 4)]"

definition solana__storage__confirmed_block__reward_type__descriptor :: enum_descriptor where
  "solana__storage__confirmed_block__reward_type__descriptor =
     \<lparr>ed_magic = PROTOBUF_C__ENUM_DESCRIPTOR_MAGIC,
      ed_name = ''solana.storage.ConfirmedBlock.RewardType'', ed_short_name = ''RewardType'',
      ed_c_name = ''Solana__Storage__ConfirmedBlock__RewardType'', ed_package_name = ''solana.storage.ConfirmedBlock'',
      ed_n_values = 5, ed_values = solana__storage__confirmed_block__reward_type__enum_values_by_number,
      ed_n_value_names = 5, ed_values_by_name = solana__storage__confirmed_block__reward_type__enum_values_by_name,
      ed_n_value_ranges = 1, ed_value_ranges = solana__storage__confirmed_block__reward_type__value_ranges\<rparr>"

section \<open>The generated messages\<close>

definition storage_messages :: "generated_message list" where
  "storage_messages =
     [(''solana__storage__confirmed_block__confirmed_block__descriptor'', solana__storage__confirmed_block__confirmed_block__descriptor, Solana__Storage__ConfirmedBlock__ConfirmedBlock, SOLANA__STORAGE__CONFIRMED_BLOCK__CONFIRMED_BLOCK__INIT),
      (''solana__storage__confirmed_block__confirmed_transaction__descriptor'', solana__storage__confirmed_block__confirmed_transaction__descriptor, Solana__Storage__ConfirmedBlock__ConfirmedTransaction, SOLANA__STORAGE__CONFIRMED_BLOCK__CONFIRMED_TRANSACTION__INIT),
      (''solana__storage__confirmed_block__transaction__descriptor'', solana__storage__confirmed_block__transaction__descriptor, Solana__Storage__ConfirmedBlock__Transaction, SOLANA__STORAGE__CONFIRMED_BLOCK__TRANSACTION__INIT),
      (''solana__storage__confirmed_block__message__descriptor'', solana__storage__confirmed_block__message__descriptor, Solana__Storage__ConfirmedBlock__Message, SOLANA__STORAGE__CONFIRMED_BLOCK__MESSAGE__INIT),
      (''solana__storage__confirmed_block__message_header__descriptor'', solana__storage__confirmed_block__message_header__descriptor, Solana__Storage__ConfirmedBlock__MessageHeader, SOLANA__STORAGE__CONFIRMED_BLOCK__MESSAGE_HEADER__INIT),
      (''solana__storage__confirmed_block__message_address_table_lookup__descriptor'', solana__storage__confirmed_block__message_address_table_lookup__descriptor, Solana__Storage__ConfirmedBlock__MessageAddressTableLookup, SOLANA__STORAGE__CONFIRMED_BLOCK__MESSAGE_ADDRESS_TABLE_LOOKUP__INIT),
      (''solana__storage__confirmed_block__transaction_status_meta__descriptor'', solana__storage__confirmed_block__transaction_status_meta__descriptor, Solana__Storage__ConfirmedBlock__TransactionStatusMeta, SOLANA__STORAGE__CONFIRMED_BLOCK__TRANSACTION_STATUS_META__INIT),
      (''solana__storage__confirmed_block__transaction_error__descriptor'', solana__storage__confirmed_block__transaction_error__descriptor, Solana__Storage__ConfirmedBlock__TransactionError, SOLANA__STORAGE__CONFIRMED_BLOCK__TRANSACTION_ERROR__INIT),
      (''solana__storage__confirmed_block__inner_instructions__descriptor'', solana__storage__confirmed_block__inner_instructions__descriptor, Solana__Storage__ConfirmedBlock__InnerInstructions, SOLANA__STORAGE__CONFIRMED_BLOCK__INNER_INSTRUCTIONS__INIT),
      (''solana__storage__confirmed_block__inner_instruction__descriptor'', solana__storage__confirmed_block__inner_instruction__descriptor, Solana__Storage__ConfirmedBlock__InnerInstruction, SOLANA__STORAGE__CONFIRMED_BLOCK__INNER_INSTRUCTION__INIT),
      (''solana__storage__confirmed_block__compiled_instruction__descriptor'', solana__storage__confirmed_block__compiled_instruction__descriptor, Solana__Storage__ConfirmedBlock__CompiledInstruction, SOLANA__STORAGE__CONFIRMED_BLOCK__COMPILED_INSTRUCTION__INIT),
      (''solana__storage__confirmed_block__token_balance__descriptor'', solana__storage__confirmed_block__token_balance__descriptor, Solana__Storage__ConfirmedBlock__TokenBalance, SOLANA__STORAGE__CONFIRMED_BLOCK__TOKEN_BALANCE__INIT),
      (''solana__storage__confirmed_block__ui_token_amount__descriptor'', solana__storage__confirmed_block__ui_token_amount__descriptor, Solana__Storage__ConfirmedBlock__UiTokenAmount, SOLANA__STORAGE__CONFIRMED_BLOCK__UI_TOKEN_AMOUNT__INIT),
      (''solana__storage__confirmed_block__return_data__descriptor'', solana__storage__confirmed_block__return_data__descriptor, Solana__Storage__ConfirmedBlock__ReturnData, SOLANA__STORAGE__CONFIRMED_BLOCK__RETURN_DATA__INIT),
      (''solana__storage__confirmed_block__reward__descriptor'', solana__storage__confirmed_block__reward__descriptor, Solana__Storage__ConfirmedBlock__Reward, SOLANA__STORAGE__CONFIRMED_BLOCK__REWARD__INIT),
      (''solana__storage__confirmed_block__rewards__descriptor'', solana__storage__confirmed_block__rewards__descriptor, Solana__Storage__ConfirmedBlock__Rewards, SOLANA__STORAGE__CONFIRMED_BLOCK__REWARDS__INIT),
      (''solana__storage__confirmed_block__unix_timestamp__descriptor'', solana__storage__confirmed_block__unix_timestamp__descriptor, Solana__Storage__ConfirmedBlock__UnixTimestamp, SOLANA__STORAGE__CONFIRMED_BLOCK__UNIX_TIMESTAMP__INIT),
      (''solana__storage__confirmed_block__block_height__descriptor'', solana__storage__confirmed_block__block_height__descriptor, Solana__Storage__ConfirmedBlock__BlockHeight, SOLANA__STORAGE__CONFIRMED_BLOCK__BLOCK_HEIGHT__INIT),
      (''solana__storage__confirmed_block__num_partitions__descriptor'', solana__storage__confirmed_block__num_partitions__descriptor, Solana__Storage__ConfirmedBlock__NumPartitions, SOLANA__STORAGE__CONFIRMED_BLOCK__NUM_PARTITIONS__INIT)]"

definition storage_functions :: "'m protobuf_c \<Rightarrow> (string \<times> 'm message_functions) list" where
  "storage_functions protobuf =
     [(''solana__storage__confirmed_block__confirmed_block__descriptor'', solana__storage__confirmed_block__confirmed_block__functions protobuf),
      (''solana__storage__confirmed_block__confirmed_transaction__descriptor'', solana__storage__confirmed_block__confirmed_transaction__functions protobuf),
      (''solana__storage__confirmed_block__transaction__descriptor'', solana__storage__confirmed_block__transaction__functions protobuf),
      (''solana__storage__confirmed_block__message__descriptor'', solana__storage__confirmed_block__message__functions protobuf),
      (''solana__storage__confirmed_block__message_header__descriptor'', solana__storage__confirmed_block__message_header__functions protobuf),
      (''solana__storage__confirmed_block__message_address_table_lookup__descriptor'', solana__storage__confirmed_block__message_address_table_lookup__functions protobuf),
      (''solana__storage__confirmed_block__transaction_status_meta__descriptor'', solana__storage__confirmed_block__transaction_status_meta__functions protobuf),
      (''solana__storage__confirmed_block__transaction_error__descriptor'', solana__storage__confirmed_block__transaction_error__functions protobuf),
      (''solana__storage__confirmed_block__inner_instructions__descriptor'', solana__storage__confirmed_block__inner_instructions__functions protobuf),
      (''solana__storage__confirmed_block__inner_instruction__descriptor'', solana__storage__confirmed_block__inner_instruction__functions protobuf),
      (''solana__storage__confirmed_block__compiled_instruction__descriptor'', solana__storage__confirmed_block__compiled_instruction__functions protobuf),
      (''solana__storage__confirmed_block__token_balance__descriptor'', solana__storage__confirmed_block__token_balance__functions protobuf),
      (''solana__storage__confirmed_block__ui_token_amount__descriptor'', solana__storage__confirmed_block__ui_token_amount__functions protobuf),
      (''solana__storage__confirmed_block__return_data__descriptor'', solana__storage__confirmed_block__return_data__functions protobuf),
      (''solana__storage__confirmed_block__reward__descriptor'', solana__storage__confirmed_block__reward__functions protobuf),
      (''solana__storage__confirmed_block__rewards__descriptor'', solana__storage__confirmed_block__rewards__functions protobuf),
      (''solana__storage__confirmed_block__unix_timestamp__descriptor'', solana__storage__confirmed_block__unix_timestamp__functions protobuf),
      (''solana__storage__confirmed_block__block_height__descriptor'', solana__storage__confirmed_block__block_height__functions protobuf),
      (''solana__storage__confirmed_block__num_partitions__descriptor'', solana__storage__confirmed_block__num_partitions__functions protobuf)]"

definition storage_enums :: "(string \<times> enum_descriptor \<times> c_enum) list" where
  "storage_enums =
     [(''solana__storage__confirmed_block__reward_type__descriptor'', solana__storage__confirmed_block__reward_type__descriptor, Solana__Storage__ConfirmedBlock__RewardType)]"

end
