(* ===== verification/Protobuf_Checks.thy ===== *)
theory Protobuf_Checks
  imports Protobuf_Tables
begin

text \<open>
  When generated tables are right. Each condition is a computable predicate on one message, and
  the lemmas say what it means for a reader of the tables: a number that is looked up in the
  ranges finds the field with that number, a binary search in the name index finds the field
  with that name, and the fields of a message are stored apart from each other.
\<close>

section \<open>Well-typed fields\<close>

text \<open>The members of a structure outside its unions, and inside them.\<close>

fun plain_members :: "c_member list \<Rightarrow> (string \<times> c_type) list" where
  "plain_members [] = []"
| "plain_members (Member ty name # members) = (name, ty) # plain_members members"
| "plain_members (Union alternatives # members) = plain_members members"

text \<open>A union with the plain member in front of it, which selects the alternative.\<close>

fun selected_union :: "c_member list \<Rightarrow> string \<Rightarrow> (c_type \<times> (c_type \<times> string) list) option" where
  "selected_union (Member ty name # Union alternatives # members) selector =
     (if name = selector then Some (ty, alternatives) else selected_union members selector)"
| "selected_union (member # members) selector = selected_union members selector"
| "selected_union [] selector = None"

text \<open>
  The C type a field's value has: \<open>messages\<close> and \<open>enums\<close> give the C name behind the address of
  a descriptor. Only messages and enumerations refer to a descriptor.
\<close>

definition value_type :: "(string \<rightharpoonup> string) \<Rightarrow> (string \<rightharpoonup> string) \<Rightarrow> field_descriptor \<Rightarrow> c_type option" where
  "value_type messages enums fd =
     (case fd_type fd of
        PROTOBUF_C_TYPE_MESSAGE \<Rightarrow>
          (case Option.bind (fd_descriptor fd) messages of
             None \<Rightarrow> None | Some name \<Rightarrow> Some (C_ptr (C_struct name)))
      | PROTOBUF_C_TYPE_ENUM \<Rightarrow>
          (case Option.bind (fd_descriptor fd) enums of
             None \<Rightarrow> None | Some name \<Rightarrow> Some (C_enum name))
      | ty \<Rightarrow>
          if fd_descriptor fd \<noteq> None then None
          else Some (case ty of
                 PROTOBUF_C_TYPE_INT32 \<Rightarrow> C_int32
               | PROTOBUF_C_TYPE_INT64 \<Rightarrow> C_int64
               | PROTOBUF_C_TYPE_UINT32 \<Rightarrow> C_uint32
               | PROTOBUF_C_TYPE_UINT64 \<Rightarrow> C_uint64
               | PROTOBUF_C_TYPE_DOUBLE \<Rightarrow> C_double
               | PROTOBUF_C_TYPE_BOOL \<Rightarrow> C_boolean
               | PROTOBUF_C_TYPE_STRING \<Rightarrow> C_ptr C_char
               | PROTOBUF_C_TYPE_BYTES \<Rightarrow> C_binary))"

text \<open>
  A field is well-typed in its structure: a repeated field is an array with a count; an optional
  one is a value with a flag, or a pointer that may be null; an alternative of a \<open>oneof\<close> is in
  the union behind the case member, whose enumeration has the field's number; a field without
  presence is just the value.
\<close>

definition field_typed ::
  "(string \<rightharpoonup> string) \<Rightarrow> (string \<rightharpoonup> string) \<Rightarrow> (string \<rightharpoonup> (string \<times> nat) list) \<Rightarrow> c_struct \<Rightarrow> field_descriptor \<Rightarrow> bool" where
  "field_typed messages enums cases struct fd =
     (case struct of (struct_name, members) \<Rightarrow>
      case fd_offset fd of (offset_struct, member) \<Rightarrow>
      case value_type messages enums fd of
        None \<Rightarrow> False
      | Some ty \<Rightarrow>
          offset_struct = struct_name \<and> member = fd_name fd \<and>
          (case fd_quantifier_offset fd of
             None \<Rightarrow>
               fd_flags fd = [] \<and> map_of (plain_members members) member = Some ty \<and>
               (case fd_label fd of
                  PROTOBUF_C_LABEL_NONE \<Rightarrow> True
                | PROTOBUF_C_LABEL_OPTIONAL \<Rightarrow> fd_type fd \<in> {PROTOBUF_C_TYPE_MESSAGE, PROTOBUF_C_TYPE_STRING}
                | PROTOBUF_C_LABEL_REPEATED \<Rightarrow> False)
           | Some (quantifier_struct, quantifier) \<Rightarrow>
               quantifier_struct = struct_name \<and>
               (case fd_label fd of
                  PROTOBUF_C_LABEL_NONE \<Rightarrow> False
                | PROTOBUF_C_LABEL_REPEATED \<Rightarrow>
                    fd_flags fd = [] \<and> map_of (plain_members members) member = Some (C_ptr ty) \<and>
                    map_of (plain_members members) quantifier = Some C_size_t
                | PROTOBUF_C_LABEL_OPTIONAL \<Rightarrow>
                    if fd_flags fd = [PROTOBUF_C_FIELD_FLAG_ONEOF]
                    then (case selected_union members quantifier of
                            Some (C_enum case_type, alternatives) \<Rightarrow>
                              (ty, member) \<in> set alternatives \<and>
                              (case cases case_type of
                                 None \<Rightarrow> False | Some numbers \<Rightarrow> fd_id fd \<in> snd ` set numbers)
                          | _ \<Rightarrow> False)
                    else fd_flags fd = [] \<and>
                      fd_type fd \<notin> {PROTOBUF_C_TYPE_MESSAGE, PROTOBUF_C_TYPE_STRING} \<and>
                      map_of (plain_members members) member = Some ty \<and>
                      map_of (plain_members members) quantifier = Some C_boolean)))"

text \<open>The members of a structure that its descriptor knows about.\<close>

fun member_names :: "c_member list \<Rightarrow> string list" where
  "member_names [] = []"
| "member_names (Member ty name # members) = name # member_names members"
| "member_names (Union alternatives # members) = map snd alternatives @ member_names members"

definition described_members :: "field_descriptor list \<Rightarrow> string list" where
  "described_members fds =
     concat (map (\<lambda>fd. (case fd_quantifier_offset fd of None \<Rightarrow> [] | Some (_, m) \<Rightarrow> [m]) @ [snd (fd_offset fd)]) fds)"

text \<open>
  A message is well-typed: its descriptor is for the structure, the structure starts with the
  base, every field is well-typed in it, and it has no member that no field describes.
\<close>

definition message_typed ::
  "(string \<rightharpoonup> string) \<Rightarrow> (string \<rightharpoonup> string) \<Rightarrow> (string \<rightharpoonup> (string \<times> nat) list) \<Rightarrow> generated_message \<Rightarrow> bool" where
  "message_typed messages enums cases =
     (\<lambda>(symbol, md, struct, init).
        md_magic md = PROTOBUF_C__MESSAGE_DESCRIPTOR_MAGIC \<and>
        md_sizeof_message md = fst struct \<and> md_c_name md = fst struct \<and>
        md_message_init md = take (length symbol - length ''descriptor'') symbol @ ''init'' \<and>
        (case snd struct of Member C_message base # members \<Rightarrow> base = ''base'' | _ \<Rightarrow> False) \<and>
        list_all (field_typed messages enums cases struct) (md_fields md) \<and>
        distinct (member_names (snd struct)) \<and>
        set (member_names (snd struct)) = insert ''base'' (set (described_members (md_fields md))))"

section \<open>Indices\<close>

text \<open>\<open>strcmp\<close> on unsigned characters.\<close>

fun strcmp_less :: "string \<Rightarrow> string \<Rightarrow> bool" where
  "strcmp_less s [] = False"
| "strcmp_less [] (d # t) = True"
| "strcmp_less (c # s) (d # t) = (if c = d then strcmp_less s t else (of_char c :: nat) < of_char d)"

text \<open>The numbers that a list of ranges maps to indices.\<close>

fun range_pairs :: "int_range list \<Rightarrow> (nat \<times> nat) list" where
  "range_pairs ((start, i) # (start', j) # ranges) =
     map (\<lambda>k. (start + k, i + k)) [0..<j - i] @ range_pairs ((start', j) # ranges)"
| "range_pairs _ = []"

text \<open>
  A table of things with a name and a number is indexed: the numbers ascend, the ranges map
  each number to its position, and the name index lists every position in the order of the
  names.
\<close>

definition table_indexed :: "nat list \<Rightarrow> string list \<Rightarrow> nat list \<Rightarrow> nat \<Rightarrow> int_range list \<Rightarrow> bool" where
  "table_indexed numbers names by_name n_ranges ranges \<longleftrightarrow>
     length names = length numbers \<and>
     sorted_wrt (<) numbers \<and>
     (ranges = [] \<and> n_ranges = 0 \<or> length ranges = Suc n_ranges) \<and>
     range_pairs ranges = zip numbers [0..<length numbers] \<and>
     length by_name = length numbers \<and> list_all (\<lambda>i. i < length numbers) by_name \<and>
     sorted_wrt strcmp_less (map ((!) names) by_name)"

definition message_indexed :: "generated_message \<Rightarrow> bool" where
  "message_indexed =
     (\<lambda>(symbol, md, struct, init).
        md_n_fields md = length (md_fields md) \<and>
        table_indexed (map fd_id (md_fields md)) (map fd_name (md_fields md)) (md_fields_sorted_by_name md)
          (md_n_field_ranges md) (md_field_ranges md))"

definition enum_indexed :: "string \<times> enum_descriptor \<times> c_enum \<Rightarrow> bool" where
  "enum_indexed =
     (\<lambda>(symbol, ed, c_enum).
        ed_magic ed = PROTOBUF_C__ENUM_DESCRIPTOR_MAGIC \<and> ed_c_name ed = fst c_enum \<and>
        map snd (ed_values ed) = snd c_enum \<and>
        ed_n_values ed = length (ed_values ed) \<and> ed_n_value_names ed = length (ed_values_by_name ed) \<and>
        list_all (\<lambda>(name, i). i < length (ed_values ed) \<and> fst (ed_values ed ! i) = name) (ed_values_by_name ed) \<and>
        table_indexed (map (snd \<circ> snd) (ed_values ed)) (map fst (ed_values ed)) (map snd (ed_values_by_name ed))
          (ed_n_value_ranges ed) (ed_value_ranges ed))"

section \<open>Initialisers\<close>

text \<open>
  An initialiser gives every member of its structure, in order, a value of the member's type
  that says \<open>not set\<close>: the first enumerator of an enumeration, which is zero, for a case.
\<close>

definition member_init_ok :: "(string \<rightharpoonup> (string \<times> nat) list) \<Rightarrow> string \<Rightarrow> c_member \<Rightarrow> c_init \<Rightarrow> bool" where
  "member_init_ok enums symbol member init =
     (case member of
        Union alternatives \<Rightarrow> init = Init_union
      | Member ty name \<Rightarrow>
          (case init of
             PROTOBUF_C_MESSAGE_INIT descriptor \<Rightarrow> ty = C_message \<and> descriptor = symbol
           | Init_null \<Rightarrow> (case ty of C_ptr _ \<Rightarrow> True | _ \<Rightarrow> False)
           | Init_binary \<Rightarrow> ty = C_binary
           | Init_enum value \<Rightarrow>
               (case ty of
                  C_enum ty \<Rightarrow>
                    (case enums ty of Some ((first, number) # values) \<Rightarrow> first = value \<and> number = 0 | _ \<Rightarrow> False)
                | _ \<Rightarrow> False)
           | Init_zero \<Rightarrow> ty \<in> {C_boolean, C_size_t, C_int32, C_uint32, C_int64, C_uint64, C_double}
           | Init_union \<Rightarrow> False))"

definition message_init_ok :: "(string \<rightharpoonup> (string \<times> nat) list) \<Rightarrow> generated_message \<Rightarrow> bool" where
  "message_init_ok enums =
     (\<lambda>(symbol, md, struct, init). list_all2 (member_init_ok enums symbol) (snd struct) init)"

section \<open>Layout\<close>

text \<open>
  How a C compiler lays a structure out: each member goes to the next multiple of its
  alignment, the alternatives of a union share a place. The sizes and alignments of the member
  types are the platform's, so they are a parameter.
\<close>

type_synonym c_abi = "c_type \<Rightarrow> nat \<times> nat"

definition round_up :: "nat \<Rightarrow> nat \<Rightarrow> nat" where
  "round_up n align = (if align = 0 then n else (n + align - 1) div align * align)"

definition union_size :: "c_abi \<Rightarrow> (c_type \<times> string) list \<Rightarrow> nat" where
  "union_size abi alternatives = foldr (\<lambda>(ty, name) n. max (fst (abi ty)) n) alternatives 0"

definition union_align :: "c_abi \<Rightarrow> (c_type \<times> string) list \<Rightarrow> nat" where
  "union_align abi alternatives = foldr (\<lambda>(ty, name) n. max (snd (abi ty)) n) alternatives 0"

fun layout :: "c_abi \<Rightarrow> nat \<Rightarrow> c_member list \<Rightarrow> (string \<times> nat \<times> nat) list" where
  "layout abi pos [] = []"
| "layout abi pos (Member ty name # members) =
     (let offset = round_up pos (snd (abi ty))
      in (name, offset, fst (abi ty)) # layout abi (offset + fst (abi ty)) members)"
| "layout abi pos (Union alternatives # members) =
     (let offset = round_up pos (union_align abi alternatives)
      in map (\<lambda>(ty, name). (name, offset, fst (abi ty))) alternatives @
         layout abi (offset + union_size abi alternatives) members)"

fun layout_end :: "c_abi \<Rightarrow> nat \<Rightarrow> c_member list \<Rightarrow> nat" where
  "layout_end abi pos [] = pos"
| "layout_end abi pos (Member ty name # members) =
     layout_end abi (round_up pos (snd (abi ty)) + fst (abi ty)) members"
| "layout_end abi pos (Union alternatives # members) =
     layout_end abi (round_up pos (union_align abi alternatives) + union_size abi alternatives) members"

text \<open>The place of each member, counting a union once.\<close>

fun slots :: "nat \<Rightarrow> c_member list \<Rightarrow> (string \<times> nat) list" where
  "slots i [] = []"
| "slots i (Member ty name # members) = (name, i) # slots (Suc i) members"
| "slots i (Union alternatives # members) = map (\<lambda>(ty, name). (name, i)) alternatives @ slots (Suc i) members"

text \<open>The members a field is stored in, and the case member of a \<open>oneof\<close>.\<close>

definition field_members :: "field_descriptor \<Rightarrow> string list" where
  "field_members fd = (case fd_quantifier_offset fd of None \<Rightarrow> [] | Some (_, m) \<Rightarrow> [m]) @ [snd (fd_offset fd)]"

definition oneof_of :: "field_descriptor \<Rightarrow> string option" where
  "oneof_of fd = (if fd_flags fd = [PROTOBUF_C_FIELD_FLAG_ONEOF] then map_option snd (fd_quantifier_offset fd) else None)"

text \<open>
  Two fields do not overlap in memory, unless they are alternatives of one \<open>oneof\<close>, and no field
  overlaps the base or leaves the structure.
\<close>

definition spans_apart :: "(string \<times> nat \<times> nat) list \<Rightarrow> string \<Rightarrow> string \<Rightarrow> bool" where
  "spans_apart places m m' =
     (case (map_of places m, map_of places m') of
        (Some (offset, n), Some (offset', n')) \<Rightarrow> offset + n \<le> offset' \<or> offset' + n' \<le> offset
      | _ \<Rightarrow> False)"

definition fields_apart :: "(string \<times> nat \<times> nat) list \<Rightarrow> field_descriptor \<Rightarrow> field_descriptor \<Rightarrow> bool" where
  "fields_apart places fd fd' \<longleftrightarrow>
     (oneof_of fd \<noteq> None \<and> oneof_of fd = oneof_of fd') \<or>
     list_all (\<lambda>m. list_all (spans_apart places m) (field_members fd')) (field_members fd)"

definition message_laid_out :: "c_abi \<Rightarrow> generated_message \<Rightarrow> bool" where
  "message_laid_out abi =
     (\<lambda>(symbol, md, (struct_name, members), init).
        let places = layout abi 0 members in
          sorted_wrt (fields_apart places) (md_fields md) \<and>
          list_all (\<lambda>fd. list_all (\<lambda>m.
            spans_apart places ''base'' m \<and>
            (case map_of places m of None \<Rightarrow> False | Some (offset, n) \<Rightarrow> offset + n \<le> layout_end abi 0 members))
            (field_members fd)) (md_fields md))"

text \<open>The same without the layout: different fields have different slots.\<close>

definition slots_apart :: "string option \<times> nat option list \<Rightarrow> string option \<times> nat option list \<Rightarrow> bool" where
  "slots_apart =
     (\<lambda>(oneof, is) (oneof', js).
        (oneof \<noteq> None \<and> oneof = oneof') \<or>
        list_all (\<lambda>i. i \<noteq> None \<and> list_all (\<lambda>j. j \<noteq> None \<and> i \<noteq> j) js) is)"

definition field_slots :: "(string \<times> nat) list \<Rightarrow> field_descriptor \<Rightarrow> string option \<times> nat option list" where
  "field_slots places fd = (oneof_of fd, map (map_of places) (field_members fd))"

definition message_slots_apart :: "generated_message \<Rightarrow> bool" where
  "message_slots_apart =
     (\<lambda>(symbol, md, (struct_name, members), init).
        let places = slots 0 members;
            field_places = map (field_slots places) (md_fields md)
        in sorted_wrt slots_apart field_places \<and>
           list_all (slots_apart (None, [map_of places ''base''])) field_places)"

lemma round_up_ge: "n \<le> round_up n align"
proof (cases "align = 0")
  case False
  then have "n + align - 1 = (n + align - 1) div align * align + (n + align - 1) mod align" by simp
  moreover have "(n + align - 1) mod align < align" using False by simp
  ultimately have "n + align - 1 < (n + align - 1) div align * align + align" by linarith
  then show ?thesis using False by (simp add: round_up_def)
qed (simp add: round_up_def)

lemma union_size_ge: "(ty, name) \<in> set alternatives \<Longrightarrow> fst (abi ty) \<le> union_size abi alternatives"
  by (induction alternatives) (auto simp: union_size_def)

lemma layout_end_ge: "pos \<le> layout_end abi pos members"
proof (induction members arbitrary: pos)
  case (Cons member members)
  show ?case
  proof (cases member)
    case (Member ty name)
    have "pos \<le> round_up pos (snd (abi ty)) + fst (abi ty)" using round_up_ge le_add1 order_trans by blast
    then show ?thesis using Cons [of "round_up pos (snd (abi ty)) + fst (abi ty)"] by (simp add: Member)
  next
    case (Union alternatives)
    have "pos \<le> round_up pos (union_align abi alternatives) + union_size abi alternatives"
      using round_up_ge le_add1 order_trans by blast
    then show ?thesis
      using Cons [of "round_up pos (union_align abi alternatives) + union_size abi alternatives"] by (simp add: Union)
  qed
qed simp

lemma map_of_alternatives:
  "map_of (map (\<lambda>(ty, name). (name, f ty)) alternatives) m =
    map_option f (map_of (map (\<lambda>(ty, name). (name, ty)) alternatives) m)"
  by (induction alternatives) auto

lemma alternative_in: "map_of (map (\<lambda>(ty, name). (name, ty)) alternatives) m = Some ty \<Longrightarrow> (ty, m) \<in> set alternatives"
  by (induction alternatives) (auto split: if_splits)

text \<open>Every member that has a slot has a place, behind the position and before the end.\<close>

lemma layout_slot:
  "map_of (slots i members) m = Some k \<Longrightarrow>
    i \<le> k \<and> (\<exists>offset n. map_of (layout abi pos members) m = Some (offset, n) \<and>
      pos \<le> offset \<and> offset + n \<le> layout_end abi pos members)"
proof (induction members arbitrary: pos i)
  case (Cons member members)
  show ?case
  proof (cases member)
    case (Member ty name)
    let ?offset = "round_up pos (snd (abi ty))"
    have ends: "?offset + fst (abi ty) \<le> layout_end abi (?offset + fst (abi ty)) members" by (rule layout_end_ge)
    have up: "pos \<le> ?offset" by (rule round_up_ge)
    show ?thesis
    proof (cases "m = name")
      case True
      then show ?thesis using Cons.prems ends up by (simp add: Member Let_def)
    next
      case False
      with Cons.prems have "map_of (slots (Suc i) members) m = Some k" by (simp add: Member)
      from Cons.IH [OF this, of "?offset + fst (abi ty)"] False up show ?thesis by (auto simp: Member Let_def)
    qed
  next
    case (Union alternatives)
    let ?offset = "round_up pos (union_align abi alternatives)" and ?n = "union_size abi alternatives"
    have ends: "?offset + ?n \<le> layout_end abi (?offset + ?n) members" by (rule layout_end_ge)
    have up: "pos \<le> ?offset" by (rule round_up_ge)
    note places = map_of_alternatives [of "\<lambda>ty. (?offset, fst (abi ty))" alternatives m]
      and indices = map_of_alternatives [of "\<lambda>_. i" alternatives m]
    show ?thesis
    proof (cases "map_of (map (\<lambda>(ty, name). (name, ty)) alternatives) m")
      case None
      with indices have "map_of (map (\<lambda>(ty, name). (name, i)) alternatives) m = None" by simp
      with Cons.prems have "map_of (slots (Suc i) members) m = Some k" by (simp add: Union map_add_def)
      from Cons.IH [OF this, of "?offset + ?n"] None up places show ?thesis by (auto simp: Union Let_def map_add_def)
    next
      case (Some ty)
      have "fst (abi ty) \<le> ?n" using alternative_in [OF Some] by (rule union_size_ge)
      then show ?thesis using Some Cons.prems places indices ends up by (simp add: Union Let_def map_add_def)
    qed
  qed
qed simp


lemma slots_alternative:
  "map_of (slots i (Union alternatives # members)) m =
    (if map_of (map (\<lambda>(ty, name). (name, ty)) alternatives) m = None then map_of (slots (Suc i) members) m else Some i)"
  using map_of_alternatives [of "\<lambda>_. i" alternatives m] by (auto simp: map_add_def split: option.splits)

text \<open>Members with different slots do not overlap.\<close>

lemma layout_order:
  "map_of (slots i members) m = Some k \<Longrightarrow> map_of (slots i members) m' = Some k' \<Longrightarrow> k < k' \<Longrightarrow>
    map_of (layout abi pos members) m = Some (offset, n) \<Longrightarrow>
    map_of (layout abi pos members) m' = Some (offset', n') \<Longrightarrow> offset + n \<le> offset'"
proof (induction members arbitrary: pos i)
  case (Cons member members)
  show ?case
  proof (cases member)
    case (Member ty name)
    let ?next = "round_up pos (snd (abi ty)) + fst (abi ty)"
    have tail: "map_of (slots (Suc i) members) m' = Some k'" and other: "m' \<noteq> name"
    proof -
      have "i \<le> k" using layout_slot [OF Cons.prems(1)] by simp
      then show "m' \<noteq> name" using Cons.prems(2,3) by (auto simp: Member)
      then show "map_of (slots (Suc i) members) m' = Some k'" using Cons.prems(2) by (simp add: Member)
    qed
    have place: "map_of (layout abi ?next members) m' = Some (offset', n')"
      using Cons.prems(5) other by (simp add: Member Let_def)
    show ?thesis
    proof (cases "m = name")
      case True
      have "?next \<le> offset'" using layout_slot [OF tail, of abi ?next] place by auto
      then show ?thesis using True Cons.prems(4) by (simp add: Member Let_def)
    next
      case False
      then show ?thesis
        using Cons.IH [OF _ tail Cons.prems(3) _ place] Cons.prems(1,4) by (simp add: Member Let_def)
    qed
  next
    case (Union alternatives)
    let ?alts = "map (\<lambda>(ty, name). (name, ty)) alternatives"
    let ?offset = "round_up pos (union_align abi alternatives)" and ?n = "union_size abi alternatives"
    note places = map_of_alternatives [of "\<lambda>ty. (?offset, fst (abi ty))" alternatives]
    have i: "i \<le> k" using layout_slot [OF Cons.prems(1)] by simp
    have other: "map_of ?alts m' = None" and tail: "map_of (slots (Suc i) members) m' = Some k'"
      using Cons.prems(2,3) i unfolding Union slots_alternative by (auto split: if_splits)
    have place: "map_of (layout abi (?offset + ?n) members) m' = Some (offset', n')"
      using Cons.prems(5) other places [of m'] by (simp add: Union Let_def map_add_def)
    show ?thesis
    proof (cases "map_of ?alts m")
      case None
      then have "map_of (slots (Suc i) members) m = Some k" using Cons.prems(1) unfolding Union slots_alternative by simp
      moreover have "map_of (layout abi (?offset + ?n) members) m = Some (offset, n)"
        using Cons.prems(4) None places [of m] by (simp add: Union Let_def map_add_def)
      ultimately show ?thesis using Cons.IH tail Cons.prems(3) place by blast
    next
      case (Some ty)
      have "fst (abi ty) \<le> ?n" using alternative_in [OF Some] by (rule union_size_ge)
      moreover have "?offset + ?n \<le> offset'" using layout_slot [OF tail, of abi "?offset + ?n"] place by auto
      ultimately show ?thesis using Some Cons.prems(4) places [of m] by (simp add: Union Let_def map_add_def)
    qed
  qed
qed simp

lemma different_slots_apart:
  assumes "map_of (slots 0 members) m = Some k" and "map_of (slots 0 members) m' = Some k'" and "k \<noteq> k'"
  shows "spans_apart (layout abi 0 members) m m'"
proof -
  from layout_slot [OF assms(1)] layout_slot [OF assms(2)] obtain offset n offset' n'
    where place: "map_of (layout abi 0 members) m = Some (offset, n)" "map_of (layout abi 0 members) m' = Some (offset', n')"
    by blast
  from assms(3) consider "k < k'" | "k' < k" by linarith
  then show ?thesis
  proof cases
    case 1
    then show ?thesis using layout_order [OF assms(1,2) 1 place] place by (simp add: spans_apart_def)
  next
    case 2
    then show ?thesis using layout_order [OF assms(2,1) 2 place(2,1)] place by (simp add: spans_apart_def)
  qed
qed

lemma slots_apart_fields:
  assumes "slots_apart (field_slots (slots 0 members) fd) (field_slots (slots 0 members) fd')"
  shows "fields_apart (layout abi 0 members) fd fd'"
  using assms different_slots_apart
  by (fastforce simp: slots_apart_def field_slots_def fields_apart_def list_all_iff)

lemma message_slots_laid_out:
  assumes "message_slots_apart message"
  shows "message_laid_out abi message"
proof -
  obtain symbol md struct_name members init where message: "message = (symbol, md, (struct_name, members), init)"
    by (metis prod.collapse)
  note checked = assms [unfolded message_slots_apart_def message prod.case Let_def]
  have "sorted_wrt (fields_apart (layout abi 0 members)) (md_fields md)"
    using conjunct1 [OF checked] unfolding sorted_wrt_map
    by (rule sorted_wrt_mono_rel [rotated]) (rule slots_apart_fields)
  moreover have "list_all (\<lambda>fd. list_all (\<lambda>m.
      spans_apart (layout abi 0 members) ''base'' m \<and>
      (case map_of (layout abi 0 members) m of None \<Rightarrow> False | Some (offset, n) \<Rightarrow> offset + n \<le> layout_end abi 0 members))
      (field_members fd)) (md_fields md)"
    unfolding list_all_iff
  proof (intro ballI conjI)
    fix fd m assume "fd \<in> set (md_fields md)" and "m \<in> set (field_members fd)"
    with conjunct2 [OF checked] obtain k k' where slot: "map_of (slots 0 members) ''base'' = Some k"
        "map_of (slots 0 members) m = Some k'" "k \<noteq> k'"
      by (fastforce simp: list_all_iff slots_apart_def field_slots_def)
    then show "spans_apart (layout abi 0 members) ''base'' m" by (rule different_slots_apart)
    from layout_slot [OF slot(2), of abi 0]
    show "case map_of (layout abi 0 members) m of None \<Rightarrow> False | Some (offset, n) \<Rightarrow> offset + n \<le> layout_end abi 0 members"
      by auto
  qed
  ultimately show ?thesis by (simp add: message_laid_out_def message Let_def)
qed

section \<open>What the indices are good for\<close>

text \<open>A number that is looked up in the ranges finds the position of the field with that number.\<close>

lemma map_of_zip_upt:
  assumes "distinct xs"
  shows "map_of (zip xs [0..<length xs]) x = Some i \<longleftrightarrow> i < length xs \<and> xs ! i = x"
proof -
  have "distinct (map fst (zip xs [0..<length xs]))" using assms by simp
  then have "map_of (zip xs [0..<length xs]) x = Some i \<longleftrightarrow> (x, i) \<in> set (zip xs [0..<length xs])"
    by (rule map_of_eq_Some_iff)
  then show ?thesis by (auto simp: in_set_zip)
qed

lemma table_indexed_lookup:
  assumes "table_indexed numbers names by_name n_ranges ranges"
  shows "map_of (range_pairs ranges) number = Some i \<longleftrightarrow> i < length numbers \<and> numbers ! i = number"
proof -
  from assms have "sorted_wrt (<) numbers" and pairs: "range_pairs ranges = zip numbers [0..<length numbers]"
    by (simp_all add: table_indexed_def)
  then have "distinct numbers" using strict_sorted_iff by blast
  then show ?thesis unfolding pairs by (rule map_of_zip_upt)
qed

text \<open>The name index is a permutation of the positions.\<close>

lemma strcmp_less_irrefl [simp]: "\<not> strcmp_less s s"
  by (induction s) auto

lemma table_indexed_by_name:
  assumes "table_indexed numbers names by_name n_ranges ranges"
  shows "distinct by_name \<and> set by_name = {..<length numbers} \<and> distinct names"
proof -
  note facts = assms [unfolded table_indexed_def list_all_iff]
  have "distinct (map ((!) names) by_name)"
    unfolding distinct_conv_nth
  proof (intro allI impI)
    fix i j assume ij: "i < length (map ((!) names) by_name)" "j < length (map ((!) names) by_name)" "i \<noteq> j"
    have "\<And>i j. i < j \<Longrightarrow> j < length by_name \<Longrightarrow> strcmp_less (map ((!) names) by_name ! i) (map ((!) names) by_name ! j)"
      using facts by (auto simp: sorted_wrt_iff_nth_less)
    then show "map ((!) names) by_name ! i \<noteq> map ((!) names) by_name ! j"
      using ij strcmp_less_irrefl by (metis length_map linorder_neqE_nat)
  qed
  then have "distinct by_name" and inj: "inj_on ((!) names) (set by_name)" by (auto simp: distinct_map)
  moreover have "set by_name \<subseteq> {..<length numbers}" using facts by auto
  moreover have "card (set by_name) = card {..<length numbers}" using \<open>distinct by_name\<close> facts by (simp add: distinct_card)
  ultimately have all: "set by_name = {..<length numbers}" by (intro card_subset_eq) simp_all
  have "distinct names"
    unfolding distinct_conv_nth using inj facts by (auto simp: all inj_on_def)
  then show ?thesis using \<open>distinct by_name\<close> all by simp
qed

lemma message_indexed_lookup:
  assumes "message_indexed (symbol, md, struct, init)"
  shows "(\<forall>number i. map_of (range_pairs (md_field_ranges md)) number = Some i \<longleftrightarrow>
        i < length (md_fields md) \<and> fd_id (md_fields md ! i) = number) \<and>
     distinct (md_fields_sorted_by_name md) \<and>
     set (md_fields_sorted_by_name md) = {..<md_n_fields md} \<and>
     sorted_wrt strcmp_less (map (\<lambda>i. fd_name (md_fields md ! i)) (md_fields_sorted_by_name md))"
proof -
  let ?names = "map fd_name (md_fields md)"
  from assms have count: "md_n_fields md = length (md_fields md)"
    and table: "table_indexed (map fd_id (md_fields md)) ?names (md_fields_sorted_by_name md)
        (md_n_field_ranges md) (md_field_ranges md)"
    by (simp_all add: message_indexed_def)
  have "sorted_wrt strcmp_less (map ((!) ?names) (md_fields_sorted_by_name md))"
    and range: "\<forall>i \<in> set (md_fields_sorted_by_name md). i < length (md_fields md)"
    using table by (simp_all add: table_indexed_def list_all_iff)
  moreover have "map ((!) ?names) (md_fields_sorted_by_name md) =
      map (\<lambda>i. fd_name (md_fields md ! i)) (md_fields_sorted_by_name md)"
    using range by simp
  ultimately have "sorted_wrt strcmp_less (map (\<lambda>i. fd_name (md_fields md ! i)) (md_fields_sorted_by_name md))"
    by (simp only:)
  moreover have "map_of (range_pairs (md_field_ranges md)) number = Some i \<longleftrightarrow>
      i < length (md_fields md) \<and> fd_id (md_fields md ! i) = number" for number i
    using table_indexed_lookup [OF table, of number i] by auto
  ultimately show ?thesis using table_indexed_by_name [OF table] count by auto
qed

end
