(* ===== verification/Proto_Schema.thy ===== *)
theory Proto_Schema
  imports Protobuf_Checks
begin

text \<open>
  The schema: \<^verbatim>\<open>src/proto/geyser.proto\<close>, \<^verbatim>\<open>src/proto/solana-storage.proto\<close> and
  \<^verbatim>\<open>src/proto/google/protobuf/timestamp.proto\<close>, declaration by declaration, and what they ask
  of the tables generated from them. A map field stands for a repeated message with a key and
  a value, as the language defines it; fields are listed by number.
\<close>

section \<open>Schemas\<close>

datatype schema_label = Optional | Repeated | Singular

datatype schema_type = Scalar protobuf_c_type | Named string

datatype schema_item =
    Field schema_label schema_type string nat
  | Map_field schema_type schema_type string nat
  | Oneof string "(schema_type \<times> string \<times> nat) list"

type_synonym schema_message = "string \<times> schema_item list"

type_synonym schema_enum = "string \<times> (string \<times> nat) list"

record schema_file =
  sf_package :: string
  sf_enums :: "schema_enum list"
  sf_messages :: "schema_message list"

section \<open>What a schema asks for\<close>

text \<open>
  A field by its name, number, label, type, the full name of the message or enumeration it
  refers to, and the member that says whether it is the alternative set.
\<close>

type_synonym field_view =
  "string \<times> nat \<times> protobuf_c_label \<times> protobuf_c_type \<times> string option \<times> string option"

type_synonym message_view = "string \<times> string \<times> field_view list"

definition full_name :: "string \<Rightarrow> string \<Rightarrow> string" where
  "full_name package name = (if CHR ''.'' \<in> set name then name else package @ ''.'' @ name)"

definition resolve :: "string \<Rightarrow> string list \<Rightarrow> schema_type \<Rightarrow> protobuf_c_type \<times> string option" where
  "resolve package enums ty =
     (case ty of
        Scalar scalar \<Rightarrow> (scalar, None)
      | Named name \<Rightarrow>
          (if name \<in> set enums then PROTOBUF_C_TYPE_ENUM else PROTOBUF_C_TYPE_MESSAGE,
           Some (full_name package name)))"

definition label_view :: "schema_label \<Rightarrow> protobuf_c_label" where
  "label_view label =
     (case label of
        Optional \<Rightarrow> PROTOBUF_C_LABEL_OPTIONAL
      | Repeated \<Rightarrow> PROTOBUF_C_LABEL_REPEATED
      | Singular \<Rightarrow> PROTOBUF_C_LABEL_NONE)"

definition to_upper :: "char \<Rightarrow> char" where
  "to_upper c =
     (let n = of_char c :: nat in if 97 \<le> n \<and> n \<le> 122 then char_of (n - 32) else c)"

fun camel :: "bool \<Rightarrow> string \<Rightarrow> string" where
  "camel up [] = []"
| "camel up (c # cs) =
     (if c = CHR ''_'' then camel True cs else (if up then to_upper c else c) # camel False cs)"

definition item_view :: "string \<Rightarrow> string list \<Rightarrow> string \<Rightarrow> schema_item \<Rightarrow> field_view list" where
  "item_view package enums message item =
     (case item of
        Field label ty name number \<Rightarrow>
          (case resolve package enums ty of (ty, ref) \<Rightarrow> [(name, number, label_view label, ty, ref, None)])
      | Map_field key val name number \<Rightarrow>
          [(name, number, PROTOBUF_C_LABEL_REPEATED, PROTOBUF_C_TYPE_MESSAGE,
            Some (full_name package message @ ''.'' @ camel True name @ ''Entry''), None)]
      | Oneof oneof alternatives \<Rightarrow>
          map (\<lambda>(ty, name, number).
            case resolve package enums ty of (ty, ref) \<Rightarrow>
              (name, number, PROTOBUF_C_LABEL_OPTIONAL, ty, ref, Some (oneof @ ''_case''))) alternatives)"

definition entry_view :: "string \<Rightarrow> string list \<Rightarrow> string \<Rightarrow> schema_item \<Rightarrow> message_view list" where
  "entry_view package enums message item =
     (case item of
        Map_field key val name number \<Rightarrow>
          [(full_name package message @ ''.'' @ camel True name @ ''Entry'', package,
            concat [item_view package enums message (Field Optional key ''key'' 1),
                    item_view package enums message (Field Optional val ''value'' 2)])]
      | _ \<Rightarrow> [])"

definition message_views :: "string \<Rightarrow> string list \<Rightarrow> schema_message \<Rightarrow> message_view list" where
  "message_views package enums =
     (\<lambda>(message, items).
        concat (map (entry_view package enums message) items) @
        [(full_name package message, package,
          sort_key (\<lambda>(name, number, _). number) (concat (map (item_view package enums message) items)))])"

definition schema_view :: "schema_file \<Rightarrow> message_view list" where
  "schema_view file =
     concat (map (message_views (sf_package file) (map fst (sf_enums file))) (sf_messages file))"

definition schema_enums :: "schema_file \<Rightarrow> schema_enum list" where
  "schema_enums file = map (\<lambda>(name, values). (full_name (sf_package file) name, values)) (sf_enums file)"

section \<open>What the tables say\<close>

text \<open>\<open>full_names\<close> gives the full name behind the address of a descriptor.\<close>

definition descriptor_view :: "(string \<rightharpoonup> string) \<Rightarrow> generated_message \<Rightarrow> message_view" where
  "descriptor_view full_names =
     (\<lambda>(symbol, md, struct, init).
        (md_name md, md_package_name md,
         map (\<lambda>fd. (fd_name fd, fd_id fd, fd_label fd, fd_type fd,
                    Option.bind (fd_descriptor fd) full_names, oneof_of fd)) (md_fields md)))"

definition enum_view :: "string \<times> enum_descriptor \<times> c_enum \<Rightarrow> schema_enum" where
  "enum_view = (\<lambda>(symbol, ed, c_enum). (ed_name ed, map (\<lambda>(name, c_name, number). (name, number)) (ed_values ed)))"

section \<open>The schema files\<close>

definition Timestamp_schema :: schema_message where
  "Timestamp_schema =
     (''Timestamp'',
      [Field Singular (Scalar PROTOBUF_C_TYPE_INT64) ''seconds'' 1,
       Field Singular (Scalar PROTOBUF_C_TYPE_INT32) ''nanos'' 2])"

definition timestamp_proto :: schema_file where
  "timestamp_proto =
     \<lparr>sf_package = ''google.protobuf'',
      sf_enums = [],
      sf_messages =
        [Timestamp_schema]\<rparr>"

definition ConfirmedBlock_schema :: schema_message where
  "ConfirmedBlock_schema =
     (''ConfirmedBlock'',
      [Field Optional (Scalar PROTOBUF_C_TYPE_STRING) ''previous_blockhash'' 1,
       Field Optional (Scalar PROTOBUF_C_TYPE_STRING) ''blockhash'' 2,
       Field Optional (Scalar PROTOBUF_C_TYPE_UINT64) ''parent_slot'' 3,
       Field Repeated (Named ''ConfirmedTransaction'') ''transactions'' 4,
       Field Repeated (Named ''Reward'') ''rewards'' 5,
       Field Optional (Named ''UnixTimestamp'') ''block_time'' 6,
       Field Optional (Named ''BlockHeight'') ''block_height'' 7,
       Field Optional (Named ''NumPartitions'') ''num_partitions'' 8])"

definition ConfirmedTransaction_schema :: schema_message where
  "ConfirmedTransaction_schema =
     (''ConfirmedTransaction'',
      [Field Optional (Named ''Transaction'') ''transaction'' 1,
       Field Optional (Named ''TransactionStatusMeta'') ''meta'' 2])"

definition Transaction_schema :: schema_message where
  "Transaction_schema =
     (''Transaction'',
      [Field Repeated (Scalar PROTOBUF_C_TYPE_BYTES) ''signatures'' 1,
       Field Optional (Named ''Message'') ''message'' 2])"

definition Message_schema :: schema_message where
  "Message_schema =
     (''Message'',
      [Field Optional (Named ''MessageHeader'') ''header'' 1,
       Field Repeated (Scalar PROTOBUF_C_TYPE_BYTES) ''account_keys'' 2,
       Field Optional (Scalar PROTOBUF_C_TYPE_BYTES) ''recent_blockhash'' 3,
       Field Repeated (Named ''CompiledInstruction'') ''instructions'' 4,
       Field Optional (Scalar PROTOBUF_C_TYPE_BOOL) ''versioned'' 5,
       Field Repeated (Named ''MessageAddressTableLookup'') ''address_table_lookups'' 6])"

definition MessageHeader_schema :: schema_message where
  "MessageHeader_schema =
     (''MessageHeader'',
      [Field Optional (Scalar PROTOBUF_C_TYPE_UINT32) ''num_required_signatures'' 1,
       Field Optional (Scalar PROTOBUF_C_TYPE_UINT32) ''num_readonly_signed_accounts'' 2,
       Field Optional (Scalar PROTOBUF_C_TYPE_UINT32) ''num_readonly_unsigned_accounts'' 3])"

definition MessageAddressTableLookup_schema :: schema_message where
  "MessageAddressTableLookup_schema =
     (''MessageAddressTableLookup'',
      [Field Optional (Scalar PROTOBUF_C_TYPE_BYTES) ''account_key'' 1,
       Field Optional (Scalar PROTOBUF_C_TYPE_BYTES) ''writable_indexes'' 2,
       Field Optional (Scalar PROTOBUF_C_TYPE_BYTES) ''readonly_indexes'' 3])"

definition TransactionStatusMeta_schema :: schema_message where
  "TransactionStatusMeta_schema =
     (''TransactionStatusMeta'',
      [Field Optional (Named ''TransactionError'') ''err'' 1,
       Field Optional (Scalar PROTOBUF_C_TYPE_UINT64) ''fee'' 2,
       Field Repeated (Scalar PROTOBUF_C_TYPE_UINT64) ''pre_balances'' 3,
       Field Repeated (Scalar PROTOBUF_C_TYPE_UINT64) ''post_balances'' 4,
       Field Repeated (Named ''InnerInstructions'') ''inner_instructions'' 5,
       Field Optional (Scalar PROTOBUF_C_TYPE_BOOL) ''inner_instructions_none'' 10,
       Field Repeated (Scalar PROTOBUF_C_TYPE_STRING) ''log_messages'' 6,
       Field Optional (Scalar PROTOBUF_C_TYPE_BOOL) ''log_messages_none'' 11,
       Field Repeated (Named ''TokenBalance'') ''pre_token_balances'' 7,
       Field Repeated (Named ''TokenBalance'') ''post_token_balances'' 8,
       Field Repeated (Named ''Reward'') ''rewards'' 9,
       Field Repeated (Scalar PROTOBUF_C_TYPE_BYTES) ''loaded_writable_addresses'' 12,
       Field Repeated (Scalar PROTOBUF_C_TYPE_BYTES) ''loaded_readonly_addresses'' 13,
       Field Optional (Named ''ReturnData'') ''return_data'' 14,
       Field Optional (Scalar PROTOBUF_C_TYPE_BOOL) ''return_data_none'' 15,
       Field Optional (Scalar PROTOBUF_C_TYPE_UINT64) ''compute_units_consumed'' 16,
       Field Optional (Scalar PROTOBUF_C_TYPE_UINT64) ''cost_units'' 17])"

definition TransactionError_schema :: schema_message where
  "TransactionError_schema =
     (''TransactionError'',
      [Field Optional (Scalar PROTOBUF_C_TYPE_BYTES) ''err'' 1])"

definition InnerInstructions_schema :: schema_message where
  "InnerInstructions_schema =
     (''InnerInstructions'',
      [Field Optional (Scalar PROTOBUF_C_TYPE_UINT32) ''index'' 1,
       Field Repeated (Named ''InnerInstruction'') ''instructions'' 2])"

definition InnerInstruction_schema :: schema_message where
  "InnerInstruction_schema =
     (''InnerInstruction'',
      [Field Optional (Scalar PROTOBUF_C_TYPE_UINT32) ''program_id_index'' 1,
       Field Optional (Scalar PROTOBUF_C_TYPE_BYTES) ''accounts'' 2,
       Field Optional (Scalar PROTOBUF_C_TYPE_BYTES) ''data'' 3,
       Field Optional (Scalar PROTOBUF_C_TYPE_UINT32) ''stack_height'' 4])"

definition CompiledInstruction_schema :: schema_message where
  "CompiledInstruction_schema =
     (''CompiledInstruction'',
      [Field Optional (Scalar PROTOBUF_C_TYPE_UINT32) ''program_id_index'' 1,
       Field Optional (Scalar PROTOBUF_C_TYPE_BYTES) ''accounts'' 2,
       Field Optional (Scalar PROTOBUF_C_TYPE_BYTES) ''data'' 3])"

definition TokenBalance_schema :: schema_message where
  "TokenBalance_schema =
     (''TokenBalance'',
      [Field Optional (Scalar PROTOBUF_C_TYPE_UINT32) ''account_index'' 1,
       Field Optional (Scalar PROTOBUF_C_TYPE_STRING) ''mint'' 2,
       Field Optional (Named ''UiTokenAmount'') ''ui_token_amount'' 3,
       Field Optional (Scalar PROTOBUF_C_TYPE_STRING) ''owner'' 4,
       Field Optional (Scalar PROTOBUF_C_TYPE_STRING) ''program_id'' 5])"

definition UiTokenAmount_schema :: schema_message where
  "UiTokenAmount_schema =
     (''UiTokenAmount'',
      [Field Optional (Scalar PROTOBUF_C_TYPE_DOUBLE) ''ui_amount'' 1,
       Field Optional (Scalar PROTOBUF_C_TYPE_UINT32) ''decimals'' 2,
       Field Optional (Scalar PROTOBUF_C_TYPE_STRING) ''amount'' 3,
       Field Optional (Scalar PROTOBUF_C_TYPE_STRING) ''ui_amount_string'' 4])"

definition ReturnData_schema :: schema_message where
  "ReturnData_schema =
     (''ReturnData'',
      [Field Optional (Scalar PROTOBUF_C_TYPE_BYTES) ''program_id'' 1,
       Field Optional (Scalar PROTOBUF_C_TYPE_BYTES) ''data'' 2])"

definition RewardType_schema :: schema_enum where
  "RewardType_schema =
     (''RewardType'',
      [(''Unspecified'', 0), (''Fee'', 1), (''Rent'', 2), (''Staking'', 3), (''Voting'', 4)])"

definition Reward_schema :: schema_message where
  "Reward_schema =
     (''Reward'',
      [Field Optional (Scalar PROTOBUF_C_TYPE_STRING) ''pubkey'' 1,
       Field Optional (Scalar PROTOBUF_C_TYPE_INT64) ''lamports'' 2,
       Field Optional (Scalar PROTOBUF_C_TYPE_UINT64) ''post_balance'' 3,
       Field Optional (Named ''RewardType'') ''reward_type'' 4,
       Field Optional (Scalar PROTOBUF_C_TYPE_STRING) ''commission'' 5])"

definition Rewards_schema :: schema_message where
  "Rewards_schema =
     (''Rewards'',
      [Field Repeated (Named ''Reward'') ''rewards'' 1,
       Field Optional (Named ''NumPartitions'') ''num_partitions'' 2])"

definition UnixTimestamp_schema :: schema_message where
  "UnixTimestamp_schema =
     (''UnixTimestamp'',
      [Field Optional (Scalar PROTOBUF_C_TYPE_INT64) ''timestamp'' 1])"

definition BlockHeight_schema :: schema_message where
  "BlockHeight_schema =
     (''BlockHeight'',
      [Field Optional (Scalar PROTOBUF_C_TYPE_UINT64) ''block_height'' 1])"

definition NumPartitions_schema :: schema_message where
  "NumPartitions_schema =
     (''NumPartitions'',
      [Field Optional (Scalar PROTOBUF_C_TYPE_UINT64) ''num_partitions'' 1])"

definition solana_storage_proto :: schema_file where
  "solana_storage_proto =
     \<lparr>sf_package = ''solana.storage.ConfirmedBlock'',
      sf_enums = [RewardType_schema],
      sf_messages =
        [ConfirmedBlock_schema,
         ConfirmedTransaction_schema,
         Transaction_schema,
         Message_schema,
         MessageHeader_schema,
         MessageAddressTableLookup_schema,
         TransactionStatusMeta_schema,
         TransactionError_schema,
         InnerInstructions_schema,
         InnerInstruction_schema,
         CompiledInstruction_schema,
         TokenBalance_schema,
         UiTokenAmount_schema,
         ReturnData_schema,
         Reward_schema,
         Rewards_schema,
         UnixTimestamp_schema,
         BlockHeight_schema,
         NumPartitions_schema]\<rparr>"

definition Geyser_service :: "(string \<times> string \<times> string) list" where
  "Geyser_service =
     [(''Subscribe'', ''SubscribeRequest'', ''SubscribeUpdate''),
      (''SubscribeReplayInfo'', ''SubscribeReplayInfoRequest'', ''SubscribeReplayInfoResponse''),
      (''Ping'', ''PingRequest'', ''PongResponse''),
      (''GetLatestBlockhash'', ''GetLatestBlockhashRequest'', ''GetLatestBlockhashResponse''),
      (''GetBlockHeight'', ''GetBlockHeightRequest'', ''GetBlockHeightResponse''),
      (''GetSlot'', ''GetSlotRequest'', ''GetSlotResponse''),
      (''IsBlockhashValid'', ''IsBlockhashValidRequest'', ''IsBlockhashValidResponse''),
      (''GetVersion'', ''GetVersionRequest'', ''GetVersionResponse'')]"

definition CommitmentLevel_schema :: schema_enum where
  "CommitmentLevel_schema =
     (''CommitmentLevel'',
      [(''PROCESSED'', 0), (''CONFIRMED'', 1), (''FINALIZED'', 2)])"

definition SlotStatus_schema :: schema_enum where
  "SlotStatus_schema =
     (''SlotStatus'',
      [(''SLOT_PROCESSED'', 0), (''SLOT_CONFIRMED'', 1), (''SLOT_FINALIZED'', 2), (''SLOT_FIRST_SHRED_RECEIVED'', 3), (''SLOT_COMPLETED'', 4), (''SLOT_CREATED_BANK'', 5), (''SLOT_DEAD'', 6)])"

definition SubscribeRequest_schema :: schema_message where
  "SubscribeRequest_schema =
     (''SubscribeRequest'',
      [Map_field (Scalar PROTOBUF_C_TYPE_STRING) (Named ''SubscribeRequestFilterAccounts'') ''accounts'' 1,
       Map_field (Scalar PROTOBUF_C_TYPE_STRING) (Named ''SubscribeRequestFilterSlots'') ''slots'' 2,
       Map_field (Scalar PROTOBUF_C_TYPE_STRING) (Named ''SubscribeRequestFilterTransactions'') ''transactions'' 3,
       Map_field (Scalar PROTOBUF_C_TYPE_STRING) (Named ''SubscribeRequestFilterTransactions'') ''transactions_status'' 10,
       Map_field (Scalar PROTOBUF_C_TYPE_STRING) (Named ''SubscribeRequestFilterBlocks'') ''blocks'' 4,
       Map_field (Scalar PROTOBUF_C_TYPE_STRING) (Named ''SubscribeRequestFilterBlocksMeta'') ''blocks_meta'' 5,
       Map_field (Scalar PROTOBUF_C_TYPE_STRING) (Named ''SubscribeRequestFilterEntry'') ''entry'' 8,
       Field Optional (Named ''CommitmentLevel'') ''commitment'' 6,
       Field Repeated (Named ''SubscribeRequestAccountsDataSlice'') ''accounts_data_slice'' 7,
       Field Optional (Named ''SubscribeRequestPing'') ''ping'' 9,
       Field Optional (Scalar PROTOBUF_C_TYPE_UINT64) ''from_slot'' 11])"

definition SubscribeRequestFilterAccounts_schema :: schema_message where
  "SubscribeRequestFilterAccounts_schema =
     (''SubscribeRequestFilterAccounts'',
      [Field Repeated (Scalar PROTOBUF_C_TYPE_STRING) ''account'' 2,
       Field Repeated (Scalar PROTOBUF_C_TYPE_STRING) ''owner'' 3,
       Field Repeated (Named ''SubscribeRequestFilterAccountsFilter'') ''filters'' 4,
       Field Optional (Scalar PROTOBUF_C_TYPE_BOOL) ''nonempty_txn_signature'' 5])"

definition SubscribeRequestFilterAccountsFilter_schema :: schema_message where
  "SubscribeRequestFilterAccountsFilter_schema =
     (''SubscribeRequestFilterAccountsFilter'',
      [Oneof ''filter''
         [(Named ''SubscribeRequestFilterAccountsFilterMemcmp'', ''memcmp'', 1),
          (Scalar PROTOBUF_C_TYPE_UINT64, ''datasize'', 2),
          (Scalar PROTOBUF_C_TYPE_BOOL, ''token_account_state'', 3),
          (Named ''SubscribeRequestFilterAccountsFilterLamports'', ''lamports'', 4)]])"

definition SubscribeRequestFilterAccountsFilterMemcmp_schema :: schema_message where
  "SubscribeRequestFilterAccountsFilterMemcmp_schema =
     (''SubscribeRequestFilterAccountsFilterMemcmp'',
      [Field Optional (Scalar PROTOBUF_C_TYPE_UINT64) ''offset'' 1,
       Oneof ''data''
         [(Scalar PROTOBUF_C_TYPE_BYTES, ''bytes'', 2),
          (Scalar PROTOBUF_C_TYPE_STRING, ''base58'', 3),
          (Scalar PROTOBUF_C_TYPE_STRING, ''base64'', 4)]])"

definition SubscribeRequestFilterAccountsFilterLamports_schema :: schema_message where
  "SubscribeRequestFilterAccountsFilterLamports_schema =
     (''SubscribeRequestFilterAccountsFilterLamports'',
      [Oneof ''cmp''
         [(Scalar PROTOBUF_C_TYPE_UINT64, ''eq'', 1),
          (Scalar PROTOBUF_C_TYPE_UINT64, ''ne'', 2),
          (Scalar PROTOBUF_C_TYPE_UINT64, ''lt'', 3),
          (Scalar PROTOBUF_C_TYPE_UINT64, ''gt'', 4)]])"

definition SubscribeRequestFilterSlots_schema :: schema_message where
  "SubscribeRequestFilterSlots_schema =
     (''SubscribeRequestFilterSlots'',
      [Field Optional (Scalar PROTOBUF_C_TYPE_BOOL) ''filter_by_commitment'' 1,
       Field Optional (Scalar PROTOBUF_C_TYPE_BOOL) ''interslot_updates'' 2])"

definition SubscribeRequestFilterTransactions_schema :: schema_message where
  "SubscribeRequestFilterTransactions_schema =
     (''SubscribeRequestFilterTransactions'',
      [Field Optional (Scalar PROTOBUF_C_TYPE_BOOL) ''vote'' 1,
       Field Optional (Scalar PROTOBUF_C_TYPE_BOOL) ''failed'' 2,
       Field Optional (Scalar PROTOBUF_C_TYPE_STRING) ''signature'' 5,
       Field Repeated (Scalar PROTOBUF_C_TYPE_STRING) ''account_include'' 3,
       Field Repeated (Scalar PROTOBUF_C_TYPE_STRING) ''account_exclude'' 4,
       Field Repeated (Scalar PROTOBUF_C_TYPE_STRING) ''account_required'' 6])"

definition SubscribeRequestFilterBlocks_schema :: schema_message where
  "SubscribeRequestFilterBlocks_schema =
     (''SubscribeRequestFilterBlocks'',
      [Field Repeated (Scalar PROTOBUF_C_TYPE_STRING) ''account_include'' 1,
       Field Optional (Scalar PROTOBUF_C_TYPE_BOOL) ''include_transactions'' 2,
       Field Optional (Scalar PROTOBUF_C_TYPE_BOOL) ''include_accounts'' 3,
       Field Optional (Scalar PROTOBUF_C_TYPE_BOOL) ''include_entries'' 4])"

definition SubscribeRequestFilterBlocksMeta_schema :: schema_message where
  "SubscribeRequestFilterBlocksMeta_schema =
     (''SubscribeRequestFilterBlocksMeta'',
      [])"

definition SubscribeRequestFilterEntry_schema :: schema_message where
  "SubscribeRequestFilterEntry_schema =
     (''SubscribeRequestFilterEntry'',
      [])"

definition SubscribeRequestAccountsDataSlice_schema :: schema_message where
  "SubscribeRequestAccountsDataSlice_schema =
     (''SubscribeRequestAccountsDataSlice'',
      [Field Optional (Scalar PROTOBUF_C_TYPE_UINT64) ''offset'' 1,
       Field Optional (Scalar PROTOBUF_C_TYPE_UINT64) ''length'' 2])"

definition SubscribeRequestPing_schema :: schema_message where
  "SubscribeRequestPing_schema =
     (''SubscribeRequestPing'',
      [Field Optional (Scalar PROTOBUF_C_TYPE_INT32) ''id'' 1])"

definition SubscribeUpdate_schema :: schema_message where
  "SubscribeUpdate_schema =
     (''SubscribeUpdate'',
      [Field Repeated (Scalar PROTOBUF_C_TYPE_STRING) ''filters'' 1,
       Oneof ''update_oneof''
         [(Named ''SubscribeUpdateAccount'', ''account'', 2),
          (Named ''SubscribeUpdateSlot'', ''slot'', 3),
          (Named ''SubscribeUpdateTransaction'', ''transaction'', 4),
          (Named ''SubscribeUpdateTransactionStatus'', ''transaction_status'', 10),
          (Named ''SubscribeUpdateBlock'', ''block'', 5),
          (Named ''SubscribeUpdatePing'', ''ping'', 6),
          (Named ''SubscribeUpdatePong'', ''pong'', 9),
          (Named ''SubscribeUpdateBlockMeta'', ''block_meta'', 7),
          (Named ''SubscribeUpdateEntry'', ''entry'', 8)],
       Field Optional (Named ''google.protobuf.Timestamp'') ''created_at'' 11])"

definition SubscribeUpdateAccount_schema :: schema_message where
  "SubscribeUpdateAccount_schema =
     (''SubscribeUpdateAccount'',
      [Field Optional (Named ''SubscribeUpdateAccountInfo'') ''account'' 1,
       Field Optional (Scalar PROTOBUF_C_TYPE_UINT64) ''slot'' 2,
       Field Optional (Scalar PROTOBUF_C_TYPE_BOOL) ''is_startup'' 3])"

definition SubscribeUpdateAccountInfo_schema :: schema_message where
  "SubscribeUpdateAccountInfo_schema =
     (''SubscribeUpdateAccountInfo'',
      [Field Optional (Scalar PROTOBUF_C_TYPE_BYTES) ''pubkey'' 1,
       Field Optional (Scalar PROTOBUF_C_TYPE_UINT64) ''lamports'' 2,
       Field Optional (Scalar PROTOBUF_C_TYPE_BYTES) ''owner'' 3,
       Field Optional (Scalar PROTOBUF_C_TYPE_BOOL) ''executable'' 4,
       Field Optional (Scalar PROTOBUF_C_TYPE_UINT64) ''rent_epoch'' 5,
       Field Optional (Scalar PROTOBUF_C_TYPE_BYTES) ''data'' 6,
       Field Optional (Scalar PROTOBUF_C_TYPE_UINT64) ''write_version'' 7,
       Field Optional (Scalar PROTOBUF_C_TYPE_BYTES) ''txn_signature'' 8])"

definition SubscribeUpdateSlot_schema :: schema_message where
  "SubscribeUpdateSlot_schema =
     (''SubscribeUpdateSlot'',
      [Field Optional (Scalar PROTOBUF_C_TYPE_UINT64) ''slot'' 1,
       Field Optional (Scalar PROTOBUF_C_TYPE_UINT64) ''parent'' 2,
       Field Optional (Named ''SlotStatus'') ''status'' 3,
       Field Optional (Scalar PROTOBUF_C_TYPE_STRING) ''dead_error'' 4])"

definition SubscribeUpdateTransaction_schema :: schema_message where
  "SubscribeUpdateTransaction_schema =
     (''SubscribeUpdateTransaction'',
      [Field Optional (Named ''SubscribeUpdateTransactionInfo'') ''transaction'' 1,
       Field Optional (Scalar PROTOBUF_C_TYPE_UINT64) ''slot'' 2])"

definition SubscribeUpdateTransactionInfo_schema :: schema_message where
  "SubscribeUpdateTransactionInfo_schema =
     (''SubscribeUpdateTransactionInfo'',
      [Field Optional (Scalar PROTOBUF_C_TYPE_BYTES) ''signature'' 1,
       Field Optional (Scalar PROTOBUF_C_TYPE_BOOL) ''is_vote'' 2,
       Field Optional (Named ''solana.storage.ConfirmedBlock.Transaction'') ''transaction'' 3,
       Field Optional (Named ''solana.storage.ConfirmedBlock.TransactionStatusMeta'') ''meta'' 4,
       Field Optional (Scalar PROTOBUF_C_TYPE_UINT64) ''index'' 5])"

definition SubscribeUpdateTransactionStatus_schema :: schema_message where
  "SubscribeUpdateTransactionStatus_schema =
     (''SubscribeUpdateTransactionStatus'',
      [Field Optional (Scalar PROTOBUF_C_TYPE_UINT64) ''slot'' 1,
       Field Optional (Scalar PROTOBUF_C_TYPE_BYTES) ''signature'' 2,
       Field Optional (Scalar PROTOBUF_C_TYPE_BOOL) ''is_vote'' 3,
       Field Optional (Scalar PROTOBUF_C_TYPE_UINT64) ''index'' 4,
       Field Optional (Named ''solana.storage.ConfirmedBlock.TransactionError'') ''err'' 5])"

definition SubscribeUpdateBlock_schema :: schema_message where
  "SubscribeUpdateBlock_schema =
     (''SubscribeUpdateBlock'',
      [Field Optional (Scalar PROTOBUF_C_TYPE_UINT64) ''slot'' 1,
       Field Optional (Scalar PROTOBUF_C_TYPE_STRING) ''blockhash'' 2,
       Field Optional (Named ''solana.storage.ConfirmedBlock.Rewards'') ''rewards'' 3,
       Field Optional (Named ''solana.storage.ConfirmedBlock.UnixTimestamp'') ''block_time'' 4,
       Field Optional (Named ''solana.storage.ConfirmedBlock.BlockHeight'') ''block_height'' 5,
       Field Optional (Scalar PROTOBUF_C_TYPE_UINT64) ''parent_slot'' 7,
       Field Optional (Scalar PROTOBUF_C_TYPE_STRING) ''parent_blockhash'' 8,
       Field Optional (Scalar PROTOBUF_C_TYPE_UINT64) ''executed_transaction_count'' 9,
       Field Repeated (Named ''SubscribeUpdateTransactionInfo'') ''transactions'' 6,
       Field Optional (Scalar PROTOBUF_C_TYPE_UINT64) ''updated_account_count'' 10,
       Field Repeated (Named ''SubscribeUpdateAccountInfo'') ''accounts'' 11,
       Field Optional (Scalar PROTOBUF_C_TYPE_UINT64) ''entries_count'' 12,
       Field Repeated (Named ''SubscribeUpdateEntry'') ''entries'' 13])"

definition SubscribeUpdateBlockMeta_schema :: schema_message where
  "SubscribeUpdateBlockMeta_schema =
     (''SubscribeUpdateBlockMeta'',
      [Field Optional (Scalar PROTOBUF_C_TYPE_UINT64) ''slot'' 1,
       Field Optional (Scalar PROTOBUF_C_TYPE_STRING) ''blockhash'' 2,
       Field Optional (Named ''solana.storage.ConfirmedBlock.Rewards'') ''rewards'' 3,
       Field Optional (Named ''solana.storage.ConfirmedBlock.UnixTimestamp'') ''block_time'' 4,
       Field Optional (Named ''solana.storage.ConfirmedBlock.BlockHeight'') ''block_height'' 5,
       Field Optional (Scalar PROTOBUF_C_TYPE_UINT64) ''parent_slot'' 6,
       Field Optional (Scalar PROTOBUF_C_TYPE_STRING) ''parent_blockhash'' 7,
       Field Optional (Scalar PROTOBUF_C_TYPE_UINT64) ''executed_transaction_count'' 8,
       Field Optional (Scalar PROTOBUF_C_TYPE_UINT64) ''entries_count'' 9])"

definition SubscribeUpdateEntry_schema :: schema_message where
  "SubscribeUpdateEntry_schema =
     (''SubscribeUpdateEntry'',
      [Field Optional (Scalar PROTOBUF_C_TYPE_UINT64) ''slot'' 1,
       Field Optional (Scalar PROTOBUF_C_TYPE_UINT64) ''index'' 2,
       Field Optional (Scalar PROTOBUF_C_TYPE_UINT64) ''num_hashes'' 3,
       Field Optional (Scalar PROTOBUF_C_TYPE_BYTES) ''hash'' 4,
       Field Optional (Scalar PROTOBUF_C_TYPE_UINT64) ''executed_transaction_count'' 5,
       Field Optional (Scalar PROTOBUF_C_TYPE_UINT64) ''starting_transaction_index'' 6])"

definition SubscribeUpdatePing_schema :: schema_message where
  "SubscribeUpdatePing_schema =
     (''SubscribeUpdatePing'',
      [])"

definition SubscribeUpdatePong_schema :: schema_message where
  "SubscribeUpdatePong_schema =
     (''SubscribeUpdatePong'',
      [Field Optional (Scalar PROTOBUF_C_TYPE_INT32) ''id'' 1])"

definition SubscribeReplayInfoRequest_schema :: schema_message where
  "SubscribeReplayInfoRequest_schema =
     (''SubscribeReplayInfoRequest'',
      [])"

definition SubscribeReplayInfoResponse_schema :: schema_message where
  "SubscribeReplayInfoResponse_schema =
     (''SubscribeReplayInfoResponse'',
      [Field Optional (Scalar PROTOBUF_C_TYPE_UINT64) ''first_available'' 1])"

definition PingRequest_schema :: schema_message where
  "PingRequest_schema =
     (''PingRequest'',
      [Field Optional (Scalar PROTOBUF_C_TYPE_INT32) ''count'' 1])"

definition PongResponse_schema :: schema_message where
  "PongResponse_schema =
     (''PongResponse'',
      [Field Optional (Scalar PROTOBUF_C_TYPE_INT32) ''count'' 1])"

definition GetLatestBlockhashRequest_schema :: schema_message where
  "GetLatestBlockhashRequest_schema =
     (''GetLatestBlockhashRequest'',
      [Field Optional (Named ''CommitmentLevel'') ''commitment'' 1])"

definition GetLatestBlockhashResponse_schema :: schema_message where
  "GetLatestBlockhashResponse_schema =
     (''GetLatestBlockhashResponse'',
      [Field Optional (Scalar PROTOBUF_C_TYPE_UINT64) ''slot'' 1,
       Field Optional (Scalar PROTOBUF_C_TYPE_STRING) ''blockhash'' 2,
       Field Optional (Scalar PROTOBUF_C_TYPE_UINT64) ''last_valid_block_height'' 3])"

definition GetBlockHeightRequest_schema :: schema_message where
  "GetBlockHeightRequest_schema =
     (''GetBlockHeightRequest'',
      [Field Optional (Named ''CommitmentLevel'') ''commitment'' 1])"

definition GetBlockHeightResponse_schema :: schema_message where
  "GetBlockHeightResponse_schema =
     (''GetBlockHeightResponse'',
      [Field Optional (Scalar PROTOBUF_C_TYPE_UINT64) ''block_height'' 1])"

definition GetSlotRequest_schema :: schema_message where
  "GetSlotRequest_schema =
     (''GetSlotRequest'',
      [Field Optional (Named ''CommitmentLevel'') ''commitment'' 1])"

definition GetSlotResponse_schema :: schema_message where
  "GetSlotResponse_schema =
     (''GetSlotResponse'',
      [Field Optional (Scalar PROTOBUF_C_TYPE_UINT64) ''slot'' 1])"

definition GetVersionRequest_schema :: schema_message where
  "GetVersionRequest_schema =
     (''GetVersionRequest'',
      [])"

definition GetVersionResponse_schema :: schema_message where
  "GetVersionResponse_schema =
     (''GetVersionResponse'',
      [Field Optional (Scalar PROTOBUF_C_TYPE_STRING) ''version'' 1])"

definition IsBlockhashValidRequest_schema :: schema_message where
  "IsBlockhashValidRequest_schema =
     (''IsBlockhashValidRequest'',
      [Field Optional (Scalar PROTOBUF_C_TYPE_STRING) ''blockhash'' 1,
       Field Optional (Named ''CommitmentLevel'') ''commitment'' 2])"

definition IsBlockhashValidResponse_schema :: schema_message where
  "IsBlockhashValidResponse_schema =
     (''IsBlockhashValidResponse'',
      [Field Optional (Scalar PROTOBUF_C_TYPE_UINT64) ''slot'' 1,
       Field Optional (Scalar PROTOBUF_C_TYPE_BOOL) ''valid'' 2])"

definition geyser_proto :: schema_file where
  "geyser_proto =
     \<lparr>sf_package = ''geyser'',
      sf_enums = [CommitmentLevel_schema, SlotStatus_schema],
      sf_messages =
        [SubscribeRequest_schema,
         SubscribeRequestFilterAccounts_schema,
         SubscribeRequestFilterAccountsFilter_schema,
         SubscribeRequestFilterAccountsFilterMemcmp_schema,
         SubscribeRequestFilterAccountsFilterLamports_schema,
         SubscribeRequestFilterSlots_schema,
         SubscribeRequestFilterTransactions_schema,
         SubscribeRequestFilterBlocks_schema,
         SubscribeRequestFilterBlocksMeta_schema,
         SubscribeRequestFilterEntry_schema,
         SubscribeRequestAccountsDataSlice_schema,
         SubscribeRequestPing_schema,
         SubscribeUpdate_schema,
         SubscribeUpdateAccount_schema,
         SubscribeUpdateAccountInfo_schema,
         SubscribeUpdateSlot_schema,
         SubscribeUpdateTransaction_schema,
         SubscribeUpdateTransactionInfo_schema,
         SubscribeUpdateTransactionStatus_schema,
         SubscribeUpdateBlock_schema,
         SubscribeUpdateBlockMeta_schema,
         SubscribeUpdateEntry_schema,
         SubscribeUpdatePing_schema,
         SubscribeUpdatePong_schema,
         SubscribeReplayInfoRequest_schema,
         SubscribeReplayInfoResponse_schema,
         PingRequest_schema,
         PongResponse_schema,
         GetLatestBlockhashRequest_schema,
         GetLatestBlockhashResponse_schema,
         GetBlockHeightRequest_schema,
         GetBlockHeightResponse_schema,
         GetSlotRequest_schema,
         GetSlotResponse_schema,
         GetVersionRequest_schema,
         GetVersionResponse_schema,
         IsBlockhashValidRequest_schema,
         IsBlockhashValidResponse_schema]\<rparr>"

end
