(* ===== verification/Generated_Code.thy ===== *)
theory Generated_Code
  imports Timestamp_Proto Storage_Proto Geyser_Proto Proto_Schema
begin

text \<open>
  The generated code as a whole: every message with its descriptor, structure and initialiser.
  The checks of the tables are evaluated here, file by file, and put together.
\<close>

definition generated_messages :: "generated_message list" where
  "generated_messages = timestamp_messages @ storage_messages @ geyser_messages"

definition generated_enums :: "(string \<times> enum_descriptor \<times> c_enum) list" where
  "generated_enums = storage_enums @ geyser_enums"

text \<open>The enumeration types, with the cases of the \<open>oneof\<close>s.\<close>

definition c_enums :: "c_enum list" where
  "c_enums =
     map (\<lambda>(_, _, c_enum). c_enum) generated_enums @
     [Geyser__SubscribeRequestFilterAccountsFilter__FilterCase,
      Geyser__SubscribeRequestFilterAccountsFilterMemcmp__DataCase,
      Geyser__SubscribeRequestFilterAccountsFilterLamports__CmpCase,
      Geyser__SubscribeUpdate__UpdateOneofCase]"

text \<open>What is behind the address of a descriptor.\<close>

definition c_enum_values :: "string \<rightharpoonup> (string \<times> nat) list" where
  "c_enum_values ty = map_of c_enums ty"

definition message_names :: "string \<rightharpoonup> string" where
  "message_names symbol = map_of (map (\<lambda>(symbol, md, _). (symbol, md_c_name md)) generated_messages) symbol"

definition enum_names :: "string \<rightharpoonup> string" where
  "enum_names symbol = map_of (map (\<lambda>(symbol, ed, _). (symbol, ed_c_name ed)) generated_enums) symbol"

definition full_names :: "string \<rightharpoonup> string" where
  "full_names symbol =
     map_of (map (\<lambda>(symbol, md, _). (symbol, md_name md)) generated_messages @
             map (\<lambda>(symbol, ed, _). (symbol, ed_name ed)) generated_enums) symbol"

section \<open>Looking up names\<close>

lemmas c_enum_defs =
    Solana__Storage__ConfirmedBlock__RewardType_def Geyser__CommitmentLevel_def Geyser__SlotStatus_def
    Geyser__SubscribeRequestFilterAccountsFilter__FilterCase_def
    Geyser__SubscribeRequestFilterAccountsFilterMemcmp__DataCase_def
    Geyser__SubscribeRequestFilterAccountsFilterLamports__CmpCase_def
    Geyser__SubscribeUpdate__UpdateOneofCase_def

lemmas message_descriptor_defs =
    google__protobuf__timestamp__descriptor_def
    solana__storage__confirmed_block__confirmed_block__descriptor_def
    solana__storage__confirmed_block__confirmed_transaction__descriptor_def
    solana__storage__confirmed_block__transaction__descriptor_def
    solana__storage__confirmed_block__message__descriptor_def
    solana__storage__confirmed_block__message_header__descriptor_def
    solana__storage__confirmed_block__message_address_table_lookup__descriptor_def
    solana__storage__confirmed_block__transaction_status_meta__descriptor_def
    solana__storage__confirmed_block__transaction_error__descriptor_def
    solana__storage__confirmed_block__inner_instructions__descriptor_def
    solana__storage__confirmed_block__inner_instruction__descriptor_def
    solana__storage__confirmed_block__compiled_instruction__descriptor_def
    solana__storage__confirmed_block__token_balance__descriptor_def
    solana__storage__confirmed_block__ui_token_amount__descriptor_def
    solana__storage__confirmed_block__return_data__descriptor_def
    solana__storage__confirmed_block__reward__descriptor_def
    solana__storage__confirmed_block__rewards__descriptor_def
    solana__storage__confirmed_block__unix_timestamp__descriptor_def
    solana__storage__confirmed_block__block_height__descriptor_def
    solana__storage__confirmed_block__num_partitions__descriptor_def
    geyser__subscribe_request__accounts_entry__descriptor_def
    geyser__subscribe_request__slots_entry__descriptor_def
    geyser__subscribe_request__transactions_entry__descriptor_def
    geyser__subscribe_request__transactions_status_entry__descriptor_def
    geyser__subscribe_request__blocks_entry__descriptor_def
    geyser__subscribe_request__blocks_meta_entry__descriptor_def
    geyser__subscribe_request__entry_entry__descriptor_def geyser__subscribe_request__descriptor_def
    geyser__subscribe_request_filter_accounts__descriptor_def
    geyser__subscribe_request_filter_accounts_filter__descriptor_def
    geyser__subscribe_request_filter_accounts_filter_memcmp__descriptor_def
    geyser__subscribe_request_filter_accounts_filter_lamports__descriptor_def
    geyser__subscribe_request_filter_slots__descriptor_def
    geyser__subscribe_request_filter_transactions__descriptor_def
    geyser__subscribe_request_filter_blocks__descriptor_def
    geyser__subscribe_request_filter_blocks_meta__descriptor_def
    geyser__subscribe_request_filter_entry__descriptor_def
    geyser__subscribe_request_accounts_data_slice__descriptor_def
    geyser__subscribe_request_ping__descriptor_def geyser__subscribe_update__descriptor_def
    geyser__subscribe_update_account__descriptor_def geyser__subscribe_update_account_info__descriptor_def
    geyser__subscribe_update_slot__descriptor_def geyser__subscribe_update_transaction__descriptor_def
    geyser__subscribe_update_transaction_info__descriptor_def
    geyser__subscribe_update_transaction_status__descriptor_def geyser__subscribe_update_block__descriptor_def
    geyser__subscribe_update_block_meta__descriptor_def geyser__subscribe_update_entry__descriptor_def
    geyser__subscribe_update_ping__descriptor_def geyser__subscribe_update_pong__descriptor_def
    geyser__subscribe_replay_info_request__descriptor_def
    geyser__subscribe_replay_info_response__descriptor_def geyser__ping_request__descriptor_def
    geyser__pong_response__descriptor_def geyser__get_latest_blockhash_request__descriptor_def
    geyser__get_latest_blockhash_response__descriptor_def geyser__get_block_height_request__descriptor_def
    geyser__get_block_height_response__descriptor_def geyser__get_slot_request__descriptor_def
    geyser__get_slot_response__descriptor_def geyser__get_version_request__descriptor_def
    geyser__get_version_response__descriptor_def geyser__is_blockhash_valid_request__descriptor_def
    geyser__is_blockhash_valid_response__descriptor_def

lemmas enum_descriptor_defs =
    solana__storage__confirmed_block__reward_type__descriptor_def geyser__commitment_level__descriptor_def
    geyser__slot_status__descriptor_def

lemmas message_list_defs = generated_messages_def timestamp_messages_def storage_messages_def geyser_messages_def

lemmas enum_list_defs = generated_enums_def storage_enums_def geyser_enums_def

text \<open>
  The names as case distinctions: looking a name up then compares names and does not evaluate
  the descriptors.
\<close>

lemma message_names_code [code]:
  "message_names symbol =
     (if symbol = ''google__protobuf__timestamp__descriptor'' then Some ''Google__Protobuf__Timestamp'' else
     (if symbol = ''solana__storage__confirmed_block__confirmed_block__descriptor'' then Some ''Solana__Storage__ConfirmedBlock__ConfirmedBlock'' else
     (if symbol = ''solana__storage__confirmed_block__confirmed_transaction__descriptor'' then Some ''Solana__Storage__ConfirmedBlock__ConfirmedTransaction'' else
     (if symbol = ''solana__storage__confirmed_block__transaction__descriptor'' then Some ''Solana__Storage__ConfirmedBlock__Transaction'' else
     (if symbol = ''solana__storage__confirmed_block__message__descriptor'' then Some ''Solana__Storage__ConfirmedBlock__Message'' else
     (if symbol = ''solana__storage__confirmed_block__message_header__descriptor'' then Some ''Solana__Storage__ConfirmedBlock__MessageHeader'' else
     (if symbol = ''solana__storage__confirmed_block__message_address_table_lookup__descriptor'' then Some ''Solana__Storage__ConfirmedBlock__MessageAddressTableLookup'' else
     (if symbol = ''solana__storage__confirmed_block__transaction_status_meta__descriptor'' then Some ''Solana__Storage__ConfirmedBlock__TransactionStatusMeta'' else
     (if symbol = ''solana__storage__confirmed_block__transaction_error__descriptor'' then Some ''Solana__Storage__ConfirmedBlock__TransactionError'' else
     (if symbol = ''solana__storage__confirmed_block__inner_instructions__descriptor'' then Some ''Solana__Storage__ConfirmedBlock__InnerInstructions'' else
     (if symbol = ''solana__storage__confirmed_block__inner_instruction__descriptor'' then Some ''Solana__Storage__ConfirmedBlock__InnerInstruction'' else
     (if symbol = ''solana__storage__confirmed_block__compiled_instruction__descriptor'' then Some ''Solana__Storage__ConfirmedBlock__CompiledInstruction'' else
     (if symbol = ''solana__storage__confirmed_block__token_balance__descriptor'' then Some ''Solana__Storage__ConfirmedBlock__TokenBalance'' else
     (if symbol = ''solana__storage__confirmed_block__ui_token_amount__descriptor'' then Some ''Solana__Storage__ConfirmedBlock__UiTokenAmount'' else
     (if symbol = ''solana__storage__confirmed_block__return_data__descriptor'' then Some ''Solana__Storage__ConfirmedBlock__ReturnData'' else
     (if symbol = ''solana__storage__confirmed_block__reward__descriptor'' then Some ''Solana__Storage__ConfirmedBlock__Reward'' else
     (if symbol = ''solana__storage__confirmed_block__rewards__descriptor'' then Some ''Solana__Storage__ConfirmedBlock__Rewards'' else
     (if symbol = ''solana__storage__confirmed_block__unix_timestamp__descriptor'' then Some ''Solana__Storage__ConfirmedBlock__UnixTimestamp'' else
     (if symbol = ''solana__storage__confirmed_block__block_height__descriptor'' then Some ''Solana__Storage__ConfirmedBlock__BlockHeight'' else
     (if symbol = ''solana__storage__confirmed_block__num_partitions__descriptor'' then Some ''Solana__Storage__ConfirmedBlock__NumPartitions'' else
     (if symbol = ''geyser__subscribe_request__accounts_entry__descriptor'' then Some ''Geyser__SubscribeRequest__AccountsEntry'' else
     (if symbol = ''geyser__subscribe_request__slots_entry__descriptor'' then Some ''Geyser__SubscribeRequest__SlotsEntry'' else
     (if symbol = ''geyser__subscribe_request__transactions_entry__descriptor'' then Some ''Geyser__SubscribeRequest__TransactionsEntry'' else
     (if symbol = ''geyser__subscribe_request__transactions_status_entry__descriptor'' then Some ''Geyser__SubscribeRequest__TransactionsStatusEntry'' else
     (if symbol = ''geyser__subscribe_request__blocks_entry__descriptor'' then Some ''Geyser__SubscribeRequest__BlocksEntry'' else
     (if symbol = ''geyser__subscribe_request__blocks_meta_entry__descriptor'' then Some ''Geyser__SubscribeRequest__BlocksMetaEntry'' else
     (if symbol = ''geyser__subscribe_request__entry_entry__descriptor'' then Some ''Geyser__SubscribeRequest__EntryEntry'' else
     (if symbol = ''geyser__subscribe_request__descriptor'' then Some ''Geyser__SubscribeRequest'' else
     (if symbol = ''geyser__subscribe_request_filter_accounts__descriptor'' then Some ''Geyser__SubscribeRequestFilterAccounts'' else
     (if symbol = ''geyser__subscribe_request_filter_accounts_filter__descriptor'' then Some ''Geyser__SubscribeRequestFilterAccountsFilter'' else
     (if symbol = ''geyser__subscribe_request_filter_accounts_filter_memcmp__descriptor'' then Some ''Geyser__SubscribeRequestFilterAccountsFilterMemcmp'' else
     (if symbol = ''geyser__subscribe_request_filter_accounts_filter_lamports__descriptor'' then Some ''Geyser__SubscribeRequestFilterAccountsFilterLamports'' else
     (if symbol = ''geyser__subscribe_request_filter_slots__descriptor'' then Some ''Geyser__SubscribeRequestFilterSlots'' else
     (if symbol = ''geyser__subscribe_request_filter_transactions__descriptor'' then Some ''Geyser__SubscribeRequestFilterTransactions'' else
     (if symbol = ''geyser__subscribe_request_filter_blocks__descriptor'' then Some ''Geyser__SubscribeRequestFilterBlocks'' else
     (if symbol = ''geyser__subscribe_request_filter_blocks_meta__descriptor'' then Some ''Geyser__SubscribeRequestFilterBlocksMeta'' else
     (if symbol = ''geyser__subscribe_request_filter_entry__descriptor'' then Some ''Geyser__SubscribeRequestFilterEntry'' else
     (if symbol = ''geyser__subscribe_request_accounts_data_slice__descriptor'' then Some ''Geyser__SubscribeRequestAccountsDataSlice'' else
     (if symbol = ''geyser__subscribe_request_ping__descriptor'' then Some ''Geyser__SubscribeRequestPing'' else
     (if symbol = ''geyser__subscribe_update__descriptor'' then Some ''Geyser__SubscribeUpdate'' else
     (if symbol = ''geyser__subscribe_update_account__descriptor'' then Some ''Geyser__SubscribeUpdateAccount'' else
     (if symbol = ''geyser__subscribe_update_account_info__descriptor'' then Some ''Geyser__SubscribeUpdateAccountInfo'' else
     (if symbol = ''geyser__subscribe_update_slot__descriptor'' then Some ''Geyser__SubscribeUpdateSlot'' else
     (if symbol = ''geyser__subscribe_update_transaction__descriptor'' then Some ''Geyser__SubscribeUpdateTransaction'' else
     (if symbol = ''geyser__subscribe_update_transaction_info__descriptor'' then Some ''Geyser__SubscribeUpdateTransactionInfo'' else
     (if symbol = ''geyser__subscribe_update_transaction_status__descriptor'' then Some ''Geyser__SubscribeUpdateTransactionStatus'' else
     (if symbol = ''geyser__subscribe_update_block__descriptor'' then Some ''Geyser__SubscribeUpdateBlock'' else
     (if symbol = ''geyser__subscribe_update_block_meta__descriptor'' then Some ''Geyser__SubscribeUpdateBlockMeta'' else
     (if symbol = ''geyser__subscribe_update_entry__descriptor'' then Some ''Geyser__SubscribeUpdateEntry'' else
     (if symbol = ''geyser__subscribe_update_ping__descriptor'' then Some ''Geyser__SubscribeUpdatePing'' else
     (if symbol = ''geyser__subscribe_update_pong__descriptor'' then Some ''Geyser__SubscribeUpdatePong'' else
     (if symbol = ''geyser__subscribe_replay_info_request__descriptor'' then Some ''Geyser__SubscribeReplayInfoRequest'' else
     (if symbol = ''geyser__subscribe_replay_info_response__descriptor'' then Some ''Geyser__SubscribeReplayInfoResponse'' else
     (if symbol = ''geyser__ping_request__descriptor'' then Some ''Geyser__PingRequest'' else
     (if symbol = ''geyser__pong_response__descriptor'' then Some ''Geyser__PongResponse'' else
     (if symbol = ''geyser__get_latest_blockhash_request__descriptor'' then Some ''Geyser__GetLatestBlockhashRequest'' else
     (if symbol = ''geyser__get_latest_blockhash_response__descriptor'' then Some ''Geyser__GetLatestBlockhashResponse'' else
     (if symbol = ''geyser__get_block_height_request__descriptor'' then Some ''Geyser__GetBlockHeightRequest'' else
     (if symbol = ''geyser__get_block_height_response__descriptor'' then Some ''Geyser__GetBlockHeightResponse'' else
     (if symbol = ''geyser__get_slot_request__descriptor'' then Some ''Geyser__GetSlotRequest'' else
     (if symbol = ''geyser__get_slot_response__descriptor'' then Some ''Geyser__GetSlotResponse'' else
     (if symbol = ''geyser__get_version_request__descriptor'' then Some ''Geyser__GetVersionRequest'' else
     (if symbol = ''geyser__get_version_response__descriptor'' then Some ''Geyser__GetVersionResponse'' else
     (if symbol = ''geyser__is_blockhash_valid_request__descriptor'' then Some ''Geyser__IsBlockhashValidRequest'' else
     (if symbol = ''geyser__is_blockhash_valid_response__descriptor'' then Some ''Geyser__IsBlockhashValidResponse'' else None)))))))))))))))))))))))))))))))))))))))))))))))))))))))))))))))))"
  unfolding message_names_def message_list_defs
  by (simp only: append.simps list.map prod.case message_descriptor_defs message_descriptor.select_convs
      map_of.simps fst_conv snd_conv fun_upd_apply)

lemma enum_names_code [code]:
  "enum_names symbol =
     (if symbol = ''solana__storage__confirmed_block__reward_type__descriptor'' then Some ''Solana__Storage__ConfirmedBlock__RewardType'' else
     (if symbol = ''geyser__commitment_level__descriptor'' then Some ''Geyser__CommitmentLevel'' else
     (if symbol = ''geyser__slot_status__descriptor'' then Some ''Geyser__SlotStatus'' else None)))"
  unfolding enum_names_def enum_list_defs
  by (simp only: append.simps list.map prod.case enum_descriptor_defs enum_descriptor.select_convs
      map_of.simps fst_conv snd_conv fun_upd_apply)

lemma full_names_code [code]:
  "full_names symbol =
     (if symbol = ''google__protobuf__timestamp__descriptor'' then Some ''google.protobuf.Timestamp'' else
     (if symbol = ''solana__storage__confirmed_block__confirmed_block__descriptor'' then Some ''solana.storage.ConfirmedBlock.ConfirmedBlock'' else
     (if symbol = ''solana__storage__confirmed_block__confirmed_transaction__descriptor'' then Some ''solana.storage.ConfirmedBlock.ConfirmedTransaction'' else
     (if symbol = ''solana__storage__confirmed_block__transaction__descriptor'' then Some ''solana.storage.ConfirmedBlock.Transaction'' else
     (if symbol = ''solana__storage__confirmed_block__message__descriptor'' then Some ''solana.storage.ConfirmedBlock.Message'' else
     (if symbol = ''solana__storage__confirmed_block__message_header__descriptor'' then Some ''solana.storage.ConfirmedBlock.MessageHeader'' else
     (if symbol = ''solana__storage__confirmed_block__message_address_table_lookup__descriptor'' then Some ''solana.storage.ConfirmedBlock.MessageAddressTableLookup'' else
     (if symbol = ''solana__storage__confirmed_block__transaction_status_meta__descriptor'' then Some ''solana.storage.ConfirmedBlock.TransactionStatusMeta'' else
     (if symbol = ''solana__storage__confirmed_block__transaction_error__descriptor'' then Some ''solana.storage.ConfirmedBlock.TransactionError'' else
     (if symbol = ''solana__storage__confirmed_block__inner_instructions__descriptor'' then Some ''solana.storage.ConfirmedBlock.InnerInstructions'' else
     (if symbol = ''solana__storage__confirmed_block__inner_instruction__descriptor'' then Some ''solana.storage.ConfirmedBlock.InnerInstruction'' else
     (if symbol = ''solana__storage__confirmed_block__compiled_instruction__descriptor'' then Some ''solana.storage.ConfirmedBlock.CompiledInstruction'' else
     (if symbol = ''solana__storage__confirmed_block__token_balance__descriptor'' then Some ''solana.storage.ConfirmedBlock.TokenBalance'' else
     (if symbol = ''solana__storage__confirmed_block__ui_token_amount__descriptor'' then Some ''solana.storage.ConfirmedBlock.UiTokenAmount'' else
     (if symbol = ''solana__storage__confirmed_block__return_data__descriptor'' then Some ''solana.storage.ConfirmedBlock.ReturnData'' else
     (if symbol = ''solana__storage__confirmed_block__reward__descriptor'' then Some ''solana.storage.ConfirmedBlock.Reward'' else
     (if symbol = ''solana__storage__confirmed_block__rewards__descriptor'' then Some ''solana.storage.ConfirmedBlock.Rewards'' else
     (if symbol = ''solana__storage__confirmed_block__unix_timestamp__descriptor'' then Some ''solana.storage.ConfirmedBlock.UnixTimestamp'' else
     (if symbol = ''solana__storage__confirmed_block__block_height__descriptor'' then Some ''solana.storage.ConfirmedBlock.BlockHeight'' else
     (if symbol = ''solana__storage__confirmed_block__num_partitions__descriptor'' then Some ''solana.storage.ConfirmedBlock.NumPartitions'' else
     (if symbol = ''geyser__subscribe_request__accounts_entry__descriptor'' then Some ''geyser.SubscribeRequest.AccountsEntry'' else
     (if symbol = ''geyser__subscribe_request__slots_entry__descriptor'' then Some ''geyser.SubscribeRequest.SlotsEntry'' else
     (if symbol = ''geyser__subscribe_request__transactions_entry__descriptor'' then Some ''geyser.SubscribeRequest.TransactionsEntry'' else
     (if symbol = ''geyser__subscribe_request__transactions_status_entry__descriptor'' then Some ''geyser.SubscribeRequest.TransactionsStatusEntry'' else
     (if symbol = ''geyser__subscribe_request__blocks_entry__descriptor'' then Some ''geyser.SubscribeRequest.BlocksEntry'' else
     (if symbol = ''geyser__subscribe_request__blocks_meta_entry__descriptor'' then Some ''geyser.SubscribeRequest.BlocksMetaEntry'' else
     (if symbol = ''geyser__subscribe_request__entry_entry__descriptor'' then Some ''geyser.SubscribeRequest.EntryEntry'' else
     (if symbol = ''geyser__subscribe_request__descriptor'' then Some ''geyser.SubscribeRequest'' else
     (if symbol = ''geyser__subscribe_request_filter_accounts__descriptor'' then Some ''geyser.SubscribeRequestFilterAccounts'' else
     (if symbol = ''geyser__subscribe_request_filter_accounts_filter__descriptor'' then Some ''geyser.SubscribeRequestFilterAccountsFilter'' else
     (if symbol = ''geyser__subscribe_request_filter_accounts_filter_memcmp__descriptor'' then Some ''geyser.SubscribeRequestFilterAccountsFilterMemcmp'' else
     (if symbol = ''geyser__subscribe_request_filter_accounts_filter_lamports__descriptor'' then Some ''geyser.SubscribeRequestFilterAccountsFilterLamports'' else
     (if symbol = ''geyser__subscribe_request_filter_slots__descriptor'' then Some ''geyser.SubscribeRequestFilterSlots'' else
     (if symbol = ''geyser__subscribe_request_filter_transactions__descriptor'' then Some ''geyser.SubscribeRequestFilterTransactions'' else
     (if symbol = ''geyser__subscribe_request_filter_blocks__descriptor'' then Some ''geyser.SubscribeRequestFilterBlocks'' else
     (if symbol = ''geyser__subscribe_request_filter_blocks_meta__descriptor'' then Some ''geyser.SubscribeRequestFilterBlocksMeta'' else
     (if symbol = ''geyser__subscribe_request_filter_entry__descriptor'' then Some ''geyser.SubscribeRequestFilterEntry'' else
     (if symbol = ''geyser__subscribe_request_accounts_data_slice__descriptor'' then Some ''geyser.SubscribeRequestAccountsDataSlice'' else
     (if symbol = ''geyser__subscribe_request_ping__descriptor'' then Some ''geyser.SubscribeRequestPing'' else
     (if symbol = ''geyser__subscribe_update__descriptor'' then Some ''geyser.SubscribeUpdate'' else
     (if symbol = ''geyser__subscribe_update_account__descriptor'' then Some ''geyser.SubscribeUpdateAccount'' else
     (if symbol = ''geyser__subscribe_update_account_info__descriptor'' then Some ''geyser.SubscribeUpdateAccountInfo'' else
     (if symbol = ''geyser__subscribe_update_slot__descriptor'' then Some ''geyser.SubscribeUpdateSlot'' else
     (if symbol = ''geyser__subscribe_update_transaction__descriptor'' then Some ''geyser.SubscribeUpdateTransaction'' else
     (if symbol = ''geyser__subscribe_update_transaction_info__descriptor'' then Some ''geyser.SubscribeUpdateTransactionInfo'' else
     (if symbol = ''geyser__subscribe_update_transaction_status__descriptor'' then Some ''geyser.SubscribeUpdateTransactionStatus'' else
     (if symbol = ''geyser__subscribe_update_block__descriptor'' then Some ''geyser.SubscribeUpdateBlock'' else
     (if symbol = ''geyser__subscribe_update_block_meta__descriptor'' then Some ''geyser.SubscribeUpdateBlockMeta'' else
     (if symbol = ''geyser__subscribe_update_entry__descriptor'' then Some ''geyser.SubscribeUpdateEntry'' else
     (if symbol = ''geyser__subscribe_update_ping__descriptor'' then Some ''geyser.SubscribeUpdatePing'' else
     (if symbol = ''geyser__subscribe_update_pong__descriptor'' then Some ''geyser.SubscribeUpdatePong'' else
     (if symbol = ''geyser__subscribe_replay_info_request__descriptor'' then Some ''geyser.SubscribeReplayInfoRequest'' else
     (if symbol = ''geyser__subscribe_replay_info_response__descriptor'' then Some ''geyser.SubscribeReplayInfoResponse'' else
     (if symbol = ''geyser__ping_request__descriptor'' then Some ''geyser.PingRequest'' else
     (if symbol = ''geyser__pong_response__descriptor'' then Some ''geyser.PongResponse'' else
     (if symbol = ''geyser__get_latest_blockhash_request__descriptor'' then Some ''geyser.GetLatestBlockhashRequest'' else
     (if symbol = ''geyser__get_latest_blockhash_response__descriptor'' then Some ''geyser.GetLatestBlockhashResponse'' else
     (if symbol = ''geyser__get_block_height_request__descriptor'' then Some ''geyser.GetBlockHeightRequest'' else
     (if symbol = ''geyser__get_block_height_response__descriptor'' then Some ''geyser.GetBlockHeightResponse'' else
     (if symbol = ''geyser__get_slot_request__descriptor'' then Some ''geyser.GetSlotRequest'' else
     (if symbol = ''geyser__get_slot_response__descriptor'' then Some ''geyser.GetSlotResponse'' else
     (if symbol = ''geyser__get_version_request__descriptor'' then Some ''geyser.GetVersionRequest'' else
     (if symbol = ''geyser__get_version_response__descriptor'' then Some ''geyser.GetVersionResponse'' else
     (if symbol = ''geyser__is_blockhash_valid_request__descriptor'' then Some ''geyser.IsBlockhashValidRequest'' else
     (if symbol = ''geyser__is_blockhash_valid_response__descriptor'' then Some ''geyser.IsBlockhashValidResponse'' else
     (if symbol = ''solana__storage__confirmed_block__reward_type__descriptor'' then Some ''solana.storage.ConfirmedBlock.RewardType'' else
     (if symbol = ''geyser__commitment_level__descriptor'' then Some ''geyser.CommitmentLevel'' else
     (if symbol = ''geyser__slot_status__descriptor'' then Some ''geyser.SlotStatus'' else None))))))))))))))))))))))))))))))))))))))))))))))))))))))))))))))))))))"
  unfolding full_names_def message_list_defs enum_list_defs
  by (simp only: append.simps list.map prod.case message_descriptor_defs message_descriptor.select_convs
      enum_descriptor_defs enum_descriptor.select_convs map_of.simps fst_conv snd_conv fun_upd_apply)

lemma c_enum_values_code [code]:
  "c_enum_values ty =
     (if ty = ''Solana__Storage__ConfirmedBlock__RewardType'' then Some 
      [(''SOLANA__STORAGE__CONFIRMED_BLOCK__REWARD_TYPE__Unspecified'', 0),
       (''SOLANA__STORAGE__CONFIRMED_BLOCK__REWARD_TYPE__Fee'', 1),
       (''SOLANA__STORAGE__CONFIRMED_BLOCK__REWARD_TYPE__Rent'', 2),
       (''SOLANA__STORAGE__CONFIRMED_BLOCK__REWARD_TYPE__Staking'', 3),
       (''SOLANA__STORAGE__CONFIRMED_BLOCK__REWARD_TYPE__Voting'', 4)] else
     (if ty = ''Geyser__CommitmentLevel'' then Some 
      [(''GEYSER__COMMITMENT_LEVEL__PROCESSED'', 0),
       (''GEYSER__COMMITMENT_LEVEL__CONFIRMED'', 1),
       (''GEYSER__COMMITMENT_LEVEL__FINALIZED'', 2)] else
     (if ty = ''Geyser__SlotStatus'' then Some 
      [(''GEYSER__SLOT_STATUS__SLOT_PROCESSED'', 0),
       (''GEYSER__SLOT_STATUS__SLOT_CONFIRMED'', 1),
       (''GEYSER__SLOT_STATUS__SLOT_FINALIZED'', 2),
       (''GEYSER__SLOT_STATUS__SLOT_FIRST_SHRED_RECEIVED'', 3),
       (''GEYSER__SLOT_STATUS__SLOT_COMPLETED'', 4),
       (''GEYSER__SLOT_STATUS__SLOT_CREATED_BANK'', 5),
       (''GEYSER__SLOT_STATUS__SLOT_DEAD'', 6)] else
     (if ty = ''Geyser__SubscribeRequestFilterAccountsFilter__FilterCase'' then Some 
      [(''GEYSER__SUBSCRIBE_REQUEST_FILTER_ACCOUNTS_FILTER__FILTER__NOT_SET'', 0),
       (''GEYSER__SUBSCRIBE_REQUEST_FILTER_ACCOUNTS_FILTER__FILTER_MEMCMP'', 1),
       (''GEYSER__SUBSCRIBE_REQUEST_FILTER_ACCOUNTS_FILTER__FILTER_DATASIZE'', 2),
       (''GEYSER__SUBSCRIBE_REQUEST_FILTER_ACCOUNTS_FILTER__FILTER_TOKEN_ACCOUNT_STATE'', 3),
       (''GEYSER__SUBSCRIBE_REQUEST_FILTER_ACCOUNTS_FILTER__FILTER_LAMPORTS'', 4)] else
     (if ty = ''Geyser__SubscribeRequestFilterAccountsFilterMemcmp__DataCase'' then Some 
      [(''GEYSER__SUBSCRIBE_REQUEST_FILTER_ACCOUNTS_FILTER_MEMCMP__DATA__NOT_SET'', 0),
       (''GEYSER__SUBSCRIBE_REQUEST_FILTER_ACCOUNTS_FILTER_MEMCMP__DATA_BYTES'', 2),
       (''GEYSER__SUBSCRIBE_REQUEST_FILTER_ACCOUNTS_FILTER_MEMCMP__DATA_BASE58'', 3),
       (''GEYSER__SUBSCRIBE_REQUEST_FILTER_ACCOUNTS_FILTER_MEMCMP__DATA_BASE64'', 4)] else
     (if ty = ''Geyser__SubscribeRequestFilterAccountsFilterLamports__CmpCase'' then Some 
      [(''GEYSER__SUBSCRIBE_REQUEST_FILTER_ACCOUNTS_FILTER_LAMPORTS__CMP__NOT_SET'', 0),
       (''GEYSER__SUBSCRIBE_REQUEST_FILTER_ACCOUNTS_FILTER_LAMPORTS__CMP_EQ'', 1),
       (''GEYSER__SUBSCRIBE_REQUEST_FILTER_ACCOUNTS_FILTER_LAMPORTS__CMP_NE'', 2),
       (''GEYSER__SUBSCRIBE_REQUEST_FILTER_ACCOUNTS_FILTER_LAMPORTS__CMP_LT'', 3),
       (''GEYSER__SUBSCRIBE_REQUEST_FILTER_ACCOUNTS_FILTER_LAMPORTS__CMP_GT'', 4)] else
     (if ty = ''Geyser__SubscribeUpdate__UpdateOneofCase'' then Some 
      [(''GEYSER__SUBSCRIBE_UPDATE__UPDATE_ONEOF__NOT_SET'', 0),
       (''GEYSER__SUBSCRIBE_UPDATE__UPDATE_ONEOF_ACCOUNT'', 2),
       (''GEYSER__SUBSCRIBE_UPDATE__UPDATE_ONEOF_SLOT'', 3),
       (''GEYSER__SUBSCRIBE_UPDATE__UPDATE_ONEOF_TRANSACTION'', 4),
       (''GEYSER__SUBSCRIBE_UPDATE__UPDATE_ONEOF_TRANSACTION_STATUS'', 10),
       (''GEYSER__SUBSCRIBE_UPDATE__UPDATE_ONEOF_BLOCK'', 5),
       (''GEYSER__SUBSCRIBE_UPDATE__UPDATE_ONEOF_PING'', 6),
       (''GEYSER__SUBSCRIBE_UPDATE__UPDATE_ONEOF_PONG'', 9),
       (''GEYSER__SUBSCRIBE_UPDATE__UPDATE_ONEOF_BLOCK_META'', 7),
       (''GEYSER__SUBSCRIBE_UPDATE__UPDATE_ONEOF_ENTRY'', 8)] else None)))))))"
  unfolding c_enum_values_def c_enums_def enum_list_defs c_enum_defs
  by (simp only: append.simps list.map prod.case map_of.simps fst_conv snd_conv fun_upd_apply)

lemmas geyser_call_defs =
    geyser__geyser__subscribe_def geyser__geyser__subscribe_replay_info_def geyser__geyser__ping_def
    geyser__geyser__get_latest_blockhash_def geyser__geyser__get_block_height_def geyser__geyser__get_slot_def
    geyser__geyser__is_blockhash_valid_def geyser__geyser__get_version_def

section \<open>Evaluation\<close>

lemma typed_evaluated:
  "list_all (message_typed message_names enum_names c_enum_values) timestamp_messages"
  "list_all (message_typed message_names enum_names c_enum_values) storage_messages"
  "list_all (message_typed message_names enum_names c_enum_values) geyser_messages"
  by code_simp+

lemma indexed_evaluated:
  "list_all message_indexed timestamp_messages"
  "list_all message_indexed storage_messages"
  "list_all message_indexed geyser_messages"
  by code_simp+

lemma init_evaluated:
  "list_all (message_init_ok c_enum_values) timestamp_messages"
  "list_all (message_init_ok c_enum_values) storage_messages"
  "list_all (message_init_ok c_enum_values) geyser_messages"
  by code_simp+

lemma slots_evaluated:
  "list_all message_slots_apart timestamp_messages"
  "list_all message_slots_apart storage_messages"
  "list_all message_slots_apart geyser_messages"
  by code_simp+

lemma views_evaluated:
  "map (descriptor_view full_names) timestamp_messages = schema_view timestamp_proto"
  "map (descriptor_view full_names) storage_messages = schema_view solana_storage_proto"
  "map (descriptor_view full_names) geyser_messages = schema_view geyser_proto"
  by code_simp+

lemma enums_evaluated: "list_all enum_indexed generated_enums"
  by code_simp

section \<open>The generated code is right\<close>

text \<open>
  C17. Every message of the generated code is well-typed: what a descriptor says of a field - its
  type, whether it repeats, what marks it as present - is what the structure has at the members
  the field's offsets name; a reference leads to the descriptor of the structure behind the
  member's pointer, a case number to the enumeration of its \<open>oneof\<close>; and a structure has no
  member that no field describes.
\<close>

theorem generated_code_typed:
  "list_all (message_typed message_names enum_names c_enum_values) generated_messages"
  by (simp only: generated_messages_def list_all_append typed_evaluated simp_thms)

text \<open>
  C16. The tables are the schema's: the messages, fields, numbers, labels, types, references and
  alternatives that the descriptors list are exactly those the three schema files declare, map
  fields included, and so are the enumerations and the methods of the service.
\<close>

theorem generated_code_matches_schema:
  "map (descriptor_view full_names) generated_messages =
     schema_view timestamp_proto @ schema_view solana_storage_proto @ schema_view geyser_proto \<and>
   map enum_view storage_enums = schema_enums solana_storage_proto \<and>
   map enum_view geyser_enums = schema_enums geyser_proto \<and>
   map (\<lambda>(name, input, output). (name, full_names input, full_names output)) (sd_methods geyser__geyser__descriptor) =
     map (\<lambda>(name, input, output). (name, Some (full_name ''geyser'' input), Some (full_name ''geyser'' output))) Geyser_service"
proof -
  have "map enum_view storage_enums = schema_enums solana_storage_proto" by code_simp
  moreover have "map enum_view geyser_enums = schema_enums geyser_proto" by code_simp
  moreover have "map (\<lambda>(name, input, output). (name, full_names input, full_names output)) (sd_methods geyser__geyser__descriptor) =
     map (\<lambda>(name, input, output). (name, Some (full_name ''geyser'' input), Some (full_name ''geyser'' output))) Geyser_service"
    by code_simp
  ultimately show ?thesis by (simp only: generated_messages_def map_append views_evaluated simp_thms)
qed

lemma generated_code_indexed: "list_all message_indexed generated_messages"
  by (simp only: generated_messages_def list_all_append indexed_evaluated simp_thms)

text \<open>
  C19. Looking fields up in the tables works: in every message, looking a number up in the ranges
  finds exactly the field with that number, and the name index is a permutation of the fields in
  the strict order of their names, so that a binary search is possible.
\<close>

theorem generated_code_lookup:
  "list_all (\<lambda>(symbol, md, _).
     (\<forall>number i. map_of (range_pairs (md_field_ranges md)) number = Some i \<longleftrightarrow>
        i < length (md_fields md) \<and> fd_id (md_fields md ! i) = number) \<and>
     distinct (md_fields_sorted_by_name md) \<and>
     set (md_fields_sorted_by_name md) = {..<md_n_fields md} \<and>
     sorted_wrt strcmp_less (map (\<lambda>i. fd_name (md_fields md ! i)) (md_fields_sorted_by_name md))) generated_messages"
  using generated_code_indexed message_indexed_lookup unfolding list_all_iff by (clarsimp split: prod.splits) blast

text \<open>
  C20. The initialisers are right: each gives every member of its structure, in order and number,
  a value of the member's type that says \<open>not set\<close>, and points the base to the descriptor of the
  message; an enumeration starts with its first value, which is zero.
\<close>

theorem generated_code_initialises:
  "list_all (message_init_ok c_enum_values) generated_messages"
  by (simp only: generated_messages_def list_all_append init_evaluated simp_thms)

text \<open>
  C18. Whatever sizes and alignments the platform has, the fields of a message do not overlap in
  memory, except the alternatives of one \<open>oneof\<close>, and they lie behind the base and inside the
  structure: what protobuf-c stores through a field's offsets changes no other field.
\<close>

theorem generated_code_fields_apart:
  "list_all (message_laid_out abi) generated_messages"
proof -
  have "list_all message_slots_apart generated_messages"
    by (simp only: generated_messages_def list_all_append slots_evaluated simp_thms)
  then show ?thesis by (simp add: list_all_iff message_slots_laid_out)
qed

text \<open>
  C21. The calls of the service and its structure agree with the method table: the \<open>i\<close>-th function
  invokes method \<open>i\<close> with the input and output messages that the table has there, on any service
  but its own it fails its assertion, and the structure lists the methods in the same order.
\<close>

theorem service_calls_match_methods:
  "map (\<lambda>call. call ''geyser__geyser__descriptor'') geyser_calls =
     map (\<lambda>(k, name, input, output).
        Some (''geyser__geyser__descriptor'', k, the (message_names input), the (message_names output)))
       (enumerate 0 (sd_methods geyser__geyser__descriptor)) \<and>
   list_all (\<lambda>call. \<forall>service. call service \<noteq> None \<longleftrightarrow> service = ''geyser__geyser__descriptor'') geyser_calls \<and>
   map snd Geyser__Geyser_Service =
     map (\<lambda>(name, input, output). (the (message_names input), the (message_names output)))
       (sd_methods geyser__geyser__descriptor) \<and>
   sorted_wrt strcmp_less
     (map (\<lambda>i. fst (sd_methods geyser__geyser__descriptor ! i)) (sd_method_indices_by_name geyser__geyser__descriptor))"
proof -
  have "map (\<lambda>call. call ''geyser__geyser__descriptor'') geyser_calls =
     map (\<lambda>(k, name, input, output).
        Some (''geyser__geyser__descriptor'', k, the (message_names input), the (message_names output)))
       (enumerate 0 (sd_methods geyser__geyser__descriptor))" by code_simp
  moreover have "list_all (\<lambda>call. \<forall>service. call service \<noteq> None \<longleftrightarrow> service = ''geyser__geyser__descriptor'') geyser_calls"
    by (simp add: geyser_calls_def geyser_call_defs invoke_method_def)
  moreover have "map snd Geyser__Geyser_Service =
     map (\<lambda>(name, input, output). (the (message_names input), the (message_names output)))
       (sd_methods geyser__geyser__descriptor)" by code_simp
  moreover have "sorted_wrt strcmp_less
     (map (\<lambda>i. fst (sd_methods geyser__geyser__descriptor ! i)) (sd_method_indices_by_name geyser__geyser__descriptor))"
    by code_simp
  ultimately show ?thesis by (simp only: simp_thms)
qed

end
