(* ===== verification/Spec2Isabelle.thy ===== *)
theory Spec2Isabelle
  imports Base58 Base64 Pumpfun_Parser Raydium_Parser Protocol_Detector Metrics Event_Queue Yurei_Config
    Logging Geyser_Client Geyser_Stream Stream_Progress Db_Writer Writer_Runs Yurei_Main Generated_Code
begin

text \<open>
  A verification library for the YUREI geyser client, a C program that subscribes to a Solana
  Geyser endpoint over gRPC, recognises the transactions of two programs (Pump.fun and Raydium),
  parses the trades in their log messages and writes them to PostgreSQL.

  \<^bold>\<open>The program.\<close> \<^verbatim>\<open>src/src/main.c\<close> loads the configuration, creates the event queue and the protocol
  detector, and starts two threads that share the queue: the ingest thread
  (\<^verbatim>\<open>src/src/geyser_client.c\<close>), which holds the subscription and pushes events, and the database
  thread (\<^verbatim>\<open>src/src/db_writer.c\<close>), which pops them, collects them in batches and inserts the
  batches. On a signal the main thread stops the client and then the writer.

  \<^bold>\<open>The theories\<close>, from the bottom:

  \<^item> \<open>Yurei_Prelude\<close>: fixed-width integers, bytes, digits and C strings, with the lemmas the
    components share. A result \<open>'a checked\<close> is \<open>None\<close> where the code leaves defined behaviour
    (a store outside an array, a failed assertion).
  \<^item> \<open>Base58\<close>, \<open>Base64\<close> (\<^verbatim>\<open>base58.c\<close>, \<^verbatim>\<open>base64.c\<close>): the codecs loop by loop; round trips, exact
    failure conditions, and which stores leave the output buffer.
  \<^item> \<open>Yurei_Event\<close>, \<open>Pumpfun_Parser\<close>, \<open>Raydium_Parser\<close>: the events of \<^verbatim>\<open>yurei_event.h\<close> and the
    parsers; what is accepted and where each field comes from.
  \<^item> \<open>Protocol_Detector\<close>: the three byte searches (AVX2, SSE2, scalar) behind one interface
    (locales \<open>stride_search\<close> and \<open>total_search\<close>, interpreted on each), and the two matches.
  \<^item> \<open>Metrics\<close>, \<open>Logging\<close>: the atomic counters with the compare-and-exchange loop under
    interference, the snapshot, and the log settings with the line that is printed.
  \<^item> \<open>Event_Queue\<close> (\<^verbatim>\<open>event_queue.c\<close>): every critical section as a function; the ring buffer refines
    a flag and a bounded list, call by call (locale \<open>implements\<close>); the threads with their mutex and condition variables
    as a step relation with invariants over all interleavings.
  \<^item> \<open>Yurei_Config\<close>: the environment to the configuration, cut and terminated as \<open>strncpy\<close> does.
  \<^item> \<open>Geyser_Client\<close>: from a transaction update to its event in the queue, with the exact result of
    every transaction; the cache of completions, the subscription request.
  \<^item> \<open>Protobuf_Tables\<close>, \<open>Timestamp_Proto\<close>, \<open>Storage_Structs\<close>, \<open>Storage_Proto\<close>, \<open>Geyser_Structs\<close>,
    \<open>Geyser_Proto\<close>: the generated protobuf code (\<^verbatim>\<open>src/src/proto\<close>) declaration by declaration - the
    structures with their initialisers, the functions, the descriptor tables, the service. Names
    are those of the C code; the address of a descriptor is its name.
  \<^item> \<open>Protobuf_Checks\<close>, \<open>Proto_Schema\<close>, \<open>Generated_Code\<close>: when such tables are right, as computable
    predicates with the lemmas that say what they give; the three schema files of \<^verbatim>\<open>src/proto\<close> and
    what they ask for; and the proof, by evaluation, that the generated code has it all.
  \<^item> \<open>Geyser_Stream\<close>, \<open>Stream_Progress\<close>: \<open>run_subscription\<close> and \<open>geyser_thread\<close> as a whole, with every
    gRPC object that is created and destroyed; what the queue holds after a stream of messages; when
    they return and when they cannot.
  \<^item> \<open>Db_Writer\<close> (\<^verbatim>\<open>db_writer.c\<close>): batches, query text, flushes, timer, main loop and shutdown; the
    two batches share the locale \<open>insert_rows\<close>. \<open>Writer_Runs\<close>: the database thread over its whole
    life, while other threads push events and stop it - which statements it sends, against a
    specification on lists (\<open>spec_run\<close>), what it leaves behind, and the database that is down.
  \<^item> \<open>Yurei_Main\<close>: start, main loop and shutdown, and that the start establishes what the other
    components assume.
  \<^item> this theory: what holds across components - what the ingest thread enqueues the writer can
    store, a queued trade reaches the database, and the client asks the endpoint for the method
    and the messages that the generated service describes.

  \<^bold>\<open>Parameters.\<close> What is not in the repository is an argument of the definitions that use it: gRPC
  (the events of the completion queue call after call, the accepted batches, the status), protobuf-c
  (the record \<open>protobuf_c\<close>), libpq (the outcome of each call), the environment, the clock, the
  allocators and thread creation. Uninitialised arrays have arbitrary contents. Hypotheses on
  these state documented behaviour: \<open>unpack_typed\<close> says that an unpacked message has the
  descriptor it was asked for.

  \<^bold>\<open>Bounds and termination.\<close> Loops over data are structural or have a measure. A loop that waits for
  its surroundings consumes a list of what it meets: the interference of other threads in
  \<open>high_water_loop\<close>, the completion queue's events in \<open>cq_wait_loop\<close> and \<open>receive_loop\<close>, the passes of
  \<open>db_writer_loop\<close>, \<open>geyser_thread\<close> and \<open>main_loop\<close>. Where the list ends the loop has not returned,
  and that is a value of its own (\<open>None\<close>, \<open>Blocks\<close>), so no list length is enough by assumption:
  \<open>subscription_returns\<close>, \<open>db_writer_main_inserts_all\<close> and \<open>main_loop_stops_on_signal\<close> prove that the loops return, and
  \<open>stop_waits_for_endpoint\<close> that they sometimes do not. Between two passes of the writer the other
  threads act by whole critical sections, in any number and order; that stopping is one of them
  loses nothing, since a push between its two steps is one before it.

  Lengths and indices are natural numbers: a \<open>size_t\<close> product of a length would wrap around only
  for lengths no object has. \<open>time_t\<close> and \<open>struct timeval\<close> are integers; counters, words of the
  codecs and the timer's difference have their width.

  \<^bold>\<open>What is shown to go wrong.\<close> Several theorems state defects the way the code has them:
  \<open>base64_decode_overruns\<close>, \<open>raydium_handler_never_emits\<close>, \<open>signature_dropped\<close>,
  \<open>db_writer_batch_overflows\<close>, \<open>fast_memmem_vector_misses\<close>, \<open>db_writer_stop_keeps_queue\<close>,
  \<open>stop_waits_for_endpoint\<close>.

  \<^bold>\<open>Not modelled:\<close> the declarations of \<^verbatim>\<open>*.pb-c.h\<close> that have no content of their own (prototypes,
  closure types, \<open>extern\<close>s); the text of the metrics summary, which formats floating-point numbers;
  the log calls inside the components; \<open>event_queue_destroy\<close>, which only frees; the test programs
  under \<^verbatim>\<open>src/tests\<close>.

  \<^bold>\<open>Next:\<close> the threads of client, writer and main program in one step relation, below the level
  of critical sections.
\<close>

section \<open>From the ingest thread to the database thread\<close>

lemma transaction_event_storable:
  assumes "\<And>update. tx = Some update \<Longrightarrow> signature_there update" and "transaction_event ok detector tx = Some event"
  shows "good_trade event"
proof -
  from assms(2) obtain line where find: "List.find trade_line (log_lines tx) = Some line"
    and event: "event = trade_event ok (the tx) (the (line_payload 768 line))"
    by (auto simp: transaction_event_def split: if_splits)
  then have "log_lines tx \<noteq> []" by auto
  then obtain update where tx: "tx = Some update" by (cases tx) (simp_all add: log_lines_def)
  from find have "trade_line line" by (auto simp: find_Some_iff)
  then obtain payload where "line_payload 768 line = Some payload" "250 \<le> length payload" by (auto simp: trade_line_def)
  then show ?thesis
    using trade_event_wf [OF assms(1) [OF tx], of payload ok] event
    by (simp add: tx good_trade_def) (simp add: trade_event_def encode_signature_eq [OF assms(1) [OF tx]])
qed

lemma dispatch_event_storable:
  assumes "queue_wf (client_queue client)" and "\<forall>e \<in> set (contents (client_queue client)). storable e" and "storable event"
    and "dispatch_event client event = Some (r, client')"
  shows "queue_wf (client_queue client') \<and> (\<forall>e \<in> set (contents (client_queue client')). storable e)"
proof (cases rule: push_section_cases [OF assms(1), of "client_metrics client" event])
  case 3
  with assms(4) have "client_queue client' = pushed event (client_queue client)" by (auto simp: dispatch_event_def)
  with pushed_contents [OF assms(1) 3(2)] assms(2,3) show ?thesis by simp
qed (use assms in \<open>auto simp: dispatch_event_def\<close>)

text \<open>
  C8. What the ingest thread enqueues is what the database thread can store. If every event in
  the queue is well-formed and carries the type of its data, then so is every event after any
  transaction was handled: the assumption under which the writer's batches and queries are
  safe is an invariant of the queue.
\<close>

theorem ingest_feeds_writer:
  assumes "length (pumpfun_buf stack) = 768" and "length (raydium_buf stack) = 512"
    and "queue_wf (client_queue client)" and "\<And>update. tx = Some update \<Longrightarrow> signature_there update"
    and "\<forall>e \<in> set (contents (client_queue client)). storable e"
    and "handle_transaction ok stack client tx = Some (r, client')"
  shows "queue_wf (client_queue client') \<and> (\<forall>e \<in> set (contents (client_queue client')). storable e)"
proof -
  from assms(6) have result: "case transaction_event ok (client_detector client) tx of
        None \<Rightarrow> client' = client
      | Some event \<Rightarrow> dispatch_event client event = Some (r, client')"
    by (auto simp: handle_transaction_eq [OF assms(1,2)] split: if_splits option.splits)
  show ?thesis
  proof (cases "transaction_event ok (client_detector client) tx")
    case None
    with result assms(3,5) show ?thesis by simp
  next
    case (Some event)
    with result have dispatch: "dispatch_event client event = Some (r, client')" by simp
    from transaction_event_storable [OF assms(4) Some] have "storable event" by (simp add: storable_def)
    with dispatch_event_storable [OF assms(3,5) _ dispatch] show ?thesis by simp
  qed
qed

theorem ingest_feeds_writer_witness:
  "\<exists>r client'. handle_transaction True test_stack test_client (Some test_update) = Some (r, client') \<and>
    (\<forall>e \<in> set (contents (client_queue client')). storable e)"
proof -
  have bufs: "length (pumpfun_buf test_stack) = 768" "length (raydium_buf test_stack) = 512"
    by (simp_all add: test_stack_def)
  obtain event where "transaction_event True (client_detector test_client) (Some test_update) = Some event"
    using test_update_event by blast
  then have handled: "handle_transaction True test_stack test_client (Some test_update) = Some (Return False, enqueued event test_client)"
    using test_client_queue
    by (simp add: handle_transaction_eq [OF bufs] test_update_no_overflow dispatch_event_eq [OF test_client_queue(1)])
  have "\<And>update. Some test_update = Some update \<Longrightarrow> signature_there update" using signature_there_test by simp
  from ingest_feeds_writer [OF bufs test_client_queue(1) this _ handled] handled show ?thesis
    by (auto simp: test_client_queue)
qed

text \<open>
  C9. The whole way of a trade. If a transaction makes the ingest thread add an event to the queue,
  and the writer, whose database answers, makes a pass for every event in the queue before it is
  stopped - whatever else is pushed meanwhile, whatever it has pending and whenever its timer
  fires - then the event is a trade, and the statements that are sent hold its row: right behind
  the rows of the trades that were pending or queued before it, and in front of those that come
  later. So it is written once, in a statement of its batch, and nothing stays pending.
\<close>

theorem trade_reaches_database:
  assumes "length (pumpfun_buf stack) = 768" and "length (raydium_buf stack) = 512"
    and "queue_wf (client_queue client)" and "\<And>update. tx = Some update \<Longrightarrow> signature_there update"
    and "\<forall>e \<in> set (contents (client_queue client)). storable e"
    and "handle_transaction ok stack client tx = Some (r, client')"
    and "contents (client_queue client') = contents (client_queue client) @ [event]"
    and "below_full writer" and "db_running writer" and "list_all pass_ok passes" and "Stop_Writer \<in> set stopping"
    and "loop_env_ok final" and "length (contents (client_queue client')) \<le> length passes"
  shows "event_type event = YUREI_EVENT_PUMPFUN_TRADE \<and>
    (\<exists>writer' m' q' queries batches later.
      db_writer_main start (passes @ (env, stopping) # rest) final writer (client_metrics client') (client_queue client') =
        Done (writer', m', q', queries) \<and>
      sent queries = map insert_statement batches \<and>
      inserted YUREI_EVENT_PUMPFUN_TRADE batches =
        pending_trades writer @ of_kind YUREI_EVENT_PUMPFUN_TRADE (contents (client_queue client)) @ event # later \<and>
      pumpfun_count writer' = 0)"
proof -
  from assms(6,7) have "\<exists>event. transaction_event ok (client_detector client) tx = Some event \<and> dispatch_event client event = Some (r, client')"
    by (auto simp: handle_transaction_eq [OF assms(1,2)] split: if_splits option.splits)
  then obtain e where e: "transaction_event ok (client_detector client) tx = Some e" "dispatch_event client e = Some (r, client')" by blast
  from transaction_event_storable [OF assms(4) e(1)] have good: "good_trade e" .
  then have ready: "queue_wf (client_queue client')" "\<forall>e \<in> set (contents (client_queue client')). storable e"
    using dispatch_event_storable [OF assms(3,5) _ e(2)] by (simp_all add: storable_def)
  have "client' = enqueued e client"
    using e(2) assms(7) by (auto simp: dispatch_event_eq [OF assms(3)] split: if_splits)
  moreover have "qsize (client_queue client) < capacity (client_queue client)"
    using e(2) assms(3,7) by (auto simp: dispatch_event_eq [OF assms(3)] queue_wf_def split: if_splits)
  ultimately have event: "event = e" using assms(7) pushed_contents(2) [OF assms(3), of e] by simp
  let ?q = "client_queue client'"
  obtain taken left where spec: "spec_run (capacity ?q) (map snd passes @ [stopping]) (closed ?q, contents ?q) = (taken, left)" by fastforce
  have "\<forall>others \<in> set (map snd passes). Stop_Writer \<notin> set others" using assms(10) by (auto simp: list_all_iff pass_ok_def)
  then obtain more where taken: "taken = contents ?q @ more"
    using spec_run_takes [of "length (contents ?q)" "map snd passes" "contents ?q" "capacity ?q" "[stopping]" "closed ?q"] spec assms(13)
    by auto
  from writer_main_ok [OF assms(8-12) ready spec, of start env rest "client_metrics client'"] obtain writer' m' q' queries where
    run: "db_writer_main start (passes @ (env, stopping) # rest) final writer (client_metrics client') ?q =
        Done (writer'\<lparr>db_running := False\<rparr>, m', q', queries)"
      "pumpfun_count writer' = 0" and writes: "writes queries taken writer (client_metrics client') writer' m'" by blast
  from writes run(2) obtain batches where "sent queries = map insert_statement batches"
    "inserted YUREI_EVENT_PUMPFUN_TRADE batches = pending_trades writer @ of_kind YUREI_EVENT_PUMPFUN_TRADE taken"
    by (auto simp: writes_def pending_trades_def)
  moreover have trade: "event_type event = YUREI_EVENT_PUMPFUN_TRADE" using good by (simp add: event good_trade_def)
  then have "of_kind YUREI_EVENT_PUMPFUN_TRADE taken =
      of_kind YUREI_EVENT_PUMPFUN_TRADE (contents (client_queue client)) @ event # of_kind YUREI_EVENT_PUMPFUN_TRADE more"
    by (simp add: taken assms(7))
  ultimately show ?thesis using run trade
    by (intro conjI exI [of _ "writer'\<lparr>db_running := False\<rparr>"] exI [of _ m'] exI [of _ q'] exI [of _ queries] exI [of _ batches]
        exI [of _ "of_kind YUREI_EVENT_PUMPFUN_TRADE more"]) simp_all
qed

theorem trade_reaches_database_witness:
  "\<exists>client' writer' m' q' queries batches event later.
    handle_transaction True test_stack test_client (Some test_update) = Some (Return False, client') \<and>
    contents (client_queue client') = [event] \<and>
    db_writer_main \<lparr>tv_sec = 10, tv_usec = 0\<rparr> ([(good_loop_env, [])] @ (good_loop_env, [Stop_Writer]) # []) good_loop_env
      (writer_with 3) (client_metrics client') (client_queue client') = Done (writer', m', q', queries) \<and>
    sent queries = map insert_statement batches \<and>
    inserted YUREI_EVENT_PUMPFUN_TRADE batches = replicate 3 trade_event_example @ event # later"
proof -
  have bufs: "length (pumpfun_buf test_stack) = 768" "length (raydium_buf test_stack) = 512"
    by (simp_all add: test_stack_def)
  obtain event where event: "transaction_event True (client_detector test_client) (Some test_update) = Some event"
    using test_update_event by blast
  let ?client = "enqueued event test_client"
  have handled: "handle_transaction True test_stack test_client (Some test_update) = Some (Return False, ?client)"
    using test_client_queue event
    by (simp add: handle_transaction_eq [OF bufs] test_update_no_overflow dispatch_event_eq [OF test_client_queue(1)])
  have "qsize (client_queue test_client) < capacity (client_queue test_client)"
    using test_client_queue by (metis contents_Nil_iff zero_less_numeral)
  then have contents: "contents (client_queue ?client) = contents (client_queue test_client) @ [event]"
    using pushed_contents(2) [OF test_client_queue(1), of event] by simp
  have there: "\<And>update. Some test_update = Some update \<Longrightarrow> signature_there update" using signature_there_test by simp
  have none: "\<forall>e \<in> set (contents (client_queue test_client)). storable e" by (simp add: test_client_queue)
  have writer: "below_full (writer_with 3)" "db_running (writer_with 3)" "pending_trades (writer_with 3) = replicate 3 trade_event_example"
    using writer_with_below_full [of 3]
    by (simp_all add: BATCH_SIZE_def pending_trades_def writer_with_def db_writer_start_def)
  have passes: "list_all pass_ok [(good_loop_env, [])]" by (simp add: pass_ok_def good_loop_env_ok)
  have stop: "Stop_Writer \<in> set [Stop_Writer]" by simp
  have enough: "length (contents (client_queue ?client)) \<le> length [(good_loop_env, [] :: other_action list)]"
    unfolding contents test_client_queue by simp
  from trade_reaches_database [OF bufs test_client_queue(1) there none handled contents writer(1,2) passes stop good_loop_env_ok enough,
      of "\<lparr>tv_sec = 10, tv_usec = 0\<rparr>" good_loop_env "[]"]
  show ?thesis using handled contents unfolding writer(3) test_client_queue(2) of_kind_simps append_Nil by blast
qed

section \<open>The client and the generated service\<close>










end
